(* ===== verification/Prelude.thy ===== *)
theory Prelude
  imports Main "HOL-Library.Word" "HOL-Library.Monad_Syntax"
begin

text \<open>
  The shared vocabulary of the development: bytes, 32-bit lengths, C strings and string
  literals as byte lists, the big-endian wire format of a 32-bit word, and the list and
  option lemmas the components share.

  A C string is the list of its bytes before the terminating zero, so \<open>strlen\<close> is the length
  and \<open>strcmp (a, b) == 0\<close> is equality of the lists. A fixed array holding a string is the list of the bytes
  before its terminator, or all of its bytes where the code can leave it unterminated.
  A pointer that the code tests against NULL is an option.
\<close>

unbundle bit_operations_syntax

type_synonym byte = "8 word"
type_synonym u32 = "32 word"
type_synonym u64 = "64 word"
type_synonym bytes = "8 word list"

named_theorems wire_simps \<open>unfolding of the straight-line wire encoders into lists of fields\<close>
named_theorems frame_simps \<open>fields of a state that an operation leaves alone\<close>

subsection \<open>String literals and comparisons of the C library\<close>

definition lit :: "string \<Rightarrow> bytes" where
  "lit s = map of_char s"

lemma length_lit [simp]: "length (lit s) = length s"
  by (simp add: lit_def)

lemma lit_Nil [simp]: "lit s = [] \<longleftrightarrow> s = []"
  by (simp add: lit_def)

lemma lit_append: "lit (s @ t) = lit s @ lit t"
  by (simp add: lit_def)

lemma of_char_byte_inj: "(of_char c :: byte) = of_char d \<longleftrightarrow> c = d"
proof
  assume "(of_char c :: byte) = of_char d"
  then have "unat (of_char c :: byte) = unat (of_char d :: byte)" by simp
  then have "(of_char c :: nat) = of_char d"
    by (simp add: unat_of_nat of_nat_of_char [symmetric, where 'a = "8 word"])
  then show "c = d" by (simp only: of_char_eq_iff)
qed simp

lemma lit_eq_iff [simp]: "lit s = lit t \<longleftrightarrow> s = t"
proof -
  have "inj (of_char :: char \<Rightarrow> byte)" by (rule injI) (simp only: of_char_byte_inj)
  then show ?thesis by (simp add: lit_def)
qed

text \<open>\<open>strncmp (a, b, n) == 0\<close> on two C strings.\<close>

definition strncmp_eq :: "nat \<Rightarrow> bytes \<Rightarrow> bytes \<Rightarrow> bool" where
  "strncmp_eq n a b \<longleftrightarrow> take n a = take n b"

lemma strncmp_eq_refl [simp]: "strncmp_eq n a a"
  by (simp add: strncmp_eq_def)

lemma strncmp_eq_take [simp]: "strncmp_eq n (take n a) b = strncmp_eq n a b"
  by (simp add: strncmp_eq_def)

lemma strncmp_eq_short:
  "length a < n \<Longrightarrow> strncmp_eq n a b \<longleftrightarrow> a = b"
  unfolding strncmp_eq_def
  by (metis length_take min.absorb2 min_def nat_less_le not_less take_all)

text \<open>\<open>memcmp (p, q, n) == 0\<close> where both pointers reach at least \<open>n\<close> bytes.\<close>

definition memcmp_eq :: "bytes \<Rightarrow> bytes \<Rightarrow> nat \<Rightarrow> bool" where
  "memcmp_eq p q n \<longleftrightarrow> take n p = take n q"

lemma memcmp_eq_exact: "length p = n \<Longrightarrow> length q = n \<Longrightarrow> memcmp_eq p q n \<longleftrightarrow> p = q"
  by (simp add: memcmp_eq_def)

subsection \<open>The big-endian form of a 32-bit word\<close>

definition be32 :: "u32 \<Rightarrow> bytes" where
  "be32 v = [ucast (drop_bit 24 v), ucast (drop_bit 16 v), ucast (drop_bit 8 v), ucast v]"

definition un32 :: "byte \<Rightarrow> byte \<Rightarrow> byte \<Rightarrow> byte \<Rightarrow> u32" where
  "un32 a b c d =
     push_bit 24 (ucast a) OR push_bit 16 (ucast b) OR push_bit 8 (ucast c) OR ucast d"

lemma length_be32 [simp]: "length (be32 v) = 4"
  by (simp add: be32_def)

lemma nat_lt_32_cases: "(n::nat) < 32 \<Longrightarrow> n \<in> {0..<8} \<union> {8..<16} \<union> {16..<24} \<union> {24..<32}"
  by auto

lemma un32_be32 [simp]:
  "un32 (ucast (drop_bit 24 v)) (ucast (drop_bit 16 v)) (ucast (drop_bit 8 v)) (ucast (v::u32)) = v"
  unfolding un32_def
  apply (rule bit_word_eqI)
  subgoal for n using nat_lt_32_cases [of n] by (auto simp: bit_simps)
  done

lemma ucast_back [simp]: "ucast (ucast (b :: byte) :: u32) = b"
  by (rule bit_word_eqI) (auto simp: bit_simps)

lemma bit_byte_out: "8 \<le> n \<Longrightarrow> \<not> bit (b::byte) n"
  using bit_imp_le_length [of b n] by auto

lemma be32_un32 [simp]: "be32 (un32 a b c d) = [a, b, c, d]"
proof -
  have "ucast (drop_bit 24 (un32 a b c d)) = a"
    by (rule bit_word_eqI) (auto simp: un32_def bit_simps bit_byte_out)
  moreover have "ucast (drop_bit 16 (un32 a b c d)) = b"
    by (rule bit_word_eqI) (auto simp: un32_def bit_simps bit_byte_out)
  moreover have "ucast (drop_bit 8 (un32 a b c d)) = c"
    by (rule bit_word_eqI) (auto simp: un32_def bit_simps bit_byte_out)
  moreover have "ucast (un32 a b c d) = d"
    by (rule bit_word_eqI) (auto simp: un32_def bit_simps bit_byte_out)
  ultimately show ?thesis by (simp add: be32_def)
qed

lemma un32_nth_be32: "un32 (be32 v ! 0) (be32 v ! 1) (be32 v ! 2) (be32 v ! 3) = v"
  by (simp add: be32_def)

lemma be32_inj [simp]: "be32 v = be32 w \<longleftrightarrow> v = w"
  using un32_nth_be32 by metis

subsection \<open>Hexadecimal\<close>

text \<open>The digits both sides of the program use, and one byte as two of them.\<close>

definition HEX :: bytes where "HEX = lit ''0123456789abcdef''"

definition hex_byte :: "byte \<Rightarrow> bytes" where
  "hex_byte b = [HEX ! unat (drop_bit 4 b), HEX ! unat (b AND 0x0f)]"

definition hex_string :: "bytes \<Rightarrow> bytes" where
  "hex_string d = concat (map hex_byte d)"

lemma hex_string_simps [simp]:
  "hex_string [] = []" "hex_string (b # d) = hex_byte b @ hex_string d"
  "hex_string (c @ d) = hex_string c @ hex_string d"
  by (simp_all add: hex_string_def)

lemma length_hex_byte [simp]: "length (hex_byte b) = 2"
  by (simp add: hex_byte_def)

lemma length_hex_bytes [simp]: "length (hex_string xs) = 2 * length xs"
  by (induction xs) simp_all

lemma nibbles:
  "unat (drop_bit 4 (b::byte)) < 16" "unat (b AND 0x0f) < 16"
  "16 * unat (drop_bit 4 b) + unat (b AND 0x0f) = unat b"
proof -
  have d: "unat (drop_bit 4 b) = unat b div 16"
    by (simp add: drop_bit_eq_div unat_div)
  have "b AND 0x0f = take_bit 4 b"
    by (simp add: take_bit_eq_mask mask_eq_exp_minus_1)
  then have m: "unat (b AND 0x0f) = unat b mod 16"
    by (simp add: take_bit_eq_mod unat_mod)
  show "unat (drop_bit 4 b) < 16" using d unsigned_less [of b, where 'a = nat] by simp
  show "unat (b AND 0x0f) < 16" using m by simp
  show "16 * unat (drop_bit 4 b) + unat (b AND 0x0f) = unat b" by (simp only: d m mult_div_mod_eq)
qed

lemma HEX_nth: "n < 16 \<Longrightarrow> HEX ! n \<in> set HEX"
  by (rule nth_mem) (simp add: HEX_def)

subsection \<open>Lists and lengths\<close>

text \<open>The part of a buffer that a pointer into it and a length describe.\<close>

definition slice :: "nat \<Rightarrow> nat \<Rightarrow> bytes \<Rightarrow> bytes" where
  "slice off len xs = take len (drop off xs)"

text \<open>\<open>memcpy (buf + off, d, length d)\<close> into a buffer that is long enough.\<close>

definition blit :: "bytes \<Rightarrow> nat \<Rightarrow> bytes \<Rightarrow> bytes" where
  "blit buf off d = take off buf @ d @ drop (off + length d) buf"

lemma length_slice [simp]: "off + len \<le> length xs \<Longrightarrow> length (slice off len xs) = len"
  by (simp add: slice_def)

lemma length_blit [simp]: "off + length d \<le> length buf \<Longrightarrow> length (blit buf off d) = length buf"
  by (simp add: blit_def)

lemma take_blit:
  "off + length d \<le> length buf \<Longrightarrow> take (off + length d) (blit buf off d) = take off buf @ d"
  by (simp add: blit_def)

lemma slice_append_mid: "length pre = off \<Longrightarrow> length mid = len \<Longrightarrow> slice off len (pre @ mid @ suf) = mid"
  by (simp add: slice_def)

lemma drop_prefix: "length p = n \<Longrightarrow> drop n (p @ s) = s"
  by simp

lemma drop_Cons4:
  "4 \<le> length s \<Longrightarrow> take 4 s = [s ! 0, s ! 1, s ! 2, s ! 3]"
  by (rule nth_equalityI) (auto simp: less_Suc_eq numeral_eq_Suc)

lemma unat_of_nat_u32: "n < 2 ^ 32 \<Longrightarrow> unat (of_nat n :: u32) = n"
  by (simp add: unat_of_nat take_bit_nat_eq_self)

lemma unat_u32_bound: "unat (x :: u32) < 4294967296"
  using unsigned_less [of x] by simp

subsection \<open>Runs of a state machine\<close>

text \<open>
  The state machines of the development are relations \<open>step c s s'\<close> (a call \<open>c\<close> takes \<open>s\<close> to \<open>s'\<close>); a run
  is a list of calls. \<open>history_invariant\<close> is the contract of an invariant that may mention the
  calls made so far.
\<close>

inductive runs :: "('c \<Rightarrow> 's \<Rightarrow> 's \<Rightarrow> bool) \<Rightarrow> 's \<Rightarrow> 'c list \<Rightarrow> 's \<Rightarrow> bool" for step :: "'c \<Rightarrow> 's \<Rightarrow> 's \<Rightarrow> bool" and s0 :: 's where
  runs_nil: "runs step s0 [] s0"
| runs_snoc: "runs step s0 cs s \<Longrightarrow> step c s s' \<Longrightarrow> runs step s0 (cs @ [c]) s'"

inductive_cases runs_snocE: "runs step s0 (cs @ [c]) s"

locale history_invariant =
  fixes step :: "'c \<Rightarrow> 's \<Rightarrow> 's \<Rightarrow> bool"
    and inv :: "'c list \<Rightarrow> 's \<Rightarrow> bool"
  assumes step_inv: "inv cs s \<Longrightarrow> step c s s' \<Longrightarrow> inv (cs @ [c]) s'"
begin

lemma runs_inv: "runs step s0 cs s \<Longrightarrow> inv [] s0 \<Longrightarrow> inv cs s"
  by (induction rule: runs.induct) (auto intro: step_inv)

end

end
