(* ===== verification/Wire.thy ===== *)
theory Wire
  imports Prelude
begin

text \<open>
  The wire format shared by the enclaves, the untrusted applications and the client tool, as
  interfaces. \<open>u32_reader\<close> and \<open>field_reader\<close> are the contracts of a cursor that reads
  big-endian words and takes slices out of a buffer without running past its end;
  \<open>appender\<close> is the contract of a bounded writer. The clients of a contract are the iterated
  forms \<open>reads\<close>, \<open>takes\<close>, \<open>read_fields\<close> and \<open>write_all\<close>, against the abstract layout \<open>frame\<close>:
  the lengths of all fields, then the fields. Each implementation in the code interprets its
  contract in the theory of its component.
\<close>

subsection \<open>The abstract layout\<close>

definition len32 :: "bytes \<Rightarrow> u32" where
  "len32 d = of_nat (length d)"

definition fits32 :: "bytes list \<Rightarrow> bool" where
  "fits32 fs \<longleftrightarrow> (\<forall>f \<in> set fs. length f < 2 ^ 32)"

definition frame :: "bytes list \<Rightarrow> bytes" where
  "frame fs = concat (map (be32 \<circ> len32) fs) @ concat fs"

text \<open>The layout of authenticated data: each part preceded by its own length.\<close>

definition parts :: "bytes list \<Rightarrow> bytes" where
  "parts fs = concat (map (\<lambda>f. be32 (len32 f) @ f) fs)"

lemma unat_len32 [simp]: "length d < 2 ^ 32 \<Longrightarrow> unat (len32 d) = length d"
  by (simp add: len32_def unat_of_nat_u32)

lemma len32_of_unat: "length d = unat n \<Longrightarrow> len32 d = n"
  by (simp add: len32_def)

lemma length_frame: "length (frame fs) = 4 * length fs + length (concat fs)"
  by (induction fs) (auto simp: frame_def)

lemma fits32_simps [simp]:
  "fits32 []"
  "fits32 (f # fs) \<longleftrightarrow> length f < 2 ^ 32 \<and> fits32 fs"
  by (auto simp: fits32_def)

lemma concat_be32_inj:
  "concat (map be32 vs) @ s = concat (map be32 ws) @ t \<Longrightarrow> length vs = length ws \<Longrightarrow> vs = ws \<and> s = t"
  by (induction vs ws rule: list_induct2') (auto simp: append_eq_append_conv)

lemma concat_same_lengths:
  "concat xs @ s = concat ys @ t \<Longrightarrow> map length xs = map length ys \<Longrightarrow> xs = ys \<and> s = t"
  by (induction xs ys rule: list_induct2') (auto simp: append_eq_append_conv)

lemma map_len32_lengths:
  "map len32 xs = map len32 ys \<Longrightarrow> fits32 xs \<Longrightarrow> fits32 ys \<Longrightarrow> map length xs = map length ys"
proof (induction xs ys rule: list_induct2')
  case (4 x xs y ys)
  then have e: "len32 x = len32 y" and b: "length x < 2 ^ 32" "length y < 2 ^ 32" by auto
  from e b have "length x = length y" by (metis unat_len32)
  with 4 show ?case by simp
qed auto

text \<open>The layout is uniquely readable: two framings of the same bytes with as many fields agree.\<close>

lemma frame_inj:
  assumes "frame xs @ s = frame ys @ t" "length xs = length ys" "fits32 xs" "fits32 ys"
  shows "xs = ys \<and> s = t"
proof -
  from assms(1) have "concat (map be32 (map len32 xs)) @ (concat xs @ s) =
      concat (map be32 (map len32 ys)) @ (concat ys @ t)"
    by (simp add: frame_def)
  then have "map len32 xs = map len32 ys" and c: "concat xs @ s = concat ys @ t"
    using concat_be32_inj assms(2) by (metis length_map)+
  with assms(3,4) have "map length xs = map length ys" by (intro map_len32_lengths)
  with c show ?thesis by (rule concat_same_lengths)
qed

lemma parts_inj:
  "parts xs @ s = parts ys @ t \<Longrightarrow> length xs = length ys \<Longrightarrow> fits32 xs \<Longrightarrow> fits32 ys \<Longrightarrow> xs = ys \<and> s = t"
proof (induction xs ys rule: list_induct2')
  case (4 x xs y ys)
  then have "be32 (len32 x) = be32 (len32 y)"
    and r: "x @ parts xs @ s = y @ parts ys @ t"
    by (auto simp: parts_def append_eq_append_conv)
  then have "unat (len32 x) = unat (len32 y)" by simp
  with 4 have "length x = length y" by simp
  with r have "x = y" and "parts xs @ s = parts ys @ t" by auto
  with 4 show ?case by auto
qed (auto simp: parts_def)

subsection \<open>Reading\<close>

fun reads :: "(bytes \<Rightarrow> 'o \<Rightarrow> (u32 \<times> 'o) option) \<Rightarrow> nat \<Rightarrow> bytes \<Rightarrow> 'o \<Rightarrow> (u32 list \<times> 'o) option" where
  "reads rd 0 d p = Some ([], p)"
| "reads rd (Suc k) d p =
     do { (v, q) \<leftarrow> rd d p; (vs, r) \<leftarrow> reads rd k d q; Some (v # vs, r) }"

fun takes :: "(bytes \<Rightarrow> 'o \<Rightarrow> u32 \<Rightarrow> (bytes \<times> 'o) option) \<Rightarrow> u32 list \<Rightarrow> bytes \<Rightarrow> 'o \<Rightarrow> (bytes list \<times> 'o) option" where
  "takes tk [] d p = Some ([], p)"
| "takes tk (n # ns) d p =
     do { (f, q) \<leftarrow> tk d p n; (fs, r) \<leftarrow> takes tk ns d q; Some (f # fs, r) }"

definition read_fields ::
  "(bytes \<Rightarrow> 'o \<Rightarrow> (u32 \<times> 'o) option) \<Rightarrow> (bytes \<Rightarrow> 'o \<Rightarrow> u32 \<Rightarrow> (bytes \<times> 'o) option) \<Rightarrow>
   nat \<Rightarrow> bytes \<Rightarrow> 'o \<Rightarrow> (bytes list \<times> 'o) option" where
  "read_fields rd tk k d p = do { (ns, q) \<leftarrow> reads rd k d p; takes tk ns d q }"

lemma lengths_unat:
  "map length fs = map unat ns \<Longrightarrow> ns = map len32 fs \<and> fits32 fs"
proof (induction fs ns rule: list_induct2')
  case (4 f fs n ns)
  then have "length f = unat n" by simp
  then have "len32 f = n" and "length f < 2 ^ 32"
    using unat_u32_bound [of n] by (auto intro: len32_of_unat)
  with 4 show ?case by simp
qed auto

locale u32_reader =
  fixes pos :: "'o \<Rightarrow> nat"
    and ok :: "bytes \<Rightarrow> 'o \<Rightarrow> bool"
    and rd :: "bytes \<Rightarrow> 'o \<Rightarrow> (u32 \<times> 'o) option"
  assumes ok_pos: "ok d p \<Longrightarrow> pos p \<le> length d"
    and rd_long: "ok d p \<Longrightarrow> pos p + 4 \<le> length d \<Longrightarrow>
      \<exists>q. rd d p = Some (un32 (d ! pos p) (d ! (pos p + 1)) (d ! (pos p + 2)) (d ! (pos p + 3)), q) \<and>
          ok d q \<and> pos q = pos p + 4"
    and rd_short: "ok d p \<Longrightarrow> length d < pos p + 4 \<Longrightarrow> rd d p = None"
begin

lemma rd_be32:
  assumes "ok d p" and "drop (pos p) d = be32 v @ s"
  shows "\<exists>q. rd d p = Some (v, q) \<and> ok d q \<and> drop (pos q) d = s"
proof -
  from assms(2) have "length (drop (pos p) d) = length (be32 v @ s)" by simp
  then have l: "pos p + 4 \<le> length d" by simp
  have n: "d ! (pos p + i) = (be32 v @ s) ! i" if "i < 4" for i
    using that l assms(2) [symmetric] by simp
  have w: "un32 (d ! pos p) (d ! (pos p + 1)) (d ! (pos p + 2)) (d ! (pos p + 3)) = v"
    using n [of 0] n [of 1] n [of 2] n [of 3] by (simp add: be32_def)
  have "drop (pos p + 4) d = s"
    using arg_cong [OF assms(2), of "drop 4"] by (simp add: add.commute)
  with rd_long [OF assms(1) l] w show ?thesis by auto
qed

lemma rd_Some:
  assumes "ok d p" and "rd d p = Some (v, q)"
  shows "drop (pos p) d = be32 v @ drop (pos q) d \<and> ok d q"
proof -
  have l: "pos p + 4 \<le> length d"
    using rd_short [OF assms(1)] assms(2) by (cases "pos p + 4 \<le> length d") auto
  let ?s = "drop (pos p) d"
  have v: "v = un32 (?s ! 0) (?s ! 1) (?s ! 2) (?s ! 3)" and q: "ok d q" "pos q = pos p + 4"
    using rd_long [OF assms(1) l] assms(2) l by (auto simp: add.commute)
  have "take 4 ?s = be32 v"
    using l unfolding v by (simp add: drop_Cons4)
  with q show ?thesis
    by (metis append_take_drop_id drop_drop add.commute)
qed

lemma reads_frame:
  "ok d p \<Longrightarrow> drop (pos p) d = concat (map be32 vs) @ s \<Longrightarrow>
   \<exists>q. reads rd (length vs) d p = Some (vs, q) \<and> ok d q \<and> drop (pos q) d = s"
proof (induction vs arbitrary: p)
  case (Cons v vs)
  then obtain q where "rd d p = Some (v, q)" and "ok d q" "drop (pos q) d = concat (map be32 vs) @ s"
    using rd_be32 [of d p v "concat (map be32 vs) @ s"] by auto
  with Cons.IH [of q] show ?case by auto
qed simp

lemma reads_Some:
  "ok d p \<Longrightarrow> reads rd k d p = Some (vs, q) \<Longrightarrow>
   length vs = k \<and> drop (pos p) d = concat (map be32 vs) @ drop (pos q) d \<and> ok d q"
proof (induction k arbitrary: p vs)
  case (Suc k)
  then obtain v r ws where r: "rd d p = Some (v, r)" "reads rd k d r = Some (ws, q)" "vs = v # ws"
    by (auto simp: bind_eq_Some_conv)
  with Suc.IH [of r ws] rd_Some [OF Suc.prems(1) r(1)] show ?case by auto
qed auto

end

locale field_reader = u32_reader pos ok rd
  for pos :: "'o \<Rightarrow> nat" and ok :: "bytes \<Rightarrow> 'o \<Rightarrow> bool"
    and rd :: "bytes \<Rightarrow> 'o \<Rightarrow> (u32 \<times> 'o) option" +
  fixes tk :: "bytes \<Rightarrow> 'o \<Rightarrow> u32 \<Rightarrow> (bytes \<times> 'o) option"
  assumes tk_long: "ok d p \<Longrightarrow> pos p + unat n \<le> length d \<Longrightarrow>
      \<exists>q. tk d p n = Some (slice (pos p) (unat n) d, q) \<and> ok d q \<and> pos q = pos p + unat n"
    and tk_short: "ok d p \<Longrightarrow> length d < pos p + unat n \<Longrightarrow> tk d p n = None"
begin

lemma tk_bytes:
  assumes "ok d p" and "drop (pos p) d = f @ s" and "length f = unat n"
  shows "\<exists>q. tk d p n = Some (f, q) \<and> ok d q \<and> drop (pos q) d = s"
proof -
  from assms(2) have "length (drop (pos p) d) = length (f @ s)" by simp
  with assms(3) ok_pos [OF assms(1)] have l: "pos p + unat n \<le> length d" by simp
  have "slice (pos p) (unat n) d = f" using assms(2,3) by (simp add: slice_def)
  moreover have "drop (pos p + unat n) d = s"
    using arg_cong [OF assms(2), of "drop (unat n)"] assms(3) by (simp add: add.commute)
  ultimately show ?thesis using tk_long [OF assms(1) l] by auto
qed

lemma tk_Some:
  assumes "ok d p" and "tk d p n = Some (f, q)"
  shows "drop (pos p) d = f @ drop (pos q) d \<and> length f = unat n \<and> ok d q"
proof -
  have l: "pos p + unat n \<le> length d"
    using tk_short [OF assms(1)] assms(2) by (cases "pos p + unat n \<le> length d") auto
  then have f: "f = slice (pos p) (unat n) d" and q: "ok d q" "pos q = pos p + unat n"
    using tk_long [OF assms(1) l] assms(2) by auto
  have "f @ drop (pos q) d = drop (pos p) d"
    unfolding f q(2) slice_def by (metis append_take_drop_id drop_drop add.commute)
  with q l f show ?thesis by simp
qed

lemma takes_concat:
  "ok d p \<Longrightarrow> drop (pos p) d = concat fs @ s \<Longrightarrow> map length fs = map unat ns \<Longrightarrow>
   \<exists>q. takes tk ns d p = Some (fs, q) \<and> ok d q \<and> drop (pos q) d = s"
proof (induction fs arbitrary: p ns)
  case (Cons f fs)
  then obtain n ns' where n: "ns = n # ns'" "length f = unat n" "map length fs = map unat ns'"
    by (cases ns) auto
  with Cons.prems obtain q where "tk d p n = Some (f, q)" "ok d q" "drop (pos q) d = concat fs @ s"
    using tk_bytes [of d p f "concat fs @ s" n] by auto
  with Cons.IH [of q ns'] n show ?case by auto
qed auto

lemma takes_Some:
  "ok d p \<Longrightarrow> takes tk ns d p = Some (fs, q) \<Longrightarrow>
   map length fs = map unat ns \<and> drop (pos p) d = concat fs @ drop (pos q) d \<and> ok d q"
proof (induction ns arbitrary: p fs)
  case (Cons n ns)
  then obtain f r gs where r: "tk d p n = Some (f, r)" "takes tk ns d r = Some (gs, q)" "fs = f # gs"
    by (auto simp: bind_eq_Some_conv)
  with Cons.IH [of r gs] tk_Some [OF Cons.prems(1) r(1)] show ?case by auto
qed auto

lemma fields_frame:
  assumes "ok d p" and "drop (pos p) d = frame fs @ s" and "fits32 fs"
  shows "\<exists>q. read_fields rd tk (length fs) d p = Some (fs, q) \<and> ok d q \<and> drop (pos q) d = s"
proof -
  from assms(2) have "drop (pos p) d = concat (map be32 (map len32 fs)) @ (concat fs @ s)"
    by (simp add: frame_def)
  with assms(1) obtain q where "reads rd (length fs) d p = Some (map len32 fs, q)"
    "ok d q" "drop (pos q) d = concat fs @ s"
    using reads_frame [of d p "map len32 fs"] by auto
  moreover have "map length fs = map unat (map len32 fs)" using assms(3) by (auto simp: fits32_def)
  ultimately show ?thesis using takes_concat [of d q fs s] by (auto simp: read_fields_def)
qed

lemma fields_Some:
  assumes "ok d p" and "read_fields rd tk k d p = Some (fs, q)"
  shows "length fs = k \<and> fits32 fs \<and> drop (pos p) d = frame fs @ drop (pos q) d \<and> ok d q"
proof -
  from assms(2) obtain ns r where r: "reads rd k d p = Some (ns, r)" "takes tk ns d r = Some (fs, q)"
    by (auto simp: read_fields_def bind_eq_Some_conv)
  have h: "length ns = k" "drop (pos p) d = concat (map be32 ns) @ drop (pos r) d" "ok d r"
    using reads_Some [OF assms(1) r(1)] by auto
  have t: "map length fs = map unat ns" "drop (pos r) d = concat fs @ drop (pos q) d" "ok d q"
    using takes_Some [OF h(3) r(2)] by auto
  have n: "ns = map len32 fs" and "fits32 fs" using lengths_unat [OF t(1)] by auto
  with h t show ?thesis by (simp add: frame_def)
qed

lemma fields_lengths:
  assumes "ok d p"
  shows "do { (ns, p) \<leftarrow> reads rd k d p; (fs, p) \<leftarrow> takes tk ns d p; h ns fs p } =
    do { (fs, p) \<leftarrow> read_fields rd tk k d p; h (map len32 fs) fs p }"
proof (cases "reads rd k d p")
  case (Some r)
  obtain ns q where r: "r = (ns, q)" by (cases r)
  show ?thesis
  proof (cases "takes tk ns d q")
    case (Some t)
    obtain fs u where t: "t = (fs, u)" by (cases t)
    have "ok d q" using reads_Some [OF assms, of k ns q] \<open>reads rd k d p = Some r\<close> r by simp
    then have "ns = map len32 fs" using takes_Some [of d q ns fs u] Some t lengths_unat by blast
    with Some \<open>reads rd k d p = Some r\<close> r t show ?thesis by (simp add: read_fields_def)
  qed (use Some r in \<open>simp add: read_fields_def\<close>)
qed (simp add: read_fields_def)

text \<open>Reading a whole buffer: it succeeds to the last byte exactly on the framings.\<close>

lemma fields_exact:
  assumes "ok d p"
  shows "(\<exists>q. read_fields rd tk k d p = Some (fs, q) \<and> pos q = length d) \<longleftrightarrow>
    length fs = k \<and> fits32 fs \<and> drop (pos p) d = frame fs"
proof
  assume "\<exists>q. read_fields rd tk k d p = Some (fs, q) \<and> pos q = length d"
  with fields_Some [OF assms] show "length fs = k \<and> fits32 fs \<and> drop (pos p) d = frame fs"
    by fastforce
next
  assume r: "length fs = k \<and> fits32 fs \<and> drop (pos p) d = frame fs"
  with fields_frame [OF assms, of fs "[]"]
  obtain q where q: "read_fields rd tk k d p = Some (fs, q)" "ok d q" "drop (pos q) d = []" by auto
  with ok_pos [of d q] have "pos q = length d" by simp
  with q(1) show "\<exists>q. read_fields rd tk k d p = Some (fs, q) \<and> pos q = length d" by blast
qed

text \<open>The shape of the parsers: read the fields, and check the end and the contents.\<close>

lemma parse_exact:
  assumes "ok d p" and "\<And>q. ok d q \<Longrightarrow> at_end q \<longleftrightarrow> pos q = length d"
  shows "do { (ns, p) \<leftarrow> reads rd k d p; (fs, p) \<leftarrow> takes tk ns d p;
              if at_end p \<and> C ns fs then Some (g fs) else None } = Some v \<longleftrightarrow>
    (\<exists>fs. length fs = k \<and> fits32 fs \<and> drop (pos p) d = frame fs \<and> C (map len32 fs) fs \<and> v = g fs)"
    (is "?parse = Some v \<longleftrightarrow> ?R")
proof -
  have e: "?parse = do { (fs, p) \<leftarrow> read_fields rd tk k d p; if at_end p \<and> C (map len32 fs) fs then Some (g fs) else None }"
    by (rule fields_lengths [OF assms(1)])
  show ?thesis
  proof
    assume "?parse = Some v"
    then obtain fs q where q: "read_fields rd tk k d p = Some (fs, q)" "at_end q" "C (map len32 fs) fs" "v = g fs"
      unfolding e by (auto simp: bind_eq_Some_conv split: if_splits)
    with fields_Some [OF assms(1) q(1)] assms(2) [of q] show ?R by auto
  next
    assume ?R
    then obtain fs where r: "length fs = k" "fits32 fs" "drop (pos p) d = frame fs" "C (map len32 fs) fs" "v = g fs" by blast
    with fields_frame [OF assms(1), of fs "[]"] obtain q where
      q: "read_fields rd tk k d p = Some (fs, q)" "ok d q" "drop (pos q) d = []" by auto
    with ok_pos [of d q] assms(2) [of q] have "at_end q" by simp
    with q r show "?parse = Some v" unfolding e by simp
  qed
qed

end

subsection \<open>Appending\<close>

lemma blit_blit:
  assumes "off + length d + length e \<le> length buf"
  shows "blit (blit buf off d) (off + length d) e = blit buf off (d @ e)"
proof -
  have "drop (off + length d + length e) (blit buf off d) = drop (off + length d + length e) buf"
    using assms by (simp add: blit_def add.commute add.left_commute)
  then show ?thesis
    using assms take_blit [of off d buf] by (simp add: blit_def add.assoc)
qed

fun write_all ::
  "(bytes \<Rightarrow> u32 \<Rightarrow> u32 \<Rightarrow> bytes option \<Rightarrow> u32 \<Rightarrow> (bytes \<times> u32) option) \<Rightarrow>
   bytes \<Rightarrow> u32 \<Rightarrow> u32 \<Rightarrow> bytes list \<Rightarrow> (bytes \<times> u32) option" where
  "write_all app buf cap off [] = Some (buf, off)"
| "write_all app buf cap off (d # ds) =
     do { (buf', off') \<leftarrow> app buf cap off (Some d) (len32 d); write_all app buf' cap off' ds }"

locale appender =
  fixes app :: "bytes \<Rightarrow> u32 \<Rightarrow> u32 \<Rightarrow> bytes option \<Rightarrow> u32 \<Rightarrow> (bytes \<times> u32) option"
  assumes app_fits:
      "length buf = unat cap \<Longrightarrow> length d = unat n \<Longrightarrow> unat off + length d \<le> unat cap \<Longrightarrow>
       app buf cap off (Some d) n = Some (blit buf (unat off) d, off + n)"
    and app_full:
      "length d = unat n \<Longrightarrow> unat off \<le> unat cap \<Longrightarrow> unat cap < unat off + length d \<Longrightarrow>
       app buf cap off (Some d) n = None"
begin

lemma write_all_eq:
  "length buf = unat cap \<Longrightarrow> unat off \<le> unat cap \<Longrightarrow> fits32 ds \<Longrightarrow>
   write_all app buf cap off ds =
     (if unat off + length (concat ds) \<le> unat cap
      then Some (blit buf (unat off) (concat ds), off + of_nat (length (concat ds))) else None)"
proof (induction ds arbitrary: buf off)
  case Nil
  then show ?case by (simp add: blit_def)
next
  case (Cons d ds)
  have b: "length d < 2 ^ 32" using Cons.prems(3) by simp
  then have n: "length d = unat (len32 d)" by simp
  show ?case
  proof (cases "unat off + length d \<le> unat cap")
    case True
    then have u: "unat (off + len32 d) = unat off + length d"
      using b unat_u32_bound [of cap] by (simp add: unat_word_ariths)
    have "length (blit buf (unat off) d) = unat cap" using True Cons.prems by simp
    then have "write_all app (blit buf (unat off) d) cap (off + len32 d) ds =
        (if unat off + length d + length (concat ds) \<le> unat cap
         then Some (blit (blit buf (unat off) d) (unat off + length d) (concat ds),
           off + len32 d + of_nat (length (concat ds))) else None)"
      using Cons.IH Cons.prems(3) u True by simp
    moreover have "app buf cap off (Some d) (len32 d) = Some (blit buf (unat off) d, off + len32 d)"
      by (rule app_fits [OF Cons.prems(1) n True])
    ultimately show ?thesis
      using Cons.prems(1) by (simp add: blit_blit len32_def add.assoc)
  next
    case False
    then have "app buf cap off (Some d) (len32 d) = None"
      using Cons.prems(2) by (intro app_full [OF n]) auto
    with False show ?thesis by simp
  qed
qed

text \<open>From the start of the buffer, a successful run leaves exactly the written bytes in front.\<close>

lemma write_all_prefix:
  assumes "length buf = unat cap" "fits32 ds" "write_all app buf cap 0 ds = Some (buf', off')"
  shows "take (unat off') buf' = concat ds \<and> unat off' = length (concat ds)
    \<and> length (concat ds) \<le> unat cap \<and> length buf' = unat cap"
proof -
  from assms have l: "length (concat ds) \<le> unat cap"
    and b: "buf' = blit buf 0 (concat ds)" "off' = of_nat (length (concat ds))"
    using write_all_eq [of buf cap 0 ds] by (auto split: if_splits)
  from l unat_u32_bound [of cap] have "unat off' = length (concat ds)"
    unfolding b by (simp add: unat_of_nat_u32)
  with l assms(1) show ?thesis by (simp add: b blit_def)
qed

lemma write_all_None_iff:
  assumes "length buf = unat cap" "fits32 ds"
  shows "write_all app buf cap 0 ds = None \<longleftrightarrow> unat cap < length (concat ds)"
  using write_all_eq [of buf cap 0 ds] assms by auto

text \<open>
  Each encoder writes exactly its layout into the front of the buffer, or fails because the
  layout does not fit.
\<close>

lemma write_layout:
  assumes "length out = unat cap" "fits32 ds" "concat ds = layout"
  shows "(\<exists>out' p. write_all app out cap 0 ds = Some (out', p) \<and>
            take (unat p) out' = layout \<and> unat p = length layout \<and> length out' = unat cap)
         \<and> length layout \<le> unat cap
       \<or> write_all app out cap 0 ds = None \<and> unat cap < length layout"
proof (cases "write_all app out cap 0 ds")
  case None
  then show ?thesis using write_all_None_iff [OF assms(1,2)] assms(3) by simp
next
  case (Some r)
  obtain out' p where "r = (out', p)" by (cases r)
  with Some write_all_prefix [OF assms(1,2), of out' p] assms(3) show ?thesis by auto
qed

end

end
