(* ===== verification/BfibeFormat.thy ===== *)
theory BfibeFormat
  imports Wire
begin

text \<open>
  The formats of the BF-IBE key path that both enclaves, the untrusted applications and the client
  tool have to agree on: the key release \<open>ASBFREL1\<close>, the private-key set \<open>ASBFSKS1\<close> inside it and
  the data that authenticates it, the key envelope \<open>ASBFIBE1\<close> and its authenticated data. Each program has
  its own encoders, decoders and copies of the constants; this is the specification they are
  proved against.
\<close>

definition BFIBE_KEY_RELEASE_MAGIC :: bytes where "BFIBE_KEY_RELEASE_MAGIC = lit ''ASBFREL1''"
definition BFIBE_PRIVATE_KEY_SET_MAGIC :: bytes where "BFIBE_PRIVATE_KEY_SET_MAGIC = lit ''ASBFSKS1''"
definition BFIBE_PROFILE_ID :: bytes where "BFIBE_PROFILE_ID = lit ''bfibe-mcl-bls12381''"
definition BFIBE_AAD_MAGIC :: bytes where "BFIBE_AAD_MAGIC = lit ''ASYNCS/BFIBE/KEYRELEASE/AAD/v1''"
definition REQUEST_KEY :: bytes where "REQUEST_KEY = lit ''request-key''"
definition FUNCTION_KEY :: bytes where "FUNCTION_KEY = lit ''function-key''"

definition BFIBE_ENVELOPE_MAGIC :: bytes where "BFIBE_ENVELOPE_MAGIC = lit ''ASBFIBE1''"
definition BFIBE_KEY_ENVELOPE_AAD_MAGIC :: bytes where "BFIBE_KEY_ENVELOPE_AAD_MAGIC = lit ''ASYNCS/BFIBE/AAD/v1''"

lemma bfibe_const_lengths [simp]:
  "length BFIBE_KEY_RELEASE_MAGIC = 8" "length BFIBE_PRIVATE_KEY_SET_MAGIC = 8"
  "length BFIBE_PROFILE_ID = 18" "length BFIBE_AAD_MAGIC = 30"
  "length REQUEST_KEY = 11" "length FUNCTION_KEY = 12"
  "length BFIBE_ENVELOPE_MAGIC = 8" "length BFIBE_KEY_ENVELOPE_AAD_MAGIC = 19"
  by (simp_all add: BFIBE_KEY_RELEASE_MAGIC_def BFIBE_PRIVATE_KEY_SET_MAGIC_def BFIBE_PROFILE_ID_def
      BFIBE_AAD_MAGIC_def REQUEST_KEY_def FUNCTION_KEY_def
      BFIBE_ENVELOPE_MAGIC_def BFIBE_KEY_ENVELOPE_AAD_MAGIC_def)

lemma request_not_function [simp]: "REQUEST_KEY \<noteq> FUNCTION_KEY" "FUNCTION_KEY \<noteq> REQUEST_KEY"
  by (simp_all add: REQUEST_KEY_def FUNCTION_KEY_def)

definition release_layout :: "bytes list \<Rightarrow> bytes" where
  "release_layout fs = BFIBE_KEY_RELEASE_MAGIC @ [1] @ frame fs"

definition key_set_layout :: "(bytes \<times> bytes \<times> bytes) list \<Rightarrow> bytes" where
  "key_set_layout rs = BFIBE_PRIVATE_KEY_SET_MAGIC @ [1] @ be32 (len32 BFIBE_PROFILE_ID)
     @ be32 (of_nat (length rs)) @ BFIBE_PROFILE_ID
     @ concat (map (\<lambda>(purpose, identity, sk). frame [purpose, identity, sk]) rs)"

definition release_aad_layout :: "bytes \<Rightarrow> bytes \<Rightarrow> bytes \<Rightarrow> bytes" where
  "release_aad_layout f w pk = BFIBE_AAD_MAGIC @ parts [BFIBE_PROFILE_ID, f, w, pk]"

definition envelope_layout :: "bytes list \<Rightarrow> bytes" where
  "envelope_layout fs = BFIBE_ENVELOPE_MAGIC @ [1] @ frame fs"

definition envelope_aad_layout :: "bytes \<Rightarrow> bytes \<Rightarrow> bytes \<Rightarrow> bytes" where
  "envelope_aad_layout purpose identity context =
     BFIBE_KEY_ENVELOPE_AAD_MAGIC @ parts [BFIBE_PROFILE_ID, purpose, identity, context]"

lemma small_len32 [simp]: "len32 [b] = 1" "len32 (be32 v) = 4"
  "length d = 8 \<Longrightarrow> len32 d = 8"
  by (simp_all add: len32_def)

lemma length_release_aad:
  "length (release_aad_layout f w pk) = 64 + length f + length w + length pk"
  by (simp add: release_aad_layout_def parts_def)

lemma length_key_set2:
  "length (key_set_layout [(REQUEST_KEY, ri, rsk), (FUNCTION_KEY, fi, fsk)]) =
   82 + length ri + length rsk + length fi + length fsk"
  by (simp add: key_set_layout_def length_frame)

lemma length_release:
  "length (release_layout [BFIBE_PROFILE_ID, f, w, pk, n, c]) =
   51 + length f + length w + length pk + length n + length c"
  by (simp add: release_layout_def length_frame)

lemma length_envelope_aad:
  "length (envelope_aad_layout p i c) = 53 + length p + length i + length c"
  by (simp add: envelope_aad_layout_def parts_def)

subsection \<open>Magic, version and body\<close>

lemma magic_split:
  assumes "length magic = 8"
  shows "9 \<le> length d \<and> memcmp_eq d magic 8 \<and> d ! 8 = 1 \<longleftrightarrow> (\<exists>r. d = magic @ [1] @ r)"
proof
  assume a: "9 \<le> length d \<and> memcmp_eq d magic 8 \<and> d ! 8 = 1"
  then have "d = take 8 d @ d ! 8 # drop (Suc 8) d" by (intro id_take_nth_drop) simp
  moreover have "take 8 d = magic" using a assms by (simp add: memcmp_eq_def)
  ultimately have "d = magic @ [1] @ drop (Suc 8) d" using a by simp
  then show "\<exists>r. d = magic @ [1] @ r" by blast
qed (use assms in \<open>auto simp: memcmp_eq_def nth_append\<close>)

lemma drop_layout:
  "length magic = 8 \<Longrightarrow> d = magic @ [1] @ drop 9 d \<longleftrightarrow> 9 \<le> length d \<and> memcmp_eq d magic 8 \<and> d ! 8 = 1"
  using magic_split [of magic d] by auto

subsection \<open>Straight-line encoders\<close>

lemma bind_split_pair:
  "Option.bind (case x of (a, b) \<Rightarrow> f a b) g = (case x of (a, b) \<Rightarrow> Option.bind (f a b) g)"
  by (cases x) simp

lemma bind_last: "Option.bind x (\<lambda>(a, b). Some (a, b)) = x"
  by (cases x) auto

lemma u32_room: "off \<le> cap \<Longrightarrow> unat (cap - off :: u32) = unat cap - unat off"
  by (simp add: unat_sub word_le_nat_alt)

text \<open>The bounded append of the code, a check and a \<open>memcpy\<close>, is an appender.\<close>

lemma appender_memcpy:
  assumes app: "\<And>out capacity offset data len. app out capacity offset data len =
     (if (data = None \<and> len \<noteq> 0) \<or> capacity < offset \<or> capacity - offset < len then None
      else Some (if 0 < len then blit out (unat offset) (take (unat len) (the data)) else out, offset + len))"
  shows "appender app"
proof
  fix buf d :: bytes and cap n off :: u32
  assume b: "length buf = unat cap" "length d = unat n" "unat off + length d \<le> unat cap"
  then have "off \<le> cap" by (simp add: word_le_nat_alt)
  with b have "\<not> cap - off < n" by (simp add: word_less_nat_alt u32_room)
  moreover have "n = 0 \<Longrightarrow> blit buf (unat off) d = buf" using b by (simp add: blit_def)
  ultimately show "app buf cap off (Some d) n = Some (blit buf (unat off) d, off + n)"
    using b \<open>off \<le> cap\<close> by (auto simp: app word_neq_0_conv not_less)
next
  fix buf d :: bytes and cap n off :: u32
  assume b: "length d = unat n" "unat off \<le> unat cap" "unat cap < unat off + length d"
  then have "off \<le> cap" by (simp add: word_le_nat_alt)
  with b have "cap - off < n" by (simp add: word_less_nat_alt u32_room)
  then show "app buf cap off (Some d) n = None" by (simp add: app)
qed

text \<open>Positions a reader can be at: inside a buffer whose size is its length.\<close>

definition inside :: "bytes \<Rightarrow> u32 \<Rightarrow> bool" where
  "inside d p \<longleftrightarrow> length d < 2 ^ 32 \<and> unat p \<le> length d"

lemma inside_word:
  "inside d p \<Longrightarrow> \<not> len32 d < p \<and> unat (len32 d - p) = length d - unat p \<and> unat p \<le> length d"
  using u32_room [of p "len32 d"] by (simp add: inside_def word_less_nat_alt word_le_nat_alt)

lemma inside_end: "inside d p \<Longrightarrow> p = len32 d \<longleftrightarrow> unat p = length d"
  by (metis inside_def len32_of_unat unat_len32)

lemma u32_add_small: "unat (p::u32) + unat n < 2 ^ 32 \<Longrightarrow> unat (p + n) = unat p + unat n"
  by (simp add: unat_word_ariths)

end
