(* ===== verification/Sgx.thy ===== *)
theory Sgx
  imports Prelude
begin

text \<open>
  What the program calls and does not contain: the SGX SDK (SHA-256, AES-128-GCM, P-256), the
  C API of the mcl pairing library, \<open>malloc\<close> and the random source. They are parameters of the
  model: records of functions that the definitions take as arguments. A function that can
  return an error status returns None for it. The predicates \<open>gcm_laws\<close>, \<open>ecdh_laws\<close>,
  \<open>sha_laws\<close> and \<open>mcl_laws\<close> state the documented behaviour that properties may assume, and the
  \<open>toy\<close> instances at the end show that the assumptions can hold.
\<close>

subsection \<open>The SGX SDK\<close>

text \<open>
  \<open>gcm_enc key plaintext iv aad\<close> gives the ciphertext and the tag;
  \<open>gcm_dec key ciphertext iv aad tag\<close> gives the plaintext. \<open>shared_dhkey\<close> takes a private and a
  public key.
\<close>

record sgx =
  sha256_msg :: "bytes \<Rightarrow> bytes option"
  gcm_enc :: "bytes \<Rightarrow> bytes \<Rightarrow> bytes \<Rightarrow> bytes \<Rightarrow> (bytes \<times> bytes) option"
  gcm_dec :: "bytes \<Rightarrow> bytes \<Rightarrow> bytes \<Rightarrow> bytes \<Rightarrow> bytes \<Rightarrow> bytes option"
  shared_dhkey :: "bytes \<Rightarrow> bytes \<Rightarrow> bytes option"
  pub_from_priv :: "bytes \<Rightarrow> bytes option"

text \<open>
  What the environment answers during one call: whether the ECC context opens, the fresh key
  pair, the results of the successive reads of the random source, what an uninitialised local array
  holds, and which allocations succeed (indexed by call site within the handler).
\<close>

record env =
  ecc_open :: bool
  fresh_pair :: "(bytes \<times> bytes) option"
  rand :: "nat \<Rightarrow> bytes option"
  stale :: bytes
  malloc_ok :: "nat \<Rightarrow> bool"

text \<open>The sealing interface: the length of the sealed text, sealing and unsealing.\<close>

record sealing =
  txt_len :: "bytes \<Rightarrow> nat"
  unseal :: "bytes \<Rightarrow> bytes option"
  sealed_size :: nat
  seal :: "bytes \<Rightarrow> bytes option"

definition sealing_laws :: "sealing \<Rightarrow> bool" where
  "sealing_laws z \<longleftrightarrow>
     (\<forall>d b. seal z d = Some b \<longrightarrow> unseal z b = Some d \<and> txt_len z b = length d \<and> b \<noteq> [])"

text \<open>A read of the random source whose status the code does not test.\<close>

definition rand_unchecked :: "env \<Rightarrow> nat \<Rightarrow> bytes" where
  "rand_unchecked e i = (case rand e i of None \<Rightarrow> stale e | Some b \<Rightarrow> b)"

definition gcm_laws :: "sgx \<Rightarrow> bool" where
  "gcm_laws s \<longleftrightarrow>
     (\<forall>k pt iv aad ct tag. gcm_enc s k pt iv aad = Some (ct, tag) \<longrightarrow>
        gcm_dec s k ct iv aad tag = Some pt \<and> length ct = length pt \<and> length tag = 16) \<and>
     (\<forall>k pt iv aad ct tag. gcm_dec s k ct iv aad tag = Some pt \<longrightarrow> length pt = length ct)"

definition ecdh_laws :: "sgx \<Rightarrow> bool" where
  "ecdh_laws s \<longleftrightarrow>
     (\<forall>a b pa pb. pub_from_priv s a = Some pa \<longrightarrow> pub_from_priv s b = Some pb \<longrightarrow>
        shared_dhkey s a pb = shared_dhkey s b pa \<and> length pa = 64)"

text \<open>What the environment of a call provides: a matching key pair and 12 random bytes.\<close>

definition env_laws :: "sgx \<Rightarrow> env \<Rightarrow> bool" where
  "env_laws s e \<longleftrightarrow>
     (\<forall>a p. fresh_pair e = Some (a, p) \<longrightarrow> pub_from_priv s a = Some p \<and> length p = 64) \<and>
     (\<forall>i n. rand e i = Some n \<longrightarrow> length n = 12) \<and> length (stale e) = 12"

definition sha_laws :: "sgx \<Rightarrow> bool" where
  "sha_laws s \<longleftrightarrow> (\<forall>d h. sha256_msg s d = Some h \<longrightarrow> length h = 32)"

lemma gcm_round:
  "gcm_laws s \<Longrightarrow> gcm_enc s k pt iv aad = Some (ct, tag) \<Longrightarrow> gcm_dec s k ct iv aad tag = Some pt"
  "gcm_laws s \<Longrightarrow> gcm_enc s k pt iv aad = Some (ct, tag) \<Longrightarrow> length ct = length pt"
  "gcm_laws s \<Longrightarrow> gcm_enc s k pt iv aad = Some (ct, tag) \<Longrightarrow> length tag = 16"
  unfolding gcm_laws_def by blast+

lemma gcm_dec_length: "gcm_laws s \<Longrightarrow> gcm_dec s k ct iv aad tag = Some pt \<Longrightarrow> length pt = length ct"
  unfolding gcm_laws_def by blast

lemma ecdh_agree:
  "ecdh_laws s \<Longrightarrow> pub_from_priv s a = Some pa \<Longrightarrow> pub_from_priv s b = Some pb \<Longrightarrow>
   shared_dhkey s a pb = shared_dhkey s b pa"
  "ecdh_laws s \<Longrightarrow> pub_from_priv s a = Some pa \<Longrightarrow> length pa = 64"
  unfolding ecdh_laws_def by blast+

lemma sha_length: "sha_laws s \<Longrightarrow> sha256_msg s d = Some h \<Longrightarrow> length h = 32"
  by (simp add: sha_laws_def)

subsection \<open>The mcl pairing library\<close>

text \<open>
  The serializers take the capacity of the output buffer. \<open>g2_unset\<close> is whatever an
  uninitialised \<open>mclBnG2\<close> variable holds.
\<close>

record ('fr, 'g1, 'g2, 'gt) mcl =
  bn_init :: int
  fr_le_mod :: "bytes \<Rightarrow> 'fr"
  fr_is_zero :: "'fr \<Rightarrow> bool"
  fr_serialize :: "'fr \<Rightarrow> nat \<Rightarrow> bytes option"
  fr_deserialize :: "bytes \<Rightarrow> 'fr option"
  g1_hash_map :: "bytes \<Rightarrow> 'g1 option"
  g1_is_zero :: "'g1 \<Rightarrow> bool"
  g1_mul :: "'g1 \<Rightarrow> 'fr \<Rightarrow> 'g1"
  g1_serialize :: "'g1 \<Rightarrow> nat \<Rightarrow> bytes option"
  g1_deserialize :: "bytes \<Rightarrow> 'g1 option"
  g2_hash_map :: "bytes \<Rightarrow> 'g2 option"
  g2_unset :: 'g2
  g2_mul :: "'g2 \<Rightarrow> 'fr \<Rightarrow> 'g2"
  g2_serialize :: "'g2 \<Rightarrow> nat \<Rightarrow> bytes option"
  g2_deserialize :: "bytes \<Rightarrow> 'g2 option"
  pairing :: "'g1 \<Rightarrow> 'g2 \<Rightarrow> 'gt"
  gt_pow :: "'gt \<Rightarrow> 'fr \<Rightarrow> 'gt"
  gt_serialize :: "'gt \<Rightarrow> nat \<Rightarrow> bytes option"

text \<open>
  The library's documentation: a nonempty serialization within the capacity is read back, the
  pairing is bilinear, and exponents commute.
\<close>

definition mcl_laws :: "('fr, 'g1, 'g2, 'gt) mcl \<Rightarrow> bool" where
  "mcl_laws m \<longleftrightarrow>
     (\<forall>x n b. fr_serialize m x n = Some b \<longrightarrow> fr_deserialize m b = Some x) \<and>
     (\<forall>x n b. g1_serialize m x n = Some b \<longrightarrow> g1_deserialize m b = Some x \<and> b \<noteq> [] \<and> length b \<le> n) \<and>
     (\<forall>x n b. g2_serialize m x n = Some b \<longrightarrow> g2_deserialize m b = Some x \<and> b \<noteq> [] \<and> length b \<le> n) \<and>
     (\<forall>p q a. pairing m (g1_mul m p a) q = gt_pow m (pairing m p q) a) \<and>
     (\<forall>p q a. pairing m p (g2_mul m q a) = gt_pow m (pairing m p q) a) \<and>
     (\<forall>t a b. gt_pow m (gt_pow m t a) b = gt_pow m (gt_pow m t b) a)"

lemma mcl_serial:
  "mcl_laws m \<Longrightarrow> fr_serialize m x n = Some b \<Longrightarrow> fr_deserialize m b = Some x"
  "mcl_laws m \<Longrightarrow> g1_serialize m y n = Some b \<Longrightarrow> g1_deserialize m b = Some y"
  "mcl_laws m \<Longrightarrow> g1_serialize m y n = Some b \<Longrightarrow> b \<noteq> []"
  "mcl_laws m \<Longrightarrow> g1_serialize m y n = Some b \<Longrightarrow> length b \<le> n"
  "mcl_laws m \<Longrightarrow> g2_serialize m z n = Some b \<Longrightarrow> g2_deserialize m b = Some z"
  "mcl_laws m \<Longrightarrow> g2_serialize m z n = Some b \<Longrightarrow> b \<noteq> []"
  "mcl_laws m \<Longrightarrow> g2_serialize m z n = Some b \<Longrightarrow> length b \<le> n"
  unfolding mcl_laws_def by blast+

text \<open>
  The equation the encryption scheme rests on: the receiver's pairing of \<open>r P\<close> with \<open>s Q\<close> is the
  sender's pairing of \<open>s P\<close> with \<open>Q\<close>, raised to \<open>r\<close>.
\<close>

lemma pairing_agree:
  assumes "mcl_laws m"
  shows "pairing m (g1_mul m p r) (g2_mul m q s) = gt_pow m (pairing m (g1_mul m p s) q) r"
  using assms unfolding mcl_laws_def by metis

subsection \<open>Concrete instances of the assumptions\<close>

definition toy_mac :: "bytes \<Rightarrow> bytes \<Rightarrow> bytes \<Rightarrow> bytes \<Rightarrow> bytes" where
  "toy_mac k ct iv aad = replicate 16 (sum_list k + sum_list ct + sum_list iv + sum_list aad)"

definition toy_sgx :: sgx where
  "toy_sgx = \<lparr>
     sha256_msg = (\<lambda>d. Some (replicate 32 (sum_list d))),
     gcm_enc = (\<lambda>k pt iv aad. Some (pt, toy_mac k pt iv aad)),
     gcm_dec = (\<lambda>k ct iv aad tag. if tag = toy_mac k ct iv aad then Some ct else None),
     shared_dhkey = (\<lambda>sk pk. Some (map2 (+) sk (take 32 pk))),
     pub_from_priv = (\<lambda>sk. if length sk = 32 then Some (sk @ sk) else None)\<rparr>"

definition toy_env :: env where
  "toy_env = \<lparr>ecc_open = True, fresh_pair = Some (replicate 32 3, replicate 64 3),
     rand = (\<lambda>i. Some (replicate 12 5)), stale = replicate 12 0, malloc_ok = (\<lambda>i. True)\<rparr>"

definition toy_mcl :: "(byte, byte, byte, byte) mcl" where
  "toy_mcl = \<lparr>bn_init = 0,
     fr_le_mod = (\<lambda>b. sum_list b + 1),
     fr_is_zero = (\<lambda>x. x = 0),
     fr_serialize = (\<lambda>x n. if 1 \<le> n then Some [x] else None),
     fr_deserialize = (\<lambda>b. case b of [x] \<Rightarrow> Some x | _ \<Rightarrow> None),
     g1_hash_map = (\<lambda>b. Some 1),
     g1_is_zero = (\<lambda>x. x = 0),
     g1_mul = (\<lambda>p a. p * a),
     g1_serialize = (\<lambda>x n. if 1 \<le> n then Some [x] else None),
     g1_deserialize = (\<lambda>b. case b of [x] \<Rightarrow> Some x | _ \<Rightarrow> None),
     g2_hash_map = (\<lambda>b. Some (sum_list b)),
     g2_unset = 0,
     g2_mul = (\<lambda>q a. q * a),
     g2_serialize = (\<lambda>x n. if 1 \<le> n then Some [x] else None),
     g2_deserialize = (\<lambda>b. case b of [x] \<Rightarrow> Some x | _ \<Rightarrow> None),
     pairing = (\<lambda>p q. p * q),
     gt_pow = (\<lambda>t a. t * a),
     gt_serialize = (\<lambda>t n. if 1 \<le> n then Some [t] else None)\<rparr>"

definition toy_sealing :: sealing where
  "toy_sealing = \<lparr>txt_len = (\<lambda>b. length b - 1), unseal = (\<lambda>b. Some (tl b)), sealed_size = 33,
     seal = (\<lambda>d. if length d = 32 then Some (0 # d) else None)\<rparr>"

lemmas toy_defs = toy_sgx_def toy_env_def toy_mcl_def toy_mac_def

lemma toy_fields [simp]:
  "sha256_msg toy_sgx d = Some (replicate 32 (sum_list d))"
  "gcm_enc toy_sgx k pt iv aad = Some (pt, toy_mac k pt iv aad)"
  "gcm_dec toy_sgx k ct iv aad tag = (if tag = toy_mac k ct iv aad then Some ct else None)"
  "shared_dhkey toy_sgx sk pk = Some (map2 (+) sk (take 32 pk))"
  "pub_from_priv toy_sgx sk = (if length sk = 32 then Some (sk @ sk) else None)"
  "ecc_open toy_env" "fresh_pair toy_env = Some (replicate 32 3, replicate 64 3)"
  "rand toy_env i = Some (replicate 12 5)" "stale toy_env = replicate 12 0" "malloc_ok toy_env i"
  by (simp_all add: toy_sgx_def toy_env_def)

lemma toy_gcm_laws: "gcm_laws toy_sgx"
  by (auto simp: gcm_laws_def toy_sgx_def toy_mac_def split: if_splits)

lemma toy_sha_laws: "sha_laws toy_sgx"
  by (auto simp: sha_laws_def toy_sgx_def)

lemma toy_sealing_laws: "sealing_laws toy_sealing"
  by (auto simp: sealing_laws_def toy_sealing_def split: if_splits)

lemma map2_plus_comm: "length (a::bytes) = length b \<Longrightarrow> map2 (+) a b = map2 (+) b a"
  by (induction a b rule: list_induct2) (auto simp: add.commute)

lemma toy_ecdh_laws: "ecdh_laws toy_sgx"
  by (auto simp: ecdh_laws_def toy_sgx_def map2_plus_comm split: if_splits)

lemma toy_mcl_laws: "mcl_laws toy_mcl"
  by (auto simp: mcl_laws_def toy_mcl_def mult.assoc mult.left_commute split: if_splits)

lemma toy_env_laws: "env_laws toy_sgx toy_env"
proof -
  have "replicate 32 (3::byte) @ replicate 32 3 = replicate 64 3" by (simp flip: replicate_add)
  then show ?thesis by (simp add: env_laws_def toy_env_def toy_sgx_def)
qed

end
