(* ===== verification/BfibeMcl.thy ===== *)
theory BfibeMcl
  imports Sgx
begin

text \<open>
  \<open>trusted/bfibe_mcl.cpp\<close>: the Boneh-Franklin scheme both enclaves link. The pairing library is
  the parameter \<open>m\<close>, the SGX SDK the parameter \<open>s\<close>, the environment of the call \<open>e\<close>. The only
  state is \<open>g_mcl_initialized\<close>, threaded as a bool. A call returns \<open>Inl BfFail\<close> for -1,
  \<open>Inl (BfNeed n)\<close> for -1 with the required size \<open>n\<close> stored in the length argument, and \<open>Inr\<close>
  of what it writes through its output pointers. The pointer arguments are the addresses of the
  callers' arrays, so the guards against NULL pointers cannot fire and are left out.
\<close>

datatype bf_error = BfFail | BfNeed nat

type_synonym 'a bf_result = "(bf_error + 'a) \<times> bool"

definition G1_DOMAIN :: bytes where
  "G1_DOMAIN = lit ''ASYNCS/BFIBE/G1/GENERATOR/v1''"

definition get_bfibe_g1_generator :: "('fr, 'g1, 'g2, 'gt) mcl \<Rightarrow> 'g1 option" where
  "get_bfibe_g1_generator m =
     do { g1 \<leftarrow> g1_hash_map m G1_DOMAIN;
          if g1_is_zero m g1 then None else Some g1 }"

definition bfibe_mcl_init :: "('fr, 'g1, 'g2, 'gt) mcl \<Rightarrow> bool \<Rightarrow> int \<times> bool" where
  "bfibe_mcl_init m ini =
     (if ini then (0, True)
      else if bn_init m \<noteq> 0 then (bn_init m, ini)
      else (0, True))"

text \<open>The common shape of the operations: initialise, give up if that fails, go on.\<close>

definition after_init :: "('fr, 'g1, 'g2, 'gt) mcl \<Rightarrow> bool \<Rightarrow> (bf_error + 'a) \<Rightarrow> 'a bf_result" where
  "after_init m ini r =
     (let (ret, ini') = bfibe_mcl_init m ini
      in if ret \<noteq> 0 then (Inl BfFail, ini') else (r, ini'))"

definition or_fail :: "'a option \<Rightarrow> bf_error + 'a" where
  "or_fail x = (case x of None \<Rightarrow> Inl BfFail | Some a \<Rightarrow> Inr a)"

definition bfibe_mcl_derive_master_secret ::
  "('fr, 'g1, 'g2, 'gt) mcl \<Rightarrow> sgx \<Rightarrow> bytes \<Rightarrow> nat \<Rightarrow> bool \<Rightarrow> bytes bf_result" where
  "bfibe_mcl_derive_master_secret m s seed msk_cap ini =
     (if seed = [] then (Inl BfFail, ini)
      else after_init m ini (or_fail
        (do { h \<leftarrow> sha256_msg s seed;
              fr_serialize m (fr_le_mod m h) msk_cap })))"

definition bfibe_mcl_setup ::
  "('fr, 'g1, 'g2, 'gt) mcl \<Rightarrow> env \<Rightarrow> nat \<Rightarrow> nat \<Rightarrow> bool \<Rightarrow> (bytes \<times> bytes) bf_result" where
  "bfibe_mcl_setup m e mpk_cap msk_cap ini =
     after_init m ini (or_fail
       (do { rnd \<leftarrow> rand e 0;
             let msk = fr_le_mod m rnd;
             g1 \<leftarrow> get_bfibe_g1_generator m;
             let mpk = g1_mul m g1 msk;
             if g1_is_zero m mpk then None
             else do { msk_bytes \<leftarrow> fr_serialize m msk msk_cap;
                       mpk_bytes \<leftarrow> g1_serialize m mpk mpk_cap;
                       Some (mpk_bytes, msk_bytes) } }))"

definition bfibe_mcl_public_from_msk ::
  "('fr, 'g1, 'g2, 'gt) mcl \<Rightarrow> bytes \<Rightarrow> nat \<Rightarrow> bool \<Rightarrow> bytes bf_result" where
  "bfibe_mcl_public_from_msk m msk mpk_cap ini =
     after_init m ini (or_fail
       (do { msk_fr \<leftarrow> fr_deserialize m msk;
             g1 \<leftarrow> get_bfibe_g1_generator m;
             let mpk = g1_mul m g1 msk_fr;
             if g1_is_zero m mpk then None else g1_serialize m mpk mpk_cap }))"

text \<open>
  The result of \<open>mclBnG2_hashAndMapTo\<close> is not tested here: on failure the code goes on with the
  uninitialised point.
\<close>

definition hash_identity :: "('fr, 'g1, 'g2, 'gt) mcl \<Rightarrow> bytes \<Rightarrow> 'g2" where
  "hash_identity m identity =
     (case g2_hash_map m identity of None \<Rightarrow> g2_unset m | Some q \<Rightarrow> q)"

definition bfibe_mcl_extract ::
  "('fr, 'g1, 'g2, 'gt) mcl \<Rightarrow> bytes \<Rightarrow> bytes \<Rightarrow> nat \<Rightarrow> bool \<Rightarrow> bytes bf_result" where
  "bfibe_mcl_extract m msk identity sk_cap ini =
     after_init m ini (or_fail
       (do { msk_fr \<leftarrow> fr_deserialize m msk;
             g2_serialize m (g2_mul m (hash_identity m identity) msk_fr) sk_cap }))"

definition bfibe_mcl_encrypt ::
  "('fr, 'g1, 'g2, 'gt) mcl \<Rightarrow> sgx \<Rightarrow> env \<Rightarrow> bytes \<Rightarrow> bytes \<Rightarrow> bytes \<Rightarrow> nat \<Rightarrow> bool \<Rightarrow> bytes bf_result" where
  "bfibe_mcl_encrypt m s e mpk identity message ct_cap ini =
     after_init m ini
       (case do { mpk_g1 \<leftarrow> g1_deserialize m mpk;
                  let q_id = hash_identity m identity;
                  rnd \<leftarrow> rand e 0;
                  let r = fr_le_mod m rnd;
                  g1 \<leftarrow> get_bfibe_g1_generator m;
                  let u = g1_mul m g1 r;
                  if g1_is_zero m u then None
                  else do { shared_bytes \<leftarrow> gt_serialize m (gt_pow m (pairing m mpk_g1 q_id) r) 576;
                            aes_key_full \<leftarrow> sha256_msg s shared_bytes;
                            u_bytes \<leftarrow> g1_serialize m u 96;
                            if length u_bytes > 65535 then None else Some (aes_key_full, u_bytes) } }
        of None \<Rightarrow> Inl BfFail
         | Some (aes_key_full, u_bytes) \<Rightarrow>
             let required = 2 + length u_bytes + 12 + 16 + length message in
             if ct_cap < required then Inl (BfNeed required)
             else or_fail
               (do { iv \<leftarrow> rand e 1;
                     (ct, tag) \<leftarrow> gcm_enc s (take 16 aes_key_full) message iv [];
                     Some ([of_nat (length u_bytes div 256), of_nat (length u_bytes mod 256)]
                           @ u_bytes @ iv @ tag @ ct) }))"

definition bfibe_mcl_decrypt ::
  "('fr, 'g1, 'g2, 'gt) mcl \<Rightarrow> sgx \<Rightarrow> bytes \<Rightarrow> bytes \<Rightarrow> nat \<Rightarrow> bool \<Rightarrow> bytes bf_result" where
  "bfibe_mcl_decrypt m s sk_id ciphertext msg_cap ini =
     after_init m ini
       (if length ciphertext < 2 + 12 + 16 then Inl BfFail
        else case g2_deserialize m sk_id of None \<Rightarrow> Inl BfFail
        | Some sk_g2 \<Rightarrow>
          let u_size = 256 * unat (ciphertext ! 0) + unat (ciphertext ! 1) in
          if u_size = 0 \<or> length ciphertext < 2 + u_size + 12 + 16 then Inl BfFail
          else case g1_deserialize m (slice 2 u_size ciphertext) of None \<Rightarrow> Inl BfFail
          | Some u \<Rightarrow>
            let iv = slice (2 + u_size) 12 ciphertext;
                tag = slice (2 + u_size + 12) 16 ciphertext;
                encrypted = drop (2 + u_size + 12 + 16) ciphertext in
            if msg_cap < length encrypted then Inl (BfNeed (length encrypted))
            else or_fail
              (do { shared_bytes \<leftarrow> gt_serialize m (pairing m u sk_g2) 576;
                    aes_key_full \<leftarrow> sha256_msg s shared_bytes;
                    gcm_dec s (take 16 aes_key_full) encrypted iv [] tag }))"

text \<open>The session key of an envelope is 16 or 32 bytes, padded with zeros to 32.\<close>

definition pad32 :: "bytes \<Rightarrow> bytes" where
  "pad32 k = take 32 (k @ replicate 32 0)"

definition bfibe_mcl_decrypt_key_envelope ::
  "('fr, 'g1, 'g2, 'gt) mcl \<Rightarrow> sgx \<Rightarrow> bytes \<Rightarrow> bytes \<Rightarrow> bytes \<Rightarrow> bytes \<Rightarrow> bytes \<Rightarrow> bool \<Rightarrow> bytes bf_result" where
  "bfibe_mcl_decrypt_key_envelope m s sk_id c1 nonce ciphertext aad ini =
     (if length nonce \<noteq> 12 \<or> length ciphertext \<le> 16 then (Inl BfFail, ini)
      else after_init m ini
        (let encrypted_len = length ciphertext - 16;
             tag = drop encrypted_len ciphertext in
         if \<not> (encrypted_len = 16 \<or> encrypted_len = 32) then Inl BfFail
         else or_fail
           (do { sk_g2 \<leftarrow> g2_deserialize m sk_id;
                 u \<leftarrow> g1_deserialize m c1;
                 shared_bytes \<leftarrow> gt_serialize m (pairing m u sk_g2) 576;
                 aes_key_full \<leftarrow> sha256_msg s shared_bytes;
                 plaintext \<leftarrow> gcm_dec s (take 16 aes_key_full) (take encrypted_len ciphertext) nonce aad tag;
                 Some (pad32 plaintext) })))"

subsection \<open>Initialisation\<close>

lemma after_init_Inr:
  "after_init m ini r = (Inr a, ini') \<longleftrightarrow> r = Inr a \<and> ini' \<and> (ini \<or> bn_init m = 0)"
  by (auto simp: after_init_def bfibe_mcl_init_def split: if_splits)

lemma after_init_ready [simp]: "ini \<or> bn_init m = 0 \<Longrightarrow> after_init m ini r = (r, True)"
  by (auto simp: after_init_def bfibe_mcl_init_def)

lemma after_init_broken: "\<not> ini \<Longrightarrow> bn_init m \<noteq> 0 \<Longrightarrow> after_init m ini r = (Inl BfFail, False)"
  by (simp add: after_init_def bfibe_mcl_init_def)

lemma after_init_cases:
  "after_init m ini r = (if ini \<or> bn_init m = 0 then (r, True) else (Inl BfFail, False))"
  by (simp add: after_init_broken)

lemma or_fail_Inr [simp]: "or_fail x = Inr a \<longleftrightarrow> x = Some a"
  by (simp add: or_fail_def split: option.splits)

lemma or_fail_not_BfNeed [simp]: "or_fail x \<noteq> Inl (BfNeed n)"
  by (simp add: or_fail_def split: option.splits)

lemma or_fail_Some [simp]: "or_fail (Some a) = Inr a"
  by simp

lemma length_pad32 [simp]: "length (pad32 k) = 32"
  by (simp add: pad32_def)

lemma pad32_full: "length k = 32 \<Longrightarrow> pad32 k = k"
  by (simp add: pad32_def)

lemma take_pad32: "length k \<le> 32 \<Longrightarrow> take (length k) (pad32 k) = k"
  by (simp add: pad32_def min_absorb2)

subsection \<open>Round trip of the scheme\<close>

lemma u_size_bytes:
  "n \<le> 65535 \<Longrightarrow> 256 * unat (of_nat (n div 256) :: byte) + unat (of_nat (n mod 256) :: byte) = n"
  by (simp add: unat_of_nat take_bit_nat_eq_self)

lemma encrypt_Inr:
  assumes "bfibe_mcl_encrypt m s e mpk identity message cap ini = (Inr c, ini')"
  obtains p g r sh k u iv ct tag where
    "g1_deserialize m mpk = Some p" "get_bfibe_g1_generator m = Some g"
    "gt_serialize m (gt_pow m (pairing m p (hash_identity m identity)) r) 576 = Some sh"
    "sha256_msg s sh = Some k" "g1_serialize m (g1_mul m g r) 96 = Some u" "length u \<le> 65535"
    "rand e 1 = Some iv" "gcm_enc s (take 16 k) message iv [] = Some (ct, tag)"
    "c = [of_nat (length u div 256), of_nat (length u mod 256)] @ u @ iv @ tag @ ct"
  using assms that
  by (auto simp: bfibe_mcl_encrypt_def after_init_Inr Let_def bind_eq_Some_conv
      split: option.splits if_splits prod.splits)

lemma decrypt_layout:
  assumes l: "length iv = 12" "length tag = 16" "0 < length u" "length u \<le> 65535"
    and "ini \<or> bn_init m = 0" "g2_deserialize m sk = Some q" "g1_deserialize m u = Some x"
    and "gt_serialize m (pairing m x q) 576 = Some sh" "sha256_msg s sh = Some k"
    and c: "c = [of_nat (length u div 256), of_nat (length u mod 256)] @ u @ iv @ tag @ ct"
  shows "bfibe_mcl_decrypt m s sk c cap ini =
    (if cap < length ct then Inl (BfNeed (length ct)) else or_fail (gcm_dec s (take 16 k) ct iv [] tag), True)"
proof -
  let ?h = "[of_nat (length u div 256), of_nat (length u mod 256)] :: bytes"
  have "slice 2 (length u) c = u" unfolding c by (rule slice_append_mid) simp_all
  moreover have "slice (2 + length u) 12 c = iv"
    using slice_append_mid [of "?h @ u" "2 + length u" iv 12 "tag @ ct"] l by (simp add: c)
  moreover have "slice (2 + length u + 12) 16 c = tag"
    using slice_append_mid [of "?h @ u @ iv" "2 + length u + 12" tag 16 ct] l by (simp add: c)
  moreover have "drop (2 + length u + 12 + 16) c = ct"
    using drop_prefix [of "?h @ u @ iv @ tag" "2 + length u + 12 + 16" ct] l by (simp add: c)
  moreover have "256 * unat (c ! 0) + unat (c ! 1) = length u"
    using u_size_bytes [OF l(4)] by (simp add: c)
  moreover have "length c = 30 + length u + length ct" using l by (simp add: c)
  ultimately show ?thesis using assms by (simp add: bfibe_mcl_decrypt_def Let_def)
qed

text \<open>
  C20: identity-based encryption round trip. After setup and extraction, what \<open>bfibe_mcl_encrypt\<close>
  produces for an identity is decrypted by that identity's private key to the message, and a
  receiver whose buffer is too small is told the exact size it needs.
\<close>

theorem bfibe_scheme_roundtrip:
  assumes laws: "mcl_laws m" "gcm_laws s"
    and gen: "bfibe_mcl_setup m e mpk_cap msk_cap ini = (Inr (mpk, msk), i1)"
    and ext: "bfibe_mcl_extract m msk identity sk_cap i1 = (Inr sk, i2)"
    and enc: "bfibe_mcl_encrypt m s e' mpk identity message ct_cap i2 = (Inr c, i3)"
    and iv_len: "\<forall>iv. rand e' 1 = Some iv \<longrightarrow> length iv = 12"
  shows "bfibe_mcl_decrypt m s sk c msg_cap i3 =
    (if msg_cap < length message then Inl (BfNeed (length message)) else Inr message, True)"
proof -
  let ?q = "hash_identity m identity"
  from gen obtain a g where g: "get_bfibe_g1_generator m = Some g"
    "g1_serialize m (g1_mul m g a) mpk_cap = Some mpk" "fr_serialize m a msk_cap = Some msk"
    by (auto simp: bfibe_mcl_setup_def after_init_Inr Let_def bind_eq_Some_conv split: if_splits)
  from ext g laws(1) have sk: "g2_deserialize m sk = Some (g2_mul m ?q a)"
    by (auto simp: bfibe_mcl_extract_def after_init_Inr bind_eq_Some_conv mcl_serial)
  from enc obtain p h r sh k u iv ct tag where c: "g1_deserialize m mpk = Some p"
    "get_bfibe_g1_generator m = Some h" "gt_serialize m (gt_pow m (pairing m p ?q) r) 576 = Some sh"
    "sha256_msg s sh = Some k" "g1_serialize m (g1_mul m h r) 96 = Some u" "length u \<le> 65535"
    "rand e' 1 = Some iv" "gcm_enc s (take 16 k) message iv [] = Some (ct, tag)"
    "c = [of_nat (length u div 256), of_nat (length u mod 256)] @ u @ iv @ tag @ ct"
    by (rule encrypt_Inr)
  from c g laws(1) have p: "p = g1_mul m g a" "h = g" by (auto simp: mcl_serial)
  have "pairing m (g1_mul m g r) (g2_mul m ?q a) = gt_pow m (pairing m p ?q) r"
    using pairing_agree [OF laws(1)] p by simp
  moreover have "0 < length u" and "g1_deserialize m u = Some (g1_mul m g r)"
    using c(5) p(2) laws(1) mcl_serial(3) [OF laws(1) c(5)] by (auto simp: mcl_serial)
  moreover have "i3" using enc by (simp add: bfibe_mcl_encrypt_def after_init_Inr)
  moreover have "length iv = 12" using iv_len c(7) by blast
  ultimately show ?thesis
    using decrypt_layout [of iv tag u i3 m sk] sk c gcm_round [OF laws(2) c(8)] by simp
qed

theorem bfibe_scheme_roundtrip_witness:
  "bfibe_mcl_decrypt toy_mcl toy_sgx [sum_list (lit ''alice'') * 61]
     (the (case fst (bfibe_mcl_encrypt toy_mcl toy_sgx toy_env [61] (lit ''alice'') [7, 8] 100 True) of
        Inr c \<Rightarrow> Some c | Inl e \<Rightarrow> None)) 10 True = (Inr [7, 8], True)"
proof -
  have s: "bfibe_mcl_setup toy_mcl toy_env 10 10 False = (Inr ([61], [61]), True)"
    by (simp add: bfibe_mcl_setup_def get_bfibe_g1_generator_def toy_mcl_def toy_env_def sum_list_replicate)
  have x: "bfibe_mcl_extract toy_mcl [61] (lit ''alice'') 10 True = (Inr [sum_list (lit ''alice'') * 61], True)"
    by (simp add: bfibe_mcl_extract_def hash_identity_def toy_mcl_def)
  obtain c where c: "bfibe_mcl_encrypt toy_mcl toy_sgx toy_env [61] (lit ''alice'') [7, 8] 100 True = (Inr c, True)"
    by (simp add: bfibe_mcl_encrypt_def get_bfibe_g1_generator_def toy_mcl_def toy_env_def toy_sgx_def
        Let_def sum_list_replicate)
  show ?thesis
    using bfibe_scheme_roundtrip [OF toy_mcl_laws toy_gcm_laws s x c, of 10] c by (simp add: toy_env_def)
qed

end
