(* ===== verification/KmsPolicy.thy ===== *)
theory KmsPolicy
  imports Sgx
begin

text \<open>
  The policy registry and the quote verification of the KMS enclave
  (\<open>sgx_kms/Enclave/Enclave.cpp\<close>). The state record holds the enclave's globals. The registry
  is the list of its first \<open>g_num_policies\<close> entries: entries are only ever added at its end. The labels
  of an entry are the list of its first \<open>num_labels\<close> slots. A call returns its C result
  (0 or -1) and the new state; messages to the host are not part of the state.
\<close>

subsection \<open>State\<close>

definition MAX_POLICY_ENTRIES :: nat where "MAX_POLICY_ENTRIES = 128"
definition MAX_FID_LEN :: nat where "MAX_FID_LEN = 128"
definition LABEL_LEN :: nat where "LABEL_LEN = 65"
definition QUOTE3_REPORT_BODY_OFFSET :: nat where "QUOTE3_REPORT_BODY_OFFSET = 48"
definition REPORT_BODY_SIZE :: nat where "REPORT_BODY_SIZE = 384"
definition MRENCLAVE_OFFSET_IN_BODY :: nat where "MRENCLAVE_OFFSET_IN_BODY = 64"
definition REPORT_DATA_OFFSET_IN_BODY :: nat where "REPORT_DATA_OFFSET_IN_BODY = 320"

lemmas kms_consts = MAX_POLICY_ENTRIES_def MAX_FID_LEN_def LABEL_LEN_def
  QUOTE3_REPORT_BODY_OFFSET_def REPORT_BODY_SIZE_def MRENCLAVE_OFFSET_IN_BODY_def
  REPORT_DATA_OFFSET_IN_BODY_def

record PolicyEntry =
  fid :: bytes
  policy_mrenclave :: bytes
  policy_set :: bool
  bound_labels :: "bytes list"

record kms =
  g_msk :: bytes
  g_msk_initialized :: bool
  g_policy_registry :: "PolicyEntry list"
  g_ra_verified :: bool
  g_verified_mrenclave :: bytes
  g_verified_fid :: bytes
  g_verified_report_data :: bytes
  g_mcl_initialized :: bool

definition zeros :: "nat \<Rightarrow> bytes" where
  "zeros n = replicate n 0"

lemma length_zeros [simp]: "length (zeros n) = n"
  by (simp add: zeros_def)

definition kms_boot :: kms where
  "kms_boot = \<lparr>g_msk = zeros 32, g_msk_initialized = False, g_policy_registry = [],
     g_ra_verified = False, g_verified_mrenclave = zeros 32, g_verified_fid = [],
     g_verified_report_data = zeros 64, g_mcl_initialized = False\<rparr>"

subsection \<open>Registry operations\<close>

text \<open>The scan returns the index of the entry the C code returns a pointer to.\<close>

fun find_policy_from :: "nat \<Rightarrow> PolicyEntry list \<Rightarrow> bytes \<Rightarrow> nat option" where
  "find_policy_from i [] f = None"
| "find_policy_from i (e # es) f = (if fid e = f then Some i else find_policy_from (Suc i) es f)"

definition find_policy :: "kms \<Rightarrow> bytes \<Rightarrow> nat option" where
  "find_policy k f = find_policy_from 0 (g_policy_registry k) f"

definition new_entry :: "bytes \<Rightarrow> PolicyEntry" where
  "new_entry f = \<lparr>fid = take (MAX_FID_LEN - 1) f, policy_mrenclave = zeros 32,
     policy_set = False, bound_labels = []\<rparr>"

text \<open>Find the entry of an FID or create one; None when the registry is full.\<close>

definition entry_for :: "kms \<Rightarrow> bytes \<Rightarrow> (nat \<times> PolicyEntry list) option" where
  "entry_for k f =
     (case find_policy k f of
        Some i \<Rightarrow> Some (i, g_policy_registry k)
      | None \<Rightarrow>
          if MAX_POLICY_ENTRIES \<le> length (g_policy_registry k) then None
          else Some (length (g_policy_registry k), g_policy_registry k @ [new_entry f]))"

definition register_policy_fid :: "kms \<Rightarrow> bytes \<Rightarrow> bytes \<Rightarrow> int \<times> kms" where
  "register_policy_fid k f mrenclave =
     (case entry_for k f of
        None \<Rightarrow> (-1, k)
      | Some (i, reg) \<Rightarrow>
          if policy_set (reg ! i) then (-1, k)
          else (0, k\<lparr>g_policy_registry :=
            reg[i := (reg ! i)\<lparr>policy_mrenclave := take 32 mrenclave, policy_set := True\<rparr>]\<rparr>))"

definition bind_label_to_fid :: "kms \<Rightarrow> bytes \<Rightarrow> bytes \<Rightarrow> int \<times> kms" where
  "bind_label_to_fid k f label =
     (case entry_for k f of
        None \<Rightarrow> (-1, k)
      | Some (i, reg) \<Rightarrow>
          let k' = k\<lparr>g_policy_registry := reg\<rparr>; e = reg ! i in
          if label \<in> set (bound_labels e) then (0, k')
          else if 4 \<le> length (bound_labels e) then (-1, k')
          else (0, k\<lparr>g_policy_registry :=
            reg[i := e\<lparr>bound_labels := bound_labels e @ [take (LABEL_LEN - 1) label]\<rparr>]\<rparr>))"

definition is_label_bound_to_fid :: "kms \<Rightarrow> bytes \<Rightarrow> bytes \<Rightarrow> bool" where
  "is_label_bound_to_fid k f label =
     (case find_policy k f of
        None \<Rightarrow> False
      | Some i \<Rightarrow> label \<in> set (bound_labels (g_policy_registry k ! i)))"

definition verify_ra_for_fid :: "kms \<Rightarrow> bytes \<Rightarrow> bool" where
  "verify_ra_for_fid k f =
     (case find_policy k f of
        None \<Rightarrow> True
      | Some i \<Rightarrow>
          let e = g_policy_registry k ! i in
          if \<not> policy_set e then True
          else if \<not> g_ra_verified k then False
          else if \<not> strncmp_eq MAX_FID_LEN (g_verified_fid k) f then False
          else memcmp_eq (g_verified_mrenclave k) (policy_mrenclave e) 32)"

definition verify_report_data_binding :: "sgx \<Rightarrow> kms \<Rightarrow> bytes \<Rightarrow> bool" where
  "verify_report_data_binding s k public_key =
     (if \<not> g_ra_verified k then False
      else case sha256_msg s (take 64 public_key) of
        None \<Rightarrow> False
      | Some h_pk \<Rightarrow> memcmp_eq h_pk (g_verified_report_data k) 32)"

subsection \<open>ECALLs on the policy and the attestation state\<close>

definition ecall_verify_quote :: "kms \<Rightarrow> bytes option \<Rightarrow> int \<times> kms" where
  "ecall_verify_quote k quote =
     (case quote of
        None \<Rightarrow> (-1, k)
      | Some q \<Rightarrow> if q = [] then (-1, k) else (-1, k))"

definition reset_ra :: "kms \<Rightarrow> kms" where
  "reset_ra k = k\<lparr>g_ra_verified := False, g_verified_mrenclave := zeros 32,
     g_verified_fid := [], g_verified_report_data := zeros 64\<rparr>"

definition ecall_verify_quote_for_fid :: "kms \<Rightarrow> bytes option \<Rightarrow> bytes option \<Rightarrow> int \<times> kms" where
  "ecall_verify_quote_for_fid k fid_arg quote_arg =
     (let k = reset_ra k in
      case (fid_arg, quote_arg) of
        (Some f, Some quote) \<Rightarrow>
          if length quote < QUOTE3_REPORT_BODY_OFFSET + REPORT_BODY_SIZE then (-1, k)
          else
            let mrenclave = slice (QUOTE3_REPORT_BODY_OFFSET + MRENCLAVE_OFFSET_IN_BODY) 32 quote;
                report_data = slice (QUOTE3_REPORT_BODY_OFFSET + REPORT_DATA_OFFSET_IN_BODY) 64 quote;
                k1 = k\<lparr>g_verified_mrenclave := mrenclave, g_verified_report_data := report_data,
                  g_verified_fid := take (MAX_FID_LEN - 1) f\<rparr> in
            (case find_policy k1 f of
               Some i \<Rightarrow>
                 if policy_set (g_policy_registry k1 ! i) then
                   if \<not> memcmp_eq (g_verified_mrenclave k1) (policy_mrenclave (g_policy_registry k1 ! i)) 32
                   then (-1, reset_ra k1)
                   else (0, k1\<lparr>g_ra_verified := True\<rparr>)
                 else (0, k1\<lparr>g_ra_verified := True\<rparr>)
             | None \<Rightarrow> (0, k1\<lparr>g_ra_verified := True\<rparr>))
      | _ \<Rightarrow> (-1, k))"

definition ecall_set_ra_result :: "kms \<Rightarrow> int \<Rightarrow> bytes \<Rightarrow> int \<times> kms" where
  "ecall_set_ra_result k verified mrenclave =
     (-1, k\<lparr>g_ra_verified := False, g_verified_mrenclave := zeros 32, g_verified_fid := []\<rparr>)"

definition ecall_register_policy_fid :: "kms \<Rightarrow> bytes \<Rightarrow> bytes \<Rightarrow> int \<times> kms" where
  "ecall_register_policy_fid k f mrenclave = register_policy_fid k f mrenclave"

definition ecall_bind_label_to_fid :: "kms \<Rightarrow> bytes \<Rightarrow> bytes \<Rightarrow> int \<times> kms" where
  "ecall_bind_label_to_fid k f label = bind_label_to_fid k f label"

definition ecall_check_label_binding :: "kms \<Rightarrow> bytes \<Rightarrow> bytes \<Rightarrow> int" where
  "ecall_check_label_binding k f label = (if is_label_bound_to_fid k f label then 1 else 0)"

subsection \<open>Well-formed registries\<close>

definition wf_entry :: "PolicyEntry \<Rightarrow> bool" where
  "wf_entry e \<longleftrightarrow> length (fid e) < MAX_FID_LEN \<and> length (policy_mrenclave e) = 32 \<and>
     length (bound_labels e) \<le> 4 \<and> (\<forall>l \<in> set (bound_labels e). length l < LABEL_LEN)"

definition wf_registry :: "kms \<Rightarrow> bool" where
  "wf_registry k \<longleftrightarrow> length (g_policy_registry k) \<le> MAX_POLICY_ENTRIES \<and>
     (\<forall>e \<in> set (g_policy_registry k). wf_entry e)"

text \<open>The abstract registry: the policy and the labels of an FID.\<close>

definition policy_of :: "kms \<Rightarrow> bytes \<Rightarrow> bytes option" where
  "policy_of k f =
     (case find_policy k f of
        None \<Rightarrow> None
      | Some i \<Rightarrow> let e = g_policy_registry k ! i in
          if policy_set e then Some (policy_mrenclave e) else None)"

definition labels_of :: "kms \<Rightarrow> bytes \<Rightarrow> bytes list" where
  "labels_of k f =
     (case find_policy k f of None \<Rightarrow> [] | Some i \<Rightarrow> bound_labels (g_policy_registry k ! i))"

lemma find_policy_from_Some:
  "find_policy_from i es f = Some j \<Longrightarrow>
   i \<le> j \<and> j < i + length es \<and> fid (es ! (j - i)) = f \<and> (\<forall>n < j - i. fid (es ! n) \<noteq> f)"
proof (induction es arbitrary: i)
  case (Cons e es)
  show ?case
  proof (cases "fid e = f")
    case False
    with Cons.prems have "find_policy_from (Suc i) es f = Some j" by simp
    from Cons.IH [OF this] False show ?thesis
      by (auto simp: nth_Cons less_Suc_eq_le split: nat.splits) (metis Suc_diff_Suc Suc_le_lessD diff_Suc_Suc less_Suc_eq nth_Cons_Suc)+
  qed (use Cons.prems in auto)
qed simp

lemma find_policy_from_None:
  "find_policy_from i es f = None \<longleftrightarrow> (\<forall>e \<in> set es. fid e \<noteq> f)"
  by (induction es arbitrary: i) auto

lemma find_policy_from_append:
  "find_policy_from i (es @ fs) f =
     (case find_policy_from i es f of Some j \<Rightarrow> Some j | None \<Rightarrow> find_policy_from (i + length es) fs f)"
  by (induction es arbitrary: i) (auto split: option.splits)

text \<open>Updating an entry without renaming it does not change the scan.\<close>

lemma find_policy_from_update:
  "map fid es = map fid es' \<Longrightarrow> find_policy_from i es f = find_policy_from i es' f"
  by (induction es es' arbitrary: i rule: list_induct2') auto

lemma map_fid_update [simp]: "fid e = fid (es ! i) \<Longrightarrow> map fid (es[i := e]) = map fid es"
  by (cases "i < length es") (simp_all add: map_update list_update_same_conv list_update_beyond)

text \<open>The entry of an FID, the view of the registry that its clients have.\<close>

definition entry_of :: "kms \<Rightarrow> bytes \<Rightarrow> PolicyEntry option" where
  "entry_of k f = map_option (\<lambda>i. g_policy_registry k ! i) (find_policy k f)"

lemma policy_of_entry:
  "policy_of k f = (case entry_of k f of None \<Rightarrow> None
     | Some e \<Rightarrow> if policy_set e then Some (policy_mrenclave e) else None)"
  by (simp add: policy_of_def entry_of_def Let_def split: option.splits)

lemma labels_of_entry:
  "labels_of k f = (case entry_of k f of None \<Rightarrow> [] | Some e \<Rightarrow> bound_labels e)"
  by (simp add: labels_of_def entry_of_def split: option.splits)

lemma is_label_bound_iff: "is_label_bound_to_fid k f l \<longleftrightarrow> l \<in> set (labels_of k f)"
  by (simp add: is_label_bound_to_fid_def labels_of_def split: option.splits)

lemma entry_of_wf: "wf_registry k \<Longrightarrow> entry_of k f = Some e \<Longrightarrow> wf_entry e \<and> fid e = f"
  using find_policy_from_Some [of 0 "g_policy_registry k" f]
  by (auto simp: entry_of_def find_policy_def wf_registry_def)

lemma entry_of_long: "wf_registry k \<Longrightarrow> MAX_FID_LEN \<le> length f \<Longrightarrow> entry_of k f = None"
  using entry_of_wf [of k f] by (cases "entry_of k f") (auto simp: wf_entry_def)

text \<open>
  What storing an entry at the index \<open>entry_for\<close> returns does to every FID: the FID's own entry
  is the stored one, and an entry that existed is otherwise untouched.
\<close>

lemma entry_for_cases:
  assumes "entry_for k f = Some (i, reg)"
  obtains (found) "find_policy k f = Some i" "reg = g_policy_registry k"
  | (created) "find_policy k f = None" "i = length (g_policy_registry k)"
      "reg = g_policy_registry k @ [new_entry f]" "length (g_policy_registry k) < MAX_POLICY_ENTRIES"
  using assms by (auto simp: entry_for_def split: option.splits if_splits)

lemma entry_for_index: "entry_for k f = Some (i, reg) \<Longrightarrow> i < length reg"
  using find_policy_from_Some [of 0 "g_policy_registry k" f i]
  by (auto simp: find_policy_def elim!: entry_for_cases)

lemma store_find:
  assumes "entry_for k f = Some (i, reg)" "fid e = fid (reg ! i)"
  shows "find_policy (k\<lparr>g_policy_registry := reg[i := e]\<rparr>) g =
    (case find_policy k g of Some j \<Rightarrow> Some j
     | None \<Rightarrow> if find_policy k f = None \<and> take (MAX_FID_LEN - 1) f = g then Some i else None)"
proof -
  have "find_policy (k\<lparr>g_policy_registry := reg[i := e]\<rparr>) g = find_policy_from 0 reg g"
    using assms(2) by (auto simp: find_policy_def intro: find_policy_from_update)
  with assms(1) show ?thesis
    by (auto simp: find_policy_def find_policy_from_append new_entry_def
        split: option.splits elim!: entry_for_cases)
qed

lemma store_entry_other:
  assumes "entry_for k f = Some (i, reg)" "fid e = fid (reg ! i)" "entry_of k g = Some e0"
  shows "entry_of (k\<lparr>g_policy_registry := reg[i := e]\<rparr>) g =
    Some (if find_policy k g = Some i then e else e0)"
proof -
  from assms(3) obtain j where j: "find_policy k g = Some j" "e0 = g_policy_registry k ! j"
    by (auto simp: entry_of_def)
  then have "j < length (g_policy_registry k)"
    using find_policy_from_Some [of 0 "g_policy_registry k" g j] by (auto simp: find_policy_def)
  with j assms(1) entry_for_index [OF assms(1)] show ?thesis
    by (auto simp: entry_of_def store_find [OF assms(1,2)] nth_append elim!: entry_for_cases)
qed

lemma store_entry:
  assumes "entry_for k f = Some (i, reg)" "fid e = fid (reg ! i)" "length f < MAX_FID_LEN"
  shows "entry_of (k\<lparr>g_policy_registry := reg[i := e]\<rparr>) g = (if g = f then Some e else entry_of k g)"
proof (cases "find_policy k g")
  case None
  then have "entry_of k g = None" by (simp add: entry_of_def)
  with None assms(1,3) entry_for_index [OF assms(1)] show ?thesis
    by (auto simp: entry_of_def store_find [OF assms(1,2)] elim!: entry_for_cases)
next
  case (Some j)
  then have g: "fid (g_policy_registry k ! j) = g"
    using find_policy_from_Some [of 0 "g_policy_registry k" g j] by (auto simp: find_policy_def)
  from Some have e: "entry_of k g = Some (g_policy_registry k ! j)" by (simp add: entry_of_def)
  have "j = i \<longleftrightarrow> g = f"
    using assms(1) Some g find_policy_from_Some [of 0 "g_policy_registry k" f i]
      find_policy_from_Some [of 0 "g_policy_registry k" g j]
    by (auto simp: find_policy_def elim!: entry_for_cases)
  with Some e store_entry_other [OF assms(1,2) e] show ?thesis by auto
qed

lemma wf_store:
  assumes "wf_registry k" "entry_for k f = Some (i, reg)" "wf_entry e"
  shows "wf_registry (k\<lparr>g_policy_registry := reg[i := e]\<rparr>)"
  using assms set_update_subset_insert [of reg i e]
  by (auto simp: wf_registry_def new_entry_def wf_entry_def kms_consts elim!: entry_for_cases)

lemma entry_for_wf:
  assumes "wf_registry k" "entry_for k f = Some (i, reg)"
  shows "wf_entry (reg ! i)"
proof -
  have "wf_registry (k\<lparr>g_policy_registry := reg[i := reg ! i]\<rparr>) \<or> reg ! i \<in> set reg"
    using entry_for_index [OF assms(2)] by simp
  moreover have "\<forall>e \<in> set reg. wf_entry e"
    using assms by (auto simp: wf_registry_def new_entry_def wf_entry_def kms_consts elim!: entry_for_cases)
  ultimately show ?thesis using entry_for_index [OF assms(2)] by simp
qed

subsection \<open>What the registry operations do to the abstract registry\<close>

lemma entry_for_entry:
  assumes "entry_for k f = Some (i, reg)" "length f < MAX_FID_LEN"
  shows "reg ! i = (case entry_of k f of None \<Rightarrow> new_entry f | Some e \<Rightarrow> e)"
  using assms by (auto simp: entry_of_def nth_append elim!: entry_for_cases)

lemma entry_for_None:
  "entry_for k f = None \<longleftrightarrow> entry_of k f = None \<and> MAX_POLICY_ENTRIES \<le> length (g_policy_registry k)"
  by (simp add: entry_for_def entry_of_def split: option.splits)

definition room_for :: "kms \<Rightarrow> bytes \<Rightarrow> bool" where
  "room_for k f \<longleftrightarrow> entry_of k f \<noteq> None \<or> length (g_policy_registry k) < MAX_POLICY_ENTRIES"

lemma entry_for_room: "room_for k f \<longleftrightarrow> (\<exists>i reg. entry_for k f = Some (i, reg))"
  using entry_for_None [of k f] by (cases "entry_for k f") (auto simp: room_for_def)

lemma new_entry_fields [simp]:
  "policy_set (new_entry f) = False" "bound_labels (new_entry f) = []"
  "fid (new_entry f) = take (MAX_FID_LEN - 1) f"
  by (simp_all add: new_entry_def)

lemma register_cases:
  assumes "register_policy_fid k f m = (r, k')"
  obtains (full) "r = -1" "k' = k" "\<not> room_for k f"
  | (taken) i reg where "r = -1" "k' = k" "entry_for k f = Some (i, reg)" "policy_set (reg ! i)"
  | (set) i reg where "r = 0" "entry_for k f = Some (i, reg)" "\<not> policy_set (reg ! i)"
      "k' = k\<lparr>g_policy_registry :=
         reg[i := (reg ! i)\<lparr>policy_mrenclave := take 32 m, policy_set := True\<rparr>]\<rparr>"
  using assms by (auto simp: register_policy_fid_def entry_for_room split: option.splits if_splits)

lemma register_wf:
  assumes "wf_registry k" "length m = 32" "register_policy_fid k f m = (r, k')"
  shows "wf_registry k'"
  using assms(3)
proof (cases rule: register_cases)
  case (set i reg)
  with entry_for_wf [OF assms(1) set(2)] assms(2) show ?thesis
    by (auto intro!: wf_store [OF assms(1) set(2)] simp: wf_entry_def)
qed (use assms in simp_all)

lemma register_entry_other:
  assumes "register_policy_fid k f m = (r, k')" "entry_of k g = Some e" "policy_set e"
  shows "entry_of k' g = Some e"
  using assms(1)
proof (cases rule: register_cases)
  case (set i reg)
  have "find_policy k g \<noteq> Some i"
  proof
    assume g: "find_policy k g = Some i"
    then have "e = g_policy_registry k ! i" using assms(2) by (simp add: entry_of_def)
    moreover have "i < length (g_policy_registry k)"
      using g find_policy_from_Some [of 0 "g_policy_registry k" g i] by (simp add: find_policy_def)
    ultimately show False using set(2,3) assms(3) by (auto elim!: entry_for_cases)
  qed
  then show ?thesis using store_entry_other [OF set(2) _ assms(2)] set(4) by simp
qed (use assms in simp_all)

lemma register_keeps_policy:
  "register_policy_fid k f m = (r, k') \<Longrightarrow> policy_of k g = Some w \<Longrightarrow> policy_of k' g = Some w"
  using register_entry_other [of k f m r k' g]
  by (auto simp: policy_of_entry split: option.splits if_splits)

lemma register_taken: "policy_of k f = Some w \<Longrightarrow> register_policy_fid k f m = (-1, k)"
  by (auto simp: register_policy_fid_def policy_of_def entry_for_def Let_def split: option.splits if_splits)

lemma register_failed: "register_policy_fid k f m = (r, k') \<Longrightarrow> r \<noteq> 0 \<Longrightarrow> k' = k"
  by (erule register_cases) simp_all

text \<open>The effect of a registration on the abstract registry.\<close>

lemma register_effect:
  assumes "wf_registry k" "length f < 128" "length m = 32" "register_policy_fid k f m = (r, k')"
  shows "(r = 0 \<longleftrightarrow> policy_of k f = None \<and> room_for k f)
    \<and> policy_of k' = (if r = 0 then (policy_of k)(f \<mapsto> m) else policy_of k)
    \<and> labels_of k' = labels_of k \<and> wf_registry k'"
proof -
  have l: "length f < MAX_FID_LEN" using assms(2) by (simp add: MAX_FID_LEN_def)
  note w = register_wf [OF assms(1,3,4)]
  from assms(4) show ?thesis
  proof (cases rule: register_cases)
    case full
    with w show ?thesis by simp
  next
    case (taken i reg)
    then have "policy_of k f \<noteq> None"
      using entry_for_entry [OF taken(3) l] by (auto simp: policy_of_entry split: option.splits)
    with taken w show ?thesis by simp
  next
    case (set i reg)
    have st: "entry_of k' g = (if g = f then
        Some ((reg ! i)\<lparr>policy_mrenclave := m, policy_set := True\<rparr>) else entry_of k g)" for g
      using store_entry [OF set(2) _ l] set(4) assms(3) by simp
    have "policy_of k f = None" and "room_for k f"
      using set(2,3) entry_for_entry [OF set(2) l] entry_for_room
      by (auto simp: policy_of_entry split: option.splits)
    moreover have "policy_of k' = (policy_of k)(f \<mapsto> m)" by (auto simp: policy_of_entry st)
    moreover have "labels_of k' = labels_of k"
      using entry_for_entry [OF set(2) l] by (auto simp: labels_of_entry st fun_eq_iff split: option.splits)
    ultimately show ?thesis using set(1) w by simp
  qed
qed

text \<open>
  C22: registering a policy refines a write-once update of the abstract registry: it succeeds
  exactly when the FID has no policy and there is room, it then sets that policy and no other,
  and it never touches a label.
\<close>

theorem register_policy_refines:
  assumes "wf_registry k" "length f < 128" "length m = 32" "register_policy_fid k f m = (r, k')"
  shows "(r = 0 \<longleftrightarrow> policy_of k f = None \<and> room_for k f)
    \<and> policy_of k' = (if r = 0 then (policy_of k)(f \<mapsto> m) else policy_of k)
    \<and> labels_of k' = labels_of k \<and> wf_registry k'"
  using assms by (rule register_effect)

theorem register_policy_refines_witness:
  "policy_of (snd (register_policy_fid kms_boot (lit ''f1'') (replicate 32 9))) (lit ''f1'') = Some (replicate 32 9)"
proof -
  let ?r = "register_policy_fid kms_boot (lit ''f1'') (replicate 32 9)"
  have "fst ?r = 0"
    by (simp add: register_policy_fid_def entry_for_def find_policy_def kms_boot_def kms_consts)
  moreover have "wf_registry kms_boot" by (simp add: wf_registry_def kms_boot_def)
  ultimately show ?thesis
    using register_policy_refines [of kms_boot "lit ''f1''" "replicate 32 9" "fst ?r" "snd ?r"] by simp
qed

lemma bind_cases:
  assumes "bind_label_to_fid k f l = (r, k')"
  obtains (full) "r = -1" "k' = k" "\<not> room_for k f"
  | (same) i reg where "entry_for k f = Some (i, reg)" "k' = k\<lparr>g_policy_registry := reg\<rparr>"
      "r = (if l \<in> set (bound_labels (reg ! i)) then 0 else -1)"
      "l \<in> set (bound_labels (reg ! i)) \<or> 4 \<le> length (bound_labels (reg ! i))"
  | (new) i reg where "r = 0" "entry_for k f = Some (i, reg)"
      "l \<notin> set (bound_labels (reg ! i))" "length (bound_labels (reg ! i)) < 4"
      "k' = k\<lparr>g_policy_registry :=
         reg[i := (reg ! i)\<lparr>bound_labels := bound_labels (reg ! i) @ [take (LABEL_LEN - 1) l]\<rparr>]\<rparr>"
  using assms
  by (auto simp: bind_label_to_fid_def Let_def entry_for_room split: option.splits if_splits)

text \<open>In the case \<open>same\<close> the entry was found, since a created one has no labels.\<close>

lemma bind_same_state:
  assumes "entry_for k f = Some (i, reg)"
    "l \<in> set (bound_labels (reg ! i)) \<or> 4 \<le> length (bound_labels (reg ! i))"
  shows "k\<lparr>g_policy_registry := reg\<rparr> = k"
  using assms by (auto elim!: entry_for_cases)

lemma bind_wf:
  assumes "wf_registry k" "bind_label_to_fid k f l = (r, k')"
  shows "wf_registry k'"
  using assms(2)
proof (cases rule: bind_cases)
  case (new i reg)
  with entry_for_wf [OF assms(1) new(2)] show ?thesis
    by (auto intro!: wf_store [OF assms(1) new(2)] simp: wf_entry_def LABEL_LEN_def)
qed (use assms bind_same_state in simp_all)

lemma bind_entry_other:
  assumes "bind_label_to_fid k f l = (r, k')" "entry_of k g = Some e"
  shows "\<exists>e'. entry_of k' g = Some e' \<and> policy_set e' = policy_set e \<and>
    policy_mrenclave e' = policy_mrenclave e \<and> set (bound_labels e) \<subseteq> set (bound_labels e')"
  using assms(1)
proof (cases rule: bind_cases)
  case (new i reg)
  have "e = reg ! i" if "find_policy k g = Some i"
  proof -
    have "i < length (g_policy_registry k)"
      using that find_policy_from_Some [of 0 "g_policy_registry k" g i] by (simp add: find_policy_def)
    then show ?thesis using that new(2) assms(2) by (auto simp: entry_of_def elim!: entry_for_cases)
  qed
  then show ?thesis using store_entry_other [OF new(2) _ assms(2)] new(5) by auto
qed (use assms bind_same_state in auto)

lemma bind_keeps_policy:
  "bind_label_to_fid k f l = (r, k') \<Longrightarrow> policy_of k g = Some w \<Longrightarrow> policy_of k' g = Some w"
  by (auto simp: policy_of_entry split: option.splits if_splits dest: bind_entry_other)

lemma bind_keeps_labels:
  assumes "bind_label_to_fid k f l = (r, k')"
  shows "set (labels_of k g) \<subseteq> set (labels_of k' g)"
  using bind_entry_other [OF assms, of g]
  by (cases "entry_of k g") (auto simp: labels_of_entry split: option.splits)

text \<open>The effect of a binding on the abstract registry.\<close>

lemma bind_effect:
  assumes "wf_registry k" "length f < 128" "bind_label_to_fid k f l = (r, k')"
  shows "(r = 0 \<longleftrightarrow> l \<in> set (labels_of k f) \<or> (room_for k f \<and> length (labels_of k f) < 4))
    \<and> labels_of k' = (if r = 0 \<and> l \<notin> set (labels_of k f)
         then (labels_of k)(f := labels_of k f @ [take 64 l]) else labels_of k)
    \<and> policy_of k' = policy_of k \<and> wf_registry k'"
proof -
  have len: "length f < MAX_FID_LEN" using assms(2) by (simp add: MAX_FID_LEN_def)
  note w = bind_wf [OF assms(1,3)]
  from assms(3) show ?thesis
  proof (cases rule: bind_cases)
    case full
    then have "labels_of k f = []" by (auto simp: room_for_def labels_of_entry split: option.splits)
    with full w show ?thesis by simp
  next
    case (same i reg)
    have "labels_of k f = bound_labels (reg ! i)"
      using entry_for_entry [OF same(1) len] by (auto simp: labels_of_entry split: option.splits)
    with same bind_same_state [OF same(1,4)] w show ?thesis by auto
  next
    case (new i reg)
    have lab: "labels_of k f = bound_labels (reg ! i)"
      using entry_for_entry [OF new(2) len] by (auto simp: labels_of_entry split: option.splits)
    have st: "entry_of k' g = (if g = f then Some ((reg ! i)\<lparr>bound_labels :=
        labels_of k f @ [take 64 l]\<rparr>) else entry_of k g)" for g
      using store_entry [OF new(2) _ len] new(5) lab by (simp add: LABEL_LEN_def)
    have "room_for k f" using new(2) entry_for_room by blast
    moreover have "policy_of k' = policy_of k"
      using entry_for_entry [OF new(2) len] by (auto simp: policy_of_entry st fun_eq_iff split: option.splits)
    moreover have "labels_of k' = (labels_of k)(f := labels_of k f @ [take 64 l])"
      by (auto simp: labels_of_entry st)
    ultimately show ?thesis using new lab w by simp
  qed
qed

text \<open>
  C23: binding a label refines a bounded insertion into the FID's label list: a label already
  bound is accepted without change, a new one is appended (cut to 64 bytes) while fewer than
  four are bound and there is room for the FID, and every other case is refused with nothing
  changed. No policy changes.
\<close>

theorem bind_label_refines:
  assumes "wf_registry k" "length f < 128" "bind_label_to_fid k f l = (r, k')"
  shows "(r = 0 \<longleftrightarrow> l \<in> set (labels_of k f) \<or> (room_for k f \<and> length (labels_of k f) < 4))
    \<and> labels_of k' = (if r = 0 \<and> l \<notin> set (labels_of k f)
         then (labels_of k)(f := labels_of k f @ [take 64 l]) else labels_of k)
    \<and> policy_of k' = policy_of k \<and> wf_registry k'"
  using assms by (rule bind_effect)

theorem bind_label_refines_witness:
  "labels_of (snd (bind_label_to_fid kms_boot (lit ''f1'') (lit ''l1''))) (lit ''f1'') = [lit ''l1'']"
proof -
  let ?r = "bind_label_to_fid kms_boot (lit ''f1'') (lit ''l1'')"
  have "wf_registry kms_boot" by (simp add: wf_registry_def kms_boot_def)
  moreover have "labels_of kms_boot (lit ''f1'') = []" "room_for kms_boot (lit ''f1'')"
    by (simp_all add: labels_of_def room_for_def find_policy_def kms_boot_def kms_consts)
  ultimately show ?thesis
    using bind_label_refines [of kms_boot "lit ''f1''" "lit ''l1''" "fst ?r" "snd ?r"]
    by (simp add: lit_def)
qed

subsection \<open>First writer wins\<close>

text \<open>
  The interface of a write-once map with a failure code, and what its clients get from it: over
  any sequence of writes the first accepted value of a key stays, and every later write of that
  key is refused without effect.
\<close>

locale write_once_map =
  fixes get :: "'s \<Rightarrow> 'k \<Rightarrow> 'v option"
    and put :: "'s \<Rightarrow> 'k \<Rightarrow> 'v \<Rightarrow> int \<times> 's"
    and inv :: "'s \<Rightarrow> bool"
    and key :: "'k \<Rightarrow> bool"
    and valid :: "'v \<Rightarrow> bool"
  assumes put_inv: "inv s \<Longrightarrow> valid v \<Longrightarrow> inv (snd (put s k v))"
    and put_new: "inv s \<Longrightarrow> key k \<Longrightarrow> valid v \<Longrightarrow> put s k v = (0, s') \<Longrightarrow> get s' k = Some v"
    and put_taken: "get s k = Some w \<Longrightarrow> put s k v = (-1, s)"
    and put_keeps: "get s k = Some w \<Longrightarrow> get (snd (put s k' v)) k = Some w"
begin

lemma writes_keep:
  "get s k = Some w \<Longrightarrow> get (fold (\<lambda>(k', v) s. snd (put s k' v)) ops s) k = Some w"
proof (induction ops arbitrary: s)
  case (Cons op ops)
  obtain k' v where op: "op = (k', v)" by (cases op)
  from Cons.prems have "get (snd (put s k' v)) k = Some w" by (rule put_keeps)
  with Cons.IH op show ?case by simp
qed simp

lemma first_writer_wins:
  assumes "inv s" "key k" "valid v" "put s k v = (0, s1)"
    and "s2 = fold (\<lambda>(k', v) s. snd (put s k' v)) ops s1"
  shows "get s2 k = Some v \<and> put s2 k u = (-1, s2)"
proof -
  from assms(1-4) have "get s1 k = Some v" by (rule put_new)
  then have "get s2 k = Some v" unfolding assms(5) by (rule writes_keep)
  then show ?thesis using put_taken by blast
qed

end

interpretation policies: write_once_map policy_of register_policy_fid wf_registry
  "\<lambda>f. length f < 128" "\<lambda>m. length m = 32"
proof unfold_locales
  show "wf_registry (snd (register_policy_fid k f m))" if "wf_registry k" "length m = 32" for k f m
    using that by (metis register_wf prod.collapse)
  show "policy_of k' f = Some m"
    if "wf_registry k" "length f < 128" "length m = 32" "register_policy_fid k f m = (0, k')" for k f m k'
    using register_effect [OF that] by simp
  show "register_policy_fid k f m = (-1, k)" if "policy_of k f = Some w" for k f w m
    using that by (rule register_taken)
  show "policy_of (snd (register_policy_fid k g m)) f = Some w" if "policy_of k f = Some w" for k f w g m
    using that register_keeps_policy by (metis prod.collapse)
qed

subsection \<open>Attestation gating\<close>

text \<open>What the two gates of every key release decide, over the abstract registry.\<close>

lemma verify_ra_iff:
  "verify_ra_for_fid k f \<longleftrightarrow>
     (\<forall>m. policy_of k f = Some m \<longrightarrow>
        g_ra_verified k \<and> strncmp_eq 128 (g_verified_fid k) f \<and> memcmp_eq (g_verified_mrenclave k) m 32)"
  by (auto simp: verify_ra_for_fid_def policy_of_def Let_def MAX_FID_LEN_def split: option.splits if_splits)

lemma verify_binding_iff:
  "verify_report_data_binding s k pk \<longleftrightarrow>
     g_ra_verified k \<and> (\<exists>h. sha256_msg s (take 64 pk) = Some h \<and> memcmp_eq h (g_verified_report_data k) 32)"
  by (auto simp: verify_report_data_binding_def split: option.splits)

lemma reset_ra_fields [simp]:
  "g_ra_verified (reset_ra k) = False" "g_policy_registry (reset_ra k) = g_policy_registry k"
  "g_msk (reset_ra k) = g_msk k" "g_msk_initialized (reset_ra k) = g_msk_initialized k"
  "reset_ra (reset_ra k) = reset_ra k"
  by (simp_all add: reset_ra_def)

lemma registry_frame:
  assumes "g_policy_registry k' = g_policy_registry k"
  shows "entry_of k' f = entry_of k f" "policy_of k' f = policy_of k f" "labels_of k' f = labels_of k f"
    "wf_registry k' = wf_registry k" "find_policy k' f = find_policy k f"
  using assms
  by (simp_all add: entry_of_def policy_of_def labels_of_def find_policy_def wf_registry_def
      split: option.splits)

lemma verify_quote_registry [simp]:
  "g_policy_registry (snd (ecall_verify_quote_for_fid k f q)) = g_policy_registry k"
  by (simp add: ecall_verify_quote_for_fid_def Let_def split: option.splits)

text \<open>The measurement and the report data an accepted quote carries.\<close>

definition quote_mrenclave :: "bytes \<Rightarrow> bytes" where
  "quote_mrenclave q = slice 112 32 q"

definition quote_report_data :: "bytes \<Rightarrow> bytes" where
  "quote_report_data q = slice 368 64 q"

lemma verify_quote_effect:
  assumes "ecall_verify_quote_for_fid k f_arg q_arg = (r, k')" "wf_registry k"
  shows "(r = 0 \<longleftrightarrow> (\<exists>f q. f_arg = Some f \<and> q_arg = Some q \<and> 432 \<le> length q \<and>
            (\<forall>m. policy_of k f = Some m \<longrightarrow> quote_mrenclave q = m)))
    \<and> (r \<noteq> 0 \<longrightarrow> k' = reset_ra k)
    \<and> (r = 0 \<longrightarrow> g_ra_verified k' \<and> g_verified_fid k' = take 127 (the f_arg) \<and>
         g_verified_mrenclave k' = quote_mrenclave (the q_arg) \<and>
         g_verified_report_data k' = quote_report_data (the q_arg) \<and>
         g_policy_registry k' = g_policy_registry k)"
proof (cases "\<exists>f q. f_arg = Some f \<and> q_arg = Some q \<and> 432 \<le> length q")
  case False
  then have "(r, k') = (-1, reset_ra k)"
    using assms(1)
    by (auto simp: ecall_verify_quote_for_fid_def Let_def kms_consts split: option.splits if_splits)
  with False show ?thesis by auto
next
  case True
  then obtain f q where a: "f_arg = Some f" "q_arg = Some q" and q: "432 \<le> length q" by blast
  define k1 where "k1 = (reset_ra k)\<lparr>g_verified_mrenclave := quote_mrenclave q,
    g_verified_report_data := quote_report_data q, g_verified_fid := take 127 f\<rparr>"
  have reg: "g_policy_registry k1 = g_policy_registry k" by (simp add: k1_def)
  have lq: "length (quote_mrenclave q) = 32" using q by (simp add: quote_mrenclave_def)
  have "(r, k') = (case policy_of k f of
      Some m \<Rightarrow> if quote_mrenclave q = m then (0, k1\<lparr>g_ra_verified := True\<rparr>) else (-1, reset_ra k)
    | None \<Rightarrow> (0, k1\<lparr>g_ra_verified := True\<rparr>))"
  proof (cases "find_policy k f")
    case None
    then show ?thesis
      using assms(1) q a reg registry_frame(5) [OF reg, of f]
      by (simp add: ecall_verify_quote_for_fid_def Let_def kms_consts k1_def policy_of_def
          quote_mrenclave_def quote_report_data_def)
  next
    case (Some i)
    define m where "m = policy_mrenclave (g_policy_registry k ! i)"
    have "entry_of k f = Some (g_policy_registry k ! i)" using Some by (simp add: entry_of_def)
    from entry_of_wf [OF assms(2) this] have "length m = 32" by (simp add: wf_entry_def m_def)
    with lq have mm: "memcmp_eq (quote_mrenclave q) m 32 \<longleftrightarrow> quote_mrenclave q = m"
      by (simp add: memcmp_eq_exact)
    have "reset_ra k1 = reset_ra k" by (simp add: reset_ra_def k1_def)
    then show ?thesis
      using assms(1) q a Some reg registry_frame(5) [OF reg, of f] mm
      by (auto simp: ecall_verify_quote_for_fid_def Let_def kms_consts k1_def policy_of_def m_def
          quote_mrenclave_def quote_report_data_def split: if_splits)
  qed
  then show ?thesis using a q by (auto simp: k1_def split: option.splits if_splits)
qed

text \<open>
  C21: verification of a quote for an FID. It accepts exactly the quotes of at least 432 bytes
  whose measurement is the policy of the FID, if it has one; then the state is bound to that
  FID, measurement and report data. Whatever it refuses leaves no verified state behind, even
  if an earlier quote had been accepted.
\<close>

theorem verify_quote_for_fid_spec:
  assumes "ecall_verify_quote_for_fid k f_arg q_arg = (r, k')" "wf_registry k"
  shows "(r = 0 \<longleftrightarrow> (\<exists>f q. f_arg = Some f \<and> q_arg = Some q \<and> 432 \<le> length q \<and>
            (\<forall>m. policy_of k f = Some m \<longrightarrow> quote_mrenclave q = m)))
    \<and> (r \<noteq> 0 \<longrightarrow> k' = reset_ra k)
    \<and> (r = 0 \<longrightarrow> g_ra_verified k' \<and> g_verified_fid k' = take 127 (the f_arg) \<and>
         g_verified_mrenclave k' = quote_mrenclave (the q_arg) \<and>
         g_verified_report_data k' = quote_report_data (the q_arg) \<and>
         g_policy_registry k' = g_policy_registry k)"
  using assms by (rule verify_quote_effect)

theorem verify_quote_for_fid_spec_witness:
  "g_ra_verified (snd (ecall_verify_quote_for_fid kms_boot (Some (lit ''f1'')) (Some (replicate 432 7))))"
proof -
  let ?r = "ecall_verify_quote_for_fid kms_boot (Some (lit ''f1'')) (Some (replicate 432 7))"
  have "wf_registry kms_boot" by (simp add: wf_registry_def kms_boot_def)
  moreover have "policy_of kms_boot (lit ''f1'') = None"
    by (simp add: policy_of_def find_policy_def kms_boot_def)
  ultimately show ?thesis
    using verify_quote_for_fid_spec [of kms_boot "Some (lit ''f1'')" "Some (replicate 432 7)" "fst ?r" "snd ?r"]
    by simp
qed

text \<open>
  An accepted quote satisfies the attestation gate of its own FID, for FIDs the registry
  can hold: what \<open>ecall_verify_quote_for_fid\<close> accepts, \<open>verify_ra_for_fid\<close> lets through, until
  the state changes.
\<close>

theorem accepted_quote_passes_gate:
  assumes "ecall_verify_quote_for_fid k (Some f) (Some q) = (0, k')" "wf_registry k" "length f < 128"
  shows "verify_ra_for_fid k' f"
proof -
  note sp = verify_quote_effect [OF assms(1,2)]
  then have reg: "g_policy_registry k' = g_policy_registry k" by simp
  show ?thesis
    using sp registry_frame(2) [OF reg] assms(3) by (auto simp: verify_ra_iff memcmp_eq_def)
qed

theorem accepted_quote_passes_gate_witness:
  "verify_ra_for_fid (snd (ecall_verify_quote_for_fid kms_boot (Some (lit ''f1'')) (Some (replicate 432 7)))) (lit ''f1'')"
proof -
  have r: "ecall_verify_quote_for_fid kms_boot (Some (lit ''f1'')) (Some (replicate 432 7)) =
      (0, snd (ecall_verify_quote_for_fid kms_boot (Some (lit ''f1'')) (Some (replicate 432 7))))"
    by (simp add: ecall_verify_quote_for_fid_def kms_boot_def find_policy_def reset_ra_def kms_consts Let_def)
  show ?thesis
    by (rule accepted_quote_passes_gate [OF r]) (simp_all add: wf_registry_def kms_boot_def)
qed

text \<open>
  C27: an FID of 128 bytes or more can be given a policy (the registration is accepted while
  there is room) but never has one: the stored name is cut to 127 bytes and the lookup compares
  the whole name, so the attestation gate of that FID stays open with no quote verified, and a
  second, different registration is accepted too. The cut name, an FID of its own, receives the
  policy.
\<close>

theorem long_fid_policy_not_enforced:
  assumes "wf_registry k" "128 \<le> length f" "length m = 32"
    and "length (g_policy_registry k) < 128"
    and "register_policy_fid k f m = (r, k1)"
  shows "r = 0 \<and> policy_of k1 f = None \<and> verify_ra_for_fid k1 f
    \<and> (entry_of k (take 127 f) = None \<longrightarrow> policy_of k1 (take 127 f) = Some m)
    \<and> (length (g_policy_registry k1) < 128 \<longrightarrow> fst (register_policy_fid k1 f m') = 0)"
proof -
  have none: "find_policy k' f = None" if "wf_registry k'" for k'
    using entry_of_long [OF that, of f] assms(2) by (simp add: entry_of_def MAX_FID_LEN_def)
  have ef: "entry_for k' f = Some (length (g_policy_registry k'), g_policy_registry k' @ [new_entry f])"
    if "wf_registry k'" "length (g_policy_registry k') < 128" for k'
    using none [OF that(1)] that(2) by (simp add: entry_for_def MAX_POLICY_ENTRIES_def)
  have ok: "fst (register_policy_fid k' f x) = 0"
    if "wf_registry k'" "length (g_policy_registry k') < 128" for k' x
    using ef [OF that] by (simp add: register_policy_fid_def)
  have w: "wf_registry k1" by (rule register_wf [OF assms(1,3,5)])
  have "entry_of k1 (take 127 f) =
      Some ((new_entry f)\<lparr>policy_mrenclave := m, policy_set := True\<rparr>)" if "entry_of k (take 127 f) = None"
  proof -
    have fp: "find_policy k (take 127 f) = None" using that by (simp add: entry_of_def)
    have k1: "k1 = k\<lparr>g_policy_registry := (g_policy_registry k @ [new_entry f])
        [length (g_policy_registry k) := (new_entry f)\<lparr>policy_mrenclave := m, policy_set := True\<rparr>]\<rparr>"
      using assms(3,5) ef [OF assms(1,4)] by (simp add: register_policy_fid_def)
    show ?thesis unfolding k1 entry_of_def
      using store_find [OF ef [OF assms(1,4)], of "(new_entry f)\<lparr>policy_mrenclave := m, policy_set := True\<rparr>"
          "take 127 f"] fp none [OF assms(1)]
      by (simp add: MAX_FID_LEN_def)
  qed
  moreover have "policy_of k1 f = None" using none [OF w] by (simp add: policy_of_def)
  ultimately show ?thesis
    using ok [OF assms(1,4), of m] ok [OF w] assms(5)
    by (auto simp: verify_ra_iff policy_of_entry)
qed

theorem long_fid_policy_not_enforced_witness:
  "verify_ra_for_fid (snd (register_policy_fid kms_boot (replicate 128 65) (replicate 32 9))) (replicate 128 65)"
  using long_fid_policy_not_enforced [of kms_boot "replicate 128 65" "replicate 32 9"
      "fst (register_policy_fid kms_boot (replicate 128 65) (replicate 32 9))"
      "snd (register_policy_fid kms_boot (replicate 128 65) (replicate 32 9))"]
  by (simp add: wf_registry_def kms_boot_def)

end
