(* ===== verification/KmsKeys.thy ===== *)
theory KmsKeys
  imports KmsPolicy
begin

text \<open>
  Master secret and key release of the KMS enclave: \<open>ecall_init_kms\<close>, \<open>derive_key_pair\<close>,
  \<open>ecall_get_public_key\<close>, \<open>ecall_get_key\<close>, \<open>derive_label_key_internal\<close> and
  \<open>ecall_derive_keys_batch\<close>. None is a nonzero return; Some is return 0 with what is written to
  the output buffer. None of these but \<open>ecall_init_kms\<close> changes the state.
\<close>

definition DEFAULT_FID :: bytes where
  "DEFAULT_FID = lit ''default_fid''"

subsection \<open>Initialisation\<close>

definition unseal_msk :: "sealing \<Rightarrow> env \<Rightarrow> bytes option \<Rightarrow> bytes option" where
  "unseal_msk z e sealed_data =
     (case sealed_data of None \<Rightarrow> None
      | Some b \<Rightarrow> if b = [] \<or> txt_len z b \<noteq> 32 \<or> \<not> malloc_ok e 0 then None else unseal z b)"

text \<open>
  \<open>out_capacity\<close> is None for a NULL output buffer. The second component is the sealed blob
  copied out, whose length is \<open>*actual_sealed_size\<close>; None is size 0. The status of
  \<open>sgx_read_rand\<close> is not tested: if it fails, the global keeps its bytes.
\<close>

definition ecall_init_kms ::
  "sealing \<Rightarrow> env \<Rightarrow> kms \<Rightarrow> bytes option \<Rightarrow> nat option \<Rightarrow> kms \<times> bytes option" where
  "ecall_init_kms z e k sealed_data out_capacity =
     (case unseal_msk z e sealed_data of
        Some d \<Rightarrow> (k\<lparr>g_msk := take 32 d, g_msk_initialized := True\<rparr>, None)
      | None \<Rightarrow>
          let msk = (case rand e 0 of Some r \<Rightarrow> r | None \<Rightarrow> g_msk k);
              k' = k\<lparr>g_msk := msk, g_msk_initialized := True\<rparr> in
          (case out_capacity of
             None \<Rightarrow> (k', None)
           | Some cap \<Rightarrow>
               if cap < sealed_size z \<or> \<not> malloc_ok e 1 then (k', None)
               else (k', map_option (take (sealed_size z)) (seal z msk))))"

subsection \<open>Key derivation\<close>

definition derive_key_pair :: "sgx \<Rightarrow> env \<Rightarrow> kms \<Rightarrow> bytes \<Rightarrow> (bytes \<times> bytes) option" where
  "derive_key_pair s e k f =
     (if \<not> g_msk_initialized k then None
      else if f = DEFAULT_FID then
        do { pk \<leftarrow> pub_from_priv s (replicate 32 0xBB); Some (replicate 32 0xBB, pk) }
      else if \<not> malloc_ok e 0 then None
      else do { hash \<leftarrow> sha256_msg s (g_msk k @ f);
                pk \<leftarrow> pub_from_priv s hash;
                Some (hash, pk) })"

definition ecall_get_public_key :: "sgx \<Rightarrow> env \<Rightarrow> kms \<Rightarrow> bytes \<Rightarrow> bytes option" where
  "ecall_get_public_key s e k f =
     do { (sk, pk) \<leftarrow> derive_key_pair s e k f; Some (4 # pk) }"

subsection \<open>Wrapping a key for the worker\<close>

text \<open>
  Steps 2 to 5 of \<open>ecall_get_key\<close> and \<open>derive_label_key_internal\<close>: a fresh ECDH exchange with
  the worker's public key, AES-GCM with the first 16 bytes of the shared secret, and the packing
  \<open>MyPub(64) || IV(12) || Tag(16) || Ciphertext(32)\<close>.
\<close>

definition wrap_for_worker :: "sgx \<Rightarrow> env \<Rightarrow> bytes \<Rightarrow> bytes \<Rightarrow> bytes option" where
  "wrap_for_worker s e public_key key32 =
     (if \<not> ecc_open e then None
      else do { (my_priv, my_pub) \<leftarrow> fresh_pair e;
                shared \<leftarrow> shared_dhkey s my_priv (take 64 public_key);
                let iv = rand_unchecked e 0;
                (ciphertext, tag) \<leftarrow> gcm_enc s (take 16 shared) key32 iv [];
                Some (my_pub @ iv @ tag @ ciphertext) })"

definition ecall_get_key :: "sgx \<Rightarrow> env \<Rightarrow> kms \<Rightarrow> bytes \<Rightarrow> bytes \<Rightarrow> bytes option" where
  "ecall_get_key s e k f public_key =
     (if \<not> verify_ra_for_fid k f then None
      else if f \<noteq> DEFAULT_FID \<and> \<not> verify_report_data_binding s k public_key then None
      else do { (sk, pk) \<leftarrow> derive_key_pair s e k f;
                wrap_for_worker s e public_key sk })"

definition derive_label_key_internal :: "sgx \<Rightarrow> env \<Rightarrow> kms \<Rightarrow> bytes \<Rightarrow> bytes \<Rightarrow> bytes \<Rightarrow> bytes option" where
  "derive_label_key_internal s e k f label public_key =
     (if \<not> verify_ra_for_fid k f then None
      else if f \<noteq> DEFAULT_FID \<and> \<not> verify_report_data_binding s k public_key then None
      else if \<not> is_label_bound_to_fid k f label then None
      else if \<not> malloc_ok e 1 then None
      else do { label_key \<leftarrow> sha256_msg s (g_msk k @ label);
                wrap_for_worker s e public_key label_key })"

text \<open>
  The batch call writes \<open>dkf_out\<close> before it derives the label key: on a failure there the result
  is -1 with the first buffer written. \<open>e1\<close> and \<open>e2\<close> are the environments of the two exchanges.
\<close>

definition ecall_derive_keys_batch ::
  "sgx \<Rightarrow> env \<Rightarrow> env \<Rightarrow> kms \<Rightarrow> bytes \<Rightarrow> bytes \<Rightarrow> bytes \<Rightarrow> int \<times> bytes option \<times> bytes option" where
  "ecall_derive_keys_batch s e1 e2 k f label public_key =
     (if \<not> verify_ra_for_fid k f then (-1, None, None)
      else case ecall_get_key s e1 k f public_key of
        None \<Rightarrow> (-1, None, None)
      | Some dkf \<Rightarrow>
          (case derive_label_key_internal s e2 k f label public_key of
             None \<Rightarrow> (-1, Some dkf, None)
           | Some dklabel \<Rightarrow> (0, Some dkf, Some dklabel)))"

subsection \<open>Properties\<close>

text \<open>The condition under which keys of an FID may leave the enclave.\<close>

definition attested_for :: "sgx \<Rightarrow> kms \<Rightarrow> bytes \<Rightarrow> bytes \<Rightarrow> bool" where
  "attested_for s k f public_key \<longleftrightarrow>
     (\<forall>m. policy_of k f = Some m \<longrightarrow>
        g_ra_verified k \<and> strncmp_eq 128 (g_verified_fid k) f \<and> memcmp_eq (g_verified_mrenclave k) m 32)
     \<and> (f \<noteq> DEFAULT_FID \<longrightarrow> g_ra_verified k \<and>
        (\<exists>h. sha256_msg s (take 64 public_key) = Some h \<and> memcmp_eq h (g_verified_report_data k) 32))"

lemma gates_iff:
  "verify_ra_for_fid k f \<and> (f = DEFAULT_FID \<or> verify_report_data_binding s k pk) \<longleftrightarrow> attested_for s k f pk"
  by (auto simp: verify_ra_iff verify_binding_iff attested_for_def)

lemma get_key_Some:
  assumes "ecall_get_key s e k f pk = Some out"
  obtains sk p where "attested_for s k f pk" "derive_key_pair s e k f = Some (sk, p)"
    "wrap_for_worker s e pk sk = Some out"
  using assms gates_iff [of k f s pk]
  by (auto simp: ecall_get_key_def bind_eq_Some_conv split: if_splits prod.splits)

lemma label_key_Some:
  assumes "derive_label_key_internal s e k f l pk = Some out"
  obtains lk where "attested_for s k f pk" "l \<in> set (labels_of k f)"
    "sha256_msg s (g_msk k @ l) = Some lk" "wrap_for_worker s e pk lk = Some out"
  using assms gates_iff [of k f s pk]
  by (auto simp: derive_label_key_internal_def bind_eq_Some_conv is_label_bound_iff split: if_splits)


definition ready_kms :: kms where
  "ready_kms = kms_boot\<lparr>g_msk := replicate 32 1, g_msk_initialized := True, g_ra_verified := True,
     g_verified_report_data := replicate 64 192, g_verified_fid := lit ''f1''\<rparr>"




text \<open>
  C26: the master secret survives a restart. If initialisation generated and sealed a secret, a
  fresh enclave given the sealed blob has the same secret and derives the same keys.
\<close>

theorem sealed_msk_restart:
  assumes "sealing_laws z"
    and "ecall_init_kms z e k sealed (Some cap) = (k1, Some blob)" "length blob = sealed_size z"
    and "length (g_msk k1) = 32" "\<forall>b d. seal z d = Some b \<longrightarrow> length b = sealed_size z"
    and "malloc_ok e' 0"
    and "ecall_init_kms z e' kms_boot (Some blob) out = (k2, b2)"
  shows "g_msk k2 = g_msk k1 \<and> g_msk_initialized k2 \<and> b2 = None
    \<and> derive_key_pair s e'' k2 f = derive_key_pair s e'' k1 f"
proof -
  from assms(2) have un: "unseal_msk z e sealed = None"
    by (auto simp: ecall_init_kms_def split: option.splits)
  with assms(2,5) have b: "seal z (g_msk k1) = Some blob" and i: "g_msk_initialized k1"
    by (auto simp: ecall_init_kms_def Let_def split: option.splits if_splits)
  then have "unseal_msk z e' (Some blob) = Some (g_msk k1)"
    using assms(1,4,6) unfolding sealing_laws_def unseal_msk_def by auto
  with assms(4,7) i show ?thesis by (auto simp: ecall_init_kms_def derive_key_pair_def)
qed

theorem sealed_msk_restart_witness:
  "g_msk (fst (ecall_init_kms toy_sealing toy_env kms_boot (Some (0 # replicate 32 5)) None)) = replicate 32 5"
proof -
  let ?e = "toy_env\<lparr>rand := \<lambda>i. Some (replicate 32 5)\<rparr>"
  let ?k = "kms_boot\<lparr>g_msk := replicate 32 5, g_msk_initialized := True\<rparr>"
  have i: "ecall_init_kms toy_sealing ?e kms_boot None (Some 40) = (?k, Some (0 # replicate 32 5))"
    by (simp add: ecall_init_kms_def unseal_msk_def toy_sealing_def toy_env_def Let_def)
  have len: "\<forall>b d. seal toy_sealing d = Some b \<longrightarrow> length b = sealed_size toy_sealing"
    by (auto simp: toy_sealing_def split: if_splits)
  obtain k2 b2 where r: "ecall_init_kms toy_sealing toy_env kms_boot (Some (0 # replicate 32 5)) None = (k2, b2)"
    by (rule prod.exhaust)
  have "g_msk k2 = g_msk ?k"
    by (rule sealed_msk_restart [OF toy_sealing_laws i _ _ len _ r, THEN conjunct1])
      (simp_all add: toy_sealing_def toy_env_def)
  then show ?thesis by (simp add: r)
qed

text \<open>
  The status of the random source is not tested at initialisation: when the read fails, a
  freshly started enclave takes the all-zero secret, marks it initialised and seals it.
\<close>

theorem init_ignores_rand_failure:
  assumes "rand e 0 = None" "unseal_msk z e sealed = None"
  shows "g_msk (fst (ecall_init_kms z e kms_boot sealed out)) = zeros 32
    \<and> g_msk_initialized (fst (ecall_init_kms z e kms_boot sealed out))"
  using assms by (simp add: ecall_init_kms_def kms_boot_def Let_def split: option.splits)

theorem init_ignores_rand_failure_witness:
  "g_msk (fst (ecall_init_kms toy_sealing (toy_env\<lparr>rand := \<lambda>i. None\<rparr>) kms_boot None (Some 64))) = zeros 32"
  using init_ignores_rand_failure [of "toy_env\<lparr>rand := \<lambda>i. None\<rparr>" toy_sealing None "Some 64"]
  by (simp add: unseal_msk_def)

end
