(* ===== verification/KmsBfibe.thy ===== *)
theory KmsBfibe
  imports BfibeFormat BfibeMcl KmsKeys
begin

text \<open>
  The BF-IBE key release of the KMS enclave: the bounded writers, the private-key set
  \<open>ASBFSKS1\<close>, the authenticated data, the release envelope \<open>ASBFREL1\<close>, and the ECALLs
  \<open>ecall_get_bfibe_public_params\<close>, \<open>ecall_get_bfibe_key_release\<close> and
  \<open>ecall_bfibe_extract_test\<close>. A writer works on a buffer of exactly its capacity; it returns the
  updated buffer and offset, or None for -1. The pointers to the buffer and to the offset are
  always addresses of locals or were tested by the caller.
\<close>

definition BFIBE_MSK_DOMAIN :: bytes where "BFIBE_MSK_DOMAIN = lit ''ASYNCS/BFIBE/MSK/v1''"
definition derive_bfibe_msk ::
  "('fr, 'g1, 'g2, 'gt) mcl \<Rightarrow> sgx \<Rightarrow> kms \<Rightarrow> bool \<Rightarrow> bytes bf_result" where
  "derive_bfibe_msk m s k ini =
     (if \<not> g_msk_initialized k then (Inl BfFail, ini)
      else bfibe_mcl_derive_master_secret m s (BFIBE_MSK_DOMAIN @ g_msk k) 64 ini)"

subsection \<open>Bounded writers\<close>

definition append_bytes :: "bytes \<Rightarrow> u32 \<Rightarrow> u32 \<Rightarrow> bytes option \<Rightarrow> u32 \<Rightarrow> (bytes \<times> u32) option" where
  "append_bytes out capacity offset data len =
     (if (data = None \<and> len \<noteq> 0) \<or> capacity < offset \<or> capacity - offset < len then None
      else Some (if 0 < len then blit out (unat offset) (take (unat len) (the data)) else out,
                 offset + len))"

definition append_u8 :: "bytes \<Rightarrow> u32 \<Rightarrow> u32 \<Rightarrow> byte \<Rightarrow> (bytes \<times> u32) option" where
  "append_u8 out capacity offset v = append_bytes out capacity offset (Some [v]) 1"

definition append_u32_be :: "bytes \<Rightarrow> u32 \<Rightarrow> u32 \<Rightarrow> u32 \<Rightarrow> (bytes \<times> u32) option" where
  "append_u32_be out capacity offset v = append_bytes out capacity offset (Some (be32 v)) 4"

definition append_part_for_aad :: "bytes \<Rightarrow> u32 \<Rightarrow> u32 \<Rightarrow> bytes option \<Rightarrow> u32 \<Rightarrow> (bytes \<times> u32) option" where
  "append_part_for_aad out capacity offset data len =
     do { (out, offset) \<leftarrow> append_u32_be out capacity offset len;
          append_bytes out capacity offset data len }"

interpretation kms_writer: appender append_bytes
  by (rule appender_memcpy) (simp add: append_bytes_def)

subsection \<open>Identities\<close>

text \<open>The string in the output array; the empty string if the array is too small.\<close>

definition hex_encode :: "bytes \<Rightarrow> nat \<Rightarrow> bytes" where
  "hex_encode input out_capacity =
     (if out_capacity < length input * 2 + 1 then [] else hex_string input)"

definition make_prefixed_identity :: "bytes \<Rightarrow> bytes \<Rightarrow> nat \<Rightarrow> bytes option" where
  "make_prefixed_identity prefix val out_capacity =
     (let written = length (prefix @ val) in
      if written = 0 \<or> out_capacity \<le> written then None else Some (prefix @ val))"

definition build_worker_identity :: "kms \<Rightarrow> nat \<Rightarrow> bytes option" where
  "build_worker_identity k out_capacity =
     make_prefixed_identity (lit ''mrenclave:'') (hex_encode (g_verified_mrenclave k) 65) out_capacity"

subsection \<open>Envelopes\<close>

definition build_bfibe_private_key_set ::
  "bytes \<Rightarrow> bytes \<Rightarrow> bytes \<Rightarrow> bytes \<Rightarrow> bytes \<Rightarrow> u32 \<Rightarrow> (bytes \<times> u32) option" where
  "build_bfibe_private_key_set request_identity request_sk function_identity function_sk out cap =
     do { (out, p) \<leftarrow> append_bytes out cap 0 (Some BFIBE_PRIVATE_KEY_SET_MAGIC) 8;
          (out, p) \<leftarrow> append_u8 out cap p 1;
          (out, p) \<leftarrow> append_u32_be out cap p (len32 BFIBE_PROFILE_ID);
          (out, p) \<leftarrow> append_u32_be out cap p 2;
          (out, p) \<leftarrow> append_bytes out cap p (Some BFIBE_PROFILE_ID) (len32 BFIBE_PROFILE_ID);
          (out, p) \<leftarrow> append_u32_be out cap p (len32 REQUEST_KEY);
          (out, p) \<leftarrow> append_u32_be out cap p (len32 request_identity);
          (out, p) \<leftarrow> append_u32_be out cap p (len32 request_sk);
          (out, p) \<leftarrow> append_bytes out cap p (Some REQUEST_KEY) (len32 REQUEST_KEY);
          (out, p) \<leftarrow> append_bytes out cap p (Some request_identity) (len32 request_identity);
          (out, p) \<leftarrow> append_bytes out cap p (Some request_sk) (len32 request_sk);
          (out, p) \<leftarrow> append_u32_be out cap p (len32 FUNCTION_KEY);
          (out, p) \<leftarrow> append_u32_be out cap p (len32 function_identity);
          (out, p) \<leftarrow> append_u32_be out cap p (len32 function_sk);
          (out, p) \<leftarrow> append_bytes out cap p (Some FUNCTION_KEY) (len32 FUNCTION_KEY);
          (out, p) \<leftarrow> append_bytes out cap p (Some function_identity) (len32 function_identity);
          append_bytes out cap p (Some function_sk) (len32 function_sk) }"

definition build_bfibe_key_release_aad ::
  "bytes \<Rightarrow> bytes \<Rightarrow> bytes \<Rightarrow> bytes \<Rightarrow> u32 \<Rightarrow> (bytes \<times> u32) option" where
  "build_bfibe_key_release_aad f worker_identity wrap_public_key out cap =
     do { (out, p) \<leftarrow> append_bytes out cap 0 (Some BFIBE_AAD_MAGIC) (len32 BFIBE_AAD_MAGIC);
          (out, p) \<leftarrow> append_part_for_aad out cap p (Some BFIBE_PROFILE_ID) (len32 BFIBE_PROFILE_ID);
          (out, p) \<leftarrow> append_part_for_aad out cap p (Some f) (len32 f);
          (out, p) \<leftarrow> append_part_for_aad out cap p (Some worker_identity) (len32 worker_identity);
          append_part_for_aad out cap p (Some wrap_public_key) (len32 wrap_public_key) }"

definition build_bfibe_key_release ::
  "bytes \<Rightarrow> bytes \<Rightarrow> bytes \<Rightarrow> bytes \<Rightarrow> bytes \<Rightarrow> bytes \<Rightarrow> u32 \<Rightarrow> (bytes \<times> u32) option" where
  "build_bfibe_key_release f worker_identity wrap_public_key nonce ciphertext out cap =
     do { (out, p) \<leftarrow> append_bytes out cap 0 (Some BFIBE_KEY_RELEASE_MAGIC) 8;
          (out, p) \<leftarrow> append_u8 out cap p 1;
          (out, p) \<leftarrow> append_u32_be out cap p (len32 BFIBE_PROFILE_ID);
          (out, p) \<leftarrow> append_u32_be out cap p (len32 f);
          (out, p) \<leftarrow> append_u32_be out cap p (len32 worker_identity);
          (out, p) \<leftarrow> append_u32_be out cap p (len32 wrap_public_key);
          (out, p) \<leftarrow> append_u32_be out cap p (len32 nonce);
          (out, p) \<leftarrow> append_u32_be out cap p (len32 ciphertext);
          (out, p) \<leftarrow> append_bytes out cap p (Some BFIBE_PROFILE_ID) (len32 BFIBE_PROFILE_ID);
          (out, p) \<leftarrow> append_bytes out cap p (Some f) (len32 f);
          (out, p) \<leftarrow> append_bytes out cap p (Some worker_identity) (len32 worker_identity);
          (out, p) \<leftarrow> append_bytes out cap p (Some wrap_public_key) (len32 wrap_public_key);
          (out, p) \<leftarrow> append_bytes out cap p (Some nonce) (len32 nonce);
          append_bytes out cap p (Some ciphertext) (len32 ciphertext) }"

subsection \<open>The encoders against the abstract layouts\<close>

lemmas writer_simps = append_u8_def append_u32_be_def append_part_for_aad_def bind_split_pair bind_last

lemma private_key_set_writes:
  "build_bfibe_private_key_set ri rsk fi fsk out cap =
   write_all append_bytes out cap 0
     [BFIBE_PRIVATE_KEY_SET_MAGIC, [1], be32 (len32 BFIBE_PROFILE_ID), be32 2, BFIBE_PROFILE_ID,
      be32 (len32 REQUEST_KEY), be32 (len32 ri), be32 (len32 rsk), REQUEST_KEY, ri, rsk,
      be32 (len32 FUNCTION_KEY), be32 (len32 fi), be32 (len32 fsk), FUNCTION_KEY, fi, fsk]"
  by (simp add: build_bfibe_private_key_set_def writer_simps)

lemma release_writes:
  "build_bfibe_key_release f w pk n c out cap =
   write_all append_bytes out cap 0
     [BFIBE_KEY_RELEASE_MAGIC, [1], be32 (len32 BFIBE_PROFILE_ID), be32 (len32 f), be32 (len32 w),
      be32 (len32 pk), be32 (len32 n), be32 (len32 c), BFIBE_PROFILE_ID, f, w, pk, n, c]"
  by (simp add: build_bfibe_key_release_def writer_simps)

lemma release_aad_writes:
  "build_bfibe_key_release_aad f w pk out cap =
   write_all append_bytes out cap 0
     [BFIBE_AAD_MAGIC, be32 (len32 BFIBE_PROFILE_ID), BFIBE_PROFILE_ID, be32 (len32 f), f,
      be32 (len32 w), w, be32 (len32 pk), pk]"
  by (simp add: build_bfibe_key_release_aad_def writer_simps)

lemma build_release_cases:
  assumes "length out = unat cap" "fits32 [f, w, pk, n, c]"
  shows "(\<exists>out' p. build_bfibe_key_release f w pk n c out cap = Some (out', p) \<and>
            take (unat p) out' = release_layout [BFIBE_PROFILE_ID, f, w, pk, n, c] \<and>
            unat p = length (release_layout [BFIBE_PROFILE_ID, f, w, pk, n, c]) \<and> length out' = unat cap)
         \<and> length (release_layout [BFIBE_PROFILE_ID, f, w, pk, n, c]) \<le> unat cap
       \<or> build_bfibe_key_release f w pk n c out cap = None \<and>
         unat cap < length (release_layout [BFIBE_PROFILE_ID, f, w, pk, n, c])"
  unfolding release_writes
  by (rule kms_writer.write_layout) (use assms in \<open>simp_all add: release_layout_def frame_def\<close>)

lemma build_key_set_cases:
  assumes "length out = unat cap" "fits32 [ri, rsk, fi, fsk]"
  shows "(\<exists>out' p. build_bfibe_private_key_set ri rsk fi fsk out cap = Some (out', p) \<and>
            take (unat p) out' = key_set_layout [(REQUEST_KEY, ri, rsk), (FUNCTION_KEY, fi, fsk)] \<and>
            unat p = length (key_set_layout [(REQUEST_KEY, ri, rsk), (FUNCTION_KEY, fi, fsk)]) \<and>
            length out' = unat cap)
         \<and> length (key_set_layout [(REQUEST_KEY, ri, rsk), (FUNCTION_KEY, fi, fsk)]) \<le> unat cap
       \<or> build_bfibe_private_key_set ri rsk fi fsk out cap = None \<and>
         unat cap < length (key_set_layout [(REQUEST_KEY, ri, rsk), (FUNCTION_KEY, fi, fsk)])"
  unfolding private_key_set_writes
  by (rule kms_writer.write_layout) (use assms in \<open>simp_all add: key_set_layout_def frame_def\<close>)

lemma build_aad_cases:
  assumes "length out = unat cap" "fits32 [f, w, pk]"
  shows "(\<exists>out' p. build_bfibe_key_release_aad f w pk out cap = Some (out', p) \<and>
            take (unat p) out' = release_aad_layout f w pk \<and>
            unat p = length (release_aad_layout f w pk) \<and> length out' = unat cap)
         \<and> length (release_aad_layout f w pk) \<le> unat cap
       \<or> build_bfibe_key_release_aad f w pk out cap = None \<and> unat cap < length (release_aad_layout f w pk)"
  unfolding release_aad_writes
  by (rule kms_writer.write_layout) (use assms in \<open>simp_all add: release_aad_layout_def parts_def\<close>)

subsection \<open>The ECALLs\<close>

text \<open>
  The arrays of the handlers are \<open>zeros n\<close>: what they hold before they are written is never
  read. A result None stands for -1 with a reported size of 0 (the encoders store the size only
  when they succeed); what a failing call leaves in the caller's buffer is not modelled.
  None of these calls changes the state but for the initialisation flag of the library.
\<close>

definition ecall_get_bfibe_public_params ::
  "('fr, 'g1, 'g2, 'gt) mcl \<Rightarrow> sgx \<Rightarrow> kms \<Rightarrow> bytes option \<Rightarrow> u32 \<Rightarrow> bytes option \<times> kms" where
  "ecall_get_bfibe_public_params m s k mpk_out mpk_capacity =
     (if mpk_out = None \<or> mpk_capacity = 0 then (None, k)
      else let (r, ini) = derive_bfibe_msk m s k (g_mcl_initialized k) in
        case r of
          Inl _ \<Rightarrow> (None, k\<lparr>g_mcl_initialized := ini\<rparr>)
        | Inr bf_msk \<Rightarrow>
            let (r', ini') = bfibe_mcl_public_from_msk m bf_msk (unat mpk_capacity) ini;
                k' = k\<lparr>g_mcl_initialized := ini'\<rparr> in
            (case r' of
               Inl _ \<Rightarrow> (None, k')
             | Inr mpk \<Rightarrow> if unat mpk_capacity < length mpk then (None, k') else (Some mpk, k')))"

text \<open>Both private keys; an empty serialization counts as a failure.\<close>

definition extract_pair ::
  "('fr, 'g1, 'g2, 'gt) mcl \<Rightarrow> bytes \<Rightarrow> bytes \<Rightarrow> bytes \<Rightarrow> bool \<Rightarrow> (bytes \<times> bytes) option \<times> bool" where
  "extract_pair m bf_msk request_identity function_identity ini =
     (let (ret_req, ini) = bfibe_mcl_extract m bf_msk request_identity 256 ini;
          (ret_func, ini) = bfibe_mcl_extract m bf_msk function_identity 256 ini in
      (case (ret_req, ret_func) of
         (Inr request_sk, Inr function_sk) \<Rightarrow>
           if request_sk = [] \<or> function_sk = [] then None else Some (request_sk, function_sk)
       | _ \<Rightarrow> None, ini))"

definition release_gates :: "sgx \<Rightarrow> kms \<Rightarrow> bytes \<Rightarrow> bytes \<Rightarrow> bytes \<Rightarrow> bool" where
  "release_gates s k f label public_key \<longleftrightarrow>
     verify_ra_for_fid k f \<and> verify_report_data_binding s k public_key \<and> is_label_bound_to_fid k f label"

definition release_identities :: "kms \<Rightarrow> bytes \<Rightarrow> bytes \<Rightarrow> (bytes \<times> bytes \<times> bytes) option" where
  "release_identities k f label =
     do { request_identity \<leftarrow> make_prefixed_identity (lit ''fid:'') f (MAX_FID_LEN + 5);
          function_identity \<leftarrow> make_prefixed_identity (lit ''label:'') label (LABEL_LEN + 7);
          worker_identity \<leftarrow> build_worker_identity k 80;
          Some (request_identity, function_identity, worker_identity) }"

definition release_private_keys ::
  "('fr, 'g1, 'g2, 'gt) mcl \<Rightarrow> sgx \<Rightarrow> kms \<Rightarrow> bytes \<Rightarrow> bytes \<Rightarrow>
   (bytes \<times> bytes \<times> bytes \<times> bytes \<times> bytes) option \<times> bool" where
  "release_private_keys m s k f label =
     (let (r, ini) = derive_bfibe_msk m s k (g_mcl_initialized k) in
      case r of
        Inl _ \<Rightarrow> (None, ini)
      | Inr bf_msk \<Rightarrow>
          (case release_identities k f label of
             None \<Rightarrow> (None, ini)
           | Some (ri, fi, wi) \<Rightarrow>
               let (sks, ini) = extract_pair m bf_msk ri fi ini in
               (map_option (\<lambda>(request_sk, function_sk). (ri, request_sk, fi, function_sk, wi)) sks, ini)))"

definition release_envelope ::
  "sgx \<Rightarrow> env \<Rightarrow> bytes \<Rightarrow> bytes \<Rightarrow> bytes \<times> bytes \<times> bytes \<times> bytes \<times> bytes \<Rightarrow> bytes \<Rightarrow> u32 \<Rightarrow>
   (bytes \<times> u32) option" where
  "release_envelope s e f public_key keys release_out release_capacity =
     (let (ri, rsk, fi, fsk, wi) = keys in
      do { (private_key_set, set_size) \<leftarrow> build_bfibe_private_key_set ri rsk fi fsk (zeros 2048) 2048;
           if \<not> ecc_open e then None
           else do {
             (kms_priv, kms_pub) \<leftarrow> fresh_pair e;
             shared_secret \<leftarrow> shared_dhkey s kms_priv (take 64 public_key);
             nonce \<leftarrow> rand e 0;
             (aad, aad_size) \<leftarrow> build_bfibe_key_release_aad f wi kms_pub (zeros 256) 256;
             (ciphertext, tag) \<leftarrow> gcm_enc s (take 16 shared_secret)
               (take (unat set_size) private_key_set) nonce (take (unat aad_size) aad);
             build_bfibe_key_release f wi kms_pub nonce (ciphertext @ tag) release_out release_capacity } })"

definition ecall_get_bfibe_key_release ::
  "('fr, 'g1, 'g2, 'gt) mcl \<Rightarrow> sgx \<Rightarrow> env \<Rightarrow> kms \<Rightarrow> bytes option \<Rightarrow> bytes option \<Rightarrow> bytes option \<Rightarrow>
   bytes option \<Rightarrow> u32 \<Rightarrow> (bytes \<times> u32) option \<times> kms" where
  "ecall_get_bfibe_key_release m s e k fid_arg label_arg key_arg out_arg release_capacity =
     (case (fid_arg, label_arg, key_arg, out_arg) of
        (Some f, Some label, Some public_key, Some release_out) \<Rightarrow>
          if \<not> release_gates s k f label public_key then (None, k)
          else let (keys, ini) = release_private_keys m s k f label in
            (Option.bind keys (\<lambda>ks. release_envelope s e f public_key ks release_out release_capacity),
             k\<lparr>g_mcl_initialized := ini\<rparr>)
      | _ \<Rightarrow> (None, k))"

definition ecall_bfibe_extract_test ::
  "('fr, 'g1, 'g2, 'gt) mcl \<Rightarrow> sgx \<Rightarrow> kms \<Rightarrow> int \<times> kms" where
  "ecall_bfibe_extract_test m s k =
     (let (r, ini) = derive_bfibe_msk m s k (g_mcl_initialized k) in
      case r of
        Inl _ \<Rightarrow> (-1, k\<lparr>g_mcl_initialized := ini\<rparr>)
      | Inr bf_msk \<Rightarrow>
          let (sks, ini) = extract_pair m bf_msk (lit ''request-key:fid:test'') (lit ''function-key:label:test'') ini in
          (case sks of
             None \<Rightarrow> -1
           | Some (request_sk, function_sk) \<Rightarrow>
               if length request_sk = length function_sk \<and> memcmp_eq request_sk function_sk (length request_sk)
               then -1 else 0,
           k\<lparr>g_mcl_initialized := ini\<rparr>))"

subsection \<open>What a release contains\<close>

definition worker_name :: "bytes \<Rightarrow> bytes" where
  "worker_name mrenclave = lit ''mrenclave:'' @ hex_string mrenclave"

lemma length_worker_name [simp]: "length (worker_name w) = 10 + 2 * length w"
  by (simp add: worker_name_def length_hex_bytes)

lemma prefixed_identity_Some:
  "make_prefixed_identity p v cap = Some r \<longleftrightarrow> r = p @ v \<and> r \<noteq> [] \<and> length r < cap"
  by (auto simp: make_prefixed_identity_def Let_def)

lemma build_worker_identity_eq:
  "length (g_verified_mrenclave k) = 32 \<Longrightarrow>
   build_worker_identity k 80 = Some (worker_name (g_verified_mrenclave k))"
  by (simp add: build_worker_identity_def prefixed_identity_Some hex_encode_def worker_name_def length_hex_bytes)

lemma release_identities_Some:
  "length (g_verified_mrenclave k) = 32 \<Longrightarrow>
   release_identities k f l = Some (ri, fi, wi) \<longleftrightarrow>
     ri = lit ''fid:'' @ f \<and> length f < 129 \<and> fi = lit ''label:'' @ l \<and> length l < 66 \<and>
     wi = worker_name (g_verified_mrenclave k)"
  by (auto simp: release_identities_def bind_eq_Some_conv prefixed_identity_Some build_worker_identity_eq kms_consts)

lemma extract_pair_Some:
  assumes "extract_pair m msk a b ini = (Some (x, y), ini')"
  shows "(ini \<or> bn_init m = 0) \<and> (\<exists>q. fr_deserialize m msk = Some q \<and>
    g2_serialize m (g2_mul m (hash_identity m a) q) 256 = Some x \<and>
    g2_serialize m (g2_mul m (hash_identity m b) q) 256 = Some y) \<and> x \<noteq> [] \<and> y \<noteq> []"
  using assms
  by (auto simp: extract_pair_def bfibe_mcl_extract_def after_init_cases or_fail_def bind_eq_Some_conv
      split: option.splits sum.splits if_splits)

lemma release_private_keys_Some:
  assumes "release_private_keys m s k f l = (Some (ri, rsk, fi, fsk, wi), ini)"
    and "length (g_verified_mrenclave k) = 32" "mcl_laws m"
  shows "g_msk_initialized k \<and> ri = lit ''fid:'' @ f \<and> fi = lit ''label:'' @ l \<and>
    wi = worker_name (g_verified_mrenclave k) \<and> length f < 129 \<and> length l < 66 \<and>
    length rsk \<le> 256 \<and> length fsk \<le> 256"
proof -
  from assms(1) obtain msk i1 where d: "derive_bfibe_msk m s k (g_mcl_initialized k) = (Inr msk, i1)"
    and ids: "release_identities k f l = Some (ri, fi, wi)"
    and x: "extract_pair m msk ri fi i1 = (Some (rsk, fsk), ini)"
    by (auto simp: release_private_keys_def split: prod.splits sum.splits option.splits)
  have "g_msk_initialized k" using d by (auto simp: derive_bfibe_msk_def split: if_splits)
  with ids assms(2) extract_pair_Some [OF x] show ?thesis
    by (auto simp: release_identities_Some mcl_serial [OF assms(3)])
qed

text \<open>
  A release that was produced, read backwards: the encrypted key set, the authenticated data and
  the envelope are exactly the abstract layouts.
\<close>

lemma release_envelope_Some:
  assumes "release_envelope s e f pk (ri, rsk, fi, fsk, wi) out cap = Some (buf, sz)"
    and "length out = unat cap" "gcm_laws s"
    and "\<And>a p. fresh_pair e = Some (a, p) \<Longrightarrow> length p = 64" "\<And>n. rand e 0 = Some n \<Longrightarrow> length n = 12"
    and "length f < 129" "length wi < 128" "length ri < 256" "length fi < 256" "length rsk \<le> 256" "length fsk \<le> 256"
  obtains kpriv kpub shared nonce ct tag where
    "fresh_pair e = Some (kpriv, kpub)" "shared_dhkey s kpriv (take 64 pk) = Some shared"
    "rand e 0 = Some nonce" "length kpub = 64" "length nonce = 12"
    "gcm_enc s (take 16 shared) (key_set_layout [(REQUEST_KEY, ri, rsk), (FUNCTION_KEY, fi, fsk)]) nonce
       (release_aad_layout f wi kpub) = Some (ct, tag)"
    "64 + length f + length wi + 64 \<le> 256"
    "take (unat sz) buf = release_layout [BFIBE_PROFILE_ID, f, wi, kpub, nonce, ct @ tag]"
    "unat sz = length (release_layout [BFIBE_PROFILE_ID, f, wi, kpub, nonce, ct @ tag])"
    "unat sz \<le> unat cap"
proof -
  from assms(1) obtain sb ss kpriv kpub shared nonce ab as ct tag where
    b: "build_bfibe_private_key_set ri rsk fi fsk (zeros 2048) 2048 = Some (sb, ss)"
    "fresh_pair e = Some (kpriv, kpub)" "shared_dhkey s kpriv (take 64 pk) = Some shared"
    "rand e 0 = Some nonce"
    "build_bfibe_key_release_aad f wi kpub (zeros 256) 256 = Some (ab, as)"
    "gcm_enc s (take 16 shared) (take (unat ss) sb) nonce (take (unat as) ab) = Some (ct, tag)"
    "build_bfibe_key_release f wi kpub nonce (ct @ tag) out cap = Some (buf, sz)"
    by (auto simp: release_envelope_def bind_eq_Some_conv split: if_splits)
  have l: "length kpub = 64" "length nonce = 12" using assms(4,5) b by auto
  have s: "take (unat ss) sb = key_set_layout [(REQUEST_KEY, ri, rsk), (FUNCTION_KEY, fi, fsk)]"
    using build_key_set_cases [of "zeros 2048" 2048 ri rsk fi fsk] b(1) assms(8-11) by auto
  have a: "take (unat as) ab = release_aad_layout f wi kpub \<and> length (release_aad_layout f wi kpub) \<le> 256"
    using build_aad_cases [of "zeros 256" 256 f wi kpub] b(5) assms(6,7) l by auto
  have "length ct = length (take (unat ss) sb) \<and> length tag = 16" using gcm_round [OF assms(3) b(6)] by simp
  then have c: "length (ct @ tag) < 2 ^ 32" using assms(8-11) unfolding s by (simp add: length_key_set2)
  have "take (unat sz) buf = release_layout [BFIBE_PROFILE_ID, f, wi, kpub, nonce, ct @ tag] \<and>
      unat sz = length (release_layout [BFIBE_PROFILE_ID, f, wi, kpub, nonce, ct @ tag]) \<and>
      unat sz \<le> unat cap"
    using build_release_cases [of out cap f wi kpub nonce "ct @ tag"] b(7) assms(2,6,7) l c by auto
  with b l a s show ?thesis
    by (intro that [of kpriv kpub shared nonce ct tag]) (auto simp: length_release_aad)
qed

lemma release_ecall_Some:
  assumes "ecall_get_bfibe_key_release m s e k fa la ka oa cap = (Some r, k')"
  obtains f l pk out ks ini where "fa = Some f" "la = Some l" "ka = Some pk" "oa = Some out"
    "release_gates s k f l pk" "release_private_keys m s k f l = (Some ks, ini)"
    "release_envelope s e f pk ks out cap = Some r" "k' = k\<lparr>g_mcl_initialized := ini\<rparr>"
  using assms that
  by (auto simp: ecall_get_bfibe_key_release_def bind_eq_Some_conv split: option.splits if_splits prod.splits)

text \<open>When the calls into the SDK succeed, the lengths alone decide.\<close>

lemma release_envelope_fits:
  assumes "length out = unat cap" "gcm_laws s"
    and e: "ecc_open e" "fresh_pair e = Some (a, p)" "length p = 64" "shared_dhkey s a (take 64 pk) = Some sh"
      "rand e 0 = Some n" "length n = 12" "\<And>pt aad. gcm_enc s (take 16 sh) pt n aad \<noteq> None"
    and l: "length f < 129" "length wi < 128" "length ri < 256" "length fi < 256" "length rsk \<le> 256" "length fsk \<le> 256"
  shows "release_envelope s e f pk (ri, rsk, fi, fsk, wi) out cap \<noteq> None \<longleftrightarrow>
    length f + length wi \<le> 128 \<and>
    225 + length f + length wi + length ri + length rsk + length fi + length fsk \<le> unat cap"
proof -
  define ks where "ks = key_set_layout [(REQUEST_KEY, ri, rsk), (FUNCTION_KEY, fi, fsk)]"
  obtain sb ss where s: "build_bfibe_private_key_set ri rsk fi fsk (zeros 2048) 2048 = Some (sb, ss)"
    "take (unat ss) sb = ks"
    using build_key_set_cases [of "zeros 2048" 2048 ri rsk fi fsk] l unfolding ks_def [symmetric]
    by (auto simp: ks_def length_key_set2)
  show ?thesis
  proof (cases "length f + length wi \<le> 128")
    case True
    then obtain ab as where a: "build_bfibe_key_release_aad f wi p (zeros 256) 256 = Some (ab, as)"
      using build_aad_cases [of "zeros 256" 256 f wi p] l e(3) by (auto simp: length_release_aad)
    obtain ct tag where g: "gcm_enc s (take 16 sh) ks n (take (unat as) ab) = Some (ct, tag)"
      using e(7) by (metis not_None_eq prod.collapse)
    with gcm_round [OF assms(2) g] have c: "length (ct @ tag) = 98 + length ri + length rsk + length fi + length fsk"
      by (simp add: ks_def length_key_set2)
    then have "build_bfibe_key_release f wi p n (ct @ tag) out cap \<noteq> None \<longleftrightarrow>
        225 + length f + length wi + length ri + length rsk + length fi + length fsk \<le> unat cap"
      using build_release_cases [of out cap f wi p n "ct @ tag"] assms(1) l e(3,6) by (auto simp: length_release)
    with True s a g e show ?thesis by (simp add: release_envelope_def)
  next
    case False
    then have "build_bfibe_key_release_aad f wi p (zeros 256) 256 = None"
      using build_aad_cases [of "zeros 256" 256 f wi p] l e(3) by (auto simp: length_release_aad)
    with False s e show ?thesis by (simp add: release_envelope_def)
  qed
qed

subsection \<open>Properties\<close>

lemma release_Some:
  assumes "ecall_get_bfibe_key_release m s e k (Some f) (Some l) (Some pk) (Some out) cap = (Some (buf, sz), k')"
    and "mcl_laws m" "gcm_laws s" "env_laws s e" "length (g_verified_mrenclave k) = 32" "length out = unat cap"
  obtains rsk fsk ini kpriv kpub shared nonce ct tag where
    "release_gates s k f l pk" "g_msk_initialized k" "length f \<le> 54" "length l < 66"
    "release_private_keys m s k f l =
       (Some (lit ''fid:'' @ f, rsk, lit ''label:'' @ l, fsk, worker_name (g_verified_mrenclave k)), ini)"
    "length rsk \<le> 256" "length fsk \<le> 256"
    "fresh_pair e = Some (kpriv, kpub)" "shared_dhkey s kpriv (take 64 pk) = Some shared"
    "length kpub = 64" "length nonce = 12"
    "gcm_enc s (take 16 shared)
       (key_set_layout [(REQUEST_KEY, lit ''fid:'' @ f, rsk), (FUNCTION_KEY, lit ''label:'' @ l, fsk)]) nonce
       (release_aad_layout f (worker_name (g_verified_mrenclave k)) kpub) = Some (ct, tag)"
    "take (unat sz) buf =
       release_layout [BFIBE_PROFILE_ID, f, worker_name (g_verified_mrenclave k), kpub, nonce, ct @ tag]"
    "unat sz \<le> unat cap"
    "unat sz = length (release_layout
       [BFIBE_PROFILE_ID, f, worker_name (g_verified_mrenclave k), kpub, nonce, ct @ tag])"
proof -
  from assms(1) obtain ri rsk fi fsk wi ini where g: "release_gates s k f l pk"
    and p: "release_private_keys m s k f l = (Some (ri, rsk, fi, fsk, wi), ini)"
    and r: "release_envelope s e f pk (ri, rsk, fi, fsk, wi) out cap = Some (buf, sz)"
    by (elim release_ecall_Some) (metis option.inject prod_cases5)
  note i = release_private_keys_Some [OF p assms(5,2)]
  from i assms(5) have b: "length f < 129" "length wi < 128" "length ri < 256" "length fi < 256"
    "length rsk \<le> 256" "length fsk \<le> 256" by auto
  from r assms(6,3) _ _ b show ?thesis
  proof (rule release_envelope_Some)
    fix kpriv kpub shared nonce ct tag
    assume "fresh_pair e = Some (kpriv, kpub)" "shared_dhkey s kpriv (take 64 pk) = Some shared"
      "length kpub = 64" "length nonce = 12"
      "gcm_enc s (take 16 shared) (key_set_layout [(REQUEST_KEY, ri, rsk), (FUNCTION_KEY, fi, fsk)]) nonce
        (release_aad_layout f wi kpub) = Some (ct, tag)"
      "64 + length f + length wi + 64 \<le> 256"
      "take (unat sz) buf = release_layout [BFIBE_PROFILE_ID, f, wi, kpub, nonce, ct @ tag]"
      "unat sz = length (release_layout [BFIBE_PROFILE_ID, f, wi, kpub, nonce, ct @ tag])"
      "unat sz \<le> unat cap"
    then show ?thesis
      using g p i assms(5) by (intro that [of rsk fsk ini kpriv kpub shared nonce ct tag]) simp_all
  qed (use assms(4) in \<open>auto simp: env_laws_def\<close>)
qed

text \<open>
  C8: a key release leaves the enclave only through the gates. If \<open>ecall_get_bfibe_key_release\<close>
  produces one, the master secret is initialised, the worker is attested for the FID, the verified
  report data is the hash of the key the release is encrypted to (for \<open>default_fid\<close> too), the
  label is bound to the FID, and the call changes nothing but the library's initialisation flag.
\<close>

theorem bfibe_release_gated:
  assumes "ecall_get_bfibe_key_release m s e k fa la ka oa cap = (Some r, k')"
  shows "\<exists>f l pk. fa = Some f \<and> la = Some l \<and> ka = Some pk \<and> g_msk_initialized k
    \<and> attested_for s k f pk \<and> verify_report_data_binding s k pk \<and> l \<in> set (labels_of k f)
    \<and> k' = k\<lparr>g_mcl_initialized := True\<rparr>"
proof -
  from assms obtain f l pk out ks ini where a: "fa = Some f" "la = Some l" "ka = Some pk"
    and g: "release_gates s k f l pk" and p: "release_private_keys m s k f l = (Some ks, ini)"
    and k': "k' = k\<lparr>g_mcl_initialized := ini\<rparr>"
    by (rule release_ecall_Some)
  from p have "g_msk_initialized k \<and> ini"
    by (auto simp: release_private_keys_def derive_bfibe_msk_def extract_pair_def bfibe_mcl_extract_def
        bfibe_mcl_derive_master_secret_def after_init_cases split: prod.splits sum.splits option.splits if_splits)
  with a g k' gates_iff [of k f s pk] show ?thesis
    by (auto simp: release_gates_def is_label_bound_iff)
qed

text \<open>A state of the enclave in which a release to the worker key \<open>replicate 64 3\<close> is due.\<close>

definition release_kms :: "bytes \<Rightarrow> kms" where
  "release_kms f = ready_kms\<lparr>g_verified_fid := f,
     g_policy_registry := [\<lparr>fid = f, policy_mrenclave = zeros 32, policy_set = True, bound_labels = [lit ''l1'']\<rparr>]\<rparr>"

lemma release_kms_mrenclave [simp]: "g_verified_mrenclave (release_kms f) = zeros 32"
  by (simp add: release_kms_def ready_kms_def kms_boot_def)

lemma release_kms_gates: "release_gates toy_sgx (release_kms f) f (lit ''l1'') (replicate 64 3)"
  by (simp add: release_gates_def release_kms_def ready_kms_def kms_boot_def verify_ra_for_fid_def find_policy_def
      verify_report_data_binding_def toy_sgx_def memcmp_eq_def sum_list_replicate is_label_bound_to_fid_def)

lemma release_kms_keys:
  assumes "length f < 129"
  shows "\<exists>rsk fsk. release_private_keys toy_mcl toy_sgx (release_kms f) f (lit ''l1'') =
    (Some (lit ''fid:'' @ f, rsk, lit ''label:l1'', fsk, worker_name (zeros 32)), True) \<and> length rsk = 1 \<and> length fsk = 1"
proof -
  have i: "release_identities (release_kms f) f (lit ''l1'') =
      Some (lit ''fid:'' @ f, lit ''label:'' @ lit ''l1'', worker_name (zeros 32))"
    using assms by (subst release_identities_Some) (simp_all add: release_kms_def ready_kms_def kms_boot_def)
  have "lit ''label:'' @ lit ''l1'' = lit ''label:l1''" by (simp flip: lit_append)
  with i show ?thesis
    by (simp add: release_private_keys_def derive_bfibe_msk_def bfibe_mcl_derive_master_secret_def
        BFIBE_MSK_DOMAIN_def extract_pair_def bfibe_mcl_extract_def toy_mcl_def toy_sgx_def Let_def
        release_kms_def ready_kms_def kms_boot_def)
qed

lemma release_kms_result:
  assumes "length f < 129" "length out = unat cap"
  shows "fst (ecall_get_bfibe_key_release toy_mcl toy_sgx toy_env (release_kms f) (Some f) (Some (lit ''l1''))
      (Some (replicate 64 3)) (Some out) cap) \<noteq> None \<longleftrightarrow> length f \<le> 54 \<and> 313 + 2 * length f \<le> unat cap"
proof -
  obtain rsk fsk where k: "release_private_keys toy_mcl toy_sgx (release_kms f) f (lit ''l1'') =
      (Some (lit ''fid:'' @ f, rsk, lit ''label:l1'', fsk, worker_name (zeros 32)), True)"
    and l: "length rsk = 1" "length fsk = 1"
    using release_kms_keys [OF assms(1)] by auto
  have "release_envelope toy_sgx toy_env f (replicate 64 3) (lit ''fid:'' @ f, rsk, lit ''label:l1'', fsk,
      worker_name (zeros 32)) out cap \<noteq> None \<longleftrightarrow> length f \<le> 54 \<and> 313 + 2 * length f \<le> unat cap"
    using assms l by (subst release_envelope_fits) (auto simp: toy_gcm_laws)
  then show ?thesis
    by (simp add: ecall_get_bfibe_key_release_def release_kms_gates k)
qed

theorem bfibe_release_gated_witness:
  "attested_for toy_sgx (release_kms (lit ''f1'')) (lit ''f1'') (replicate 64 3)"
proof -
  have "fst (ecall_get_bfibe_key_release toy_mcl toy_sgx toy_env (release_kms (lit ''f1'')) (Some (lit ''f1''))
      (Some (lit ''l1'')) (Some (replicate 64 3)) (Some (zeros 4096)) 4096) \<noteq> None"
    by (subst release_kms_result) simp_all
  then obtain r k' where "ecall_get_bfibe_key_release toy_mcl toy_sgx toy_env (release_kms (lit ''f1''))
      (Some (lit ''f1'')) (Some (lit ''l1'')) (Some (replicate 64 3)) (Some (zeros 4096)) 4096 = (Some r, k')"
    by (metis not_None_eq prod.collapse)
  from bfibe_release_gated [OF this] show ?thesis by auto
qed

text \<open>
  C9: the length of the FID bounds the release. Once the gates are passed, the private keys are
  extracted and the SDK calls succeed, the release is produced if and only if the FID has at most
  54 bytes (the authenticated data must fit its 256-byte buffer) and the caller's buffer holds
  \<open>309 + 2|fid| + |label|\<close> bytes and both private keys. In particular the 64-character hexadecimal
  FIDs of the deployment tools never receive a BF-IBE key release.
\<close>

theorem bfibe_release_iff_fits:
  assumes "release_gates s k f l pk" "length (g_verified_mrenclave k) = 32" "mcl_laws m" "gcm_laws s" "env_laws s e"
    and "release_private_keys m s k f l = (Some (ri, rsk, fi, fsk, wi), ini)"
    and "ecc_open e" "fresh_pair e = Some (a, p)" "shared_dhkey s a (take 64 pk) = Some sh" "rand e 0 = Some n"
    and "\<And>pt aad. gcm_enc s (take 16 sh) pt n aad \<noteq> None" "length out = unat cap"
  shows "fst (ecall_get_bfibe_key_release m s e k (Some f) (Some l) (Some pk) (Some out) cap) \<noteq> None \<longleftrightarrow>
    length f \<le> 54 \<and> 309 + 2 * length f + length l + length rsk + length fsk \<le> unat cap"
proof -
  note i = release_private_keys_Some [OF assms(6,2,3)]
  have "release_envelope s e f pk (ri, rsk, fi, fsk, wi) out cap \<noteq> None \<longleftrightarrow>
      length f \<le> 54 \<and> 309 + 2 * length f + length l + length rsk + length fsk \<le> unat cap"
    using assms i by (subst release_envelope_fits) (auto simp: env_laws_def)
  then show ?thesis by (simp add: ecall_get_bfibe_key_release_def assms(1,6))
qed

theorem bfibe_release_iff_fits_witness:
  "fst (ecall_get_bfibe_key_release toy_mcl toy_sgx toy_env (release_kms (replicate 64 97)) (Some (replicate 64 97))
     (Some (lit ''l1'')) (Some (replicate 64 3)) (Some (zeros 4096)) 4096) = None"
proof -
  obtain rsk fsk where k: "release_private_keys toy_mcl toy_sgx (release_kms (replicate 64 97)) (replicate 64 97) (lit ''l1'') =
      (Some (lit ''fid:'' @ replicate 64 97, rsk, lit ''label:l1'', fsk, worker_name (zeros 32)), True)"
    using release_kms_keys [of "replicate 64 97"] by auto
  show ?thesis
    using bfibe_release_iff_fits [OF release_kms_gates _ toy_mcl_laws toy_gcm_laws toy_env_laws k,
        of "replicate 32 3" "replicate 64 3" "map2 (+) (replicate 32 3) (replicate 32 3)" "replicate 12 5" "zeros 4096" 4096]
    by (simp add: zip_replicate del: not_None_eq not_Some_eq)
qed

end
