(* ===== verification/KmsSystem.thy ===== *)
theory KmsSystem
  imports KmsBfibe
begin

text \<open>
  The KMS enclave as a state machine: one call for each ECALL of \<open>Enclave.edl\<close>, the state each
  leaves behind, and the runs of the enclave from its start. The host chooses the calls and
  their arguments freely (the arrays have the lengths the interface file gives them); the
  environment answers freely.
\<close>

datatype kms_call =
    InitKms "bytes option" "nat option"
  | VerifyQuote "bytes option"
  | VerifyQuoteForFid "bytes option" "bytes option"
  | GetKey bytes bytes
  | GetPublicKey bytes
  | DeriveKeysBatch bytes bytes bytes
  | GetKeyRelease "bytes option" "bytes option" "bytes option" "bytes option" u32
  | ExtractTest
  | GetPublicParams "bytes option" u32
  | RegisterPolicy bytes bytes
  | BindLabel bytes bytes
  | SetRaResult int bytes
  | CheckLabel bytes bytes

fun valid_call :: "kms_call \<Rightarrow> bool" where
  "valid_call (RegisterPolicy f m) \<longleftrightarrow> length m = 32"
| "valid_call (SetRaResult v m) \<longleftrightarrow> length m = 32"
| "valid_call _ \<longleftrightarrow> True"

fun kms_exec ::
  "('fr, 'g1, 'g2, 'gt) mcl \<Rightarrow> sgx \<Rightarrow> sealing \<Rightarrow> env \<Rightarrow> kms_call \<Rightarrow> kms \<Rightarrow> kms" where
  "kms_exec m s z e (InitKms sealed cap) k = fst (ecall_init_kms z e k sealed cap)"
| "kms_exec m s z e (VerifyQuote q) k = snd (ecall_verify_quote k q)"
| "kms_exec m s z e (VerifyQuoteForFid f q) k = snd (ecall_verify_quote_for_fid k f q)"
| "kms_exec m s z e (GetKey f pk) k = k"
| "kms_exec m s z e (GetPublicKey f) k = k"
| "kms_exec m s z e (DeriveKeysBatch f l pk) k = k"
| "kms_exec m s z e (GetKeyRelease f l pk out cap) k = snd (ecall_get_bfibe_key_release m s e k f l pk out cap)"
| "kms_exec m s z e ExtractTest k = snd (ecall_bfibe_extract_test m s k)"
| "kms_exec m s z e (GetPublicParams out cap) k = snd (ecall_get_bfibe_public_params m s k out cap)"
| "kms_exec m s z e (RegisterPolicy f mr) k = snd (ecall_register_policy_fid k f mr)"
| "kms_exec m s z e (BindLabel f l) k = snd (ecall_bind_label_to_fid k f l)"
| "kms_exec m s z e (SetRaResult v mr) k = snd (ecall_set_ra_result k v mr)"
| "kms_exec m s z e (CheckLabel f l) k = k"

inductive kms_step ::
  "('fr, 'g1, 'g2, 'gt) mcl \<Rightarrow> sgx \<Rightarrow> sealing \<Rightarrow> kms_call \<Rightarrow> kms \<Rightarrow> kms \<Rightarrow> bool"
  for m s z where
  "valid_call c \<Longrightarrow> kms_step m s z c k (kms_exec m s z e c k)"

inductive_cases kms_stepE: "kms_step m s z c k k'"

subsection \<open>What each call leaves alone\<close>

fun sets_ra :: "kms_call \<Rightarrow> bool" where
  "sets_ra (VerifyQuoteForFid f q) = True"
| "sets_ra (SetRaResult v m) = True"
| "sets_ra _ = False"

fun sets_registry :: "kms_call \<Rightarrow> bool" where
  "sets_registry (RegisterPolicy f m) = True"
| "sets_registry (BindLabel f l) = True"
| "sets_registry _ = False"

definition ra_view :: "kms \<Rightarrow> bool \<times> bytes \<times> bytes \<times> bytes" where
  "ra_view k = (g_ra_verified k, g_verified_mrenclave k, g_verified_fid k, g_verified_report_data k)"

lemma ra_view_upd [frame_simps]:
  "ra_view (k\<lparr>g_mcl_initialized := b\<rparr>) = ra_view k" "ra_view (k\<lparr>g_policy_registry := r\<rparr>) = ra_view k"
  "ra_view (k\<lparr>g_msk := x, g_msk_initialized := b\<rparr>) = ra_view k"
  by (simp_all add: ra_view_def)

lemma bfibe_frames [frame_simps]:
  "ra_view (snd (ecall_get_bfibe_key_release m s e k fa la ka oa cap)) = ra_view k"
  "g_policy_registry (snd (ecall_get_bfibe_key_release m s e k fa la ka oa cap)) = g_policy_registry k"
  "ra_view (snd (ecall_bfibe_extract_test m s k)) = ra_view k"
  "g_policy_registry (snd (ecall_bfibe_extract_test m s k)) = g_policy_registry k"
  "ra_view (snd (ecall_get_bfibe_public_params m s k out c)) = ra_view k"
  "g_policy_registry (snd (ecall_get_bfibe_public_params m s k out c)) = g_policy_registry k"
  by (simp_all add: ecall_get_bfibe_key_release_def ecall_bfibe_extract_test_def Let_def ra_view_upd
      ecall_get_bfibe_public_params_def split: option.splits prod.splits sum.splits)

lemma init_frames [frame_simps]:
  "ra_view (fst (ecall_init_kms z e k d c)) = ra_view k"
  "g_policy_registry (fst (ecall_init_kms z e k d c)) = g_policy_registry k"
  by (simp_all add: ecall_init_kms_def Let_def ra_view_upd split: option.splits)

lemma verify_quote_frame [frame_simps]: "snd (ecall_verify_quote k q) = k"
  by (simp add: ecall_verify_quote_def split: option.splits)

lemma registry_calls_ra [frame_simps]:
  "ra_view (snd (ecall_register_policy_fid k f m)) = ra_view k"
  "ra_view (snd (ecall_bind_label_to_fid k f l)) = ra_view k"
  by (simp_all add: ecall_register_policy_fid_def register_policy_fid_def ecall_bind_label_to_fid_def
      bind_label_to_fid_def Let_def ra_view_upd split: option.splits prod.splits)

lemma set_ra_registry [frame_simps]:
  "g_policy_registry (snd (ecall_set_ra_result k v m)) = g_policy_registry k"
  by (simp add: ecall_set_ra_result_def)

lemma exec_ra_frame: "\<not> sets_ra c \<Longrightarrow> ra_view (kms_exec m s z e c k) = ra_view k"
  by (cases c) (simp_all add: frame_simps)

lemma exec_registry_frame:
  "\<not> sets_registry c \<Longrightarrow> g_policy_registry (kms_exec m s z e c k) = g_policy_registry k"
  by (cases c) (simp_all add: frame_simps)

subsection \<open>Invariants over all runs\<close>

lemma kms_boot_unverified [simp]: "\<not> g_ra_verified kms_boot"
  by (simp add: kms_boot_def)

definition kms_inv :: "kms \<Rightarrow> bool" where
  "kms_inv k \<longleftrightarrow> wf_registry k \<and> length (g_verified_mrenclave k) = 32 \<and>
     length (g_verified_report_data k) = 64 \<and> length (g_verified_fid k) < 128"

lemma kms_boot_inv [simp]: "kms_inv kms_boot"
  by (simp add: kms_inv_def wf_registry_def kms_boot_def)

lemma verify_quote_lengths:
  assumes "kms_inv k"
  shows "kms_inv (snd (ecall_verify_quote_for_fid k f q))"
proof -
  obtain r k' where r: "ecall_verify_quote_for_fid k f q = (r, k')" by (rule prod.exhaust)
  note e = verify_quote_effect [OF r]
  have "wf_registry k" using assms by (simp add: kms_inv_def)
  with e have "wf_registry k'" using registry_frame(4) [of k' k] verify_quote_registry [of k f q] r by simp
  moreover have "length (g_verified_mrenclave k') = 32 \<and> length (g_verified_report_data k') = 64 \<and>
      length (g_verified_fid k') < 128"
    using e [OF \<open>wf_registry k\<close>]
    by (cases "r = 0") (auto simp: quote_mrenclave_def quote_report_data_def reset_ra_def)
  ultimately show ?thesis using r by (simp add: kms_inv_def)
qed

lemma kms_inv_view:
  "ra_view k' = ra_view k \<Longrightarrow> wf_registry k' \<Longrightarrow> kms_inv k \<Longrightarrow> kms_inv k'"
  by (simp add: ra_view_def kms_inv_def)

lemma kms_inv_step:
  assumes "kms_step m s z c k k'" "kms_inv k"
  shows "kms_inv k'"
proof -
  from assms(1) obtain e where v: "valid_call c" and k': "k' = kms_exec m s z e c k"
    by (rule kms_stepE)
  have w: "wf_registry k" using assms(2) by (simp add: kms_inv_def)
  have "wf_registry k'" if "\<not> sets_ra c"
  proof (cases "sets_registry c")
    case True
    then show ?thesis
      using v k' register_wf [OF w _ prod.collapse [symmetric]] bind_wf [OF w prod.collapse [symmetric]]
      by (cases c) (simp_all add: ecall_register_policy_fid_def ecall_bind_label_to_fid_def)
  next
    case False
    with w k' show ?thesis using registry_frame(4) [OF exec_registry_frame [OF False, of m s z e k]] by simp
  qed
  moreover have "kms_inv k'" if "sets_ra c"
    using that assms(2) k' verify_quote_lengths
    by (cases c) (auto simp: ecall_set_ra_result_def kms_inv_def wf_registry_def)
  ultimately show ?thesis
    using kms_inv_view [OF exec_ra_frame] assms(2) k' by blast
qed

interpretation kms_lengths: history_invariant "kms_step m s z" "\<lambda>cs. kms_inv" for m s z
  by unfold_locales (rule kms_inv_step)

text \<open>Over a step, policies stay and label sets grow.\<close>

definition registry_grows :: "kms \<Rightarrow> kms \<Rightarrow> bool" where
  "registry_grows k k' \<longleftrightarrow> (\<forall>f w. policy_of k f = Some w \<longrightarrow> policy_of k' f = Some w) \<and>
     (\<forall>f. set (labels_of k f) \<subseteq> set (labels_of k' f))"

lemma register_keeps_labels:
  assumes "register_policy_fid k f m = (r, k')"
  shows "set (labels_of k g) \<subseteq> set (labels_of k' g)"
  using assms
proof (cases rule: register_cases)
  case (set i reg)
  show ?thesis
  proof (cases "entry_of k g")
    case (Some e)
    have "e = reg ! i" if "find_policy k g = Some i"
    proof -
      have "i < length (g_policy_registry k)"
        using that find_policy_from_Some [of 0 "g_policy_registry k" g i] by (simp add: find_policy_def)
      then show ?thesis using that set(2) Some by (auto simp: entry_of_def elim!: entry_for_cases)
    qed
    then show ?thesis using store_entry_other [OF set(2) _ Some] set(4) Some by (auto simp: labels_of_entry)
  qed (simp add: labels_of_entry)
qed simp_all

lemma registry_grows_step:
  assumes "kms_step m s z c k k'"
  shows "registry_grows k k'"
proof -
  from assms obtain e where k': "k' = kms_exec m s z e c k" by (rule kms_stepE)
  show ?thesis
  proof (cases "sets_registry c")
    case False
    then show ?thesis
      using registry_frame(2,3) [OF exec_registry_frame [OF False, of m s z e k]] by (simp add: registry_grows_def k')
  next
    case True
    then consider f mr where "c = RegisterPolicy f mr" | f l where "c = BindLabel f l"
      by (cases c) auto
    then show ?thesis
    proof cases
      case 1
      obtain r where "register_policy_fid k f mr = (r, k')"
        using 1 k' by (metis kms_exec.simps(10) ecall_register_policy_fid_def prod.collapse)
      then show ?thesis using register_keeps_policy register_keeps_labels by (simp add: registry_grows_def)
    next
      case 2
      obtain r where "bind_label_to_fid k f l = (r, k')"
        using 2 k' by (metis kms_exec.simps(11) ecall_bind_label_to_fid_def prod.collapse)
      then show ?thesis using bind_keeps_policy bind_keeps_labels by (simp add: registry_grows_def)
    qed
  qed
qed

interpretation registry_history: history_invariant "kms_step m s z" "\<lambda>cs. registry_grows k0" for m s z k0
proof unfold_locales
  show "registry_grows k0 k'" if "registry_grows k0 k" "kms_step m s z c k k'" for c k k' and cs :: "kms_call list"
    using that(1) registry_grows_step [OF that(2)] unfolding registry_grows_def by blast
qed

text \<open>
  The history of the verified state: the last call that writes it, if it was a verification of a
  quote for an FID. Whenever the state is verified, this is the quote it was verified with.
\<close>

fun quote_of_call :: "kms_call \<Rightarrow> (bytes \<times> bytes) option" where
  "quote_of_call (VerifyQuoteForFid (Some f) (Some q)) = Some (f, q)"
| "quote_of_call _ = None"

definition last_quote :: "kms_call list \<Rightarrow> (bytes \<times> bytes) option" where
  "last_quote cs = Option.bind (find sets_ra (rev cs)) quote_of_call"

lemma last_quote_snoc [simp]:
  "last_quote (cs @ [c]) = (if sets_ra c then quote_of_call c else last_quote cs)"
  by (simp add: last_quote_def)

definition verified_by_quote :: "kms_call list \<Rightarrow> kms \<Rightarrow> bool" where
  "verified_by_quote cs k \<longleftrightarrow> (g_ra_verified k \<longrightarrow>
     (\<exists>f q. last_quote cs = Some (f, q) \<and> 432 \<le> length q \<and> g_verified_fid k = take 127 f \<and>
        g_verified_mrenclave k = quote_mrenclave q \<and> g_verified_report_data k = quote_report_data q))"

lemma not_verified: "\<not> g_ra_verified k \<Longrightarrow> verified_by_quote cs k"
  by (simp add: verified_by_quote_def)

lemma verified_by_quote_step:
  assumes "kms_inv k" "verified_by_quote cs k" "kms_step m s z c k k'"
  shows "verified_by_quote (cs @ [c]) k'"
proof -
  from assms(3) obtain e where k': "k' = kms_exec m s z e c k" by (rule kms_stepE)
  show ?thesis
  proof (cases "sets_ra c")
    case False
    from exec_ra_frame [OF this, of m s z e k] have "ra_view k' = ra_view k" by (simp add: k')
    with False assms(2) show ?thesis by (simp add: verified_by_quote_def ra_view_def)
  next
    case True
    show ?thesis
    proof (cases c)
      case (VerifyQuoteForFid fa qa)
      obtain r where r: "ecall_verify_quote_for_fid k fa qa = (r, k')"
        using k' VerifyQuoteForFid by (metis kms_exec.simps(3) prod.collapse)
      have "wf_registry k" using assms(1) by (simp add: kms_inv_def)
      from verify_quote_effect [OF r this] VerifyQuoteForFid show ?thesis
        by (cases "r = 0") (auto simp: verified_by_quote_def)
    next
      case (SetRaResult v mr)
      then show ?thesis by (simp add: verified_by_quote_def k' ecall_set_ra_result_def)
    qed (use True in simp_all)
  qed
qed

interpretation quote_history: history_invariant "kms_step m s z" "\<lambda>cs k. kms_inv k \<and> verified_by_quote cs k" for m s z
  by unfold_locales (metis kms_inv_step verified_by_quote_step)

subsection \<open>Properties\<close>


definition demo_calls :: "kms_call list" where
  "demo_calls = [InitKms None None, RegisterPolicy (lit ''f1'') (replicate 32 192),
     VerifyQuoteForFid (Some (lit ''f1'')) (Some (replicate 432 192))]"

definition demo_kms :: kms where
  "demo_kms = kms_boot\<lparr>g_msk := replicate 12 5, g_msk_initialized := True,
     g_policy_registry := [\<lparr>fid = lit ''f1'', policy_mrenclave = replicate 32 192, policy_set = True, bound_labels = []\<rparr>],
     g_ra_verified := True, g_verified_mrenclave := replicate 32 192, g_verified_fid := lit ''f1'',
     g_verified_report_data := replicate 64 192\<rparr>"

lemma runs_step: "runs step s0 cs s \<Longrightarrow> step c s s' \<Longrightarrow> cs' = cs @ [c] \<Longrightarrow> runs step s0 cs' s'"
  by (simp add: runs_snoc)

lemma kms_stepI: "valid_call c \<Longrightarrow> k' = kms_exec m s z e c k \<Longrightarrow> kms_step m s z c k k'"
  by (simp add: kms_step.intros)

lemma demo_run: "runs (kms_step toy_mcl toy_sgx toy_sealing) kms_boot demo_calls demo_kms"
proof -
  let ?k1 = "kms_boot\<lparr>g_msk := replicate 12 5, g_msk_initialized := True\<rparr>"
  let ?k2 = "?k1\<lparr>g_policy_registry := [\<lparr>fid = lit ''f1'', policy_mrenclave = replicate 32 192,
    policy_set = True, bound_labels = []\<rparr>]\<rparr>"
  have s1: "kms_step toy_mcl toy_sgx toy_sealing (InitKms None None) kms_boot ?k1"
    by (rule kms_stepI [where e = toy_env]) (simp_all add: ecall_init_kms_def unseal_msk_def)
  have s2: "kms_step toy_mcl toy_sgx toy_sealing (RegisterPolicy (lit ''f1'') (replicate 32 192)) ?k1 ?k2"
    by (rule kms_stepI [where e = toy_env])
      (simp_all add: ecall_register_policy_fid_def register_policy_fid_def entry_for_def find_policy_def
        kms_boot_def kms_consts new_entry_def)
  have s3: "kms_step toy_mcl toy_sgx toy_sealing
      (VerifyQuoteForFid (Some (lit ''f1'')) (Some (replicate 432 192))) ?k2 demo_kms"
    by (rule kms_stepI [where e = toy_env])
      (simp_all add: ecall_verify_quote_for_fid_def Let_def reset_ra_def find_policy_def kms_boot_def kms_consts
        slice_def memcmp_eq_def demo_kms_def)
  show ?thesis
    by (rule runs_step, rule runs_step, rule runs_step, rule runs_nil, rule s1, rule refl, rule s2, rule refl, rule s3)
      (simp add: demo_calls_def)
qed




text \<open>
  C25: the type invariant of the enclave state: in every run the registry stays within its 128
  entries of at most four labels each, names and labels within their arrays, and the
  verified measurement, report data and FID have their lengths.
\<close>

theorem kms_state_invariant:
  assumes "runs (kms_step m s z) kms_boot cs k"
  shows "kms_inv k"
  using kms_lengths.runs_inv [OF assms] by simp

theorem kms_state_invariant_witness: "kms_inv demo_kms"
  by (rule kms_state_invariant [OF demo_run])

end
