(* ===== verification/Host.thy ===== *)
theory Host
  imports Wire
begin

text \<open>
  What the two untrusted applications share: the socket as a sequence of events, the reads and
  writes that loop over it, words in host order (the platform is little-endian), the number
  parsing of the C library, and the results a handler can leave with.
\<close>

subsection \<open>Words in host order\<close>

definition le32 :: "u32 \<Rightarrow> bytes" where
  "le32 v = [ucast v, ucast (drop_bit 8 v), ucast (drop_bit 16 v), ucast (drop_bit 24 v)]"

definition unle32 :: "bytes \<Rightarrow> u32" where
  "unle32 b = un32 (b ! 3) (b ! 2) (b ! 1) (b ! 0)"

definition le64 :: "u64 \<Rightarrow> bytes" where
  "le64 v = map (\<lambda>i. ucast (drop_bit (8 * i) v)) [0..<8]"

lemma length_le32 [simp]: "length (le32 v) = 4"
  by (simp add: le32_def)

lemma length_le64 [simp]: "length (le64 v) = 8"
  by (simp add: le64_def)

lemma unle32_le32 [simp]: "unle32 (le32 v) = v"
  by (simp add: unle32_def le32_def)

lemma le32_rev: "le32 v = rev (be32 v)"
  by (simp add: le32_def be32_def)

lemma le32_unle32: "length b = 4 \<Longrightarrow> le32 (unle32 b) = b"
  by (auto simp: le32_rev unle32_def length_Suc_conv numeral_eq_Suc)

text \<open>A C string in a buffer: the bytes before the first zero.\<close>

definition cstr :: "bytes \<Rightarrow> bytes" where
  "cstr b = takeWhile (\<lambda>x. x \<noteq> 0) b"

lemma cstr_id: "0 \<notin> set b \<Longrightarrow> cstr b = b"
  unfolding cstr_def by (induction b) auto

subsection \<open>Sockets\<close>

text \<open>
  What the peer and the kernel deliver: data, an interrupted call, a failure, the end of the
  stream. When the list is used up nothing further arrives and a read blocks.
\<close>

datatype net_event = Chunk bytes | Intr | Fault | Eof

datatype 'a io = Done 'a | Failed | Blocked

datatype read_result = Got bytes | Interrupted | ReadError | Blocks

fun sock_read :: "net_event list \<Rightarrow> nat \<Rightarrow> read_result \<times> net_event list" where
  "sock_read [] n = (Blocks, [])"
| "sock_read (Chunk d # r) n =
     (if length d \<le> n then (Got d, r) else (Got (take n d), Chunk (drop n d) # r))"
| "sock_read (Intr # r) n = (Interrupted, r)"
| "sock_read (Fault # r) n = (ReadError, r)"
| "sock_read (Eof # r) n = (Got [], Eof # r)"

lemma sock_read_shrinks:
  "sock_read evs n = (Interrupted, r) \<Longrightarrow> length r < length evs"
  "sock_read evs n = (Got d, r) \<Longrightarrow> length r \<le> length evs"
  "sock_read evs n = (Got d, r) \<Longrightarrow> length d \<le> n"
  by (cases evs; cases "hd evs"; auto split: if_splits)+

text \<open>The bytes the peer sends before the stream ends, fails or stalls.\<close>

fun stream :: "net_event list \<Rightarrow> bytes" where
  "stream [] = []"
| "stream (Chunk d # r) = (if d = [] then [] else d @ stream r)"
| "stream (Intr # r) = stream r"
| "stream (Fault # r) = []"
| "stream (Eof # r) = []"

lemma sock_read_got:
  assumes "sock_read evs n = (Got d, r)" "0 < n"
  shows "stream evs = d @ (if d = [] then [] else stream r)"
proof (cases evs)
  case (Cons e es)
  show ?thesis
  proof (cases e)
    case (Chunk c)
    show ?thesis
    proof (cases "length c \<le> n")
      case False
      then have "drop n c \<noteq> []" "take n c \<noteq> []" using assms(2) by auto
      with False assms(1) Cons Chunk show ?thesis by (auto simp flip: append_assoc)
    qed (use assms Cons Chunk in auto)
  qed (use assms Cons in auto)
qed (use assms in simp)

lemma sock_read_other:
  "sock_read evs n = (Interrupted, r) \<Longrightarrow> stream evs = stream r"
  "sock_read evs n = (ReadError, r) \<Longrightarrow> stream evs = []"
  "sock_read evs n = (Blocks, r) \<Longrightarrow> stream evs = []"
  by (cases evs rule: stream.cases; simp split: if_splits)+

subsection \<open>Number parsing\<close>

definition is_space :: "byte \<Rightarrow> bool" where
  "is_space c \<longleftrightarrow> c = 32 \<or> (9 \<le> c \<and> c \<le> 13)"

definition is_digit :: "byte \<Rightarrow> bool" where
  "is_digit c \<longleftrightarrow> 48 \<le> c \<and> c \<le> 57"

definition dec_value :: "bytes \<Rightarrow> int" where
  "dec_value ds = foldl (\<lambda>n c. 10 * n + int (unat (c - 48))) 0 ds"

text \<open>White space, a sign and a run of digits; None when there is no digit.\<close>

definition scan_int :: "bytes \<Rightarrow> (bool \<times> int \<times> bytes) option" where
  "scan_int s =
     (let t = dropWhile is_space s;
          neg = (t \<noteq> [] \<and> hd t = 45);
          u = (if t \<noteq> [] \<and> (hd t = 45 \<or> hd t = 43) then tl t else t);
          ds = takeWhile is_digit u in
      if ds = [] then None else Some (neg, dec_value ds, dropWhile is_digit u))"

definition LONG_MAX :: int where "LONG_MAX = 2 ^ 63 - 1"
definition LONG_MIN :: int where "LONG_MIN = - (2 ^ 63)"
definition ULONG_MAX :: int where "ULONG_MAX = 2 ^ 64 - 1"

text \<open>\<open>strtol\<close> in base 10: the value, saturated, and the rest of the string (all of it if nothing was read).\<close>

definition strtol :: "bytes \<Rightarrow> int \<times> bytes" where
  "strtol s =
     (case scan_int s of
        None \<Rightarrow> (0, s)
      | Some (neg, n, rest) \<Rightarrow> (max LONG_MIN (min LONG_MAX (if neg then - n else n)), rest))"

text \<open>\<open>strtoul\<close>: a minus sign negates modulo the word; the last component is ERANGE.\<close>

definition strtoul :: "bytes \<Rightarrow> int \<times> bytes \<times> bool" where
  "strtoul s =
     (case scan_int s of
        None \<Rightarrow> (0, s, False)
      | Some (neg, n, rest) \<Rightarrow>
          if ULONG_MAX < n then (ULONG_MAX, rest, True)
          else ((if neg then - n else n) mod 2 ^ 64, rest, False))"

definition env_int_default :: "bytes option \<Rightarrow> int \<Rightarrow> int \<Rightarrow> int \<Rightarrow> int" where
  "env_int_default v default_value min_value max_value =
     (case v of
        None \<Rightarrow> default_value
      | Some s \<Rightarrow>
          if s = [] then default_value
          else let (parsed, rest) = strtol s in
            if rest = s \<or> rest \<noteq> [] \<or> parsed < min_value \<or> max_value < parsed then default_value
            else parsed)"

lemma env_int_bounds:
  "lo \<le> d \<Longrightarrow> d \<le> hi \<Longrightarrow> lo \<le> env_int_default v d lo hi \<and> env_int_default v d lo hi \<le> hi"
  by (auto simp: env_int_default_def split: option.splits prod.splits)

text \<open>
  \<open>sscanf (s, "%2x", &byte) == 1\<close>: white space is skipped, then at most two characters are read that
  form a hexadecimal number with an optional sign; the prefix \<open>0x\<close> alone is no number.
\<close>

definition hexval :: "byte \<Rightarrow> u32 option" where
  "hexval c =
     (if 48 \<le> c \<and> c \<le> 57 then Some (ucast (c - 48))
      else if 97 \<le> c \<and> c \<le> 102 then Some (ucast (c - 87))
      else if 65 \<le> c \<and> c \<le> 70 then Some (ucast (c - 55))
      else None)"

definition sscanf_2x :: "bytes \<Rightarrow> u32 option" where
  "sscanf_2x s =
     (case dropWhile is_space s of
        [] \<Rightarrow> None
      | a # r \<Rightarrow>
          if a = 45 \<or> a = 43 then
            (case r of [] \<Rightarrow> None | b # _ \<Rightarrow> map_option (\<lambda>v. if a = 45 then (- v) else v) (hexval b))
          else (case hexval a of
            None \<Rightarrow> None
          | Some x \<Rightarrow>
              (case r of
                 [] \<Rightarrow> Some x
               | b # _ \<Rightarrow>
                   if a = 48 \<and> (b = 120 \<or> b = 88) then None
                   else (case hexval b of None \<Rightarrow> Some x | Some y \<Rightarrow> Some (16 * x + y)))))"

lemma HEX_hexval: "n < 16 \<Longrightarrow> hexval (HEX ! n) = Some (of_nat n)"
proof -
  have "\<forall>n \<in> set [0..<16]. hexval (HEX ! n) = Some (of_nat n)"
    by (simp add: HEX_def lit_def hexval_def upt_rec)
  then show "n < 16 \<Longrightarrow> ?thesis" by simp
qed

lemma HEX_no_space: "c \<in> set HEX \<Longrightarrow> \<not> is_space c \<and> c \<noteq> 45 \<and> c \<noteq> 43 \<and> c \<noteq> 120 \<and> c \<noteq> 88 \<and> c \<noteq> 10 \<and> c \<noteq> 0 \<and> c \<noteq> 35"
  by (auto simp: HEX_def lit_def is_space_def)

lemma sscanf_hex_byte: "sscanf_2x (hex_byte b @ s) = Some (ucast b)"
proof -
  let ?h = "unat (drop_bit 4 b)" and ?l = "unat (b AND 0x0f)"
  have v: "16 * (of_nat ?h :: u32) + of_nat ?l = ucast b"
    using nibbles(3) [of b] by (metis of_nat_add of_nat_mult of_nat_numeral of_nat_unat)
  show ?thesis
    using HEX_no_space [OF HEX_nth [OF nibbles(1) [of b]]] HEX_no_space [OF HEX_nth [OF nibbles(2) [of b]]]
      HEX_hexval [OF nibbles(1) [of b]] HEX_hexval [OF nibbles(2) [of b]] v
    by (simp add: sscanf_2x_def hex_byte_def)
qed

lemma sscanf_hex_string:
  "i < length d \<Longrightarrow> sscanf_2x (drop (i * 2) (hex_string d)) = Some (ucast (d ! i))"
proof (induction d arbitrary: i)
  case (Cons b d)
  show ?case
  proof (cases i)
    case 0
    then show ?thesis using sscanf_hex_byte by simp
  next
    case (Suc j)
    then have "drop (i * 2) (hex_byte b @ hex_string d) = drop (j * 2) (hex_string d)" by simp
    with Suc Cons show ?thesis by simp
  qed
qed simp

lemma set_hex_string: "set (hex_string d) \<subseteq> set HEX"
  using HEX_nth nibbles by (induction d) (auto simp: hex_byte_def)

subsection \<open>Early exits\<close>

text \<open>The continuation of a step that may leave the handler.\<close>

definition and_then :: "'e + 'a \<Rightarrow> ('a \<Rightarrow> 'e + 'b) \<Rightarrow> 'e + 'b" where
  "and_then x f = (case x of Inl e \<Rightarrow> Inl e | Inr a \<Rightarrow> f a)"

lemma and_then_simps [simp]: "and_then (Inl e) f = Inl e" "and_then (Inr a) f = f a"
  by (simp_all add: and_then_def)

lemma and_then_Inr: "and_then x f = Inr b \<longleftrightarrow> (\<exists>a. x = Inr a \<and> f a = Inr b)"
  by (cases x) auto

end
