(* ===== verification/KmsApp.thy ===== *)
theory KmsApp
  imports Host KmsSystem
begin

text \<open>
  The untrusted KMS server (\<open>sgx_kms/App/App.cpp\<close>): reading a key request from a socket, the
  host-side checks, the calls into the enclave and the reply; the measurement allow-list file.
  A handler leaves with what it sent, whether it closed the socket, and the enclave state.
  Log lines are not modelled. \<open>sgx_quote3_t\<close> is 436 bytes long.
\<close>

definition KMS_MAX_CRYPTO_PROFILE_LEN :: u32 where "KMS_MAX_CRYPTO_PROFILE_LEN = 64"
definition KMS_MAX_QUOTE_SIZE :: u32 where "KMS_MAX_QUOTE_SIZE = 64 * 1024"
definition KMS_MAX_FID_LEN :: u32 where "KMS_MAX_FID_LEN = 4096"
definition KMS_MAX_LABEL_LEN :: u32 where "KMS_MAX_LABEL_LEN = 128"
definition BFIBE_MAX_RELEASE_LEN :: u32 where "BFIBE_MAX_RELEASE_LEN = 4096"
definition MAX_ALLOWED_ENCLAVES :: nat where "MAX_ALLOWED_ENCLAVES = 10"

lemmas kms_app_consts = KMS_MAX_CRYPTO_PROFILE_LEN_def KMS_MAX_QUOTE_SIZE_def KMS_MAX_FID_LEN_def
  KMS_MAX_LABEL_LEN_def BFIBE_MAX_RELEASE_LEN_def MAX_ALLOWED_ENCLAVES_def

text \<open>The process: the allow-list and the enclave.\<close>

record kms_app =
  g_allowed_mrenclaves :: "bytes list"
  g_policy_enabled :: bool
  enclave :: kms

text \<open>
  What the host is given: the results of \<open>malloc\<close>, whether an ECALL reaches the enclave, the
  monotonic clock at its successive readings, and the verdict of the quote verification library
  (None if the call fails).
\<close>

datatype qv_result =
    QvOk | QvConfigNeeded | QvOutOfDate | QvOutOfDateConfigNeeded | QvSwHardeningNeeded
  | QvConfigAndSwHardeningNeeded | QvInvalidSignature | QvRevoked | QvOther u32

record host_env =
  host_malloc :: "nat \<Rightarrow> bool"
  ecall_ok :: "nat \<Rightarrow> bool"
  mono_ns :: "nat \<Rightarrow> u64"
  qv_verify :: "bytes \<Rightarrow> qv_result option"

definition kms_listen_backlog :: "bytes option \<Rightarrow> int" where
  "kms_listen_backlog v = env_int_default v 128 1 4096"

subsection \<open>Socket loops\<close>

function read_exact :: "net_event list \<Rightarrow> nat \<Rightarrow> (bytes \<times> net_event list) io" where
  "read_exact evs left =
     (if left = 0 then Done ([], evs)
      else case sock_read evs left of
        (Interrupted, r) \<Rightarrow> read_exact r left
      | (ReadError, r) \<Rightarrow> Failed
      | (Blocks, r) \<Rightarrow> Blocked
      | (Got d, r) \<Rightarrow>
          if d = [] then Failed
          else case read_exact r (left - length d) of
            Done (rest, q) \<Rightarrow> Done (d @ rest, q)
          | Failed \<Rightarrow> Failed
          | Blocked \<Rightarrow> Blocked)"
  by pat_completeness auto
termination
proof (relation "measure (\<lambda>(evs, left). length evs + left)", goal_cases)
  case (2 evs left x r d)
  then have "sock_read evs left = (Got d, r)" by simp
  from sock_read_shrinks(2,3) [OF this] 2 show ?case
    by (cases d) (simp_all del: sock_read.simps)
next
  case (3 evs left x r)
  then show ?case using sock_read_shrinks(1) [of evs left r] by (simp del: sock_read.simps)
qed simp

declare read_exact.simps [simp del]

definition read_u32 :: "net_event list \<Rightarrow> (u32 \<times> net_event list) io" where
  "read_u32 evs = (case read_exact evs 4 of
     Done (b, r) \<Rightarrow> Done (unle32 b, r) | Failed \<Rightarrow> Failed | Blocked \<Rightarrow> Blocked)"

text \<open>
  \<open>send\<close> returns the values in the list, then accepts everything. The result is what went out and
  whether all of it did.
\<close>

fun send_all :: "int list \<Rightarrow> bytes \<Rightarrow> bytes \<times> bool" where
  "send_all [] data = (data, True)"
| "send_all (n # ns) data =
     (if data = [] then ([], True)
      else if n \<le> 0 then ([], False)
      else let (rest, ok) = send_all ns (drop (nat n) data) in (take (nat n) data @ rest, ok))"

lemma read_exact_Done:
  "read_exact evs n = Done (d, r) \<Longrightarrow> d = take n (stream evs) \<and> n \<le> length (stream evs) \<and> stream r = drop n (stream evs)"
proof (induction evs n arbitrary: d r rule: read_exact.induct)
  case (1 evs left)
  show ?case
  proof (cases "left = 0")
    case False
    obtain x q where x: "sock_read evs left = (x, q)" by (rule prod.exhaust)
    show ?thesis
    proof (cases x)
      case (Got c)
      with 1(3) False x obtain rest where c: "c \<noteq> []" "read_exact q (left - length c) = Done (rest, r)" "d = c @ rest"
        by (subst (asm) read_exact.simps) (auto split: if_splits io.splits)
      have "stream evs = c @ stream q" using sock_read_got [of evs left c q] x Got c(1) False by simp
      moreover have "length c \<le> left" using sock_read_shrinks(3) x Got by blast
      ultimately show ?thesis using 1(1) [OF False _ Got c(1) c(2)] x Got c(3)
        by (auto simp: take_append drop_append)
    next
      case Interrupted
      with 1(3) False x have "read_exact q left = Done (d, r)" by (subst (asm) read_exact.simps) simp
      from 1(2) [OF False _ Interrupted this] x Interrupted sock_read_other(1) [of evs left q] show ?thesis by simp
    qed (use 1(3) False x in \<open>subst (asm) read_exact.simps, simp\<close>)+
  qed (use 1(3) in \<open>simp add: read_exact.simps\<close>)
qed

lemma read_exact_enough:
  "n \<le> length (stream evs) \<Longrightarrow> \<exists>r. read_exact evs n = Done (take n (stream evs), r) \<and> stream r = drop n (stream evs)"
proof -
  have "n \<le> length (stream evs) \<Longrightarrow> \<exists>x. read_exact evs n = Done x"
  proof (induction evs n rule: read_exact.induct)
    case (1 evs left)
    show ?case
    proof (cases "left = 0")
      case False
      obtain x q where x: "sock_read evs left = (x, q)" by (rule prod.exhaust)
      show ?thesis
      proof (cases x)
        case (Got c)
        have st: "stream evs = c @ (if c = [] then [] else stream q)"
          using sock_read_got [of evs left c q] x Got False by simp
        with 1(3) False have c: "c \<noteq> []" by (cases c) auto
        with st 1(3) have "left - length c \<le> length (stream q)" by simp
        from 1(1) [OF False _ Got c this] x obtain y where "read_exact q (left - length c) = Done y" by auto
        with x Got c False show ?thesis by (subst read_exact.simps) (simp split: prod.splits)
      next
        case Interrupted
        with 1(2) [OF False _ Interrupted] x 1(3) sock_read_other(1) [of evs left q] False
        show ?thesis by (subst read_exact.simps) simp
      next
        case ReadError
        with x sock_read_other(2) [of evs left q] 1(3) False show ?thesis by simp
      next
        case Blocks
        with x sock_read_other(3) [of evs left q] 1(3) False show ?thesis by simp
      qed
    qed (simp add: read_exact.simps)
  qed
  then show "n \<le> length (stream evs) \<Longrightarrow> ?thesis" using read_exact_Done by fastforce
qed

lemma read_exact_iff:
  "(\<exists>r. read_exact evs n = Done (d, r) \<and> stream r = s) \<longleftrightarrow> stream evs = d @ s \<and> length d = n"
  using read_exact_Done [of evs n] read_exact_enough [of n evs] by (auto simp: min_absorb2)

subsection \<open>The request\<close>

record kms_request =
  rq_quote :: bytes
  rq_fid :: bytes
  rq_label :: bytes
  rq_public_key :: bytes
  rq_profile :: bytes

text \<open>
  Every early return of the parser leaves the socket open: \<open>Reply\<close> sends a message first,
  \<open>Silent\<close> sends nothing, \<open>Stalled\<close> never returns.
\<close>

datatype early = Reply bytes | Silent | Stalled

definition or_leave :: "'a io \<Rightarrow> early + 'a" where
  "or_leave x = (case x of Done a \<Rightarrow> Inr a | Failed \<Rightarrow> Inl Silent | Blocked \<Rightarrow> Inl Stalled)"

definition read_sized :: "net_event list \<Rightarrow> u32 \<Rightarrow> string \<Rightarrow> bool \<Rightarrow> early + (bytes \<times> net_event list)" where
  "read_sized evs max_len error_msg allocated =
     and_then (or_leave (read_u32 evs)) (\<lambda>(n, evs).
       if n = 0 \<or> max_len < n then Inl (Reply (lit error_msg))
       else if \<not> allocated then Inl Silent
       else or_leave (read_exact evs (unat n)))"

definition parse_request :: "host_env \<Rightarrow> net_event list \<Rightarrow> early + (kms_request \<times> net_event list)" where
  "parse_request h evs =
     and_then (read_sized evs KMS_MAX_QUOTE_SIZE ''INVALID_QUOTE_SIZE'' (host_malloc h 0)) (\<lambda>(quote, evs).
     and_then (read_sized evs KMS_MAX_FID_LEN ''INVALID_FID_LEN'' (host_malloc h 1)) (\<lambda>(f, evs).
     and_then (read_sized evs KMS_MAX_LABEL_LEN ''INVALID_LABEL_LEN'' (host_malloc h 2)) (\<lambda>(label, evs).
     and_then (or_leave (read_exact evs 64)) (\<lambda>(public_key, evs).
     and_then (read_sized evs KMS_MAX_CRYPTO_PROFILE_LEN ''INVALID_CRYPTO_PROFILE'' True) (\<lambda>(crypto_profile, evs).
       Inr (\<lparr>rq_quote = quote, rq_fid = cstr f, rq_label = cstr label, rq_public_key = public_key,
             rq_profile = cstr crypto_profile\<rparr>, evs))))))"

subsection \<open>Quote checks on the host\<close>

definition add_allowed_mrenclave :: "bytes list \<Rightarrow> bytes \<Rightarrow> bytes list" where
  "add_allowed_mrenclave allowed mrenclave =
     (if length allowed < MAX_ALLOWED_ENCLAVES then allowed @ [take 32 mrenclave] else allowed)"

definition check_mrenclave_policy :: "kms_app \<Rightarrow> bytes \<Rightarrow> bool" where
  "check_mrenclave_policy a mrenclave =
     (if \<not> g_policy_enabled a then True
      else list_ex (\<lambda>x. memcmp_eq x mrenclave 32) (g_allowed_mrenclaves a))"

fun qv_acceptable :: "qv_result \<Rightarrow> bool" where
  "qv_acceptable QvOk = True"
| "qv_acceptable QvConfigNeeded = True"
| "qv_acceptable QvOutOfDate = True"
| "qv_acceptable QvOutOfDateConfigNeeded = True"
| "qv_acceptable QvSwHardeningNeeded = True"
| "qv_acceptable QvConfigAndSwHardeningNeeded = True"
| "qv_acceptable QvInvalidSignature = False"
| "qv_acceptable QvRevoked = False"
| "qv_acceptable (QvOther n) = False"

text \<open>The result and the measurement; None where it was not written.\<close>

definition verify_quote_dcap :: "host_env \<Rightarrow> bytes \<Rightarrow> int \<times> bytes option" where
  "verify_quote_dcap h quote =
     (if length quote < 436 then (-1, None)
      else let mrenclave = Some (slice 112 32 quote) in
        case qv_verify h quote of
          None \<Rightarrow> (-1, mrenclave)
        | Some r \<Rightarrow> if qv_acceptable r then (0, mrenclave) else (-1, mrenclave))"

subsection \<open>Replies\<close>

record KmsTimingTrailer =
  verify_dur_ns :: u64
  key_release_dur_ns :: u64
  total_dur_ns :: u64

definition trailer_bytes :: "KmsTimingTrailer \<Rightarrow> bytes" where
  "trailer_bytes t = le64 (verify_dur_ns t) @ le64 (key_release_dur_ns t) @ le64 (total_dur_ns t)"

text \<open>The last clock readings of a reply: the start and the end of the release and of the request.\<close>

definition release_timing :: "host_env \<Rightarrow> u64 \<Rightarrow> KmsTimingTrailer" where
  "release_timing h kms_verify_dur_ns =
     \<lparr>verify_dur_ns = kms_verify_dur_ns, key_release_dur_ns = mono_ns h 4 - mono_ns h 3,
      total_dur_ns = mono_ns h 5 - mono_ns h 0\<rparr>"

definition send_keys_with_timing :: "bytes \<Rightarrow> KmsTimingTrailer \<Rightarrow> bytes" where
  "send_keys_with_timing combined_keys timing = take 248 combined_keys @ trailer_bytes timing"

definition send_bfibe_release_with_timing ::
  "('fr, 'g1, 'g2, 'gt) mcl \<Rightarrow> sgx \<Rightarrow> env \<Rightarrow> host_env \<Rightarrow> kms \<Rightarrow> kms_request \<Rightarrow> u64 \<Rightarrow> bytes \<times> kms" where
  "send_bfibe_release_with_timing m s e h k rq kms_verify_dur_ns =
     (let (r, k') = (if ecall_ok h 1 then ecall_get_bfibe_key_release m s e k (Some (rq_fid rq)) (Some (rq_label rq))
                       (Some (rq_public_key rq)) (Some (zeros 4096)) BFIBE_MAX_RELEASE_LEN
                     else (None, k)) in
      case r of
        Some (bfibe_release, actual_release_size) \<Rightarrow>
          if 0 < actual_release_size
          then (take (unat actual_release_size) bfibe_release @ trailer_bytes (release_timing h kms_verify_dur_ns), k')
          else (lit ''BFIBE_KEY_RELEASE_ERROR'', k')
      | None \<Rightarrow> (lit ''BFIBE_KEY_RELEASE_ERROR'', k'))"

text \<open>The dispatch on the profile, the same in both builds.\<close>

definition reply_for_profile ::
  "('fr, 'g1, 'g2, 'gt) mcl \<Rightarrow> sgx \<Rightarrow> env \<Rightarrow> env \<Rightarrow> host_env \<Rightarrow> kms \<Rightarrow> kms_request \<Rightarrow> u64 \<Rightarrow> bytes \<times> kms" where
  "reply_for_profile m s e1 e2 h k rq kms_verify_dur_ns =
     (if rq_profile rq = lit ''bfibe-mcl-bls12381''
      then send_bfibe_release_with_timing m s e1 h k rq kms_verify_dur_ns
      else if rq_profile rq \<noteq> lit ''eccibe'' then (lit ''UNSUPPORTED_CRYPTO_PROFILE'', k)
      else if \<not> ecall_ok h 1 then (lit ''KEY_GEN_ERROR'', k)
      else case ecall_derive_keys_batch s e1 e2 k (rq_fid rq) (rq_label rq) (rq_public_key rq) of
        (batch_ret, Some dkf_out, Some dklabel_out) \<Rightarrow>
          if batch_ret = 0
          then (send_keys_with_timing (take 124 dkf_out @ take 124 dklabel_out)
                  (release_timing h kms_verify_dur_ns), k)
          else (lit ''KEY_GEN_ERROR'', k)
      | _ \<Rightarrow> (lit ''KEY_GEN_ERROR'', k))"

subsection \<open>The handler\<close>

text \<open>
  The two builds of the handler after parsing: \<open>sim\<close> is the macro \<open>SGX_MODE_SIM\<close>, in which the
  result of the quote verification is not looked at.
\<close>

definition serve_request ::
  "('fr, 'g1, 'g2, 'gt) mcl \<Rightarrow> sgx \<Rightarrow> env \<Rightarrow> env \<Rightarrow> host_env \<Rightarrow> bool \<Rightarrow> kms_app \<Rightarrow> kms_request \<Rightarrow> bytes \<times> kms" where
  "serve_request m s e1 e2 h sim a rq =
     (let kms_verify_dur_ns = mono_ns h 2 - mono_ns h 1;
          (qret, k) = (if ecall_ok h 0 then ecall_verify_quote_for_fid (enclave a) (Some (rq_fid rq)) (Some (rq_quote rq))
                       else (-1, enclave a)) in
      if sim then reply_for_profile m s e1 e2 h k rq kms_verify_dur_ns
      else let (verify_ret, mrenclave) = verify_quote_dcap h (rq_quote rq) in
        if verify_ret \<noteq> 0 then (lit ''DCAP_VERIFY_FAILED'', enclave a)
        else if \<not> check_mrenclave_policy a (the mrenclave) then (lit ''POLICY_DENIED'', enclave a)
        else if \<not> ecall_ok h 0 \<or> qret \<noteq> 0 then (lit ''ENCLAVE_VERIFY_FAILED'', k)
        else reply_for_profile m s e1 e2 h k rq kms_verify_dur_ns)"

text \<open>What was sent, whether the socket was closed, the process; None if the call never returns.\<close>

definition handle_client ::
  "('fr, 'g1, 'g2, 'gt) mcl \<Rightarrow> sgx \<Rightarrow> env \<Rightarrow> env \<Rightarrow> host_env \<Rightarrow> bool \<Rightarrow> kms_app \<Rightarrow> net_event list \<Rightarrow>
   (bytes \<times> bool \<times> kms_app) option" where
  "handle_client m s e1 e2 h sim a evs =
     (case parse_request h evs of
        Inl Stalled \<Rightarrow> None
      | Inl Silent \<Rightarrow> Some ([], False, a)
      | Inl (Reply error_msg) \<Rightarrow> Some (error_msg, False, a)
      | Inr (rq, rest) \<Rightarrow>
          let (reply, k) = serve_request m s e1 e2 h sim a rq in
          Some (reply, True, a\<lparr>enclave := k\<rparr>))"

subsection \<open>The allow-list file\<close>

text \<open>The lines \<open>fgets\<close> delivers to a buffer of 128 bytes, without their newline.\<close>

function fgets_lines :: "bytes \<Rightarrow> bytes list" where
  "fgets_lines xs =
     (if xs = [] then []
      else let line = takeWhile (\<lambda>c. c \<noteq> 10) (take 127 xs) in
        if length line < length (take 127 xs) then line # fgets_lines (drop (length line + 1) xs)
        else take 127 xs # fgets_lines (drop 127 xs))"
  by pat_completeness auto
termination by (relation "measure length") auto

declare fgets_lines.simps [simp del]

text \<open>
  A byte that \<open>sscanf\<close> cannot read keeps whatever the local variable held, given by \<open>stale_byte\<close>.
\<close>

definition parse_mrenclave :: "(nat \<Rightarrow> byte) \<Rightarrow> bytes \<Rightarrow> bytes" where
  "parse_mrenclave stale_byte line =
     map (\<lambda>i. case sscanf_2x (drop (i * 2) line) of None \<Rightarrow> stale_byte i | Some v \<Rightarrow> ucast v) [0..<32]"

definition load_line :: "(nat \<Rightarrow> byte) \<Rightarrow> bytes list \<Rightarrow> bytes \<Rightarrow> bytes list" where
  "load_line stale_byte allowed raw =
     (let line = cstr raw in
      if line = [] \<or> hd line = 35 then allowed
      else if 64 \<le> length line then add_allowed_mrenclave allowed (parse_mrenclave stale_byte line)
      else allowed)"

definition load_policy_from_file :: "(nat \<Rightarrow> byte) \<Rightarrow> kms_app \<Rightarrow> bytes option \<Rightarrow> kms_app" where
  "load_policy_from_file stale_byte a file =
     (case file of
        None \<Rightarrow> a\<lparr>g_policy_enabled := False\<rparr>
      | Some content \<Rightarrow>
          let allowed = foldl (load_line stale_byte) (g_allowed_mrenclaves a) (fgets_lines content) in
          a\<lparr>g_allowed_mrenclaves := allowed, g_policy_enabled := (allowed \<noteq> [])\<rparr>)"

subsection \<open>The command line and the start of the server\<close>

record kms_args =
  bind_requests :: "(bytes \<times> bytes) list"
  print_pubkey :: "(bytes \<times> bytes) option"
  bfibe_test :: bool
  bfibe_public_params :: "bytes option"
  mrenclave_policy_file :: bytes

definition default_args :: kms_args where
  "default_args = \<lparr>bind_requests = [], print_pubkey = None, bfibe_test = False,
     bfibe_public_params = None, mrenclave_policy_file = lit ''kms_policy.txt''\<rparr>"

text \<open>None: a usage error. Unknown arguments are skipped.\<close>

fun parse_kms_args :: "bytes list \<Rightarrow> kms_args \<Rightarrow> kms_args option" where
  "parse_kms_args [] a = Some a"
| "parse_kms_args (x # r) a =
     (if x = lit ''--policy-file'' then
        (case r of v # r' \<Rightarrow> parse_kms_args r' (a\<lparr>mrenclave_policy_file := v\<rparr>) | _ \<Rightarrow> None)
      else if x = lit ''--bind-label'' then
        (case r of o1 # f # o2 # l # r' \<Rightarrow>
           if o1 \<noteq> lit ''--fid'' \<or> o2 \<noteq> lit ''--label'' then None
           else parse_kms_args r' (a\<lparr>bind_requests := bind_requests a @ [(f, l)]\<rparr>)
         | _ \<Rightarrow> None)
      else if x = lit ''--print-pubkey'' then
        (case r of o1 # i # o2 # f # r' \<Rightarrow>
           if o1 \<noteq> lit ''--id'' \<or> o2 \<noteq> lit ''--out'' then None
           else parse_kms_args r' (a\<lparr>print_pubkey := Some (i, f)\<rparr>)
         | _ \<Rightarrow> None)
      else if x = lit ''--bfibe-test'' then parse_kms_args r (a\<lparr>bfibe_test := True\<rparr>)
      else if x = lit ''--bfibe-public-params'' then
        (case r of o1 # f # r' \<Rightarrow>
           if o1 \<noteq> lit ''--out'' then None
           else parse_kms_args r' (a\<lparr>bfibe_public_params := Some f\<rparr>)
         | _ \<Rightarrow> None)
      else parse_kms_args r a)"

definition one_shot_count :: "kms_args \<Rightarrow> nat" where
  "one_shot_count a = of_bool (print_pubkey a \<noteq> None) + of_bool (bfibe_test a) + of_bool (bfibe_public_params a \<noteq> None)"

definition kms_command_line :: "bytes list \<Rightarrow> kms_args option" where
  "kms_command_line argv =
     (case parse_kms_args argv default_args of
        None \<Rightarrow> None
      | Some a \<Rightarrow>
          if (0 < one_shot_count a \<and> bind_requests a \<noteq> []) \<or> 1 < one_shot_count a then None else Some a)"

text \<open>The bindings of the command line, in order; the first failure ends the process.\<close>

fun bind_all :: "(nat \<Rightarrow> bool) \<Rightarrow> nat \<Rightarrow> kms \<Rightarrow> (bytes \<times> bytes) list \<Rightarrow> kms option" where
  "bind_all ok i k [] = Some k"
| "bind_all ok i k ((f, l) # rs) =
     (if \<not> ok i then None
      else let (bind_ret, k') = ecall_bind_label_to_fid k f l in
        if bind_ret \<noteq> 0 then None else bind_all ok (Suc i) k' rs)"

text \<open>
  The start: the enclave is initialised from the sealed file, the labels are bound, a new sealed
  secret is written to the file. \<open>ok 0\<close> is the status of the first ECALL.
\<close>

definition kms_start ::
  "sealing \<Rightarrow> env \<Rightarrow> (nat \<Rightarrow> bool) \<Rightarrow> (nat \<Rightarrow> byte) \<Rightarrow> kms_args \<Rightarrow> (bytes \<Rightarrow> bytes option) \<Rightarrow>
   (kms_app \<times> bytes option) option" where
  "kms_start z e ok stale_byte args file =
     (let a = load_policy_from_file stale_byte
                \<lparr>g_allowed_mrenclaves = [], g_policy_enabled = False, enclave = kms_boot\<rparr>
                (file (mrenclave_policy_file args));
          (k, blob) = ecall_init_kms z e (enclave a) (file (lit ''kms_data.sealed'')) (Some 2048) in
      if \<not> ok 0 then None
      else case bind_all ok 1 k (bind_requests args) of
        None \<Rightarrow> None
      | Some k' \<Rightarrow> Some (a\<lparr>enclave := k'\<rparr>, blob))"

text \<open>The one-shot commands: what they write to their output file, or None for a failure.\<close>

definition print_pubkey_cmd :: "sgx \<Rightarrow> env \<Rightarrow> bool \<Rightarrow> kms \<Rightarrow> bytes \<Rightarrow> bytes option" where
  "print_pubkey_cmd s e ok k i = (if ok then ecall_get_public_key s e k i else None)"

definition public_params_cmd :: "('fr, 'g1, 'g2, 'gt) mcl \<Rightarrow> sgx \<Rightarrow> bool \<Rightarrow> kms \<Rightarrow> bytes option" where
  "public_params_cmd m s ok k =
     (if \<not> ok then None
      else case fst (ecall_get_bfibe_public_params m s k (Some (zeros 256)) 256) of
        None \<Rightarrow> None
      | Some bfibe_mpk \<Rightarrow> if bfibe_mpk = [] then None else Some bfibe_mpk)"

definition bfibe_test_cmd :: "('fr, 'g1, 'g2, 'gt) mcl \<Rightarrow> sgx \<Rightarrow> bool \<Rightarrow> kms \<Rightarrow> int" where
  "bfibe_test_cmd m s ok k =
     (if \<not> ok \<or> fst (ecall_bfibe_extract_test m s k) \<noteq> 0 then 1 else 0)"

subsection \<open>The request format\<close>

text \<open>
  The bytes of a request. The parser accepts exactly these, with the fields within their limits,
  however the network cuts them.
\<close>

definition sized :: "bytes \<Rightarrow> bytes" where
  "sized d = le32 (len32 d) @ d"

definition request_bytes :: "bytes \<Rightarrow> bytes \<Rightarrow> bytes \<Rightarrow> bytes \<Rightarrow> bytes \<Rightarrow> bytes" where
  "request_bytes quote f label public_key profile =
     sized quote @ sized f @ sized label @ public_key @ sized profile"

definition within :: "u32 \<Rightarrow> bytes \<Rightarrow> bool" where
  "within max_len d \<longleftrightarrow> d \<noteq> [] \<and> length d \<le> unat max_len"

lemma read_u32_iff:
  "(\<exists>r. read_u32 evs = Done (v, r) \<and> stream r = s) \<longleftrightarrow> stream evs = le32 v @ s"
proof
  assume "\<exists>r. read_u32 evs = Done (v, r) \<and> stream r = s"
  then obtain b r where "read_exact evs 4 = Done (b, r)" "v = unle32 b" "stream r = s"
    by (auto simp: read_u32_def split: io.splits)
  with read_exact_iff [of evs 4 b s] show "stream evs = le32 v @ s" by (auto simp: le32_unle32)
next
  assume "stream evs = le32 v @ s"
  with read_exact_iff [of evs 4 "le32 v" s] show "\<exists>r. read_u32 evs = Done (v, r) \<and> stream r = s"
    by (auto simp: read_u32_def)
qed

lemma or_leave_Inr [simp]: "or_leave x = Inr a \<longleftrightarrow> x = Done a"
  by (simp add: or_leave_def split: io.splits)

lemma read_sized_iff:
  "(\<exists>r. read_sized evs mx msg True = Inr (d, r) \<and> stream r = s) \<longleftrightarrow>
     stream evs = sized d @ s \<and> within mx d"
proof
  assume "\<exists>r. read_sized evs mx msg True = Inr (d, r) \<and> stream r = s"
  then obtain n q r where q: "read_u32 evs = Done (n, q)" "n \<noteq> 0" "\<not> mx < n"
    and r: "read_exact q (unat n) = Done (d, r)" "stream r = s"
    by (auto simp: read_sized_def and_then_Inr split: if_splits)
  from r read_exact_iff [of q "unat n" d s] have d: "stream q = d @ s" "length d = unat n" by auto
  from q(1) read_u32_iff [of evs n "stream q"] have "stream evs = le32 n @ d @ s" using d by auto
  moreover from d(2) have "len32 d = n" by (rule len32_of_unat)
  moreover have "within mx d" using q(2,3) d(2) by (auto simp: within_def word_less_nat_alt unat_eq_0)
  ultimately show "stream evs = sized d @ s \<and> within mx d" by (simp add: sized_def)
next
  assume a: "stream evs = sized d @ s \<and> within mx d"
  then have l: "length d < 2 ^ 32" using unat_u32_bound [of mx] by (simp add: within_def)
  from a read_u32_iff [of evs "len32 d" "d @ s"] obtain q where
    q: "read_u32 evs = Done (len32 d, q)" "stream q = d @ s" by (auto simp: sized_def)
  from q(2) l read_exact_iff [of q "unat (len32 d)" d s] obtain r where
    "read_exact q (unat (len32 d)) = Done (d, r)" "stream r = s" by auto
  moreover have "unat (len32 d) = length d" using l by simp
  then have "len32 d \<noteq> 0 \<and> \<not> mx < len32 d"
    using a by (auto simp: within_def word_less_nat_alt)
  ultimately show "\<exists>r. read_sized evs mx msg True = Inr (d, r) \<and> stream r = s"
    using q(1) by (simp add: read_sized_def and_then_def or_leave_def)
qed

definition valid_fields :: "bytes \<Rightarrow> bytes \<Rightarrow> bytes \<Rightarrow> bytes \<Rightarrow> bytes \<Rightarrow> bool" where
  "valid_fields quote f label public_key profile \<longleftrightarrow>
     within KMS_MAX_QUOTE_SIZE quote \<and> within KMS_MAX_FID_LEN f \<and> within KMS_MAX_LABEL_LEN label \<and>
     length public_key = 64 \<and> within KMS_MAX_CRYPTO_PROFILE_LEN profile"

lemma parse_request_accepts:
  assumes "\<And>i. host_malloc h i" "stream evs = request_bytes q f l pk p @ s" "valid_fields q f l pk p"
  shows "\<exists>r. parse_request h evs = Inr (\<lparr>rq_quote = q, rq_fid = cstr f, rq_label = cstr l,
    rq_public_key = pk, rq_profile = cstr p\<rparr>, r) \<and> stream r = s"
proof -
  obtain e1 where 1: "read_sized evs KMS_MAX_QUOTE_SIZE ''INVALID_QUOTE_SIZE'' True = Inr (q, e1)"
    "stream e1 = sized f @ sized l @ pk @ sized p @ s"
    using read_sized_iff [of evs KMS_MAX_QUOTE_SIZE "''INVALID_QUOTE_SIZE''" q "sized f @ sized l @ pk @ sized p @ s"] assms(2,3)
    by (auto simp: request_bytes_def valid_fields_def)
  obtain e2 where 2: "read_sized e1 KMS_MAX_FID_LEN ''INVALID_FID_LEN'' True = Inr (f, e2)"
    "stream e2 = sized l @ pk @ sized p @ s"
    using read_sized_iff [of e1 KMS_MAX_FID_LEN "''INVALID_FID_LEN''" f "sized l @ pk @ sized p @ s"] 1(2) assms(3)
    by (auto simp: valid_fields_def)
  obtain e3 where 3: "read_sized e2 KMS_MAX_LABEL_LEN ''INVALID_LABEL_LEN'' True = Inr (l, e3)"
    "stream e3 = pk @ sized p @ s"
    using read_sized_iff [of e2 KMS_MAX_LABEL_LEN "''INVALID_LABEL_LEN''" l "pk @ sized p @ s"] 2(2) assms(3)
    by (auto simp: valid_fields_def)
  obtain e4 where 4: "read_exact e3 64 = Done (pk, e4)" "stream e4 = sized p @ s"
    using read_exact_iff [of e3 64 pk "sized p @ s"] 3(2) assms(3) by (auto simp: valid_fields_def)
  obtain e5 where 5: "read_sized e4 KMS_MAX_CRYPTO_PROFILE_LEN ''INVALID_CRYPTO_PROFILE'' True = Inr (p, e5)"
    "stream e5 = s"
    using read_sized_iff [of e4 KMS_MAX_CRYPTO_PROFILE_LEN "''INVALID_CRYPTO_PROFILE''" p s] 4(2) assms(3)
    by (auto simp: valid_fields_def)
  show ?thesis using 1 2 3 4 5 assms(1) by (simp add: parse_request_def or_leave_def)
qed

lemma read_sized_malloc:
  "read_sized evs mx msg b = Inr x \<Longrightarrow> b \<and> read_sized evs mx msg True = Inr x"
  by (auto simp: read_sized_def and_then_Inr split: if_splits)

lemma read_sized_only:
  "read_sized evs mx msg b = Inr (d, r) \<Longrightarrow> stream evs = sized d @ stream r \<and> within mx d"
  using read_sized_malloc read_sized_iff [of evs mx msg d "stream r"] by blast

lemma parse_request_only:
  assumes "parse_request h evs = Inr (rq, r)"
  shows "\<exists>f l p. stream evs = request_bytes (rq_quote rq) f l (rq_public_key rq) p @ stream r \<and>
    valid_fields (rq_quote rq) f l (rq_public_key rq) p \<and>
    rq_fid rq = cstr f \<and> rq_label rq = cstr l \<and> rq_profile rq = cstr p"
proof -
  from assms obtain q e1 f e2 l e3 pk e4 p where
    "read_sized evs KMS_MAX_QUOTE_SIZE ''INVALID_QUOTE_SIZE'' (host_malloc h 0) = Inr (q, e1)"
    "read_sized e1 KMS_MAX_FID_LEN ''INVALID_FID_LEN'' (host_malloc h 1) = Inr (f, e2)"
    "read_sized e2 KMS_MAX_LABEL_LEN ''INVALID_LABEL_LEN'' (host_malloc h 2) = Inr (l, e3)"
    "read_exact e3 64 = Done (pk, e4)"
    "read_sized e4 KMS_MAX_CRYPTO_PROFILE_LEN ''INVALID_CRYPTO_PROFILE'' True = Inr (p, r)"
    "rq = \<lparr>rq_quote = q, rq_fid = cstr f, rq_label = cstr l, rq_public_key = pk, rq_profile = cstr p\<rparr>"
    by (auto simp: parse_request_def and_then_Inr)
  then show ?thesis
    using read_exact_iff [of e3 64 pk "stream e4"]
    by - (rule exI [of _ f], rule exI [of _ l], rule exI [of _ p],
      auto simp: request_bytes_def valid_fields_def dest!: read_sized_only)
qed

subsection \<open>Properties\<close>

text \<open>A host on which nothing fails, and the parser on one concrete request, cut into pieces.\<close>

definition calm_host :: host_env where
  "calm_host = \<lparr>host_malloc = (\<lambda>i. True), ecall_ok = (\<lambda>i. True), mono_ns = (\<lambda>i. of_nat i),
     qv_verify = (\<lambda>q. Some QvOk)\<rparr>"

lemma calm_host_simps [simp]:
  "host_malloc calm_host i" "ecall_ok calm_host i" "qv_verify calm_host q = Some QvOk"
  by (simp_all add: calm_host_def)

text \<open>
  C24: the request parser is a function of the byte stream alone. However the network cuts or
  interrupts it, a stream that begins with a request whose fields are nonempty and within their
  limits is parsed to that request and consumed exactly; and nothing else is accepted.
\<close>

theorem parse_request_exact:
  assumes "\<And>i. host_malloc h i"
  shows "(\<exists>r. parse_request h evs = Inr (rq, r) \<and> stream r = s) \<longleftrightarrow>
    (\<exists>f l p. stream evs = request_bytes (rq_quote rq) f l (rq_public_key rq) p @ s \<and>
       valid_fields (rq_quote rq) f l (rq_public_key rq) p \<and>
       rq_fid rq = cstr f \<and> rq_label rq = cstr l \<and> rq_profile rq = cstr p)"
proof
  assume "\<exists>r. parse_request h evs = Inr (rq, r) \<and> stream r = s"
  then show "\<exists>f l p. stream evs = request_bytes (rq_quote rq) f l (rq_public_key rq) p @ s \<and>
       valid_fields (rq_quote rq) f l (rq_public_key rq) p \<and>
       rq_fid rq = cstr f \<and> rq_label rq = cstr l \<and> rq_profile rq = cstr p"
    using parse_request_only by blast
next
  assume "\<exists>f l p. stream evs = request_bytes (rq_quote rq) f l (rq_public_key rq) p @ s \<and>
       valid_fields (rq_quote rq) f l (rq_public_key rq) p \<and>
       rq_fid rq = cstr f \<and> rq_label rq = cstr l \<and> rq_profile rq = cstr p"
  then obtain f l p where a: "stream evs = request_bytes (rq_quote rq) f l (rq_public_key rq) p @ s"
    "valid_fields (rq_quote rq) f l (rq_public_key rq) p"
    "rq = \<lparr>rq_quote = rq_quote rq, rq_fid = cstr f, rq_label = cstr l, rq_public_key = rq_public_key rq, rq_profile = cstr p\<rparr>"
    by (cases rq) auto
  show "\<exists>r. parse_request h evs = Inr (rq, r) \<and> stream r = s"
    using parse_request_accepts [OF assms a(1,2)] a(3) by simp
qed

theorem parse_request_exact_witness:
  "\<exists>r. parse_request calm_host [Chunk (sized [7, 8] @ sized (lit ''f1'')), Intr,
      Chunk (sized (lit ''l1'') @ replicate 64 3), Chunk (sized (lit ''eccibe''))] =
    Inr (\<lparr>rq_quote = [7, 8], rq_fid = lit ''f1'', rq_label = lit ''l1'', rq_public_key = replicate 64 3,
      rq_profile = lit ''eccibe''\<rparr>, r) \<and> stream r = []"
proof -
  have c: "cstr (lit ''f1'') = lit ''f1''" "cstr (lit ''l1'') = lit ''l1''" "cstr (lit ''eccibe'') = lit ''eccibe''"
    by (simp_all add: cstr_def lit_def)
  have n: "sized d \<noteq> []" for d by (simp add: sized_def le32_def)
  have m: "\<And>i. host_malloc calm_host i" by simp
  show ?thesis
    by (subst parse_request_exact [OF m], rule exI [of _ "lit ''f1''"], rule exI [of _ "lit ''l1''"],
        rule exI [of _ "lit ''eccibe''"])
      (simp add: c n request_bytes_def valid_fields_def within_def kms_app_consts)
qed

text \<open>What the two host checks of the hardware build establish.\<close>

lemma host_checks:
  assumes "verify_quote_dcap h q = (0, mr)" "check_mrenclave_policy a (the mr)"
  shows "436 \<le> length q \<and> (\<exists>r. qv_verify h q = Some r \<and> qv_acceptable r) \<and>
    (g_policy_enabled a \<longrightarrow> (\<exists>w \<in> set (g_allowed_mrenclaves a). take 32 w = quote_mrenclave q))"
proof -
  from assms(1) have l: "436 \<le> length q" and mr: "mr = Some (slice 112 32 q)"
    and r: "\<exists>r. qv_verify h q = Some r \<and> qv_acceptable r"
    by (auto simp: verify_quote_dcap_def Let_def split: if_splits option.splits)
  have "length (slice 112 32 q) = 32" using l by simp
  with assms(2) mr l r show ?thesis
    by (auto simp: check_mrenclave_policy_def list_ex_iff memcmp_eq_def quote_mrenclave_def)
qed

text \<open>
  The hardware build releases nothing without both checks. If a request is answered by the
  key-release code at all (by anything but the three refusals), the quote library accepted the quote, its
  measurement is in the allow-list if there is one, and the enclave accepted the quote for the
  FID of the request. A request the host refuses leaves the enclave state as it was.
\<close>

theorem hardware_build_checks_quote:
  assumes "serve_request m s e1 e2 h False a rq = (reply, k)"
  shows "reply \<in> {lit ''DCAP_VERIFY_FAILED'', lit ''POLICY_DENIED''} \<and> k = enclave a
    \<or> reply = lit ''ENCLAVE_VERIFY_FAILED''
    \<or> (\<exists>r. qv_verify h (rq_quote rq) = Some r \<and> qv_acceptable r) \<and> 436 \<le> length (rq_quote rq)
      \<and> (g_policy_enabled a \<longrightarrow>
           (\<exists>w \<in> set (g_allowed_mrenclaves a). take 32 w = quote_mrenclave (rq_quote rq)))
      \<and> (\<exists>k1. ecall_verify_quote_for_fid (enclave a) (Some (rq_fid rq)) (Some (rq_quote rq)) = (0, k1))"
proof -
  obtain q k1 where v: "ecall_verify_quote_for_fid (enclave a) (Some (rq_fid rq)) (Some (rq_quote rq)) = (q, k1)"
    by (rule prod.exhaust)
  obtain vr mr where d: "verify_quote_dcap h (rq_quote rq) = (vr, mr)" by (rule prod.exhaust)
  show ?thesis
  proof (cases "vr = 0 \<and> check_mrenclave_policy a (the mr) \<and> ecall_ok h 0 \<and> q = 0")
    case True
    with d v host_checks [of h "rq_quote rq" mr a] show ?thesis by blast
  next
    case False
    with assms v d show ?thesis
      by (auto simp: serve_request_def Let_def split: if_splits)
  qed
qed

definition demo_app :: kms_app where
  "demo_app = \<lparr>g_allowed_mrenclaves = [replicate 32 7], g_policy_enabled = True, enclave = kms_boot\<rparr>"

theorem hardware_build_checks_quote_witness:
  "\<exists>k1. ecall_verify_quote_for_fid kms_boot (Some (lit ''f1'')) (Some (replicate 436 7)) = (0, k1)"
proof -
  let ?rq = "\<lparr>rq_quote = replicate 436 7, rq_fid = lit ''f1'', rq_label = lit ''l1'', rq_public_key = [], rq_profile = lit ''x''\<rparr>"
  obtain reply k where r: "serve_request toy_mcl toy_sgx toy_env toy_env calm_host False demo_app ?rq = (reply, k)"
    by (rule prod.exhaust)
  have "reply = lit ''UNSUPPORTED_CRYPTO_PROFILE''"
    using r by (simp add: serve_request_def Let_def verify_quote_dcap_def check_mrenclave_policy_def demo_app_def
        memcmp_eq_def slice_def ecall_verify_quote_for_fid_def kms_boot_def find_policy_def reset_ra_def kms_consts
        reply_for_profile_def)
  with hardware_build_checks_quote [OF r] show ?thesis by (simp add: demo_app_def)
qed

lemma fgets_line:
  assumes "10 \<notin> set l" "length l < 127"
  shows "fgets_lines (l @ 10 # rest) = l # fgets_lines rest"
proof -
  have "127 - length l = Suc (126 - length l)" using assms(2) by simp
  then have t: "take 127 (l @ 10 # rest) = l @ 10 # take (126 - length l) rest"
    using assms(2) by simp
  have w: "takeWhile (\<lambda>c. c \<noteq> 10) (l @ 10 # x) = l" for x
    using assms(1) by (induction l) auto
  have "length l < length (take 127 (l @ 10 # rest))" unfolding t by simp
  then show ?thesis by (subst fgets_lines.simps) (simp add: Let_def t w del: take_append)
qed

lemma fgets_hex_lines:
  "\<forall>w \<in> set ws. length w = 32 \<Longrightarrow> fgets_lines (concat (map (\<lambda>w. hex_string w @ [10]) ws)) = map hex_string ws"
proof (induction ws)
  case (Cons w ws)
  have "10 \<notin> set (hex_string w)" using set_hex_string HEX_no_space by blast
  with Cons fgets_line [of "hex_string w" "concat (map (\<lambda>w. hex_string w @ [10]) ws)"] show ?case by simp
qed (simp add: fgets_lines.simps)

lemma load_hex_line:
  assumes "length w = 32"
  shows "load_line stale_byte allowed (hex_string w) = add_allowed_mrenclave allowed w"
proof -
  have h: "c \<in> set (hex_string w) \<Longrightarrow> c \<noteq> 0 \<and> c \<noteq> 35" for c
    using set_hex_string HEX_no_space by blast
  then have c: "cstr (hex_string w) = hex_string w" by (intro cstr_id) blast
  have n: "hex_string w \<noteq> []" using length_hex_bytes [of w] assms by (metis length_0_conv mult_eq_0_iff numeral_neq_zero zero_neq_numeral)
  have "parse_mrenclave stale_byte (hex_string w) = map (\<lambda>i. w ! i) [0..<32]"
    using assms by (simp add: parse_mrenclave_def sscanf_hex_string del: upt.simps cong: map_cong)
  also have "\<dots> = w" using assms map_nth [of w] by simp
  finally have "parse_mrenclave stale_byte (hex_string w) = w" .
  then show ?thesis using h [OF hd_in_set [OF n]] n assms c by (simp add: load_line_def Let_def)
qed

text \<open>
  Loading the allow-list. A file with one line of 64 hexadecimal digits for each measurement
  gives exactly those measurements, of which the first ten are kept, and enforcement is on if
  and only if there is at least one; the rest are dropped without an error.
\<close>

theorem load_policy_roundtrip:
  assumes "\<forall>w \<in> set ws. length w = 32" "g_allowed_mrenclaves a = []"
  shows "load_policy_from_file stale_byte a (Some (concat (map (\<lambda>w. hex_string w @ [10]) ws))) =
    a\<lparr>g_allowed_mrenclaves := take 10 ws, g_policy_enabled := (ws \<noteq> [])\<rparr>"
proof -
  have "foldl (load_line stale_byte) acc (map hex_string ws) = take 10 (acc @ ws)"
    if "\<forall>w \<in> set ws. length w = 32" "length acc \<le> 10" for acc
    using that
  proof (induction ws arbitrary: acc)
    case (Cons w ws)
    show ?case
    proof (cases "length acc < 10")
      case True
      then have "10 - length acc = Suc (9 - length acc)" by simp
      with True Cons show ?thesis by (simp add: load_hex_line add_allowed_mrenclave_def kms_app_consts)
    next
      case False
      with Cons show ?thesis by (simp add: load_hex_line add_allowed_mrenclave_def kms_app_consts)
    qed
  qed simp
  from this [OF assms(1), of "[]"] show ?thesis
    using assms fgets_hex_lines [OF assms(1)] by (simp add: load_policy_from_file_def Let_def)
qed

theorem load_policy_roundtrip_witness:
  "g_allowed_mrenclaves (load_policy_from_file (\<lambda>i. 0) (demo_app\<lparr>g_allowed_mrenclaves := []\<rparr>)
     (Some (hex_string (replicate 32 171) @ [10]))) = [replicate 32 171]"
  using load_policy_roundtrip [of "[replicate 32 171]" "demo_app\<lparr>g_allowed_mrenclaves := []\<rparr>" "\<lambda>i. 0"] by simp

lemma bind_all_binds:
  "bind_all ok i k rs = Some k' \<Longrightarrow> wf_registry k \<Longrightarrow>
   wf_registry k' \<and> (\<forall>f. set (labels_of k f) \<subseteq> set (labels_of k' f)) \<and> g_msk_initialized k' = g_msk_initialized k \<and>
   (\<forall>(f, l) \<in> set rs. length f < 128 \<longrightarrow> length l \<le> 64 \<longrightarrow> l \<in> set (labels_of k' f))"
proof (induction rs arbitrary: i k)
  case (Cons r rs)
  obtain f l where r: "r = (f, l)" by (rule prod.exhaust)
  with Cons.prems obtain k1 where b: "bind_label_to_fid k f l = (0, k1)" and n: "bind_all ok (Suc i) k1 rs = Some k'"
    by (auto simp: ecall_bind_label_to_fid_def split: prod.splits if_splits)
  have w: "wf_registry k1" by (rule bind_wf [OF Cons.prems(2) b])
  have "length f < 128 \<longrightarrow> length l \<le> 64 \<longrightarrow> l \<in> set (labels_of k1 f)"
    using bind_effect [OF Cons.prems(2) _ b] by auto
  moreover have "g_msk_initialized k1 = g_msk_initialized k"
    using b by (auto elim!: bind_cases)
  ultimately show ?case
    using Cons.IH [OF n w] bind_keeps_labels [OF b] r by (auto dest: subsetD)
qed simp

text \<open>
  A start that succeeds has bound every label of the command line: each requested label of
  at most 64 bytes is bound to its FID (of fewer than 128 bytes) when the server begins, and the
  master secret is initialised.
\<close>

theorem start_binds_labels:
  assumes "kms_start z e ok stale_byte args file = Some (a, blob)"
    and "(f, l) \<in> set (bind_requests args)" "length f < 128" "length l \<le> 64"
  shows "l \<in> set (labels_of (enclave a) f) \<and> g_msk_initialized (enclave a)"
proof -
  obtain k b where i: "ecall_init_kms z e kms_boot (file (lit ''kms_data.sealed'')) (Some 2048) = (k, b)"
    by (rule prod.exhaust)
  have e: "enclave (load_policy_from_file st \<lparr>g_allowed_mrenclaves = [], g_policy_enabled = False, enclave = kms_boot\<rparr> x) = kms_boot"
    for st x by (simp add: load_policy_from_file_def Let_def split: option.splits)
  with assms(1) i have b: "bind_all ok 1 k (bind_requests args) = Some (enclave a)"
    by (auto simp: kms_start_def Let_def split: if_splits option.splits)
  have k: "g_policy_registry k = []" "g_msk_initialized k"
    using i by (auto simp: ecall_init_kms_def kms_boot_def Let_def split: option.splits if_splits)
  then have "wf_registry k" by (simp add: wf_registry_def)
  from bind_all_binds [OF b this] assms(2-4) k(2) show ?thesis by auto
qed

theorem start_binds_labels_witness:
  "\<exists>a blob. kms_start toy_sealing toy_env (\<lambda>i. True) (\<lambda>i. 0)
      (default_args\<lparr>bind_requests := [(lit ''f1'', lit ''l1'')]\<rparr>) (\<lambda>n. None) = Some (a, blob)
    \<and> lit ''l1'' \<in> set (labels_of (enclave a) (lit ''f1''))"
proof -
  let ?args = "default_args\<lparr>bind_requests := [(lit ''f1'', lit ''l1'')]\<rparr>"
  have "kms_start toy_sealing toy_env (\<lambda>i. True) (\<lambda>i. 0) ?args (\<lambda>n. None) \<noteq> None"
    by (simp add: kms_start_def default_args_def ecall_init_kms_def unseal_msk_def load_policy_from_file_def Let_def
        toy_sealing_def ecall_bind_label_to_fid_def bind_label_to_fid_def entry_for_def find_policy_def kms_boot_def
        kms_consts new_entry_def)
  then obtain a blob where s: "kms_start toy_sealing toy_env (\<lambda>i. True) (\<lambda>i. 0) ?args (\<lambda>n. None) = Some (a, blob)"
    by auto
  have "lit ''l1'' \<in> set (labels_of (enclave a) (lit ''f1''))"
    by (rule start_binds_labels [OF s, THEN conjunct1]) simp_all
  with s show ?thesis by blast
qed

end
