(* ===== verification/Worker.thy ===== *)
theory Worker
  imports Sgx Wire
begin

text \<open>
  The state of the worker enclave (\<open>sgx_worker/Enclave/Enclave.cpp\<close>) and its key store: the key
  pair and report, the keys received from the KMS, the cache of decrypted function code, the
  label key and the per-invocation context. An array that holds an FID is the list of its bytes
  before the terminator (all 128 of them if there is none). Key arrays with a length field are
  lists of that length. Diagnostics of fixed text are not modelled; what is printed with data in
  it goes to \<open>host_log\<close>.
\<close>

subsection \<open>State\<close>

record CachedFunctionCode =
  cc_valid :: bool
  cc_fid :: bytes
  cc_cfunc_hash :: bytes
  cc_wasm :: "bytes option"

record InvocationContext =
  request_key :: bytes
  intermediate_data :: bytes
  has_data :: bool

record worker =
  g_private_key :: bytes
  g_public_key :: bytes
  g_worker_keypair_ready :: bool
  g_worker_key :: bytes
  g_worker_fid :: bytes
  g_key_loaded :: bool
  g_bfibe_request_sk :: bytes
  g_bfibe_function_sk :: bytes
  g_bfibe_fid :: bytes
  g_bfibe_key_loaded :: bool
  g_dklabel_from_kms :: bool
  g_worker_dklabel :: bytes
  g_cached_function_code :: CachedFunctionCode
  g_dklabel_func :: bytes
  g_dklabel_func_valid :: bool
  g_invocation_ctx :: InvocationContext
  global_output_buffer :: "bytes option"
  global_output_capacity :: u32
  global_output_pos :: u32
  capture_output :: bool
  capture_output_overflow :: bool
  g_workload_tsc :: "u64 option \<times> u64 option"
  g_mcl_init :: bool
  host_log :: "bytes list"

definition zero_bytes :: "nat \<Rightarrow> bytes" where
  "zero_bytes n = replicate n 0"

lemma length_zero_bytes [simp]: "length (zero_bytes n) = n"
  by (simp add: zero_bytes_def)

definition empty_cache :: CachedFunctionCode where
  "empty_cache = \<lparr>cc_valid = False, cc_fid = [], cc_cfunc_hash = zero_bytes 32, cc_wasm = None\<rparr>"

definition worker_boot :: worker where
  "worker_boot = \<lparr>g_private_key = zero_bytes 32, g_public_key = zero_bytes 64, g_worker_keypair_ready = False,
     g_worker_key = zero_bytes 32, g_worker_fid = [], g_key_loaded = False, g_bfibe_request_sk = [],
     g_bfibe_function_sk = [], g_bfibe_fid = [], g_bfibe_key_loaded = False, g_dklabel_from_kms = False,
     g_worker_dklabel = zero_bytes 32, g_cached_function_code = empty_cache, g_dklabel_func = zero_bytes 32,
     g_dklabel_func_valid = False,
     g_invocation_ctx = \<lparr>request_key = zero_bytes 32, intermediate_data = zero_bytes 64, has_data = False\<rparr>,
     global_output_buffer = None, global_output_capacity = 0, global_output_pos = 0,
     capture_output = False, capture_output_overflow = False, g_workload_tsc = (None, None),
     g_mcl_init = False, host_log = []\<rparr>"

subsection \<open>The function cache\<close>

definition function_cache_clear :: "worker \<Rightarrow> worker" where
  "function_cache_clear w = w\<lparr>g_cached_function_code := empty_cache\<rparr>"

definition function_cache_lookup :: "worker \<Rightarrow> bytes \<Rightarrow> bytes \<Rightarrow> bytes option" where
  "function_cache_lookup w f cfunc_hash =
     (let c = g_cached_function_code w in
      if \<not> cc_valid c \<or> cc_wasm c = None then None
      else if \<not> strncmp_eq 128 (cc_fid c) f then None
      else if \<not> memcmp_eq (cc_cfunc_hash c) cfunc_hash 32 then None
      else cc_wasm c)"

text \<open>\<open>copied\<close> is the result of the allocation of the copy.\<close>

definition function_cache_store :: "worker \<Rightarrow> bool \<Rightarrow> bytes \<Rightarrow> bytes \<Rightarrow> bytes \<Rightarrow> bool \<times> worker" where
  "function_cache_store w copied f cfunc_hash wasm =
     (if wasm = [] \<or> \<not> copied then (False, w)
      else (True, (function_cache_clear w)\<lparr>g_cached_function_code :=
        \<lparr>cc_valid = True, cc_fid = take 128 f, cc_cfunc_hash = take 32 cfunc_hash, cc_wasm = Some wasm\<rparr>\<rparr>))"

subsection \<open>Attestation key and KMS keys\<close>

text \<open>
  The report data and the public key; None if the call returned early. The key pair is replaced
  before the hash is computed. A failing \<open>sgx_create_report\<close> is not noticed.
\<close>

definition ecall_create_report :: "sgx \<Rightarrow> env \<Rightarrow> worker \<Rightarrow> (bytes \<times> bytes) option \<times> worker" where
  "ecall_create_report s e w =
     (if \<not> ecc_open e then (None, w)
      else case fresh_pair e of
        None \<Rightarrow> (None, w)
      | Some (priv, pub) \<Rightarrow>
          let w' = w\<lparr>g_private_key := priv, g_public_key := pub\<rparr> in
          (case sha256_msg s pub of
             None \<Rightarrow> (None, w')
           | Some hash \<Rightarrow> (Some (hash @ zero_bytes 32, pub), w'\<lparr>g_worker_keypair_ready := True\<rparr>)))"

text \<open>
  The unpacking \<open>KMS PubKey (64) || IV (12) || Tag (16) || Ciphertext (32)\<close> and decryption of one
  key, which the code repeats three times.
\<close>

definition unwrap_key :: "sgx \<Rightarrow> env \<Rightarrow> bytes \<Rightarrow> bytes \<Rightarrow> bytes option" where
  "unwrap_key s e priv p =
     (if \<not> ecc_open e then None
      else do { shared_secret \<leftarrow> shared_dhkey s priv (slice 0 64 p);
                gcm_dec s (take 16 shared_secret) (slice 92 32 p) (slice 64 12 p) [] (slice 76 16 p) })"

text \<open>What happens to the cache when keys for an FID have been accepted.\<close>

definition enter_fid :: "worker \<Rightarrow> bytes \<Rightarrow> worker" where
  "enter_fid w f =
     (let w' = (if \<not> g_key_loaded w \<or> \<not> strncmp_eq 128 (g_worker_fid w) f then function_cache_clear w else w)
      in w'\<lparr>g_worker_fid := take 128 f, g_key_loaded := True\<rparr>)"

definition ecall_decrypt_key :: "sgx \<Rightarrow> env \<Rightarrow> worker \<Rightarrow> bytes \<Rightarrow> bytes \<Rightarrow> bytes option \<times> worker" where
  "ecall_decrypt_key s e w encrypted_key f =
     (case unwrap_key s e (g_private_key w) encrypted_key of
        None \<Rightarrow> (None, w)
      | Some plaintext \<Rightarrow> (Some plaintext, enter_fid (w\<lparr>g_worker_key := plaintext\<rparr>) f))"

definition ecall_decrypt_keys_batch :: "sgx \<Rightarrow> env \<Rightarrow> env \<Rightarrow> worker \<Rightarrow> bytes \<Rightarrow> bytes \<Rightarrow> bytes \<Rightarrow> worker" where
  "ecall_decrypt_keys_batch s e1 e2 w encrypted_dkf encrypted_dklabel f =
     (case unwrap_key s e1 (g_private_key w) encrypted_dkf of
        None \<Rightarrow> w
      | Some dkf \<Rightarrow>
          let w1 = w\<lparr>g_worker_key := dkf\<rparr> in
          (case unwrap_key s e2 (g_private_key w1) encrypted_dklabel of
             None \<Rightarrow> w1
           | Some dklabel \<Rightarrow>
               enter_fid (w1\<lparr>g_worker_dklabel := dklabel, g_dklabel_from_kms := True\<rparr>) f))"

definition ecall_has_key :: "worker \<Rightarrow> bytes \<Rightarrow> int" where
  "ecall_has_key w f =
     (if g_key_loaded w \<and> strncmp_eq 128 (g_worker_fid w) f then 1
      else if g_bfibe_key_loaded w \<and> strncmp_eq 128 (g_bfibe_fid w) f then 1
      else 0)"

subsection \<open>Zeroization\<close>

definition secure_zeroize :: "bytes \<Rightarrow> bytes" where
  "secure_zeroize d = map (\<lambda>b. 0) d"

definition output_capture_release :: "worker \<Rightarrow> worker" where
  "output_capture_release w =
     w\<lparr>global_output_buffer := None, global_output_capacity := 0, global_output_pos := 0\<rparr>"

definition ecall_zeroize_label_key :: "worker \<Rightarrow> worker" where
  "ecall_zeroize_label_key w =
     (if \<not> g_dklabel_func_valid w then w
      else w\<lparr>g_dklabel_func := secure_zeroize (g_dklabel_func w), g_dklabel_func_valid := False\<rparr>)"

definition ecall_clean_ctx :: "worker \<Rightarrow> worker" where
  "ecall_clean_ctx w =
     (output_capture_release w)\<lparr>g_invocation_ctx :=
        \<lparr>request_key = secure_zeroize (request_key (g_invocation_ctx w)),
         intermediate_data = secure_zeroize (intermediate_data (g_invocation_ctx w)), has_data = False\<rparr>\<rparr>"

subsection \<open>Lemmas on the key store\<close>

lemma lookup_clear [simp]: "function_cache_lookup (function_cache_clear w) f h = None"
  by (simp add: function_cache_lookup_def function_cache_clear_def empty_cache_def Let_def)

lemma lookup_store:
  "function_cache_store w copied f h wasm = (True, w') \<Longrightarrow> length h = 32 \<Longrightarrow> length h' = 32 \<Longrightarrow>
   function_cache_lookup w' g h' = (if take 128 g = take 128 f \<and> h' = h then Some wasm else None)"
  by (auto simp: function_cache_store_def function_cache_lookup_def strncmp_eq_def memcmp_eq_def Let_def split: if_splits)

lemma store_fails: "function_cache_store w copied f h wasm = (False, w') \<Longrightarrow> w' = w"
  by (auto simp: function_cache_store_def split: if_splits)

text \<open>Who owns the cached code: the FID of one of the loaded key sets.\<close>

definition cache_owned :: "worker \<Rightarrow> bool" where
  "cache_owned w \<longleftrightarrow> (cc_valid (g_cached_function_code w) \<longrightarrow>
     (g_key_loaded w \<and> cc_fid (g_cached_function_code w) = g_worker_fid w) \<or>
     (g_bfibe_key_loaded w \<and> cc_fid (g_cached_function_code w) = g_bfibe_fid w))"

lemma cache_owned_clear [simp]: "cache_owned (function_cache_clear w)"
  by (simp add: cache_owned_def function_cache_clear_def empty_cache_def)

lemma fid_kept: "strncmp_eq 128 a f \<Longrightarrow> length a \<le> 128 \<Longrightarrow> take 128 f = a"
  by (simp add: strncmp_eq_def)

lemma enter_fid_owned:
  "cache_owned w \<Longrightarrow> length (g_worker_fid w) \<le> 128 \<Longrightarrow> cache_owned (enter_fid w f)"
  by (auto simp: enter_fid_def cache_owned_def Let_def fid_kept function_cache_clear_def empty_cache_def)

lemma enter_fid_simps [simp]:
  "g_worker_fid (enter_fid w f) = take 128 f" "g_key_loaded (enter_fid w f)"
  "g_worker_key (enter_fid w f) = g_worker_key w" "g_worker_dklabel (enter_fid w f) = g_worker_dklabel w"
  "g_dklabel_from_kms (enter_fid w f) = g_dklabel_from_kms w"
  "g_bfibe_key_loaded (enter_fid w f) = g_bfibe_key_loaded w" "g_bfibe_fid (enter_fid w f) = g_bfibe_fid w"
  "g_private_key (enter_fid w f) = g_private_key w"
  by (simp_all add: enter_fid_def function_cache_clear_def Let_def)

lemma has_key_entered: "ecall_has_key (enter_fid w f) f = 1"
  by (simp add: ecall_has_key_def)

end
