(* ===== verification/WorkerBfibe.thy ===== *)
theory WorkerBfibe
  imports BfibeFormat BfibeMcl Worker
begin

text \<open>
  The BF-IBE side of the worker enclave: the bounded reader and writer, the parser of a key
  release, the import of the private-key set inside it, \<open>ecall_load_bfibe_key_release\<close>, the parser
  of a key envelope and \<open>DecKey\<close>. A parsed view holds the bytes its pointers and lengths describe.
\<close>

subsection \<open>Reader and writer\<close>

definition read_u32_be :: "bytes \<Rightarrow> u32 \<Rightarrow> u32 \<Rightarrow> (u32 \<times> u32) option" where
  "read_u32_be data data_size offset =
     (if data_size < offset \<or> data_size - offset < 4 then None
      else let p = unat offset in
        Some (un32 (data ! p) (data ! (p + 1)) (data ! (p + 2)) (data ! (p + 3)), offset + 4))"

definition take_bytes :: "bytes \<Rightarrow> u32 \<Rightarrow> u32 \<Rightarrow> u32 \<Rightarrow> (bytes \<times> u32) option" where
  "take_bytes data data_size offset len =
     (if data_size < offset \<or> data_size - offset < len then None
      else Some (slice (unat offset) (unat len) data, offset + len))"

definition append_bytes_local :: "bytes \<Rightarrow> u32 \<Rightarrow> u32 \<Rightarrow> bytes option \<Rightarrow> u32 \<Rightarrow> (bytes \<times> u32) option" where
  "append_bytes_local out capacity offset data len =
     (if (data = None \<and> len \<noteq> 0) \<or> capacity < offset \<or> capacity - offset < len then None
      else Some (if 0 < len then blit out (unat offset) (take (unat len) (the data)) else out,
                 offset + len))"

definition append_u32_be_local :: "bytes \<Rightarrow> u32 \<Rightarrow> u32 \<Rightarrow> u32 \<Rightarrow> (bytes \<times> u32) option" where
  "append_u32_be_local out capacity offset v = append_bytes_local out capacity offset (Some (be32 v)) 4"

definition append_aad_part :: "bytes \<Rightarrow> u32 \<Rightarrow> u32 \<Rightarrow> bytes option \<Rightarrow> u32 \<Rightarrow> (bytes \<times> u32) option" where
  "append_aad_part out capacity offset data len =
     do { (out, offset) \<leftarrow> append_u32_be_local out capacity offset len;
          append_bytes_local out capacity offset data len }"

interpretation worker_reader: field_reader unat inside "\<lambda>d p. read_u32_be d (len32 d) p"
  "\<lambda>d p n. take_bytes d (len32 d) p n"
proof unfold_locales
  fix d p and n :: u32
  assume ok: "inside d p"
  note w = inside_word [OF ok]
  from ok show "unat p \<le> length d" by (simp add: inside_def)
  show "\<exists>q. read_u32_be d (len32 d) p =
      Some (un32 (d ! unat p) (d ! (unat p + 1)) (d ! (unat p + 2)) (d ! (unat p + 3)), q) \<and>
      inside d q \<and> unat q = unat p + 4" if "unat p + 4 \<le> length d"
  proof -
    have "\<not> len32 d - p < 4" using w that by (simp add: word_less_nat_alt)
    moreover have "unat (p + 4) = unat p + 4"
      using that ok u32_add_small [of p 4] by (simp add: inside_def)
    ultimately show ?thesis using w that ok by (simp add: read_u32_be_def Let_def inside_def)
  qed
  show "read_u32_be d (len32 d) p = None" if "length d < unat p + 4"
  proof -
    have "len32 d - p < 4" using w that by (simp add: word_less_nat_alt)
    then show ?thesis by (simp add: read_u32_be_def)
  qed
  show "\<exists>q. take_bytes d (len32 d) p n = Some (slice (unat p) (unat n) d, q) \<and> inside d q \<and>
      unat q = unat p + unat n" if "unat p + unat n \<le> length d"
  proof -
    have "\<not> len32 d - p < n" using w that by (simp add: word_less_nat_alt)
    moreover have "unat (p + n) = unat p + unat n"
      using that ok u32_add_small [of p n] by (simp add: inside_def)
    ultimately show ?thesis using w that ok by (simp add: take_bytes_def inside_def)
  qed
  show "take_bytes d (len32 d) p n = None" if "length d < unat p + unat n"
  proof -
    have "unat (len32 d - p) < unat n" using w that by linarith
    then have "len32 d - p < n" by (simp add: word_less_nat_alt)
    then show ?thesis by (simp add: take_bytes_def)
  qed
qed

interpretation worker_writer: appender append_bytes_local
  by (rule appender_memcpy) (simp add: append_bytes_local_def)

subsection \<open>Key release\<close>

record BfibeReleaseView =
  rv_profile :: bytes
  rv_fid :: bytes
  rv_worker_identity :: bytes
  rv_wrap_public_key :: bytes
  rv_nonce :: bytes
  rv_ciphertext :: bytes

definition bytes_starts_with_literal :: "bytes \<Rightarrow> bytes \<Rightarrow> bool" where
  "bytes_starts_with_literal data literal \<longleftrightarrow>
     length literal \<le> length data \<and> memcmp_eq data literal (length literal)"

definition bytes_equal_literal :: "bytes \<Rightarrow> bytes \<Rightarrow> bool" where
  "bytes_equal_literal data literal \<longleftrightarrow>
     length data = length literal \<and> memcmp_eq data literal (length literal)"

lemma bytes_equal_literal_iff [simp]: "bytes_equal_literal d l \<longleftrightarrow> d = l"
  by (auto simp: bytes_equal_literal_def memcmp_eq_def)

lemma bytes_starts_with_literal_iff: "bytes_starts_with_literal d l \<longleftrightarrow> (\<exists>r. d = l @ r)"
  by (auto simp: bytes_starts_with_literal_def memcmp_eq_def) (metis append_take_drop_id)

definition is_bfibe_key_release_payload :: "bytes \<Rightarrow> bool" where
  "is_bfibe_key_release_payload release \<longleftrightarrow>
     9 \<le> length release \<and> memcmp_eq release BFIBE_KEY_RELEASE_MAGIC 8 \<and> release ! 8 = 1"

definition parse_bfibe_key_release :: "bytes \<Rightarrow> BfibeReleaseView option" where
  "parse_bfibe_key_release release =
     (if \<not> is_bfibe_key_release_payload release then None
      else let sz = len32 release in
       do { (profile_len, p) \<leftarrow> read_u32_be release sz 9;
            (fid_len, p) \<leftarrow> read_u32_be release sz p;
            (worker_identity_len, p) \<leftarrow> read_u32_be release sz p;
            (wrap_public_key_len, p) \<leftarrow> read_u32_be release sz p;
            (nonce_len, p) \<leftarrow> read_u32_be release sz p;
            (ciphertext_len, p) \<leftarrow> read_u32_be release sz p;
            (profile, p) \<leftarrow> take_bytes release sz p profile_len;
            (f, p) \<leftarrow> take_bytes release sz p fid_len;
            (worker_identity, p) \<leftarrow> take_bytes release sz p worker_identity_len;
            (wrap_public_key, p) \<leftarrow> take_bytes release sz p wrap_public_key_len;
            (nonce, p) \<leftarrow> take_bytes release sz p nonce_len;
            (ciphertext, p) \<leftarrow> take_bytes release sz p ciphertext_len;
            if p = sz \<and> bytes_equal_literal profile BFIBE_PROFILE_ID \<and> wrap_public_key_len = 64 \<and>
               nonce_len = 12 \<and> 16 < ciphertext_len
            then Some \<lparr>rv_profile = profile, rv_fid = f, rv_worker_identity = worker_identity,
                        rv_wrap_public_key = wrap_public_key, rv_nonce = nonce, rv_ciphertext = ciphertext\<rparr>
            else None })"

definition build_bfibe_key_release_aad_local :: "BfibeReleaseView \<Rightarrow> bytes \<Rightarrow> u32 \<Rightarrow> (bytes \<times> u32) option" where
  "build_bfibe_key_release_aad_local view aad aad_capacity =
     do { (aad, p) \<leftarrow> append_bytes_local aad aad_capacity 0 (Some BFIBE_AAD_MAGIC) (len32 BFIBE_AAD_MAGIC);
          (aad, p) \<leftarrow> append_aad_part aad aad_capacity p (Some (rv_profile view)) (len32 (rv_profile view));
          (aad, p) \<leftarrow> append_aad_part aad aad_capacity p (Some (rv_fid view)) (len32 (rv_fid view));
          (aad, p) \<leftarrow> append_aad_part aad aad_capacity p (Some (rv_worker_identity view)) (len32 (rv_worker_identity view));
          append_aad_part aad aad_capacity p (Some (rv_wrap_public_key view)) (len32 (rv_wrap_public_key view)) }"

subsection \<open>The private-key set\<close>

text \<open>
  One record: whether it was accepted, the state, and the two flags. A function key is accepted
  for any label.
\<close>

definition import_bfibe_private_key_record ::
  "worker \<Rightarrow> bytes \<Rightarrow> bytes \<Rightarrow> bytes \<Rightarrow> bytes \<Rightarrow> bool \<Rightarrow> bool \<Rightarrow> (worker \<times> bool \<times> bool) option" where
  "import_bfibe_private_key_record w purpose identity private_key f found_request_key found_function_key =
     (if bytes_equal_literal purpose REQUEST_KEY then
        let written = 4 + length f in
        if 160 \<le> written then None
        else if length identity \<noteq> written \<or> \<not> memcmp_eq identity (lit ''fid:'' @ f) (length identity) then None
        else if private_key = [] \<or> 256 < length private_key then None
        else Some (w\<lparr>g_bfibe_request_sk := private_key\<rparr>, True, found_function_key)
      else if bytes_equal_literal purpose FUNCTION_KEY then
        if private_key = [] \<or> 256 < length private_key then None
        else if \<not> bytes_starts_with_literal identity (lit ''label:'') then None
        else Some (w\<lparr>g_bfibe_function_sk := private_key\<rparr>, found_request_key, True)
      else None)"

text \<open>The loop over the records; a failure clears both keys.\<close>

fun import_records ::
  "nat \<Rightarrow> bytes \<Rightarrow> bytes \<Rightarrow> u32 \<Rightarrow> worker \<Rightarrow> bool \<Rightarrow> bool \<Rightarrow> (u32 \<times> bool \<times> bool) option \<times> worker" where
  "import_records 0 plaintext f p w fr ff = (Some (p, fr, ff), w)"
| "import_records (Suc n) plaintext f p w fr ff =
     (case do { (purpose_len, p) \<leftarrow> read_u32_be plaintext (len32 plaintext) p;
                (identity_len, p) \<leftarrow> read_u32_be plaintext (len32 plaintext) p;
                (private_key_len, p) \<leftarrow> read_u32_be plaintext (len32 plaintext) p;
                (purpose, p) \<leftarrow> take_bytes plaintext (len32 plaintext) p purpose_len;
                (identity, p) \<leftarrow> take_bytes plaintext (len32 plaintext) p identity_len;
                (private_key, p) \<leftarrow> take_bytes plaintext (len32 plaintext) p private_key_len;
                (w', fr', ff') \<leftarrow> import_bfibe_private_key_record w purpose identity private_key f fr ff;
                Some (p, w', fr', ff') } of
        None \<Rightarrow> (None, w\<lparr>g_bfibe_request_sk := [], g_bfibe_function_sk := []\<rparr>)
      | Some (p, w', fr', ff') \<Rightarrow> import_records n plaintext f p w' fr' ff')"

definition parse_bfibe_private_key_set :: "worker \<Rightarrow> bytes \<Rightarrow> bytes \<Rightarrow> bool \<times> worker" where
  "parse_bfibe_private_key_set w plaintext f =
     (let sz = len32 plaintext in
      if length plaintext < 17 then (False, w)
      else case do { (magic, p) \<leftarrow> take_bytes plaintext sz 0 8;
                     if \<not> memcmp_eq magic BFIBE_PRIVATE_KEY_SET_MAGIC 8 \<or> plaintext ! unat p \<noteq> 1 then None
                     else do {
                       (profile_len, p) \<leftarrow> read_u32_be plaintext sz (p + 1);
                       (record_count, p) \<leftarrow> read_u32_be plaintext sz p;
                       (profile, p) \<leftarrow> take_bytes plaintext sz p profile_len;
                       if \<not> bytes_equal_literal profile BFIBE_PROFILE_ID \<or> record_count = 0 then None
                       else Some (record_count, p) } } of
        None \<Rightarrow> (False, w)
      | Some (record_count, p) \<Rightarrow>
          (case import_records (unat record_count) plaintext f p
                  (w\<lparr>g_bfibe_request_sk := [], g_bfibe_function_sk := []\<rparr>) False False of
             (None, w') \<Rightarrow> (False, w')
           | (Some (p, found_request_key, found_function_key), w') \<Rightarrow>
               (p = sz \<and> found_request_key \<and> found_function_key, w')))"

subsection \<open>Loading a release\<close>

definition release_plaintext :: "sgx \<Rightarrow> env \<Rightarrow> worker \<Rightarrow> BfibeReleaseView \<Rightarrow> bytes option" where
  "release_plaintext s e w view =
     do { (aad, aad_size) \<leftarrow> build_bfibe_key_release_aad_local view (zero_bytes 256) 256;
          if \<not> ecc_open e then None
          else do {
            shared_secret \<leftarrow> shared_dhkey s (g_private_key w) (take 64 (rv_wrap_public_key view));
            let encrypted_len = length (rv_ciphertext view) - 16;
            if \<not> malloc_ok e 0 then None
            else gcm_dec s (take 16 shared_secret) (take encrypted_len (rv_ciphertext view))
                   (rv_nonce view) (take (unat aad_size) aad)
                   (drop encrypted_len (rv_ciphertext view)) } }"

definition ecall_load_bfibe_key_release ::
  "sgx \<Rightarrow> env \<Rightarrow> worker \<Rightarrow> bytes option \<Rightarrow> bytes option \<Rightarrow> int \<times> worker" where
  "ecall_load_bfibe_key_release s e w release_arg fid_arg =
     (case (fid_arg, Option.bind release_arg parse_bfibe_key_release) of
        (Some f, Some view) \<Rightarrow>
          if \<not> g_worker_keypair_ready w then (-1, w)
          else if length (rv_fid view) \<noteq> length f \<or> \<not> memcmp_eq (rv_fid view) f (length (rv_fid view)) then (-1, w)
          else (case release_plaintext s e w view of
             None \<Rightarrow> (-1, w)
           | Some plaintext \<Rightarrow>
               let (imported, w1) = parse_bfibe_private_key_set w plaintext f in
               if \<not> imported then (-1, w1)
               else
                 let w2 = (if \<not> g_bfibe_key_loaded w1 \<or> \<not> strncmp_eq 128 (g_bfibe_fid w1) f
                           then function_cache_clear w1 else w1)
                 in (0, w2\<lparr>g_bfibe_fid := take 127 f, g_bfibe_key_loaded := True\<rparr>))
      | _ \<Rightarrow> (-1, w))"

subsection \<open>Key envelopes\<close>

record BfibeKeyEnvelopeView =
  ev_profile :: bytes
  ev_purpose :: bytes
  ev_identity :: bytes
  ev_aad_context :: bytes
  ev_c1 :: bytes
  ev_nonce :: bytes
  ev_ciphertext :: bytes

definition is_bfibe_envelope :: "bytes option \<Rightarrow> bool" where
  "is_bfibe_envelope c_arg \<longleftrightarrow>
     (case c_arg of None \<Rightarrow> False
      | Some c \<Rightarrow> 9 \<le> length c \<and> memcmp_eq c BFIBE_ENVELOPE_MAGIC 8 \<and> c ! 8 = 1)"

definition parse_bfibe_envelope :: "bytes \<Rightarrow> BfibeKeyEnvelopeView option" where
  "parse_bfibe_envelope c =
     (if \<not> is_bfibe_envelope (Some c) then None
      else let sz = len32 c in
       do { (profile_len, p) \<leftarrow> read_u32_be c sz 9;
            (purpose_len, p) \<leftarrow> read_u32_be c sz p;
            (identity_len, p) \<leftarrow> read_u32_be c sz p;
            (aad_context_len, p) \<leftarrow> read_u32_be c sz p;
            (c1_len, p) \<leftarrow> read_u32_be c sz p;
            (nonce_len, p) \<leftarrow> read_u32_be c sz p;
            (ciphertext_len, p) \<leftarrow> read_u32_be c sz p;
            (profile, p) \<leftarrow> take_bytes c sz p profile_len;
            (purpose, p) \<leftarrow> take_bytes c sz p purpose_len;
            (identity, p) \<leftarrow> take_bytes c sz p identity_len;
            (aad_context, p) \<leftarrow> take_bytes c sz p aad_context_len;
            (c1, p) \<leftarrow> take_bytes c sz p c1_len;
            (nonce, p) \<leftarrow> take_bytes c sz p nonce_len;
            (ciphertext, p) \<leftarrow> take_bytes c sz p ciphertext_len;
            if p = sz \<and> bytes_equal_literal profile BFIBE_PROFILE_ID \<and>
               (bytes_equal_literal purpose REQUEST_KEY \<or> bytes_equal_literal purpose FUNCTION_KEY) \<and>
               0 < identity_len \<and> 0 < c1_len \<and> nonce_len = 12 \<and> 16 < ciphertext_len
            then Some \<lparr>ev_profile = profile, ev_purpose = purpose, ev_identity = identity, ev_aad_context = aad_context,
                        ev_c1 = c1, ev_nonce = nonce, ev_ciphertext = ciphertext\<rparr>
            else None })"

definition build_bfibe_envelope_aad :: "BfibeKeyEnvelopeView \<Rightarrow> bytes \<Rightarrow> u32 \<Rightarrow> (bytes \<times> u32) option" where
  "build_bfibe_envelope_aad view aad aad_capacity =
     do { (aad, p) \<leftarrow> append_bytes_local aad aad_capacity 0 (Some BFIBE_KEY_ENVELOPE_AAD_MAGIC) (len32 BFIBE_KEY_ENVELOPE_AAD_MAGIC);
          (aad, p) \<leftarrow> append_aad_part aad aad_capacity p (Some (ev_profile view)) (len32 (ev_profile view));
          (aad, p) \<leftarrow> append_aad_part aad aad_capacity p (Some (ev_purpose view)) (len32 (ev_purpose view));
          (aad, p) \<leftarrow> append_aad_part aad aad_capacity p (Some (ev_identity view)) (len32 (ev_identity view));
          append_aad_part aad aad_capacity p (Some (ev_aad_context view)) (len32 (ev_aad_context view)) }"

subsection \<open>DecKey\<close>

text \<open>\<open>allocated\<close> is the result of the allocation of the joined buffer.\<close>

definition sha256_concat :: "sgx \<Rightarrow> bool \<Rightarrow> bytes \<Rightarrow> bytes \<Rightarrow> bytes option" where
  "sha256_concat s allocated a b = (if allocated then sha256_msg s (a @ b) else None)"

text \<open>The private key for an envelope: by its purpose, after the identity check.\<close>

definition select_sk :: "worker \<Rightarrow> BfibeKeyEnvelopeView \<Rightarrow> bytes option" where
  "select_sk w view =
     (if bytes_equal_literal (ev_purpose view) REQUEST_KEY then
        let expected_identity = lit ''fid:'' @ g_bfibe_fid w in
        if 160 \<le> length expected_identity then None
        else if length (ev_identity view) \<noteq> length expected_identity \<or>
                \<not> memcmp_eq (ev_identity view) expected_identity (length (ev_identity view)) then None
        else Some (g_bfibe_request_sk w)
      else if bytes_equal_literal (ev_purpose view) FUNCTION_KEY then
        if \<not> bytes_starts_with_literal (ev_identity view) (lit ''label:'') then None
        else Some (g_bfibe_function_sk w)
      else None)"

definition dec_key_bfibe ::
  "('fr, 'g1, 'g2, 'gt) mcl \<Rightarrow> sgx \<Rightarrow> worker \<Rightarrow> bytes \<Rightarrow> bytes \<Rightarrow> bytes option \<times> worker" where
  "dec_key_bfibe m s w c domain =
     (if \<not> g_bfibe_key_loaded w then (None, w)
      else case parse_bfibe_envelope c of None \<Rightarrow> (None, w)
      | Some view \<Rightarrow>
          if length (ev_aad_context view) \<noteq> length domain \<or>
             \<not> memcmp_eq (ev_aad_context view) domain (length domain) then (None, w)
          else (case do { sk_id \<leftarrow> select_sk w view;
                          if sk_id = [] then None
                          else do { (aad, aad_size) \<leftarrow> build_bfibe_envelope_aad view (zero_bytes 512) 512;
                                    Some (sk_id, take (unat aad_size) aad) } } of
             None \<Rightarrow> (None, w)
           | Some (sk_id, aad) \<Rightarrow>
               let (r, ini) = bfibe_mcl_decrypt_key_envelope m s sk_id (ev_c1 view) (ev_nonce view)
                                (ev_ciphertext view) aad (g_mcl_init w);
                   w' = w\<lparr>g_mcl_init := ini\<rparr>
               in (case r of Inl _ \<Rightarrow> (None, w') | Inr key \<Rightarrow> (Some key, w'))))"

text \<open>
  The other kind of key ciphertext: \<open>EphemeralPK(65) || iv12 || tag16 || ct\<close> under the capability.
  The coordinates are reversed into the SDK's byte order.
\<close>

definition ECC_IBE_ENC :: bytes where "ECC_IBE_ENC = lit ''ECC-IBE-ENC''"

definition dec_key_ecies :: "sgx \<Rightarrow> env \<Rightarrow> bytes option \<Rightarrow> bytes \<Rightarrow> bytes option" where
  "dec_key_ecies s e cap32_arg c =
     (case cap32_arg of None \<Rightarrow> None
      | Some cap32 \<Rightarrow>
          if length c < 65 + 12 + 16 + 16 then None
          else let ct = drop 93 c in
            if length ct \<noteq> 16 \<and> length ct \<noteq> 32 then None
            else if c ! 0 \<noteq> 4 then None
            else if \<not> ecc_open e then None
            else do { shared_secret \<leftarrow> shared_dhkey s cap32 (rev (slice 1 32 c) @ rev (slice 33 32 c));
                      ss_info32 \<leftarrow> sha256_concat s (malloc_ok e 0) shared_secret ECC_IBE_ENC;
                      out \<leftarrow> gcm_dec s (take 16 ss_info32) ct (slice 65 12 c) [] (slice 77 16 c);
                      Some (pad32 out) })"

definition DecKey ::
  "('fr, 'g1, 'g2, 'gt) mcl \<Rightarrow> sgx \<Rightarrow> env \<Rightarrow> worker \<Rightarrow> bytes option \<Rightarrow> bytes option \<Rightarrow> bytes \<Rightarrow> bytes option \<times> worker" where
  "DecKey m s e w cap32 c_arg domain =
     (case c_arg of None \<Rightarrow> (None, w)
      | Some c \<Rightarrow>
          if is_bfibe_envelope (Some c) then dec_key_bfibe m s w c domain
          else (dec_key_ecies s e cap32 c, w))"

definition request_uses_bfibe_key_ciphertexts :: "bytes option \<Rightarrow> bytes option \<Rightarrow> bool" where
  "request_uses_bfibe_key_ciphertexts c_k_func c_key \<longleftrightarrow> is_bfibe_envelope c_key \<or> is_bfibe_envelope c_k_func"

subsection \<open>The parsers against the formats\<close>

lemma len32_iff [simp]: "length d < 2 ^ 32 \<Longrightarrow> len32 d = 64 \<longleftrightarrow> length d = 64"
  "length d < 2 ^ 32 \<Longrightarrow> len32 d = 12 \<longleftrightarrow> length d = 12" "length d < 2 ^ 32 \<Longrightarrow> 16 < len32 d \<longleftrightarrow> 16 < length d"
  "length d < 2 ^ 32 \<Longrightarrow> 0 < len32 d \<longleftrightarrow> d \<noteq> []"
  by (auto simp: word_less_nat_alt word_unat_eq_iff)

definition release_of :: "bytes list \<Rightarrow> BfibeReleaseView" where
  "release_of fs = \<lparr>rv_profile = fs ! 0, rv_fid = fs ! 1, rv_worker_identity = fs ! 2,
     rv_wrap_public_key = fs ! 3, rv_nonce = fs ! 4, rv_ciphertext = fs ! 5\<rparr>"

lemma nat_6: "(6::nat) = Suc (Suc (Suc (Suc (Suc (Suc 0)))))"
  and nat_7: "(7::nat) = Suc (Suc (Suc (Suc (Suc (Suc (Suc 0))))))"
  by simp_all

lemma parse_release_fields:
  assumes "length release < 2 ^ 32" and "is_bfibe_key_release_payload release"
  shows "parse_bfibe_key_release release = Some v \<longleftrightarrow>
    (\<exists>fs. length fs = 6 \<and> fits32 fs \<and> drop 9 release = frame fs \<and> v = release_of fs \<and> fs ! 0 = BFIBE_PROFILE_ID \<and>
       length (fs ! 3) = 64 \<and> length (fs ! 4) = 12 \<and> 16 < length (fs ! 5))"
proof -
  have ok: "inside release 9"
    using assms by (simp add: inside_def is_bfibe_key_release_payload_def)
  have b: "fits32 fs \<Longrightarrow> length fs = 6 \<Longrightarrow> i < 6 \<Longrightarrow> length (fs ! i) < 2 ^ 32" for i fs by (simp add: fits32_def)
  have e: "parse_bfibe_key_release release =
      do { (ns, p) \<leftarrow> reads (\<lambda>d p. read_u32_be d (len32 d) p) 6 release 9;
           (fs, p) \<leftarrow> takes (\<lambda>d p n. take_bytes d (len32 d) p n) ns release p;
           if p = len32 release \<and> fs ! 0 = BFIBE_PROFILE_ID \<and> ns ! 3 = 64 \<and> ns ! 4 = 12 \<and> 16 < ns ! 5
           then Some (release_of fs) else None }"
    by (simp add: nat_6 assms(2) parse_bfibe_key_release_def Let_def release_of_def split_beta' bind_assoc cong: if_cong)
  have "parse_bfibe_key_release release = Some v \<longleftrightarrow> (\<exists>fs. length fs = 6 \<and> fits32 fs \<and> drop (unat (9::u32)) release = frame fs \<and>
      (fs ! 0 = BFIBE_PROFILE_ID \<and> map len32 fs ! 3 = 64 \<and> map len32 fs ! 4 = 12 \<and> 16 < map len32 fs ! 5) \<and> v = release_of fs)"
    unfolding e using inside_end by (intro worker_reader.parse_exact [OF ok, where C =
        "\<lambda>ns fs. fs ! 0 = BFIBE_PROFILE_ID \<and> ns ! 3 = 64 \<and> ns ! 4 = 12 \<and> 16 < ns ! 5"])
  with b show ?thesis by (auto; fastforce)
qed

lemma all_6: "length fs = 6 \<Longrightarrow> fs = [fs ! 0, fs ! 1, fs ! 2, fs ! 3, fs ! 4, fs ! 5]"
  by (simp add: list_eq_iff_nth_eq All_less_Suc eval_nat_numeral)

lemma fits32_frame: "length (magic @ r @ frame fs) < 2 ^ 32 \<Longrightarrow> fits32 fs"
  using member_le_sum_list [of _ "map length fs"]
  by (fastforce simp: fits32_def length_frame length_concat)

text \<open>The parser accepts exactly the releases of the format, with the field sizes the worker needs.\<close>

lemma parse_release_exact:
  assumes "length release < 2 ^ 32"
  shows "parse_bfibe_key_release release = Some v \<longleftrightarrow>
    release = release_layout [BFIBE_PROFILE_ID, rv_fid v, rv_worker_identity v, rv_wrap_public_key v, rv_nonce v, rv_ciphertext v]
    \<and> rv_profile v = BFIBE_PROFILE_ID \<and> length (rv_wrap_public_key v) = 64 \<and> length (rv_nonce v) = 12
    \<and> 16 < length (rv_ciphertext v)"
    (is "?P \<longleftrightarrow> release = release_layout ?fs \<and> ?C")
proof
  assume a: ?P
  then have p: "is_bfibe_key_release_payload release"
    by (auto simp: parse_bfibe_key_release_def split: if_splits)
  with assms a obtain fs where fs: "length fs = 6" "drop 9 release = frame fs" "v = release_of fs"
    "fs ! 0 = BFIBE_PROFILE_ID" "length (fs ! 3) = 64" "length (fs ! 4) = 12" "16 < length (fs ! 5)"
    by (auto simp: parse_release_fields)
  have "?fs = fs" using all_6 [OF fs(1)] fs(3,4) by (simp add: release_of_def)
  moreover have "release = BFIBE_KEY_RELEASE_MAGIC @ [1] @ drop 9 release"
    using p drop_layout [of BFIBE_KEY_RELEASE_MAGIC release] by (simp add: is_bfibe_key_release_payload_def)
  ultimately show "release = release_layout ?fs \<and> ?C"
    using fs by (simp add: release_layout_def release_of_def)
next
  assume a: "release = release_layout ?fs \<and> ?C"
  then have p: "is_bfibe_key_release_payload release" and d: "drop 9 release = frame ?fs"
    using drop_layout [of BFIBE_KEY_RELEASE_MAGIC release]
    by (simp_all add: is_bfibe_key_release_payload_def release_layout_def memcmp_eq_def nth_append)
  have "fits32 ?fs" using a assms fits32_frame [of BFIBE_KEY_RELEASE_MAGIC "[1]" ?fs] by (simp add: release_layout_def)
  moreover have "release_of ?fs = v" using a by (cases v) (simp add: release_of_def)
  ultimately show ?P unfolding parse_release_fields [OF assms p]
    using a d by (intro exI [of _ ?fs]) simp
qed

definition envelope_of :: "bytes list \<Rightarrow> BfibeKeyEnvelopeView" where
  "envelope_of fs = \<lparr>ev_profile = fs ! 0, ev_purpose = fs ! 1, ev_identity = fs ! 2, ev_aad_context = fs ! 3,
     ev_c1 = fs ! 4, ev_nonce = fs ! 5, ev_ciphertext = fs ! 6\<rparr>"

lemma parse_envelope_fields:
  assumes "length c < 2 ^ 32" and "is_bfibe_envelope (Some c)"
  shows "parse_bfibe_envelope c = Some v \<longleftrightarrow>
    (\<exists>fs. length fs = 7 \<and> fits32 fs \<and> drop 9 c = frame fs \<and> v = envelope_of fs \<and> fs ! 0 = BFIBE_PROFILE_ID \<and>
       (fs ! 1 = REQUEST_KEY \<or> fs ! 1 = FUNCTION_KEY) \<and> fs ! 2 \<noteq> [] \<and> fs ! 4 \<noteq> [] \<and>
       length (fs ! 5) = 12 \<and> 16 < length (fs ! 6))"
proof -
  have ok: "inside c 9"
    using assms by (simp add: inside_def is_bfibe_envelope_def)
  have b: "fits32 fs \<Longrightarrow> length fs = 7 \<Longrightarrow> i < 7 \<Longrightarrow> length (fs ! i) < 2 ^ 32" for i fs by (simp add: fits32_def)
  have e: "parse_bfibe_envelope c =
      do { (ns, p) \<leftarrow> reads (\<lambda>d p. read_u32_be d (len32 d) p) 7 c 9;
           (fs, p) \<leftarrow> takes (\<lambda>d p n. take_bytes d (len32 d) p n) ns c p;
           if p = len32 c \<and> fs ! 0 = BFIBE_PROFILE_ID \<and> (fs ! 1 = REQUEST_KEY \<or> fs ! 1 = FUNCTION_KEY) \<and>
              0 < ns ! 2 \<and> 0 < ns ! 4 \<and> ns ! 5 = 12 \<and> 16 < ns ! 6
           then Some (envelope_of fs) else None }"
    by (simp add: nat_7 assms(2) parse_bfibe_envelope_def Let_def envelope_of_def split_beta' bind_assoc cong: if_cong)
  have "parse_bfibe_envelope c = Some v \<longleftrightarrow> (\<exists>fs. length fs = 7 \<and> fits32 fs \<and> drop (unat (9::u32)) c = frame fs \<and>
      (fs ! 0 = BFIBE_PROFILE_ID \<and> (fs ! 1 = REQUEST_KEY \<or> fs ! 1 = FUNCTION_KEY) \<and> 0 < map len32 fs ! 2 \<and> 0 < map len32 fs ! 4 \<and>
       map len32 fs ! 5 = 12 \<and> 16 < map len32 fs ! 6) \<and> v = envelope_of fs)"
    unfolding e using inside_end by (intro worker_reader.parse_exact [OF ok, where C = "\<lambda>ns fs.
        fs ! 0 = BFIBE_PROFILE_ID \<and> (fs ! 1 = REQUEST_KEY \<or> fs ! 1 = FUNCTION_KEY) \<and> 0 < ns ! 2 \<and> 0 < ns ! 4 \<and> ns ! 5 = 12 \<and> 16 < ns ! 6"])
  with b show ?thesis by (auto; fastforce)
qed

lemma all_7: "length fs = 7 \<Longrightarrow> fs = [fs ! 0, fs ! 1, fs ! 2, fs ! 3, fs ! 4, fs ! 5, fs ! 6]"
  by (simp add: list_eq_iff_nth_eq All_less_Suc eval_nat_numeral)

lemma parse_envelope_exact:
  assumes "length c < 2 ^ 32"
  shows "parse_bfibe_envelope c = Some v \<longleftrightarrow>
    c = envelope_layout [BFIBE_PROFILE_ID, ev_purpose v, ev_identity v, ev_aad_context v, ev_c1 v, ev_nonce v, ev_ciphertext v]
    \<and> ev_profile v = BFIBE_PROFILE_ID \<and> ev_purpose v \<in> {REQUEST_KEY, FUNCTION_KEY} \<and> ev_identity v \<noteq> [] \<and> ev_c1 v \<noteq> []
    \<and> length (ev_nonce v) = 12 \<and> 16 < length (ev_ciphertext v)"
    (is "?P \<longleftrightarrow> c = envelope_layout ?fs \<and> ?C")
proof
  assume a: ?P
  then have p: "is_bfibe_envelope (Some c)"
    by (auto simp: parse_bfibe_envelope_def split: if_splits)
  with assms a obtain fs where fs: "length fs = 7" "drop 9 c = frame fs" "v = envelope_of fs"
    "fs ! 0 = BFIBE_PROFILE_ID" "fs ! 1 = REQUEST_KEY \<or> fs ! 1 = FUNCTION_KEY" "fs ! 2 \<noteq> []" "fs ! 4 \<noteq> []"
    "length (fs ! 5) = 12" "16 < length (fs ! 6)"
    by (auto simp: parse_envelope_fields)
  have "?fs = fs" using all_7 [OF fs(1)] fs(3,4) by (simp add: envelope_of_def)
  moreover have "c = BFIBE_ENVELOPE_MAGIC @ [1] @ drop 9 c"
    using p drop_layout [of BFIBE_ENVELOPE_MAGIC c] by (simp add: is_bfibe_envelope_def)
  ultimately show "c = envelope_layout ?fs \<and> ?C"
    using fs by (simp add: envelope_layout_def envelope_of_def)
next
  assume a: "c = envelope_layout ?fs \<and> ?C"
  then have p: "is_bfibe_envelope (Some c)" and d: "drop 9 c = frame ?fs"
    using drop_layout [of BFIBE_ENVELOPE_MAGIC c]
    by (simp_all add: is_bfibe_envelope_def envelope_layout_def memcmp_eq_def nth_append)
  have "fits32 ?fs" using a assms fits32_frame [of BFIBE_ENVELOPE_MAGIC "[1]" ?fs] by (simp add: envelope_layout_def)
  moreover have "envelope_of ?fs = v" using a by (cases v) (simp add: envelope_of_def)
  ultimately show ?P unfolding parse_envelope_fields [OF assms p]
    using a d by (intro exI [of _ ?fs]) simp
qed

end
