(* ===== verification/WorkerApp.thy ===== *)
theory WorkerApp
  imports KmsApp WorkerBfibe
begin

text \<open>
  The untrusted worker process (\<open>sgx_worker/App/App.cpp\<close>), its key path: the exchange with the KMS
  server and the generation of a quote. Standard output, log lines and wall-clock readings are not
  modelled; the three durations copied from the server's trailer are.
\<close>

definition WORKER_QUOTE3_REPORT_BODY_OFFSET :: nat where "WORKER_QUOTE3_REPORT_BODY_OFFSET = 48"
definition WORKER_REPORT_BODY_SIZE :: nat where "WORKER_REPORT_BODY_SIZE = 384"
definition WORKER_REPORT_DATA_OFFSET_IN_BODY :: nat where "WORKER_REPORT_DATA_OFFSET_IN_BODY = 320"
definition KMS_KEYS_LEN :: nat where "KMS_KEYS_LEN = 248"
definition KMS_TIMING_TRAILER_LEN :: nat where "KMS_TIMING_TRAILER_LEN = 24"
definition KMS_RESPONSE_MAX_LEN :: nat where "KMS_RESPONSE_MAX_LEN = unat BFIBE_MAX_RELEASE_LEN + KMS_TIMING_TRAILER_LEN"

lemmas worker_app_consts = WORKER_QUOTE3_REPORT_BODY_OFFSET_def WORKER_REPORT_BODY_SIZE_def
  WORKER_REPORT_DATA_OFFSET_IN_BODY_def KMS_KEYS_LEN_def KMS_TIMING_TRAILER_LEN_def KMS_RESPONSE_MAX_LEN_def
  BFIBE_MAX_RELEASE_LEN_def

text \<open>
  The process: its enclave, the durations the server reported, and what was sent to the server, one
  entry for each connection. A function of the process returns, ends the process, or never returns.
\<close>

record worker_app =
  worker_enclave :: worker
  g_kms_timing :: KmsTimingTrailer
  kms_sent :: "bytes list"

datatype 'a proc = Returned 'a | Exited int | Stuck

definition no_timing :: KmsTimingTrailer where
  "no_timing = \<lparr>verify_dur_ns = 0, key_release_dur_ns = 0, total_dur_ns = 0\<rparr>"

text \<open>
  What the process is given: environment variables, the number of addresses a host name resolves to (0
  for a failure), whether an attempt reaches an address, the results of \<open>send\<close>, what the server sends,
  whether an ECALL is delivered, the results of \<open>malloc\<close>, what uninitialised memory holds, the
  report the hardware makes for given report data, the quoting library, and what the enclave is given.
\<close>

datatype qe_status = QlSuccess | QlNoPlatformCert | QlNetworkError | QlOther

record app_env =
  getenv :: "bytes \<Rightarrow> bytes option"
  resolve :: "bytes \<Rightarrow> int \<Rightarrow> nat"
  connects :: "nat \<Rightarrow> nat \<Rightarrow> bool"
  send_results :: "int list"
  arrives :: "net_event list"
  delivered :: "nat \<Rightarrow> bool"
  app_malloc :: "nat \<Rightarrow> bool"
  garbage :: bytes
  hw_report :: "bytes \<Rightarrow> bytes"
  qe_target_info :: qe_status
  qe_quote_size :: "u32 option"
  qe_quote :: "bytes \<Rightarrow> bytes option"
  report_env :: env
  dkf_env :: env
  dklabel_env :: env
  release_env :: env

subsection \<open>Settings\<close>

definition kms_host :: "app_env \<Rightarrow> bytes" where
  "kms_host e = (case getenv e (lit ''KMS_HOST'') of None \<Rightarrow> lit ''localhost'' | Some v \<Rightarrow> if v = [] then lit ''localhost'' else v)"

text \<open>\<open>atoi\<close> is \<open>strtol\<close> cut to an \<open>int\<close>.\<close>

definition atoi :: "bytes \<Rightarrow> int" where
  "atoi v = sint (word_of_int (fst (strtol v)) :: u32)"

definition kms_port :: "app_env \<Rightarrow> int" where
  "kms_port e =
     (case getenv e (lit ''KMS_PORT'') of
        None \<Rightarrow> 3000
      | Some v \<Rightarrow> if v = [] then 3000 else let p = atoi v in if 0 < p \<and> p < 65536 then p else 3000)"

definition kms_connect_attempts :: "app_env \<Rightarrow> int" where
  "kms_connect_attempts e = env_int_default (getenv e (lit ''KMS_CONNECT_ATTEMPTS'')) 5 1 100"

definition kms_crypto_profile :: "app_env \<Rightarrow> bytes" where
  "kms_crypto_profile e =
     (case getenv e (lit ''ASYNCS_CRYPTO_PROFILE'') of None \<Rightarrow> lit ''eccibe'' | Some v \<Rightarrow> if v = [] then lit ''eccibe'' else v)"

definition allow_dummy_quote :: "app_env \<Rightarrow> bool" where
  "allow_dummy_quote e \<longleftrightarrow> getenv e (lit ''ACSC_ALLOW_DUMMY_QUOTE'') = Some (lit ''1'')"

subsection \<open>Socket loops\<close>

text \<open>\<open>send\<close> returns the listed values and then accepts everything: what went out, the values left, success.\<close>

fun write_exact :: "int list \<Rightarrow> bytes \<Rightarrow> bytes \<times> int list \<times> bool" where
  "write_exact [] data = (data, [], True)"
| "write_exact (n # ns) data =
     (if data = [] then ([], n # ns, True)
      else if n \<le> 0 then ([], ns, False)
      else let (rest, ns, ok) = write_exact ns (drop (nat n) data) in (take (nat n) data @ rest, ns, ok))"

fun write_parts :: "int list \<Rightarrow> bytes list \<Rightarrow> bytes \<times> bool" where
  "write_parts ns [] = ([], True)"
| "write_parts ns (d # ds) =
     (let (out, ns, ok) = write_exact ns d in
      if \<not> ok then (out, False) else let (rest, ok) = write_parts ns ds in (out @ rest, ok))"

function read_kms_response :: "net_event list \<Rightarrow> nat \<Rightarrow> bytes io" where
  "read_kms_response evs left =
     (if left = 0 then Done []
      else case sock_read evs left of
        (Interrupted, r) \<Rightarrow> read_kms_response r left
      | (ReadError, r) \<Rightarrow> Failed
      | (Blocks, r) \<Rightarrow> Blocked
      | (Got d, r) \<Rightarrow>
          if d = [] then Done []
          else case read_kms_response r (left - length d) of
            Done rest \<Rightarrow> Done (d @ rest)
          | Failed \<Rightarrow> Failed
          | Blocked \<Rightarrow> Blocked)"
  by pat_completeness auto
termination
proof (relation "measure (\<lambda>(evs, left). length evs + left)", goal_cases)
  case (2 evs left x r d)
  then have "sock_read evs left = (Got d, r)" by simp
  from sock_read_shrinks(2,3) [OF this] 2 show ?case by (cases d) (simp_all del: sock_read.simps)
next
  case (3 evs left x r)
  then show ?case using sock_read_shrinks(1) [of evs left r] by (simp del: sock_read.simps)
qed simp

declare read_kms_response.simps [simp del]

subsection \<open>The response\<close>

definition is_bfibe_key_release_response :: "bytes \<Rightarrow> bool" where
  "is_bfibe_key_release_response buffer \<longleftrightarrow>
     9 \<le> length buffer \<and> memcmp_eq buffer BFIBE_KEY_RELEASE_MAGIC 8 \<and> buffer ! 8 = 1"

definition read_u32_be_host :: "bytes \<Rightarrow> int \<Rightarrow> (u32 \<times> int) option" where
  "read_u32_be_host buffer offset =
     (if offset < 0 \<or> int (length buffer) - 4 < offset then None
      else let i = nat offset in
        Some (push_bit 24 (ucast (buffer ! i)) OR push_bit 16 (ucast (buffer ! (i + 1))) OR
              push_bit 8 (ucast (buffer ! (i + 2))) OR ucast (buffer ! (i + 3)), offset + 4))"

definition bfibe_key_release_payload_len :: "bytes \<Rightarrow> int" where
  "bfibe_key_release_payload_len buffer =
     (if \<not> is_bfibe_key_release_response buffer then -1
      else case do { (profile_len, p) \<leftarrow> read_u32_be_host buffer 9;
                     (fid_len, p) \<leftarrow> read_u32_be_host buffer p;
                     (worker_identity_len, p) \<leftarrow> read_u32_be_host buffer p;
                     (wrap_public_key_len, p) \<leftarrow> read_u32_be_host buffer p;
                     (nonce_len, p) \<leftarrow> read_u32_be_host buffer p;
                     (ciphertext_len, p) \<leftarrow> read_u32_be_host buffer p;
                     Some ((of_int p :: u64) + ucast profile_len + ucast fid_len + ucast worker_identity_len +
                           ucast wrap_public_key_len + ucast nonce_len + ucast ciphertext_len) } of
        None \<Rightarrow> -1
      | Some release_len \<Rightarrow>
          if of_nat (length buffer) < release_len \<or> ucast BFIBE_MAX_RELEASE_LEN < release_len then -1
          else int (unat release_len))"

definition unle64 :: "bytes \<Rightarrow> u64" where
  "unle64 b = push_bit 32 (ucast (unle32 (drop 4 b))) OR ucast (unle32 b)"

definition timing_of :: "bytes \<Rightarrow> KmsTimingTrailer" where
  "timing_of b = \<lparr>verify_dur_ns = unle64 b, key_release_dur_ns = unle64 (drop 8 b), total_dur_ns = unle64 (drop 16 b)\<rparr>"

definition copy_timing :: "bytes \<Rightarrow> nat \<Rightarrow> worker_app \<Rightarrow> worker_app" where
  "copy_timing buffer off a =
     (if length buffer < off + KMS_TIMING_TRAILER_LEN then a else a\<lparr>g_kms_timing := timing_of (drop off buffer)\<rparr>)"

text \<open>What a complete response is used for: \<open>buffer\<close> holds the bytes that were read.\<close>

definition use_response :: "sgx \<Rightarrow> app_env \<Rightarrow> bytes \<Rightarrow> bytes \<Rightarrow> worker_app \<Rightarrow> worker_app" where
  "use_response s e f buffer a =
     (let w = worker_enclave a in
      if buffer = [] then a
      else if is_bfibe_key_release_response buffer then
        (let n = bfibe_key_release_payload_len buffer in
         if n \<le> 0 then a
         else copy_timing buffer (nat n)
           (a\<lparr>worker_enclave := if delivered e 2
                then snd (ecall_load_bfibe_key_release s (release_env e) w (Some (take (nat n) buffer)) (Some f)) else w\<rparr>))
      else if KMS_KEYS_LEN \<le> length buffer then
        copy_timing buffer KMS_KEYS_LEN
          (a\<lparr>worker_enclave := if delivered e 2
               then ecall_decrypt_keys_batch s (dkf_env e) (dklabel_env e) w (take 124 buffer) (slice 124 124 buffer) f else w\<rparr>)
      else if length buffer = 124 then
        a\<lparr>worker_enclave := if delivered e 2 then snd (ecall_decrypt_key s (dkf_env e) w buffer f) else w\<rparr>
      else a)"

text \<open>The nine writes of a request.\<close>

definition request_parts :: "bytes \<Rightarrow> bytes \<Rightarrow> bytes \<Rightarrow> bytes \<Rightarrow> bytes \<Rightarrow> bytes list" where
  "request_parts quote f label public_key profile =
     [le32 (len32 quote), quote, le32 (len32 f), f, le32 (len32 label), label, public_key, le32 (len32 profile), profile]"

text \<open>Some attempt reaches some address.\<close>

definition reaches_server :: "app_env \<Rightarrow> bytes \<Rightarrow> int \<Rightarrow> bool" where
  "reaches_server e host port =
     list_ex (\<lambda>attempt. list_ex (connects e attempt) [0..<resolve e host port]) [1..<nat (kms_connect_attempts e) + 1]"

definition connect_to_kms ::
  "sgx \<Rightarrow> app_env \<Rightarrow> bytes \<Rightarrow> int \<Rightarrow> bytes \<Rightarrow> bytes \<Rightarrow> bytes \<Rightarrow> bytes \<Rightarrow> worker_app \<Rightarrow> worker_app proc" where
  "connect_to_kms s e host port quote f label public_key a =
     (let a = a\<lparr>g_kms_timing := no_timing\<rparr>;
          profile = kms_crypto_profile e in
      if resolve e host port = 0 then Returned a
      else if \<not> reaches_server e host port then Returned a
      else
        let (out, ok) = write_parts (send_results e) (request_parts quote f label public_key profile);
            a = a\<lparr>kms_sent := kms_sent a @ [out]\<rparr>
        in if \<not> ok then Returned a
           else (case read_kms_response (arrives e) KMS_RESPONSE_MAX_LEN of
                   Done buffer \<Rightarrow> Returned (use_response s e f buffer a)
                 | Failed \<Rightarrow> Returned a
                 | Blocked \<Rightarrow> Stuck))"

subsection \<open>The quote\<close>

definition embed_report_in_sim_quote :: "bytes \<Rightarrow> bytes \<Rightarrow> bytes" where
  "embed_report_in_sim_quote quote report_body =
     (if length quote < WORKER_QUOTE3_REPORT_BODY_OFFSET + WORKER_REPORT_BODY_SIZE then quote
      else
        let quote = blit quote WORKER_QUOTE3_REPORT_BODY_OFFSET (take WORKER_REPORT_BODY_SIZE report_body) in
        blit quote (WORKER_QUOTE3_REPORT_BODY_OFFSET + WORKER_REPORT_DATA_OFFSET_IN_BODY)
          (slice WORKER_REPORT_DATA_OFFSET_IN_BODY 64 report_body))"

text \<open>
  The ECALL for a report: the report body and the public key as the caller sees them, and whether it
  was delivered. The output buffers of a delivered call are zero where the enclave wrote nothing.
\<close>

definition create_report :: "sgx \<Rightarrow> app_env \<Rightarrow> worker_app \<Rightarrow> bytes \<times> bytes \<times> worker_app" where
  "create_report s e a =
     (if \<not> delivered e 1 then (take 384 (garbage e), take 64 (garbage e), a)
      else let (r, w) = ecall_create_report s (report_env e) (worker_enclave a);
               a = a\<lparr>worker_enclave := w\<rparr> in
        case r of
          None \<Rightarrow> (zeros 384, zeros 64, a)
        | Some (report_data, public_key) \<Rightarrow> (hw_report e report_data, public_key, a))"

text \<open>\<open>sim\<close> is the macro \<open>SGX_MODE_SIM\<close>. The first definition is the variant for \<open>--attest\<close>.\<close>

definition dummy_quote :: "sgx \<Rightarrow> app_env \<Rightarrow> byte \<Rightarrow> worker_app \<Rightarrow> bytes \<times> bytes \<times> worker_app" where
  "dummy_quote s e fill a =
     (let (report, public_key, a) = create_report s e a
      in (embed_report_in_sim_quote (replicate 1024 fill) report, public_key, a))"

definition generate_quote_bytes :: "sgx \<Rightarrow> app_env \<Rightarrow> bool \<Rightarrow> worker_app \<Rightarrow> (bytes \<times> bytes) option \<times> worker_app" where
  "generate_quote_bytes s e sim a =
     (if sim then (let (quote, public_key, a) = dummy_quote s e 0xEE a in (Some (quote, public_key), a))
      else if qe_target_info e \<noteq> QlSuccess then
        (if qe_target_info e = QlNoPlatformCert \<or> qe_target_info e = QlNetworkError then
           (if \<not> allow_dummy_quote e then (None, a)
            else let (quote, public_key, a) = dummy_quote s e 0xDD a in (Some (quote, public_key), a))
         else (None, a))
      else
        let (report, public_key, a) = create_report s e a in
        if \<not> delivered e 1 then (None, a)
        else case qe_quote_size e of
          None \<Rightarrow> (None, a)
        | Some quote_size \<Rightarrow>
            if \<not> app_malloc e 0 then (None, a)
            else (case qe_quote e report of
                    None \<Rightarrow> (None, a)
                  | Some quote \<Rightarrow> (Some (quote, public_key), a)))"

definition generate_quote :: "sgx \<Rightarrow> app_env \<Rightarrow> bool \<Rightarrow> bytes \<Rightarrow> bytes \<Rightarrow> worker_app \<Rightarrow> worker_app proc" where
  "generate_quote s e sim f label a =
     (if sim then
        (if \<not> app_malloc e 0 then Returned a
         else let (quote, public_key, a) = dummy_quote s e 0xEE a
              in connect_to_kms s e (kms_host e) (kms_port e) quote f label public_key a)
      else if qe_target_info e \<noteq> QlSuccess then
        (if qe_target_info e = QlNoPlatformCert \<or> qe_target_info e = QlNetworkError then
           (if \<not> allow_dummy_quote e then Exited 2
            else if \<not> app_malloc e 0 then Returned a
            else let (quote, public_key, a) = dummy_quote s e 0xDD a
                 in connect_to_kms s e (kms_host e) (kms_port e) quote f label public_key a)
         else Exited 2)
      else
        let (report, public_key, a) = create_report s e a in
        if \<not> delivered e 1 then Returned a
        else case qe_quote_size e of
          None \<Rightarrow> Returned a
        | Some quote_size \<Rightarrow>
            if \<not> app_malloc e 0 then Returned a
            else (case qe_quote e report of
                    None \<Rightarrow> Returned a
                  | Some quote \<Rightarrow> connect_to_kms s e (kms_host e) (kms_port e) quote f label public_key a))"

end
