(* ===== verification/WorkerKeys.thy ===== *)
theory WorkerKeys
  imports WorkerBfibe
begin

text \<open>
  What the key import and \<open>DecKey\<close> of the worker accept, against the formats of
  \<open>BfibeFormat\<close>: the private-key set, the key release and the key envelope.
\<close>

subsection \<open>The import of a key set\<close>

type_synonym key_record = "bytes \<times> bytes \<times> bytes"

definition record_frame :: "key_record \<Rightarrow> bytes" where
  "record_frame r = (case r of (purpose, identity, sk) \<Rightarrow> frame [purpose, identity, sk])"

definition record_fits :: "key_record \<Rightarrow> bool" where
  "record_fits r \<longleftrightarrow> (case r of (purpose, identity, sk) \<Rightarrow> fits32 [purpose, identity, sk])"

text \<open>A record the worker accepts for an FID.\<close>

definition record_ok :: "bytes \<Rightarrow> key_record \<Rightarrow> bool" where
  "record_ok f r \<longleftrightarrow> (case r of (purpose, identity, sk) \<Rightarrow>
     (purpose = REQUEST_KEY \<and> identity = lit ''fid:'' @ f \<or>
      purpose = FUNCTION_KEY \<and> bytes_starts_with_literal identity (lit ''label:'')) \<and>
     sk \<noteq> [] \<and> length sk \<le> 256)"

text \<open>The key a sequence of records leaves for a purpose: the last one.\<close>

definition last_key :: "bytes \<Rightarrow> key_record list \<Rightarrow> bytes \<Rightarrow> bytes" where
  "last_key p rs k = foldl (\<lambda>k (purpose, identity, sk). if purpose = p then sk else k) k rs"

fun install :: "bytes \<Rightarrow> key_record list \<Rightarrow> worker \<times> bool \<times> bool \<Rightarrow> (worker \<times> bool \<times> bool) option" where
  "install f [] st = Some st"
| "install f ((purpose, identity, sk) # rs) (w, fr, ff) =
     do { st \<leftarrow> import_bfibe_private_key_record w purpose identity sk f fr ff; install f rs st }"

lemma import_record_iff:
  assumes "length f < 156"
  shows "import_bfibe_private_key_record w purpose identity sk f fr ff = Some st \<longleftrightarrow>
    record_ok f (purpose, identity, sk) \<and>
    st = (if purpose = REQUEST_KEY then (w\<lparr>g_bfibe_request_sk := sk\<rparr>, True, ff)
          else (w\<lparr>g_bfibe_function_sk := sk\<rparr>, fr, True))"
  using assms by (auto simp: import_bfibe_private_key_record_def record_ok_def memcmp_eq_def Let_def lit_def)

lemma install_iff:
  "length f < 156 \<Longrightarrow> install f rs (w, fr, ff) = Some (w', fr', ff') \<longleftrightarrow>
    (\<forall>r \<in> set rs. record_ok f r) \<and>
    w' = w\<lparr>g_bfibe_request_sk := last_key REQUEST_KEY rs (g_bfibe_request_sk w),
           g_bfibe_function_sk := last_key FUNCTION_KEY rs (g_bfibe_function_sk w)\<rparr> \<and>
    fr' = (fr \<or> REQUEST_KEY \<in> fst ` set rs) \<and> ff' = (ff \<or> FUNCTION_KEY \<in> fst ` set rs)"
proof (induction rs arbitrary: w fr ff)
  case (Cons r rs)
  obtain purpose identity sk where r: "r = (purpose, identity, sk)" by (cases r)
  have "record_ok f r \<Longrightarrow> purpose = REQUEST_KEY \<or> purpose = FUNCTION_KEY"
    by (auto simp: record_ok_def r)
  then show ?case
    by (auto simp: r bind_eq_Some_conv import_record_iff [OF Cons.prems] Cons.IH [OF Cons.prems] last_key_def
        simp del: not_None_eq)
qed (auto simp: last_key_def)

abbreviation "worker_rd \<equiv> \<lambda>d p. read_u32_be d (len32 d) p"
abbreviation "worker_tk \<equiv> \<lambda>d p n. take_bytes d (len32 d) p n"

lemma import_records_step:
  "import_records (Suc n) plaintext f p w fr ff =
     (case do { (fs, q) \<leftarrow> read_fields worker_rd worker_tk 3 plaintext p;
                st \<leftarrow> import_bfibe_private_key_record w (fs ! 0) (fs ! 1) (fs ! 2) f fr ff;
                Some (q, st) } of
        None \<Rightarrow> (None, w\<lparr>g_bfibe_request_sk := [], g_bfibe_function_sk := []\<rparr>)
      | Some (p, w', fr', ff') \<Rightarrow> import_records n plaintext f p w' fr' ff')"
  by (simp add: read_fields_def numeral_3_eq_3 split_beta' bind_assoc)

lemma inside_same_end: "inside d p \<Longrightarrow> inside d q \<Longrightarrow> drop (unat p) d = drop (unat q) d \<Longrightarrow> p = q"
  by (metis inside_def length_drop diff_diff_cancel word_unat_eq_iff)

lemma import_records_iff:
  "inside d p \<Longrightarrow> import_records n d f p w fr ff = (Some (q, fr', ff'), w') \<longleftrightarrow>
    (\<exists>rs. length rs = n \<and> (\<forall>r \<in> set rs. record_fits r) \<and>
       drop (unat p) d = concat (map record_frame rs) @ drop (unat q) d \<and> inside d q \<and>
       install f rs (w, fr, ff) = Some (w', fr', ff'))"
proof (induction n arbitrary: p w fr ff)
  case 0
  then show ?case by (auto dest: inside_same_end)
next
  case (Suc n)
  show ?case
  proof
    assume "import_records (Suc n) d f p w fr ff = (Some (q, fr', ff'), w')"
    then obtain fs u st where s: "read_fields worker_rd worker_tk 3 d p = Some (fs, u)"
      "import_bfibe_private_key_record w (fs ! 0) (fs ! 1) (fs ! 2) f fr ff = Some st"
      "(case st of (w1, fr1, ff1) \<Rightarrow> import_records n d f u w1 fr1 ff1) = (Some (q, fr', ff'), w')"
      by (auto simp only: import_records_step bind_eq_Some_conv split: option.splits prod.splits) auto
    obtain w1 fr1 ff1 where st: "st = (w1, fr1, ff1)" by (cases st)
    have F: "length fs = 3" "fits32 fs" "drop (unat p) d = frame fs @ drop (unat u) d" "inside d u"
      using worker_reader.fields_Some [OF Suc.prems s(1)] by auto
    let ?r = "(fs ! 0, fs ! 1, fs ! 2)"
    have r: "record_frame ?r = frame fs" "record_fits ?r"
      using F(1,2) by (auto simp: record_frame_def record_fits_def length_Suc_conv numeral_3_eq_3)
    from s(3) st Suc.IH [OF F(4)] obtain rs where
      "length rs = n" "\<forall>r \<in> set rs. record_fits r" "drop (unat u) d = concat (map record_frame rs) @ drop (unat q) d"
      "inside d q" "install f rs (w1, fr1, ff1) = Some (w', fr', ff')" by auto
    with F r s(2) st show "\<exists>rs. length rs = Suc n \<and> (\<forall>r \<in> set rs. record_fits r) \<and>
       drop (unat p) d = concat (map record_frame rs) @ drop (unat q) d \<and> inside d q \<and>
       install f rs (w, fr, ff) = Some (w', fr', ff')"
      by (intro exI [of _ "?r # rs"]) simp
  next
    assume "\<exists>rs. length rs = Suc n \<and> (\<forall>r \<in> set rs. record_fits r) \<and>
       drop (unat p) d = concat (map record_frame rs) @ drop (unat q) d \<and> inside d q \<and>
       install f rs (w, fr, ff) = Some (w', fr', ff')"
    then obtain pu i sk rs st where r: "length rs = n" "record_fits (pu, i, sk)" "\<forall>r \<in> set rs. record_fits r"
      "drop (unat p) d = frame [pu, i, sk] @ concat (map record_frame rs) @ drop (unat q) d" "inside d q"
      "import_bfibe_private_key_record w pu i sk f fr ff = Some st" "install f rs st = Some (w', fr', ff')"
      by (auto simp: length_Suc_conv record_frame_def bind_eq_Some_conv)
    obtain w1 fr1 ff1 where st: "st = (w1, fr1, ff1)" by (cases st)
    from worker_reader.fields_frame [OF Suc.prems r(4)] r(2) obtain u where
      u: "read_fields worker_rd worker_tk 3 d p = Some ([pu, i, sk], u)" "inside d u"
      "drop (unat u) d = concat (map record_frame rs) @ drop (unat q) d"
      by (auto simp: record_fits_def numeral_3_eq_3)
    from Suc.IH [OF u(2)] r st u(3) have "import_records n d f u w1 fr1 ff1 = (Some (q, fr', ff'), w')"
      by auto
    with u(1) r(6) st show "import_records (Suc n) d f p w fr ff = (Some (q, fr', ff'), w')"
      by (simp add: import_records_step del: import_records.simps)
  qed
qed

definition key_set_header :: "bytes \<Rightarrow> (u32 \<times> u32) option" where
  "key_set_header d =
     do { (magic, p) \<leftarrow> take_bytes d (len32 d) 0 8;
          if \<not> memcmp_eq magic BFIBE_PRIVATE_KEY_SET_MAGIC 8 \<or> d ! unat p \<noteq> 1 then None
          else do {
            (profile_len, p) \<leftarrow> read_u32_be d (len32 d) (p + 1);
            (record_count, p) \<leftarrow> read_u32_be d (len32 d) p;
            (profile, p) \<leftarrow> take_bytes d (len32 d) p profile_len;
            if \<not> bytes_equal_literal profile BFIBE_PROFILE_ID \<or> record_count = 0 then None
            else Some (record_count, p) } }"

definition key_set_prefix :: "u32 \<Rightarrow> bytes" where
  "key_set_prefix n = BFIBE_PRIVATE_KEY_SET_MAGIC @ [1] @ be32 (len32 BFIBE_PROFILE_ID) @ be32 n @ BFIBE_PROFILE_ID"

lemma key_set_layout_prefix:
  "key_set_layout rs = key_set_prefix (of_nat (length rs)) @ concat (map record_frame rs)"
  by (simp add: key_set_layout_def key_set_prefix_def record_frame_def [abs_def])

lemma layout_split:
  "length magic = 8 \<Longrightarrow> d = magic @ [1] @ r \<Longrightarrow> take 8 d = magic \<and> d ! 8 = 1 \<and> drop 9 d = r"
  by (auto simp: nth_append)

lemma key_set_header_iff:
  assumes "length d < 2 ^ 32" "17 \<le> length d"
  shows "key_set_header d = Some (n, p) \<longleftrightarrow> n \<noteq> 0 \<and> inside d p \<and> d = key_set_prefix n @ drop (unat p) d"
proof
  have ok: "inside d 0" "inside d 9" using assms by (simp_all add: inside_def)
  have t8: "take_bytes d (len32 d) 0 8 = Some (take 8 d, 8)"
    using assms by (simp add: take_bytes_def slice_def word_less_nat_alt)
  {
    assume "key_set_header d = Some (n, p)"
    then obtain pl q q2 where h: "memcmp_eq (take 8 d) BFIBE_PRIVATE_KEY_SET_MAGIC 8" "d ! 8 = 1"
      "read_u32_be d (len32 d) 9 = Some (pl, q)" "read_u32_be d (len32 d) q = Some (n, q2)"
      "take_bytes d (len32 d) q2 pl = Some (BFIBE_PROFILE_ID, p)" "n \<noteq> 0"
      by (auto simp: key_set_header_def t8 bind_eq_Some_conv split: if_splits)
    have 1: "drop 9 d = be32 pl @ drop (unat q) d" "inside d q" using worker_reader.rd_Some [OF ok(2) h(3)] by auto
    have 2: "drop (unat q) d = be32 n @ drop (unat q2) d" "inside d q2" using worker_reader.rd_Some [OF 1(2) h(4)] by auto
    have 3: "drop (unat q2) d = BFIBE_PROFILE_ID @ drop (unat p) d" "inside d p" "unat pl = length BFIBE_PROFILE_ID"
      using worker_reader.tk_Some [OF 2(2) h(5)] by auto
    have "pl = len32 BFIBE_PROFILE_ID" using 3(3) by (simp add: len32_of_unat)
    moreover have "d = BFIBE_PRIVATE_KEY_SET_MAGIC @ [1] @ drop 9 d"
      using drop_layout [of BFIBE_PRIVATE_KEY_SET_MAGIC d] h(1,2) assms(2) by (simp add: memcmp_eq_def)
    ultimately show "n \<noteq> 0 \<and> inside d p \<and> d = key_set_prefix n @ drop (unat p) d"
      using 1 2 3 h(6) by (simp add: key_set_prefix_def)
  }
  assume r: "n \<noteq> 0 \<and> inside d p \<and> d = key_set_prefix n @ drop (unat p) d"
  then have m: "take 8 d = BFIBE_PRIVATE_KEY_SET_MAGIC \<and> d ! 8 = 1 \<and>
      drop 9 d = be32 (len32 BFIBE_PROFILE_ID) @ be32 n @ BFIBE_PROFILE_ID @ drop (unat p) d"
    by (intro layout_split) (simp_all add: key_set_prefix_def)
  with worker_reader.rd_be32 [OF ok(2)] obtain q where
    1: "read_u32_be d (len32 d) 9 = Some (len32 BFIBE_PROFILE_ID, q)" "inside d q"
    "drop (unat q) d = be32 n @ BFIBE_PROFILE_ID @ drop (unat p) d" by auto
  with worker_reader.rd_be32 [OF 1(2,3)] obtain q2 where
    2: "read_u32_be d (len32 d) q = Some (n, q2)" "inside d q2" "drop (unat q2) d = BFIBE_PROFILE_ID @ drop (unat p) d" by auto
  with worker_reader.tk_bytes [OF 2(2,3), of "len32 BFIBE_PROFILE_ID"] obtain q3 where
    3: "take_bytes d (len32 d) q2 (len32 BFIBE_PROFILE_ID) = Some (BFIBE_PROFILE_ID, q3)" "inside d q3"
    "drop (unat q3) d = drop (unat p) d" by auto
  have "q3 = p" using inside_same_end 3(2,3) r by blast
  then show "key_set_header d = Some (n, p)"
    using m 1 2 3 r by (simp add: key_set_header_def t8 memcmp_eq_def)
qed

lemma key_set_unfold:
  "parse_bfibe_private_key_set w d f = (if length d < 17 then (False, w) else case key_set_header d of
        None \<Rightarrow> (False, w)
      | Some (n, p) \<Rightarrow> (case import_records (unat n) d f p
               (w\<lparr>g_bfibe_request_sk := [], g_bfibe_function_sk := []\<rparr>) False False of
             (None, w') \<Rightarrow> (False, w')
           | (Some (p, fr, ff), w') \<Rightarrow> (p = len32 d \<and> fr \<and> ff, w')))"
  by (simp add: parse_bfibe_private_key_set_def key_set_header_def Let_def)

text \<open>A framed key set of acceptable records is imported record by record, whatever follows it.\<close>

lemma key_set_reads:
  assumes "length d < 2 ^ 32" "length f < 156" "d = key_set_layout rs @ t" "rs \<noteq> []"
    and "\<forall>r \<in> set rs. record_ok f r \<and> record_fits r"
  shows "parse_bfibe_private_key_set w d f =
    (t = [] \<and> REQUEST_KEY \<in> fst ` set rs \<and> FUNCTION_KEY \<in> fst ` set rs,
     w\<lparr>g_bfibe_request_sk := last_key REQUEST_KEY rs [], g_bfibe_function_sk := last_key FUNCTION_KEY rs []\<rparr>)"
proof -
  let ?n = "of_nat (length rs) :: u32" and ?w0 = "w\<lparr>g_bfibe_request_sk := [], g_bfibe_function_sk := []\<rparr>"
  let ?q = "of_nat (length (key_set_layout rs)) :: u32"
  have len: "length (key_set_prefix n) = 35" for n by (simp add: key_set_prefix_def)
  have rsl: "length rs \<le> length (concat (map record_frame rs))"
    by (induction rs) (auto simp: record_frame_def length_frame split: prod.splits)
  have 35: "35 \<le> length d" "length rs < 2 ^ 32" and p: "drop 35 d = concat (map record_frame rs) @ t"
    using assms(3) rsl len [of ?n] assms(1) by (auto simp: key_set_layout_prefix)
  have q: "unat ?q = length (key_set_layout rs)" "drop (unat ?q) d = t" "inside d ?q"
    using assms(1,3) by (simp_all add: unat_of_nat_u32 inside_def)
  have p2: "inside d 35" "?n \<noteq> 0" using assms(1,4) 35 by (auto simp: inside_def word_unat_eq_iff unat_of_nat_u32)
  have h: "key_set_header d = Some (?n, 35)"
    using p p2 35(1) assms(3) by (subst key_set_header_iff [OF assms(1)]) (auto simp: key_set_layout_prefix)
  have "import_records (unat ?n) d f 35 ?w0 False False =
      (Some (?q, REQUEST_KEY \<in> fst ` set rs, FUNCTION_KEY \<in> fst ` set rs),
       w\<lparr>g_bfibe_request_sk := last_key REQUEST_KEY rs [], g_bfibe_function_sk := last_key FUNCTION_KEY rs []\<rparr>)"
    unfolding import_records_iff [OF p2(1)]
    using q p 35(2) assms(5) install_iff [OF assms(2), of rs ?w0 False False]
    by (intro exI [of _ rs]) (auto simp: unat_of_nat_u32)
  moreover have "?q = len32 d \<longleftrightarrow> t = []"
    using inside_end [OF q(3)] q(1) assms(3) by simp
  ultimately show ?thesis unfolding key_set_unfold using h 35(1) by simp
qed

text \<open>
  The import succeeds exactly on the key sets of the format whose records are all acceptable and
  contain both kinds of key, and leaves the last key of each kind.
\<close>

lemma key_set_exact:
  assumes "length d < 2 ^ 32" "length f < 156"
  shows "parse_bfibe_private_key_set w d f = (True, w') \<longleftrightarrow>
    (\<exists>rs. d = key_set_layout rs \<and> (\<forall>r \<in> set rs. record_ok f r \<and> record_fits r) \<and>
       REQUEST_KEY \<in> fst ` set rs \<and> FUNCTION_KEY \<in> fst ` set rs \<and>
       w' = w\<lparr>g_bfibe_request_sk := last_key REQUEST_KEY rs [], g_bfibe_function_sk := last_key FUNCTION_KEY rs []\<rparr>)"
    (is "?P \<longleftrightarrow> (\<exists>rs. ?R rs)")
proof
  let ?w0 = "w\<lparr>g_bfibe_request_sk := [], g_bfibe_function_sk := []\<rparr>"
  assume ?P
  then obtain n p where h: "17 \<le> length d" "key_set_header d = Some (n, p)"
    and i: "import_records (unat n) d f p ?w0 False False = (Some (len32 d, True, True), w')"
    unfolding key_set_unfold by (auto split: if_splits option.splits prod.splits)
  have p: "inside d p" "d = key_set_prefix n @ drop (unat p) d"
    using key_set_header_iff [OF assms(1) h(1)] h(2) by auto
  from i [unfolded import_records_iff [OF p(1)]] obtain rs where
    r: "length rs = unat n" "\<forall>r \<in> set rs. record_fits r" "inside d (len32 d)"
    "drop (unat p) d = concat (map record_frame rs) @ drop (unat (len32 d)) d"
    "install f rs (?w0, False, False) = Some (w', True, True)" by blast
  have "drop (unat p) d = concat (map record_frame rs)" using r(4) assms(1) by simp
  then have "d = key_set_layout rs" using p(2) r(1) by (simp add: key_set_layout_prefix)
  with r install_iff [OF assms(2), of rs ?w0 False False] have "?R rs" by auto
  then show "\<exists>rs. ?R rs" ..
next
  assume "\<exists>rs. ?R rs"
  then obtain rs where "?R rs" by blast
  with key_set_reads [OF assms, of rs "[]" w] show ?P by (cases rs) auto
qed

subsection \<open>What a load accepts and leaves\<close>

lemmas worker_writer_simps = append_u32_be_local_def append_aad_part_def bind_split_pair bind_last

lemma release_aad_local_writes:
  "build_bfibe_key_release_aad_local v out cap =
   write_all append_bytes_local out cap 0
     [BFIBE_AAD_MAGIC, be32 (len32 (rv_profile v)), rv_profile v, be32 (len32 (rv_fid v)), rv_fid v,
      be32 (len32 (rv_worker_identity v)), rv_worker_identity v,
      be32 (len32 (rv_wrap_public_key v)), rv_wrap_public_key v]"
  by (simp add: build_bfibe_key_release_aad_local_def worker_writer_simps)

lemma envelope_aad_writes:
  "build_bfibe_envelope_aad v out cap =
   write_all append_bytes_local out cap 0
     [BFIBE_KEY_ENVELOPE_AAD_MAGIC, be32 (len32 (ev_profile v)), ev_profile v, be32 (len32 (ev_purpose v)), ev_purpose v,
      be32 (len32 (ev_identity v)), ev_identity v, be32 (len32 (ev_aad_context v)), ev_aad_context v]"
  by (simp add: build_bfibe_envelope_aad_def worker_writer_simps)

lemma build_release_aad_local:
  assumes "fits32 [rv_fid v, rv_worker_identity v, rv_wrap_public_key v]" "rv_profile v = BFIBE_PROFILE_ID"
  shows "map_option (\<lambda>(aad, n). take (unat n) aad) (build_bfibe_key_release_aad_local v (zero_bytes 256) 256) =
    (let l = release_aad_layout (rv_fid v) (rv_worker_identity v) (rv_wrap_public_key v) in
     if length l \<le> 256 then Some l else None)"
proof -
  have "concat [BFIBE_AAD_MAGIC, be32 (len32 (rv_profile v)), rv_profile v, be32 (len32 (rv_fid v)), rv_fid v,
      be32 (len32 (rv_worker_identity v)), rv_worker_identity v, be32 (len32 (rv_wrap_public_key v)), rv_wrap_public_key v] =
      release_aad_layout (rv_fid v) (rv_worker_identity v) (rv_wrap_public_key v)"
    using assms(2) by (simp add: release_aad_layout_def parts_def)
  from worker_writer.write_layout [OF _ _ this, of "zero_bytes 256" 256] assms show ?thesis
    unfolding release_aad_local_writes by (auto simp: Let_def)
qed

lemma build_envelope_aad:
  assumes "fits32 [ev_purpose v, ev_identity v, ev_aad_context v]" "ev_profile v = BFIBE_PROFILE_ID"
  shows "map_option (\<lambda>(aad, n). take (unat n) aad) (build_bfibe_envelope_aad v (zero_bytes 512) 512) =
    (let l = envelope_aad_layout (ev_purpose v) (ev_identity v) (ev_aad_context v) in
     if length l \<le> 512 then Some l else None)"
proof -
  have "concat [BFIBE_KEY_ENVELOPE_AAD_MAGIC, be32 (len32 (ev_profile v)), ev_profile v, be32 (len32 (ev_purpose v)), ev_purpose v,
      be32 (len32 (ev_identity v)), ev_identity v, be32 (len32 (ev_aad_context v)), ev_aad_context v] =
      envelope_aad_layout (ev_purpose v) (ev_identity v) (ev_aad_context v)"
    using assms(2) by (simp add: envelope_aad_layout_def parts_def)
  from worker_writer.write_layout [OF _ _ this, of "zero_bytes 512" 512] assms show ?thesis
    unfolding envelope_aad_writes by (auto simp: Let_def)
qed

text \<open>The keys and the FID a successful load leaves; other code is forgotten.\<close>

definition accepted_keys :: "bytes \<Rightarrow> key_record list \<Rightarrow> bool" where
  "accepted_keys f rs \<longleftrightarrow> (\<forall>r \<in> set rs. record_ok f r \<and> record_fits r) \<and>
     REQUEST_KEY \<in> fst ` set rs \<and> FUNCTION_KEY \<in> fst ` set rs"

definition with_keys :: "worker \<Rightarrow> bytes \<Rightarrow> key_record list \<Rightarrow> worker" where
  "with_keys w f rs =
     (if g_bfibe_key_loaded w \<and> strncmp_eq 128 (g_bfibe_fid w) f then w else function_cache_clear w)
     \<lparr>g_bfibe_request_sk := last_key REQUEST_KEY rs [], g_bfibe_function_sk := last_key FUNCTION_KEY rs [],
      g_bfibe_fid := take 127 f, g_bfibe_key_loaded := True\<rparr>"

lemma release_plaintext_iff:
  assumes "fits32 [rv_fid v, rv_worker_identity v, rv_wrap_public_key v]" "rv_profile v = BFIBE_PROFILE_ID"
  shows "release_plaintext s e w v = Some pt \<longleftrightarrow>
    64 + length (rv_fid v) + length (rv_worker_identity v) + length (rv_wrap_public_key v) \<le> 256 \<and> ecc_open e \<and> malloc_ok e 0 \<and>
    (\<exists>shared. shared_dhkey s (g_private_key w) (take 64 (rv_wrap_public_key v)) = Some shared \<and>
       gcm_dec s (take 16 shared) (take (length (rv_ciphertext v) - 16) (rv_ciphertext v)) (rv_nonce v)
         (release_aad_layout (rv_fid v) (rv_worker_identity v) (rv_wrap_public_key v))
         (drop (length (rv_ciphertext v) - 16) (rv_ciphertext v)) = Some pt)"
proof (cases "build_bfibe_key_release_aad_local v (zero_bytes 256) 256")
  case None
  then show ?thesis using build_release_aad_local [OF assms]
    by (simp add: release_plaintext_def Let_def length_release_aad split: if_splits)
next
  case (Some r)
  obtain aad n where r: "r = (aad, n)" by (cases r)
  then have "64 + length (rv_fid v) + length (rv_worker_identity v) + length (rv_wrap_public_key v) \<le> 256"
    "take (unat n) aad = release_aad_layout (rv_fid v) (rv_worker_identity v) (rv_wrap_public_key v)"
    using build_release_aad_local [OF assms] Some by (simp_all add: Let_def length_release_aad split: if_splits)
  then show ?thesis using Some r by (auto simp: release_plaintext_def Let_def bind_eq_Some_conv)
qed

lemma parse_release_sizes:
  assumes "parse_bfibe_key_release release = Some v" "length release < 2 ^ 32"
  shows "fits32 [rv_fid v, rv_worker_identity v, rv_wrap_public_key v]" "length (rv_ciphertext v) < 2 ^ 32"
    "rv_profile v = BFIBE_PROFILE_ID" "length (rv_wrap_public_key v) = 64"
proof -
  from assms have "release = release_layout [BFIBE_PROFILE_ID, rv_fid v, rv_worker_identity v, rv_wrap_public_key v, rv_nonce v, rv_ciphertext v]"
    and *: "rv_profile v = BFIBE_PROFILE_ID" "length (rv_wrap_public_key v) = 64" by (simp_all add: parse_release_exact)
  then have "length release = 51 + length (rv_fid v) + length (rv_worker_identity v) + length (rv_wrap_public_key v)
      + length (rv_nonce v) + length (rv_ciphertext v)" by (metis length_release)
  with assms(2) show "fits32 [rv_fid v, rv_worker_identity v, rv_wrap_public_key v]" "length (rv_ciphertext v) < 2 ^ 32" by auto
  from * show "rv_profile v = BFIBE_PROFILE_ID" "length (rv_wrap_public_key v) = 64" by simp_all
qed

lemma load_release_iff:
  assumes "gcm_laws s" "length release < 2 ^ 32"
  shows "ecall_load_bfibe_key_release s e w (Some release) (Some f) = (0, w') \<longleftrightarrow>
    (\<exists>v rs. parse_bfibe_key_release release = Some v \<and> g_worker_keypair_ready w \<and> rv_fid v = f \<and>
     release_plaintext s e w v = Some (key_set_layout rs) \<and> accepted_keys f rs \<and> w' = with_keys w f rs)"
proof (cases "parse_bfibe_key_release release")
  case (Some v)
  note sz = parse_release_sizes [OF Some assms(2)]
  show ?thesis
  proof (cases "g_worker_keypair_ready w \<and> rv_fid v = f")
    case True
    show ?thesis
    proof (cases "release_plaintext s e w v")
      case pt: (Some pt)
      obtain ok w1 where p: "parse_bfibe_private_key_set w pt f = (ok, w1)" by fastforce
      note i = pt [unfolded release_plaintext_iff [OF sz(1,3)]]
      from i obtain shared where "gcm_dec s (take 16 shared) (take (length (rv_ciphertext v) - 16) (rv_ciphertext v)) (rv_nonce v)
         (release_aad_layout (rv_fid v) (rv_worker_identity v) (rv_wrap_public_key v))
         (drop (length (rv_ciphertext v) - 16) (rv_ciphertext v)) = Some pt" by blast
      from gcm_dec_length [OF assms(1) this] have "length pt \<le> length (rv_ciphertext v)" by simp
      moreover have "64 + length f + length (rv_worker_identity v) + 64 \<le> 256"
        using conjunct1 [OF i] True sz(4) by simp
      ultimately have b: "length pt < 2 ^ 32" "length f < 156" using sz(2) by auto
      define enter where "enter w1 = (if g_bfibe_key_loaded w1 \<and> strncmp_eq 128 (g_bfibe_fid w1) f then w1 else function_cache_clear w1)
                  \<lparr>g_bfibe_fid := take 127 f, g_bfibe_key_loaded := True\<rparr>" for w1
      have E: "enter (w\<lparr>g_bfibe_request_sk := last_key REQUEST_KEY rs [], g_bfibe_function_sk := last_key FUNCTION_KEY rs []\<rparr>)
          = with_keys w f rs" for rs
        by (simp add: enter_def with_keys_def function_cache_clear_def)
      have "ecall_load_bfibe_key_release s e w (Some release) (Some f) = (0, w') \<longleftrightarrow>
          (\<exists>w1. parse_bfibe_private_key_set w pt f = (True, w1) \<and> w' = enter w1)"
        using p pt True Some by (auto simp: ecall_load_bfibe_key_release_def memcmp_eq_def enter_def)
      also have "\<dots> \<longleftrightarrow> (\<exists>rs. pt = key_set_layout rs \<and> accepted_keys f rs \<and>
          w' = enter (w\<lparr>g_bfibe_request_sk := last_key REQUEST_KEY rs [], g_bfibe_function_sk := last_key FUNCTION_KEY rs []\<rparr>))"
        unfolding key_set_exact [OF b] accepted_keys_def by blast
      also have "\<dots> \<longleftrightarrow> (\<exists>rs. pt = key_set_layout rs \<and> accepted_keys f rs \<and> w' = with_keys w f rs)" unfolding E ..
      finally show ?thesis using pt True Some by simp
    qed (use True Some in \<open>auto simp: ecall_load_bfibe_key_release_def memcmp_eq_def\<close>)
  qed (use Some in \<open>auto simp: ecall_load_bfibe_key_release_def memcmp_eq_def split: if_splits\<close>)
qed (simp add: ecall_load_bfibe_key_release_def)

text \<open>The ECALL against the formats.\<close>

lemma load_release_layout_iff:
  assumes "gcm_laws s" "length release < 2 ^ 32"
  shows "ecall_load_bfibe_key_release s e w (Some release) (Some f) = (0, w') \<longleftrightarrow>
    (\<exists>wi kpub nonce c shared rs. release = release_layout [BFIBE_PROFILE_ID, f, wi, kpub, nonce, c] \<and>
       length kpub = 64 \<and> length nonce = 12 \<and> 16 < length c \<and> length f + length wi \<le> 128 \<and>
       g_worker_keypair_ready w \<and> ecc_open e \<and> malloc_ok e 0 \<and> shared_dhkey s (g_private_key w) kpub = Some shared \<and>
       gcm_dec s (take 16 shared) (take (length c - 16) c) nonce (release_aad_layout f wi kpub) (drop (length c - 16) c)
         = Some (key_set_layout rs) \<and>
       accepted_keys f rs \<and> w' = with_keys w f rs)" (is "?L \<longleftrightarrow> ?R")
proof
  assume ?L
  then obtain v rs where v: "parse_bfibe_key_release release = Some v" "g_worker_keypair_ready w" "rv_fid v = f"
    "release_plaintext s e w v = Some (key_set_layout rs)" "accepted_keys f rs" "w' = with_keys w f rs"
    unfolding load_release_iff [OF assms] by blast
  with parse_release_sizes [OF v(1) assms(2)] show ?R
    by (simp add: parse_release_exact [OF assms(2)] release_plaintext_iff) blast
next
  assume ?R
  then obtain wi kpub nonce c shared rs where r: "release = release_layout [BFIBE_PROFILE_ID, f, wi, kpub, nonce, c]"
    "length kpub = 64" "length nonce = 12" "16 < length c" "length f + length wi \<le> 128"
    "g_worker_keypair_ready w" "ecc_open e" "malloc_ok e 0" "shared_dhkey s (g_private_key w) kpub = Some shared"
    "gcm_dec s (take 16 shared) (take (length c - 16) c) nonce (release_aad_layout f wi kpub) (drop (length c - 16) c)
         = Some (key_set_layout rs)"
    "accepted_keys f rs" "w' = with_keys w f rs" by blast
  let ?v = "\<lparr>rv_profile = BFIBE_PROFILE_ID, rv_fid = f, rv_worker_identity = wi, rv_wrap_public_key = kpub,
    rv_nonce = nonce, rv_ciphertext = c\<rparr>"
  have p: "parse_bfibe_key_release release = Some ?v" unfolding parse_release_exact [OF assms(2)] using r by simp
  moreover have "release_plaintext s e w ?v = Some (key_set_layout rs)"
    using parse_release_sizes [OF p assms(2)] r by (simp add: release_plaintext_iff)
  ultimately show ?L unfolding load_release_iff [OF assms] using r by (intro exI [of _ ?v] exI [of _ rs]) simp
qed

text \<open>
  C29: what the worker accepts as a key release, and what it keeps of it. The ECALL succeeds
  exactly when the bytes are a release of the format for this FID, wrapped for the worker's own key
  pair, whose payload authenticates under the profile, FID, worker name and wrap key of the envelope
  and is a key set with both kinds of key, each record acceptable; then the keys and the FID are
  replaced, and cached code of another FID is forgotten.
\<close>

theorem load_release_spec:
  assumes "gcm_laws s" "length release < 2 ^ 32"
  shows "ecall_load_bfibe_key_release s e w (Some release) (Some f) = (0, w') \<longleftrightarrow>
    (\<exists>wi kpub nonce c shared rs. release = release_layout [BFIBE_PROFILE_ID, f, wi, kpub, nonce, c] \<and>
       length kpub = 64 \<and> length nonce = 12 \<and> 16 < length c \<and> length f + length wi \<le> 128 \<and>
       g_worker_keypair_ready w \<and> ecc_open e \<and> malloc_ok e 0 \<and> shared_dhkey s (g_private_key w) kpub = Some shared \<and>
       gcm_dec s (take 16 shared) (take (length c - 16) c) nonce (release_aad_layout f wi kpub) (drop (length c - 16) c)
         = Some (key_set_layout rs) \<and>
       accepted_keys f rs \<and> w' = with_keys w f rs)"
  by (rule load_release_layout_iff [OF assms])

definition demo_records :: "key_record list" where
  "demo_records = [(REQUEST_KEY, lit ''fid:f1'', [7]), (FUNCTION_KEY, lit ''label:l1'', [9])]"

lemma demo_records_accepted: "accepted_keys (lit ''f1'') demo_records"
  by (simp add: accepted_keys_def demo_records_def record_ok_def record_fits_def bytes_starts_with_literal_def
      memcmp_eq_def lit_def)

definition demo_worker :: worker where
  "demo_worker = worker_boot\<lparr>g_private_key := replicate 32 1, g_worker_keypair_ready := True\<rparr>"

theorem load_release_spec_witness:
  "ecall_load_bfibe_key_release toy_sgx toy_env demo_worker
     (Some (release_layout [BFIBE_PROFILE_ID, lit ''f1'', lit ''w'', replicate 64 3, replicate 12 5,
        key_set_layout demo_records @ toy_mac (replicate 16 4) (key_set_layout demo_records) (replicate 12 5)
          (release_aad_layout (lit ''f1'') (lit ''w'') (replicate 64 3))])) (Some (lit ''f1''))
   = (0, with_keys demo_worker (lit ''f1'') demo_records)"
proof -
  let ?c = "key_set_layout demo_records @ toy_mac (replicate 16 4) (key_set_layout demo_records) (replicate 12 5)
          (release_aad_layout (lit ''f1'') (lit ''w'') (replicate 64 3))"
  have l: "length (key_set_layout demo_records) = 98"
    by (simp add: demo_records_def length_key_set2)
  show ?thesis
    by (subst load_release_spec [OF toy_gcm_laws])
      (simp add: length_release l toy_mac_def,
       intro exI [of _ "lit ''w''"] exI [of _ "replicate 64 3"] exI [of _ "replicate 12 5"] exI [of _ ?c]
         exI [of _ "replicate 32 4"] exI [of _ demo_records],
       simp add: demo_worker_def demo_records_accepted toy_mac_def zip_replicate l)
qed

subsection \<open>Key envelopes\<close>

lemma parse_envelope_sizes:
  assumes "parse_bfibe_envelope c = Some v" "length c < 2 ^ 32"
  shows "fits32 [ev_purpose v, ev_identity v, ev_aad_context v]" "ev_profile v = BFIBE_PROFILE_ID"
proof -
  from assms have e: "c = envelope_layout [BFIBE_PROFILE_ID, ev_purpose v, ev_identity v, ev_aad_context v, ev_c1 v, ev_nonce v, ev_ciphertext v]"
    and *: "ev_profile v = BFIBE_PROFILE_ID" by (simp_all add: parse_envelope_exact)
  have "length c \<ge> length (ev_purpose v) + length (ev_identity v) + length (ev_aad_context v)"
    by (subst e) (simp add: envelope_layout_def length_frame)
  with assms(2) show "fits32 [ev_purpose v, ev_identity v, ev_aad_context v]" by auto
  from * show "ev_profile v = BFIBE_PROFILE_ID" .
qed

lemma envelope_inj:
  assumes "envelope_layout xs = envelope_layout ys" "length xs = length ys" "length (envelope_layout xs) < 2 ^ 32"
  shows "xs = ys"
proof -
  from assms(1) have f: "frame xs = frame ys" by (simp add: envelope_layout_def)
  moreover have "fits32 xs" "fits32 ys"
    using fits32_frame [of BFIBE_ENVELOPE_MAGIC "[1]"] assms(1,3) by (simp_all add: envelope_layout_def)
  ultimately show ?thesis using frame_inj [of xs "[]" ys "[]"] assms(2) by simp
qed

text \<open>The private key an identity of a purpose selects.\<close>

definition key_for :: "worker \<Rightarrow> bytes \<Rightarrow> bytes \<Rightarrow> bytes option" where
  "key_for w purpose identity =
     (if purpose = REQUEST_KEY \<and> identity = lit ''fid:'' @ g_bfibe_fid w then Some (g_bfibe_request_sk w)
      else if purpose = FUNCTION_KEY \<and> bytes_starts_with_literal identity (lit ''label:'') then Some (g_bfibe_function_sk w)
      else None)"

lemma select_sk_eq:
  "length (g_bfibe_fid w) \<le> 127 \<Longrightarrow> select_sk w v = key_for w (ev_purpose v) (ev_identity v)"
  by (auto simp: select_sk_def key_for_def Let_def memcmp_eq_def)

text \<open>\<open>DecKey\<close> on an envelope, by the format.\<close>

lemma dec_key_envelope_iff:
  assumes "is_bfibe_envelope (Some c)" "length c < 2 ^ 32" "length (g_bfibe_fid w) \<le> 127"
  shows "fst (DecKey m s e w cap32 (Some c) domain) = Some key \<longleftrightarrow>
    g_bfibe_key_loaded w \<and>
    (\<exists>purpose identity c1 nonce ct sk. c = envelope_layout [BFIBE_PROFILE_ID, purpose, identity, domain, c1, nonce, ct] \<and>
       c1 \<noteq> [] \<and> length nonce = 12 \<and> 16 < length ct \<and>
       key_for w purpose identity = Some sk \<and> sk \<noteq> [] \<and>
       length purpose + length identity + length domain \<le> 459 \<and>
       fst (bfibe_mcl_decrypt_key_envelope m s sk c1 nonce ct (envelope_aad_layout purpose identity domain) (g_mcl_init w)) = Inr key)"
    (is "?L \<longleftrightarrow> _ \<and> ?R")
proof (cases "parse_bfibe_envelope c")
  case None
  have "\<not> ?R"
  proof
    assume ?R
    then obtain purpose identity c1 nonce ct sk where r: "c = envelope_layout [BFIBE_PROFILE_ID, purpose, identity, domain, c1, nonce, ct]"
      "c1 \<noteq> []" "length nonce = 12" "16 < length ct" "key_for w purpose identity = Some sk" by blast
    let ?v = "\<lparr>ev_profile = BFIBE_PROFILE_ID, ev_purpose = purpose, ev_identity = identity, ev_aad_context = domain,
      ev_c1 = c1, ev_nonce = nonce, ev_ciphertext = ct\<rparr>"
    have "parse_bfibe_envelope c = Some ?v"
      unfolding parse_envelope_exact [OF assms(2)] using r
      by (auto simp: key_for_def bytes_starts_with_literal_iff split: if_splits)
    with None show False by simp
  qed
  with None assms(1) show ?thesis by (simp add: DecKey_def dec_key_bfibe_def)
next
  case (Some v)
  note sz = parse_envelope_sizes [OF Some assms(2)]
  note X = Some [unfolded parse_envelope_exact [OF assms(2)]]
  have inj: "envelope_layout [BFIBE_PROFILE_ID, ev_purpose v, ev_identity v, ev_aad_context v, ev_c1 v, ev_nonce v, ev_ciphertext v] =
      envelope_layout [BFIBE_PROFILE_ID, purpose, identity, domain, c1, nonce, ct] \<longleftrightarrow>
      ev_purpose v = purpose \<and> ev_identity v = identity \<and> ev_aad_context v = domain \<and> ev_c1 v = c1 \<and> ev_nonce v = nonce \<and> ev_ciphertext v = ct"
    for purpose identity c1 nonce ct
    using envelope_inj [of _ "[BFIBE_PROFILE_ID, purpose, identity, domain, c1, nonce, ct]"] X assms(2) by fastforce
  have "?R \<longleftrightarrow> ev_aad_context v = domain \<and> (\<exists>sk. key_for w (ev_purpose v) (ev_identity v) = Some sk \<and> sk \<noteq> [] \<and>
     length (ev_purpose v) + length (ev_identity v) + length domain \<le> 459 \<and>
     fst (bfibe_mcl_decrypt_key_envelope m s sk (ev_c1 v) (ev_nonce v) (ev_ciphertext v)
       (envelope_aad_layout (ev_purpose v) (ev_identity v) domain) (g_mcl_init w)) = Inr key)"
    using X by (auto simp: inj)
  moreover have "?L \<longleftrightarrow> g_bfibe_key_loaded w \<and> ev_aad_context v = domain \<and> (\<exists>sk aad. select_sk w v = Some sk \<and> sk \<noteq> [] \<and>
     map_option (\<lambda>(aad, n). take (unat n) aad) (build_bfibe_envelope_aad v (zero_bytes 512) 512) = Some aad \<and>
     fst (bfibe_mcl_decrypt_key_envelope m s sk (ev_c1 v) (ev_nonce v) (ev_ciphertext v) aad (g_mcl_init w)) = Inr key)"
    using Some assms(1)
    by (auto simp: DecKey_def dec_key_bfibe_def memcmp_eq_def Let_def bind_eq_Some_conv
        split: option.splits prod.splits sum.splits if_splits)
  ultimately show ?thesis
    unfolding select_sk_eq [OF assms(3)] build_envelope_aad [OF sz] length_envelope_aad Let_def by auto
qed

text \<open>
  C30: what \<open>DecKey\<close> accepts as a BF-IBE key envelope. It returns a session key exactly when keys
  are loaded, the bytes are an envelope of the format whose context is the authenticated data of
  this request (or package), the identity is the loaded FID (or a label), and the scheme decrypts
  the ciphertext under the private key of that purpose, with profile, purpose, identity and context
  authenticated in at most 512 bytes.
\<close>

theorem dec_key_envelope_spec:
  assumes "is_bfibe_envelope (Some c)" "length c < 2 ^ 32" "length (g_bfibe_fid w) \<le> 127"
  shows "fst (DecKey m s e w cap32 (Some c) domain) = Some key \<longleftrightarrow>
    g_bfibe_key_loaded w \<and>
    (\<exists>purpose identity c1 nonce ct sk. c = envelope_layout [BFIBE_PROFILE_ID, purpose, identity, domain, c1, nonce, ct] \<and>
       c1 \<noteq> [] \<and> length nonce = 12 \<and> 16 < length ct \<and>
       key_for w purpose identity = Some sk \<and> sk \<noteq> [] \<and>
       length purpose + length identity + length domain \<le> 459 \<and>
       fst (bfibe_mcl_decrypt_key_envelope m s sk c1 nonce ct (envelope_aad_layout purpose identity domain) (g_mcl_init w)) = Inr key)"
  by (rule dec_key_envelope_iff [OF assms])

definition demo_envelope :: bytes where
  "demo_envelope = envelope_layout [BFIBE_PROFILE_ID, REQUEST_KEY, lit ''fid:f1'', lit ''ctx'', [2], replicate 12 5,
     replicate 16 1 @ toy_mac (replicate 16 14) (replicate 16 1) (replicate 12 5)
       (envelope_aad_layout REQUEST_KEY (lit ''fid:f1'') (lit ''ctx''))]"

lemma demo_envelope_is: "is_bfibe_envelope (Some demo_envelope)"
  by (simp add: is_bfibe_envelope_def demo_envelope_def envelope_layout_def memcmp_eq_def nth_append)

theorem dec_key_envelope_spec_witness:
  "fst (DecKey toy_mcl toy_sgx toy_env (with_keys demo_worker (lit ''f1'') demo_records) None (Some demo_envelope) (lit ''ctx''))
   = Some (pad32 (replicate 16 1))"
proof -
  let ?w = "with_keys demo_worker (lit ''f1'') demo_records"
  have w: "g_bfibe_fid ?w = lit ''f1''" "g_bfibe_key_loaded ?w" "g_bfibe_request_sk ?w = [7]" "\<not> g_mcl_init ?w"
    by (simp_all add: with_keys_def demo_records_def last_key_def demo_worker_def worker_boot_def function_cache_clear_def)
  have k: "key_for ?w REQUEST_KEY (lit ''fid:f1'') = Some [7]"
    by (simp add: key_for_def w flip: lit_append)
  let ?tag = "toy_mac (replicate 16 14) (replicate 16 1) (replicate 12 5) (envelope_aad_layout REQUEST_KEY (lit ''fid:f1'') (lit ''ctx''))"
  have d: "fst (bfibe_mcl_decrypt_key_envelope toy_mcl toy_sgx [7] [2] (replicate 12 5) (replicate 16 1 @ ?tag)
      (envelope_aad_layout REQUEST_KEY (lit ''fid:f1'') (lit ''ctx'')) (g_mcl_init ?w)) = Inr (pad32 (replicate 16 1))"
    by (simp add: bfibe_mcl_decrypt_key_envelope_def toy_mac_def toy_mcl_def)
  have l: "length demo_envelope < 2 ^ 32"
    by (simp add: demo_envelope_def envelope_layout_def length_frame toy_mac_def)
  have f: "length (g_bfibe_fid ?w) \<le> 127" by (simp add: w)
  show ?thesis
    by (subst dec_key_envelope_spec [OF demo_envelope_is l f], intro conjI exI [of _ REQUEST_KEY] exI [of _ "lit ''fid:f1''"]
        exI [of _ "[2]"] exI [of _ "replicate 12 5"] exI [of _ "replicate 16 1 @ ?tag"] exI [of _ "[7]"])
      (rule demo_envelope_def | rule k | rule d | simp add: w toy_mac_def)+
qed

text \<open>
  C31: an import that fails at the end is not undone. If a key set of acceptable records is followed
  by other bytes, or lacks one kind of key, the ECALL reports failure, but the private keys of the
  loaded FID have been replaced (and the FID and the loaded flag still name the old one).
\<close>

theorem refused_import_replaces_keys:
  assumes "length (key_set_layout rs @ t) < 2 ^ 32" "length f < 156" "rs \<noteq> []"
    and "\<forall>r \<in> set rs. record_ok f r \<and> record_fits r"
    and "t \<noteq> [] \<or> REQUEST_KEY \<notin> fst ` set rs \<or> FUNCTION_KEY \<notin> fst ` set rs"
  shows "parse_bfibe_private_key_set w (key_set_layout rs @ t) f =
    (False, w\<lparr>g_bfibe_request_sk := last_key REQUEST_KEY rs [], g_bfibe_function_sk := last_key FUNCTION_KEY rs []\<rparr>)"
  using key_set_reads [OF assms(1,2) refl assms(3,4), of w] assms(5) by auto

theorem refused_import_replaces_keys_witness:
  "parse_bfibe_private_key_set (demo_worker\<lparr>g_bfibe_fid := lit ''f0'', g_bfibe_key_loaded := True, g_bfibe_request_sk := [1]\<rparr>)
     (key_set_layout demo_records @ [0]) (lit ''f1'') =
   (False, demo_worker\<lparr>g_bfibe_fid := lit ''f0'', g_bfibe_key_loaded := True, g_bfibe_request_sk := [7], g_bfibe_function_sk := [9]\<rparr>)"
proof -
  have "length (key_set_layout demo_records @ [0]) < 2 ^ 32"
    by (simp add: demo_records_def length_key_set2)
  from refused_import_replaces_keys [OF this, of "lit ''f1''"] demo_records_accepted show ?thesis
    by (simp add: accepted_keys_def) (simp add: demo_records_def last_key_def)
qed

end
