(* ===== verification/ClientTool.thy ===== *)
theory ClientTool
  imports Host BfibeFormat BfibeMcl
begin

text \<open>
  The client's key tool (\<open>crypto_lib/bfibe_mcl_client_tool.cpp\<close>): it encrypts a session key to an
  identity and writes the key envelope. An exception is \<open>Inl\<close> of its message; \<open>main\<close> catches it. The
  pairing library is the parameter the enclaves use; OpenSSL is the parameter \<open>o\<close>. A string is the
  list of its bytes.
\<close>

record openssl =
  ssl_sha256 :: "bytes \<Rightarrow> bytes"
  ssl_gcm_encrypt :: "bytes \<Rightarrow> bytes \<Rightarrow> bytes \<Rightarrow> bytes \<Rightarrow> (bytes \<times> bytes) option"
  ssl_gcm_decrypt :: "bytes \<Rightarrow> bytes \<Rightarrow> bytes \<Rightarrow> bytes \<Rightarrow> bytes \<Rightarrow> bytes option"
  ssl_random :: "nat \<Rightarrow> bytes option"

text \<open>
  AES-128-GCM and SHA-256 are the same functions in OpenSSL and in the SGX SDK: where both return a
  value, the values agree, and what one encrypts the other decrypts.
\<close>

definition same_crypto :: "sgx \<Rightarrow> openssl \<Rightarrow> bool" where
  "same_crypto s ssl \<longleftrightarrow>
     (\<forall>d. sha256_msg s d = Some (ssl_sha256 ssl d)) \<and>
     (\<forall>k pt iv aad ct tag. ssl_gcm_encrypt ssl k iv pt aad = Some (ct, tag) \<longrightarrow>
        gcm_dec s k ct iv aad tag = Some pt \<and> length ct = length pt \<and> length tag = 16)"

text \<open>What a caller of OpenSSL alone relies on.\<close>

definition ssl_laws :: "openssl \<Rightarrow> bool" where
  "ssl_laws ssl \<longleftrightarrow>
     (\<forall>k pt iv aad ct tag. ssl_gcm_encrypt ssl k iv pt aad = Some (ct, tag) \<longrightarrow>
        ssl_gcm_decrypt ssl k iv ct aad tag = Some pt \<and> length ct = length pt \<and> length tag = 16)"

type_synonym 'a thrown = "string + 'a"

definition need :: "string \<Rightarrow> 'a option \<Rightarrow> 'a thrown" where
  "need message x = (case x of None \<Rightarrow> Inl message | Some a \<Rightarrow> Inr a)"

lemma need_simps [simp]: "need t None = Inl t" "need t (Some a) = Inr a"
  by (simp_all add: need_def)

lemma need_Inr [simp]: "need t x = Inr a \<longleftrightarrow> x = Some a"
  by (cases x) simp_all

definition no_throw :: "'a thrown \<Rightarrow> 'a option" where
  "no_throw x = (case x of Inl e \<Rightarrow> None | Inr a \<Rightarrow> Some a)"

lemma no_throw_Some [simp]: "no_throw x = Some a \<longleftrightarrow> x = Inr a"
  by (cases x) (simp_all add: no_throw_def)

subsection \<open>Encoding\<close>

record EnvelopeParts =
  ep_purpose :: bytes
  ep_identity :: bytes
  ep_aad_context :: bytes
  ep_c1 :: bytes
  ep_nonce :: bytes
  ep_ciphertext :: bytes

definition append_u32_tool :: "bytes \<Rightarrow> u32 \<Rightarrow> bytes" where
  "append_u32_tool out v =
     out @ [ucast (drop_bit 24 v AND 0xff), ucast (drop_bit 16 v AND 0xff), ucast (drop_bit 8 v AND 0xff), ucast (v AND 0xff)]"

definition read_u32_tool :: "bytes \<Rightarrow> nat \<Rightarrow> (u32 \<times> nat) thrown" where
  "read_u32_tool data offset =
     (if length data < offset + 4 then Inl ''short u32''
      else Inr (push_bit 24 (ucast (data ! offset)) OR push_bit 16 (ucast (data ! (offset + 1))) OR
                push_bit 8 (ucast (data ! (offset + 2))) OR ucast (data ! (offset + 3)), offset + 4))"

definition append_part_tool :: "bytes \<Rightarrow> bytes \<Rightarrow> bytes" where
  "append_part_tool out data = append_u32_tool out (len32 data) @ data"

definition hex_value :: "byte \<Rightarrow> byte thrown" where
  "hex_value c =
     (if 48 \<le> c \<and> c \<le> 57 then Inr (c - 48)
      else if 97 \<le> c \<and> c \<le> 102 then Inr (10 + c - 97)
      else if 65 \<le> c \<and> c \<le> 70 then Inr (10 + c - 65)
      else Inl ''invalid hex character'')"

fun hex_pairs :: "bytes \<Rightarrow> bytes thrown" where
  "hex_pairs (h # l # rest) =
     and_then (hex_value h) (\<lambda>a. and_then (hex_value l) (\<lambda>b. and_then (hex_pairs rest) (\<lambda>r. Inr ((push_bit 4 a OR b) # r))))"
| "hex_pairs rest = Inr []"

definition hex_to_bytes :: "bytes \<Rightarrow> bytes thrown" where
  "hex_to_bytes hex = (if length hex mod 2 \<noteq> 0 then Inl ''hex input must have even length'' else hex_pairs hex)"

definition build_envelope_aad_tool :: "EnvelopeParts \<Rightarrow> bytes" where
  "build_envelope_aad_tool ep =
     (let aad = BFIBE_KEY_ENVELOPE_AAD_MAGIC;
          aad = append_part_tool aad BFIBE_PROFILE_ID;
          aad = append_part_tool aad (ep_purpose ep);
          aad = append_part_tool aad (ep_identity ep)
      in append_part_tool aad (ep_aad_context ep))"

definition encode_envelope :: "EnvelopeParts \<Rightarrow> bytes" where
  "encode_envelope ep =
     (let out = BFIBE_ENVELOPE_MAGIC @ [1];
          out = append_u32_tool out (len32 BFIBE_PROFILE_ID);
          out = append_u32_tool out (len32 (ep_purpose ep));
          out = append_u32_tool out (len32 (ep_identity ep));
          out = append_u32_tool out (len32 (ep_aad_context ep));
          out = append_u32_tool out (len32 (ep_c1 ep));
          out = append_u32_tool out (len32 (ep_nonce ep));
          out = append_u32_tool out (len32 (ep_ciphertext ep))
      in out @ BFIBE_PROFILE_ID @ ep_purpose ep @ ep_identity ep @ ep_aad_context ep @ ep_c1 ep
         @ ep_nonce ep @ ep_ciphertext ep)"

definition take_bytes_tool :: "bytes \<Rightarrow> nat \<Rightarrow> nat \<Rightarrow> (bytes \<times> nat) thrown" where
  "take_bytes_tool data offset len =
     (if length data < offset + len then Inl ''short envelope part'' else Inr (slice offset len data, offset + len))"

definition decode_envelope :: "bytes \<Rightarrow> EnvelopeParts thrown" where
  "decode_envelope data =
     (if length data < 8 + 1 + 7 * 4 \<or> \<not> memcmp_eq data BFIBE_ENVELOPE_MAGIC 8 then Inl ''invalid envelope magic''
      else if data ! 8 \<noteq> 1 then Inl ''invalid envelope version''
      else
        and_then (read_u32_tool data 9) (\<lambda>(profile_len, p).
        and_then (read_u32_tool data p) (\<lambda>(purpose_len, p).
        and_then (read_u32_tool data p) (\<lambda>(identity_len, p).
        and_then (read_u32_tool data p) (\<lambda>(aad_context_len, p).
        and_then (read_u32_tool data p) (\<lambda>(c1_len, p).
        and_then (read_u32_tool data p) (\<lambda>(nonce_len, p).
        and_then (read_u32_tool data p) (\<lambda>(ciphertext_len, p).
        and_then (take_bytes_tool data p (unat profile_len)) (\<lambda>(profile, p).
          if profile \<noteq> BFIBE_PROFILE_ID then Inl ''invalid envelope profile''
          else
            and_then (take_bytes_tool data p (unat purpose_len)) (\<lambda>(purpose, p).
            and_then (take_bytes_tool data p (unat identity_len)) (\<lambda>(identity, p).
            and_then (take_bytes_tool data p (unat aad_context_len)) (\<lambda>(aad_context, p).
            and_then (take_bytes_tool data p (unat c1_len)) (\<lambda>(c1, p).
            and_then (take_bytes_tool data p (unat nonce_len)) (\<lambda>(nonce, p).
            and_then (take_bytes_tool data p (unat ciphertext_len)) (\<lambda>(ciphertext, p).
              if p \<noteq> length data then Inl ''trailing envelope bytes''
              else Inr \<lparr>ep_purpose = purpose, ep_identity = identity, ep_aad_context = aad_context, ep_c1 = c1,
                        ep_nonce = nonce, ep_ciphertext = ciphertext\<rparr>)))))))))))))))"

subsection \<open>AES-GCM\<close>

text \<open>The ciphertext followed by the tag.\<close>

definition aes_gcm_encrypt :: "openssl \<Rightarrow> bytes \<Rightarrow> bytes \<Rightarrow> bytes \<Rightarrow> bytes \<Rightarrow> bytes thrown" where
  "aes_gcm_encrypt ssl key nonce plaintext aad =
     (if length nonce \<noteq> 12 then Inl ''nonce must be 12 bytes''
      else and_then (need ''AES-GCM encrypt failed'' (ssl_gcm_encrypt ssl (take 16 key) nonce plaintext aad)) (\<lambda>(ciphertext, tag).
        Inr (ciphertext @ tag)))"

definition aes_gcm_decrypt :: "openssl \<Rightarrow> bytes \<Rightarrow> bytes \<Rightarrow> bytes \<Rightarrow> bytes \<Rightarrow> bytes thrown" where
  "aes_gcm_decrypt ssl key nonce ciphertext_and_tag aad =
     (if length nonce \<noteq> 12 \<or> length ciphertext_and_tag \<le> 16 then Inl ''invalid AES-GCM input''
      else let ciphertext_len = length ciphertext_and_tag - 16 in
        need ''AES-GCM decrypt failed''
          (ssl_gcm_decrypt ssl (take 16 key) nonce (take ciphertext_len ciphertext_and_tag) aad
             (drop ciphertext_len ciphertext_and_tag)))"

subsection \<open>The scheme\<close>

definition get_generator :: "('fr, 'g1, 'g2, 'gt) mcl \<Rightarrow> 'g1 thrown" where
  "get_generator m =
     and_then (need ''mclBnG1_hashAndMapTo generator failed'' (g1_hash_map m G1_DOMAIN)) (\<lambda>g1.
       if g1_is_zero m g1 then Inl ''generator mapped to zero'' else Inr g1)"

definition serialize_g1 :: "('fr, 'g1, 'g2, 'gt) mcl \<Rightarrow> 'g1 \<Rightarrow> bytes thrown" where
  "serialize_g1 m point = need ''mclBnG1_serialize failed'' (g1_serialize m point 96)"

definition serialize_g2 :: "('fr, 'g1, 'g2, 'gt) mcl \<Rightarrow> 'g2 \<Rightarrow> bytes thrown" where
  "serialize_g2 m point = need ''mclBnG2_serialize failed'' (g2_serialize m point 192)"

definition derive_public_from_msk :: "('fr, 'g1, 'g2, 'gt) mcl \<Rightarrow> bytes \<Rightarrow> bytes thrown" where
  "derive_public_from_msk m msk_bytes =
     (if msk_bytes = [] then Inl ''msk must not be empty''
      else let msk = fr_le_mod m msk_bytes in
        and_then (get_generator m) (\<lambda>g1.
          let mpk = g1_mul m g1 msk in
          if g1_is_zero m mpk then Inl ''derived mpk is zero'' else serialize_g1 m mpk))"

definition extract_private_key :: "('fr, 'g1, 'g2, 'gt) mcl \<Rightarrow> bytes \<Rightarrow> bytes \<Rightarrow> bytes thrown" where
  "extract_private_key m msk_bytes identity =
     and_then (need ''mclBnG2_hashAndMapTo failed'' (g2_hash_map m identity)) (\<lambda>q_id.
       serialize_g2 m (g2_mul m q_id (fr_le_mod m msk_bytes)))"

definition encrypt_key_envelope ::
  "('fr, 'g1, 'g2, 'gt) mcl \<Rightarrow> openssl \<Rightarrow> bytes \<Rightarrow> bytes \<Rightarrow> bytes \<Rightarrow> bytes \<Rightarrow> bytes \<Rightarrow> bytes \<Rightarrow> bytes \<Rightarrow> bytes thrown" where
  "encrypt_key_envelope m ssl mpk purpose identity aad_context key_plaintext r_bytes nonce =
     (if \<not> (purpose = REQUEST_KEY \<or> purpose = FUNCTION_KEY) then Inl ''purpose must be request-key or function-key''
      else if \<not> (length key_plaintext = 16 \<or> length key_plaintext = 32) then Inl ''key plaintext must be 16 or 32 bytes''
      else
        and_then (need ''mclBnG1_deserialize mpk failed'' (g1_deserialize m mpk)) (\<lambda>mpk_g1.
          let r = fr_le_mod m r_bytes in
          if fr_is_zero m r then Inl ''r must not be zero''
          else and_then (get_generator m) (\<lambda>g1.
            let U = g1_mul m g1 r in
            if g1_is_zero m U then Inl ''derived U is zero''
            else
              and_then (need ''mclBnG2_hashAndMapTo failed'' (g2_hash_map m identity)) (\<lambda>q_id.
              and_then (need ''mclBnGT_serialize failed'' (gt_serialize m (gt_pow m (pairing m mpk_g1 q_id) r) 576)) (\<lambda>shared_bytes.
                let aes_key_full = ssl_sha256 ssl shared_bytes in
                and_then (serialize_g1 m U) (\<lambda>c1.
                  let ep = \<lparr>ep_purpose = purpose, ep_identity = identity, ep_aad_context = aad_context, ep_c1 = c1,
                               ep_nonce = nonce, ep_ciphertext = []\<rparr> in
                  and_then (aes_gcm_encrypt ssl aes_key_full nonce key_plaintext (build_envelope_aad_tool ep)) (\<lambda>ciphertext.
                    Inr (encode_envelope (ep\<lparr>ep_ciphertext := ciphertext\<rparr>)))))))))"

definition decrypt_key_envelope :: "('fr, 'g1, 'g2, 'gt) mcl \<Rightarrow> openssl \<Rightarrow> bytes \<Rightarrow> bytes \<Rightarrow> bytes thrown" where
  "decrypt_key_envelope m ssl sk envelope =
     and_then (decode_envelope envelope) (\<lambda>ep.
     and_then (need ''mclBnG2_deserialize sk failed'' (g2_deserialize m sk)) (\<lambda>sk_g2.
     and_then (need ''mclBnG1_deserialize U failed'' (g1_deserialize m (ep_c1 ep))) (\<lambda>U.
     and_then (need ''mclBnGT_serialize failed'' (gt_serialize m (pairing m U sk_g2) 576)) (\<lambda>shared_bytes.
       aes_gcm_decrypt ssl (ssl_sha256 ssl shared_bytes) (ep_nonce ep) (ep_ciphertext ep) (build_envelope_aad_tool ep)))))"

definition init_mcl :: "('fr, 'g1, 'g2, 'gt) mcl \<Rightarrow> unit thrown" where
  "init_mcl m = (if bn_init m \<noteq> 0 then Inl ''mclBn_init failed'' else Inr ())"

text \<open>The size of the envelope is printed.\<close>

definition self_test :: "('fr, 'g1, 'g2, 'gt) mcl \<Rightarrow> openssl \<Rightarrow> nat thrown" where
  "self_test m ssl =
     and_then (init_mcl m) (\<lambda>_.
       let msk = map (\<lambda>i. of_nat (i + 1)) [0..<32];
           key = map (\<lambda>i. 0xa0 + of_nat i) [0..<16];
           r = map (\<lambda>i. 0x10 + of_nat i) [0..<32];
           nonce = map (\<lambda>i. 0x40 + of_nat i) [0..<12];
           identity = lit ''fid:0123456789abcdef'';
           aad_context = lit ''REQ'' @ [1, 2, 3]
       in and_then (derive_public_from_msk m msk) (\<lambda>mpk.
          and_then (extract_private_key m msk identity) (\<lambda>sk.
          and_then (encrypt_key_envelope m ssl mpk (lit ''request-key'') identity aad_context key r nonce) (\<lambda>envelope.
          and_then (decrypt_key_envelope m ssl sk envelope) (\<lambda>decoded.
            if decoded \<noteq> key then Inl ''self-test decrypt mismatch'' else Inr (length envelope))))))"

subsection \<open>The command line\<close>

record tool_args =
  ta_mpk :: bytes
  ta_purpose :: bytes
  ta_identity :: bytes
  ta_aad_context_hex :: bytes
  ta_key_hex :: bytes
  ta_out :: bytes
  ta_r_hex :: bytes
  ta_nonce_hex :: bytes

definition no_args :: tool_args where
  "no_args = \<lparr>ta_mpk = [], ta_purpose = [], ta_identity = [], ta_aad_context_hex = [], ta_key_hex = [], ta_out = [],
     ta_r_hex = [], ta_nonce_hex = []\<rparr>"

text \<open>The assignment an option makes; None for an argument that is no option.\<close>

definition tool_option :: "bytes \<Rightarrow> (bytes \<Rightarrow> tool_args \<Rightarrow> tool_args) option" where
  "tool_option arg =
     (if arg = lit ''--mpk'' then Some (\<lambda>v a. a\<lparr>ta_mpk := v\<rparr>)
      else if arg = lit ''--purpose'' then Some (\<lambda>v a. a\<lparr>ta_purpose := v\<rparr>)
      else if arg = lit ''--identity'' then Some (\<lambda>v a. a\<lparr>ta_identity := v\<rparr>)
      else if arg = lit ''--aad-context-hex'' then Some (\<lambda>v a. a\<lparr>ta_aad_context_hex := v\<rparr>)
      else if arg = lit ''--key-hex'' then Some (\<lambda>v a. a\<lparr>ta_key_hex := v\<rparr>)
      else if arg = lit ''--out'' then Some (\<lambda>v a. a\<lparr>ta_out := v\<rparr>)
      else if arg = lit ''--r-hex'' then Some (\<lambda>v a. a\<lparr>ta_r_hex := v\<rparr>)
      else if arg = lit ''--nonce-hex'' then Some (\<lambda>v a. a\<lparr>ta_nonce_hex := v\<rparr>)
      else None)"

text \<open>\<open>Inr None\<close> is the return with the usage text.\<close>

fun parse_tool_args :: "bytes list \<Rightarrow> tool_args \<Rightarrow> tool_args option thrown" where
  "parse_tool_args [] a = Inr (Some a)"
| "parse_tool_args (arg # rest) a =
     (case tool_option arg of
        None \<Rightarrow> Inr None
      | Some assign \<Rightarrow>
          (case rest of
             [] \<Rightarrow> Inl ''missing value for option''
           | v # rest \<Rightarrow> parse_tool_args rest (assign v a)))"

text \<open>Files: what reading a path gives, and whether a path can be opened for writing.\<close>

record files =
  f_read :: "bytes \<Rightarrow> bytes option"
  f_open :: "bytes \<Rightarrow> bool"

definition random_or_hex :: "openssl \<Rightarrow> nat \<Rightarrow> bytes \<Rightarrow> bytes thrown" where
  "random_or_hex ssl n hex = (if hex = [] then need ''RAND_bytes failed'' (ssl_random ssl n) else hex_to_bytes hex)"

text \<open>The file written: its path and contents.\<close>

definition run_tool ::
  "('fr, 'g1, 'g2, 'gt) mcl \<Rightarrow> openssl \<Rightarrow> files \<Rightarrow> tool_args \<Rightarrow> (bytes \<times> bytes) thrown" where
  "run_tool m ssl fs a =
     and_then (init_mcl m) (\<lambda>_.
     and_then (need ''failed to open input file'' (f_read fs (ta_mpk a))) (\<lambda>mpk.
     and_then (hex_to_bytes (ta_aad_context_hex a)) (\<lambda>aad_context.
     and_then (hex_to_bytes (ta_key_hex a)) (\<lambda>key.
     and_then (random_or_hex ssl 32 (ta_r_hex a)) (\<lambda>r.
     and_then (random_or_hex ssl 12 (ta_nonce_hex a)) (\<lambda>nonce.
       if length nonce \<noteq> 12 then Inl ''nonce must be 12 bytes''
       else
         and_then (encrypt_key_envelope m ssl mpk (ta_purpose a) (ta_identity a) aad_context key r nonce) (\<lambda>envelope.
           if \<not> f_open fs (ta_out a) then Inl ''failed to open output file'' else Inr (ta_out a, envelope))))))))"

text \<open>The exit code, and the file written. The argument list is without the program name.\<close>

definition tool_main ::
  "('fr, 'g1, 'g2, 'gt) mcl \<Rightarrow> openssl \<Rightarrow> files \<Rightarrow> bytes list \<Rightarrow> int \<times> (bytes \<times> bytes) option" where
  "tool_main m ssl fs argv =
     (if argv = [lit ''--self-test''] then (case self_test m ssl of Inl e \<Rightarrow> (1, None) | Inr n \<Rightarrow> (0, None))
      else case parse_tool_args argv no_args of
        Inl e \<Rightarrow> (1, None)
      | Inr None \<Rightarrow> (2, None)
      | Inr (Some a) \<Rightarrow>
          if ta_mpk a = [] \<or> ta_purpose a = [] \<or> ta_identity a = [] \<or> ta_key_hex a = [] \<or> ta_out a = [] then (2, None)
          else (case run_tool m ssl fs a of Inl e \<Rightarrow> (1, None) | Inr out \<Rightarrow> (0, Some out)))"

subsection \<open>The formats\<close>

lemma ff_ucast: "ucast ((x :: u32) AND 0xff) = (ucast x :: byte)"
proof -
  have "x AND 0xff = take_bit 8 x" by (simp add: take_bit_eq_mask mask_eq_exp_minus_1)
  then show ?thesis by (simp only:) (rule bit_word_eqI, auto simp: bit_simps)
qed

lemma append_u32_be [simp]: "append_u32_tool out v = out @ be32 v"
  by (simp add: append_u32_tool_def be32_def ff_ucast)

lemma encode_layout: "encode_envelope p = envelope_layout
   [BFIBE_PROFILE_ID, ep_purpose p, ep_identity p, ep_aad_context p, ep_c1 p, ep_nonce p, ep_ciphertext p]"
  by (simp add: encode_envelope_def envelope_layout_def frame_def Let_def)

lemma aad_layout_tool: "build_envelope_aad_tool p = envelope_aad_layout (ep_purpose p) (ep_identity p) (ep_aad_context p)"
  by (simp add: build_envelope_aad_tool_def envelope_aad_layout_def append_part_tool_def parts_def Let_def)

abbreviation "tool_rd \<equiv> \<lambda>d p. no_throw (read_u32_tool d p)"
abbreviation "tool_tk \<equiv> \<lambda>d p n. no_throw (take_bytes_tool d p (unat n))"

interpretation tool_reader: field_reader "\<lambda>p. p" "\<lambda>d p. p \<le> length d" tool_rd tool_tk
  by unfold_locales (auto simp: read_u32_tool_def take_bytes_tool_def no_throw_def un32_def)

definition parts_of :: "bytes list \<Rightarrow> EnvelopeParts" where
  "parts_of fs = \<lparr>ep_purpose = fs ! 1, ep_identity = fs ! 2, ep_aad_context = fs ! 3, ep_c1 = fs ! 4, ep_nonce = fs ! 5,
     ep_ciphertext = fs ! 6\<rparr>"

lemma seven: "(7::nat) = Suc (Suc (Suc (Suc (Suc (Suc (Suc 0))))))" by simp

lemma no_throw_then [simp]: "no_throw (and_then x f) = Option.bind (no_throw x) (\<lambda>a. no_throw (f a))"
  by (cases x) (simp_all add: no_throw_def)

lemma no_throw_simps [simp]: "no_throw (Inl e) = None" "no_throw (Inr a) = Some a"
  "no_throw (if c then x else y) = (if c then no_throw x else no_throw y)"
  by (simp_all add: no_throw_def)

lemma decode_reads:
  "no_throw (decode_envelope d) = (if length d < 37 \<or> \<not> memcmp_eq d BFIBE_ENVELOPE_MAGIC 8 \<or> d ! 8 \<noteq> 1 then None
     else do { (ns, p) \<leftarrow> reads tool_rd 7 d 9; (fs, p) \<leftarrow> takes tool_tk ns d p;
               if p = length d \<and> fs ! 0 = BFIBE_PROFILE_ID then Some (parts_of fs) else None })"
  by (simp add: seven decode_envelope_def split_beta' bind_assoc parts_of_def)
    (auto simp: parts_of_def intro!: Option.bind_cong [OF refl])

definition part_list :: "EnvelopeParts \<Rightarrow> bytes list" where
  "part_list p = [ep_purpose p, ep_identity p, ep_aad_context p, ep_c1 p, ep_nonce p, ep_ciphertext p]"

lemma parts_of_list: "length fs = 7 \<Longrightarrow> fs ! 0 = x \<Longrightarrow> p = parts_of fs \<longleftrightarrow> fs = x # part_list p"
  by (auto simp: parts_of_def part_list_def seven length_Suc_conv)

text \<open>The decoder accepts exactly the encodings, of parts whose lengths fit 32 bits.\<close>

lemma decode_exact: "decode_envelope d = Inr p \<longleftrightarrow> d = encode_envelope p \<and> fits32 (part_list p)"
proof -
  let ?g = "37 \<le> length d \<and> memcmp_eq d BFIBE_ENVELOPE_MAGIC 8 \<and> d ! 8 = 1"
  have "decode_envelope d = Inr p \<longleftrightarrow> ?g \<and> do { (ns, p) \<leftarrow> reads tool_rd 7 d 9; (fs, p) \<leftarrow> takes tool_tk ns d p;
               if p = length d \<and> fs ! 0 = BFIBE_PROFILE_ID then Some (parts_of fs) else None } = Some p"
    unfolding no_throw_Some [symmetric] decode_reads by auto
  also have "\<dots> \<longleftrightarrow> ?g \<and> (\<exists>fs. length fs = 7 \<and> fits32 fs \<and> drop 9 d = frame fs \<and> fs ! 0 = BFIBE_PROFILE_ID \<and> p = parts_of fs)"
    using tool_reader.parse_exact [of 9 d "\<lambda>p. p = length d" 7 "\<lambda>ns fs. fs ! 0 = BFIBE_PROFILE_ID" parts_of p] by auto
  also have "\<dots> \<longleftrightarrow> ?g \<and> drop 9 d = frame (BFIBE_PROFILE_ID # part_list p) \<and> fits32 (part_list p)"
  proof -
    have "(length fs = 7 \<and> fits32 fs \<and> drop 9 d = frame fs \<and> fs ! 0 = BFIBE_PROFILE_ID \<and> p = parts_of fs) \<longleftrightarrow>
        (fs = BFIBE_PROFILE_ID # part_list p \<and> drop 9 d = frame fs \<and> fits32 (part_list p))" for fs
    proof
      assume l: "length fs = 7 \<and> fits32 fs \<and> drop 9 d = frame fs \<and> fs ! 0 = BFIBE_PROFILE_ID \<and> p = parts_of fs"
      then have e: "fs = BFIBE_PROFILE_ID # part_list p" using parts_of_list by blast
      from l have "fits32 fs" by blast
      then have "fits32 (BFIBE_PROFILE_ID # part_list p)" by (simp only: e [symmetric])
      with l e show "fs = BFIBE_PROFILE_ID # part_list p \<and> drop 9 d = frame fs \<and> fits32 (part_list p)" by simp
    next
      assume r: "fs = BFIBE_PROFILE_ID # part_list p \<and> drop 9 d = frame fs \<and> fits32 (part_list p)"
      then have "length fs = 7" "fs ! 0 = BFIBE_PROFILE_ID" "fits32 fs" by (simp_all add: part_list_def)
      with r parts_of_list show "length fs = 7 \<and> fits32 fs \<and> drop 9 d = frame fs \<and> fs ! 0 = BFIBE_PROFILE_ID \<and> p = parts_of fs" by blast
    qed
    then show ?thesis by simp
  qed
  also have "\<dots> \<longleftrightarrow> d = encode_envelope p \<and> fits32 (part_list p)"
    using drop_layout [of BFIBE_ENVELOPE_MAGIC d]
    by (auto simp: encode_layout envelope_layout_def part_list_def length_frame)
  finally show ?thesis .
qed

subsection \<open>What the tool encrypts\<close>

lemma get_generator_Inr: "get_generator m = Inr g \<longleftrightarrow> get_bfibe_g1_generator m = Some g"
  by (auto simp: get_generator_def get_bfibe_g1_generator_def and_then_Inr bind_eq_Some_conv split: if_splits)

lemma encrypt_Inr_parts:
  assumes "encrypt_key_envelope m ssl mpk purpose identity ctx key r_bytes nonce = Inr env"
  obtains P g q sh c1 ct tag where "purpose = REQUEST_KEY \<or> purpose = FUNCTION_KEY" "length key = 16 \<or> length key = 32"
    "length nonce = 12" "g1_deserialize m mpk = Some P" "get_bfibe_g1_generator m = Some g" "g2_hash_map m identity = Some q"
    "gt_serialize m (gt_pow m (pairing m P q) (fr_le_mod m r_bytes)) 576 = Some sh"
    "g1_serialize m (g1_mul m g (fr_le_mod m r_bytes)) 96 = Some c1"
    "ssl_gcm_encrypt ssl (take 16 (ssl_sha256 ssl sh)) nonce key (envelope_aad_layout purpose identity ctx) = Some (ct, tag)"
    "env = envelope_layout [BFIBE_PROFILE_ID, purpose, identity, ctx, c1, nonce, ct @ tag]"
  using assms that
  by (auto simp: encrypt_key_envelope_def and_then_Inr Let_def get_generator_Inr serialize_g1_def aes_gcm_encrypt_def
      aad_layout_tool encode_layout split: if_splits)

text \<open>The receiver's side of the pairing, for keys of one master secret.\<close>

lemma shared_secret_agrees:
  assumes "mcl_laws m" "g1_deserialize m mpk = Some (g1_mul m g a)" "g1_serialize m (g1_mul m g r) n = Some c1"
    and "g1_deserialize m mpk = Some P"
  shows "\<exists>U. g1_deserialize m c1 = Some U \<and> c1 \<noteq> [] \<and> pairing m U (g2_mul m q a) = gt_pow m (pairing m P q) r"
  using assms pairing_agree [OF assms(1), of g r q a] mcl_serial(2,3) [OF assms(1,3)] by auto

lemma tool_keys:
  assumes "mcl_laws m" "derive_public_from_msk m msk = Inr mpk" "extract_private_key m msk identity = Inr sk"
    and "get_bfibe_g1_generator m = Some g" "g2_hash_map m identity = Some q"
  shows "g1_deserialize m mpk = Some (g1_mul m g (fr_le_mod m msk)) \<and> g2_deserialize m sk = Some (g2_mul m q (fr_le_mod m msk))"
  using assms
  by (auto simp: derive_public_from_msk_def extract_private_key_def and_then_Inr get_generator_Inr serialize_g1_def serialize_g2_def
      Let_def mcl_serial split: if_splits)

text \<open>
  The tool's envelopes have one reading. The decoder accepts exactly the encodings of parts whose
  lengths fit 32 bits, and returns those parts; no two such parts have the same encoding.
\<close>

theorem envelope_codec:
  "decode_envelope d = Inr p \<longleftrightarrow> d = encode_envelope p \<and>
     (\<forall>x \<in> {ep_purpose p, ep_identity p, ep_aad_context p, ep_c1 p, ep_nonce p, ep_ciphertext p}. length x < 2 ^ 32)"
  unfolding decode_exact by (simp add: part_list_def)

theorem envelope_codec_witness:
  "decode_envelope (encode_envelope \<lparr>ep_purpose = REQUEST_KEY, ep_identity = [1], ep_aad_context = [], ep_c1 = [2], ep_nonce = [3],
     ep_ciphertext = [4]\<rparr>) = Inr \<lparr>ep_purpose = REQUEST_KEY, ep_identity = [1], ep_aad_context = [], ep_c1 = [2], ep_nonce = [3],
     ep_ciphertext = [4]\<rparr>"
  by (subst envelope_codec) simp

text \<open>
  The tool decrypts what it encrypts. With a master secret's public key and the private key
  extracted from it for an identity, an envelope the tool encrypts for that identity decrypts to the
  session key.
\<close>

theorem tool_roundtrip:
  assumes "mcl_laws m" "ssl_laws ssl"
    and "derive_public_from_msk m msk = Inr mpk" "extract_private_key m msk identity = Inr sk"
    and "encrypt_key_envelope m ssl mpk purpose identity ctx key r nonce = Inr env"
    and "length identity < 2 ^ 32" "length ctx < 2 ^ 32"
  shows "decrypt_key_envelope m ssl sk env = Inr key"
proof -
  obtain P g q sh c1 ct tag where e: "purpose = REQUEST_KEY \<or> purpose = FUNCTION_KEY" "length key = 16 \<or> length key = 32"
    "length nonce = 12" "g1_deserialize m mpk = Some P" "get_bfibe_g1_generator m = Some g" "g2_hash_map m identity = Some q"
    "gt_serialize m (gt_pow m (pairing m P q) (fr_le_mod m r)) 576 = Some sh"
    "g1_serialize m (g1_mul m g (fr_le_mod m r)) 96 = Some c1"
    "ssl_gcm_encrypt ssl (take 16 (ssl_sha256 ssl sh)) nonce key (envelope_aad_layout purpose identity ctx) = Some (ct, tag)"
    "env = envelope_layout [BFIBE_PROFILE_ID, purpose, identity, ctx, c1, nonce, ct @ tag]"
    by (rule encrypt_Inr_parts [OF assms(5)])
  note k = tool_keys [OF assms(1,3,4) e(5,6)]
  obtain U where U: "g1_deserialize m c1 = Some U" "pairing m U (g2_mul m q (fr_le_mod m msk)) = gt_pow m (pairing m P q) (fr_le_mod m r)"
    using shared_secret_agrees [OF assms(1) _ e(8,4)] k by blast
  from e(9) assms(2) have g: "ssl_gcm_decrypt ssl (take 16 (ssl_sha256 ssl sh)) nonce ct (envelope_aad_layout purpose identity ctx) tag = Some key"
    "length ct = length key" "length tag = 16" unfolding ssl_laws_def by blast+
  let ?p = "\<lparr>ep_purpose = purpose, ep_identity = identity, ep_aad_context = ctx, ep_c1 = c1, ep_nonce = nonce, ep_ciphertext = ct @ tag\<rparr>"
  have "length c1 \<le> 96" using mcl_serial(4) [OF assms(1) e(8)] .
  then have "decode_envelope env = Inr ?p"
    unfolding decode_exact using e(1,2,3) g(2,3) assms(6,7) by (auto simp: encode_layout e(10) part_list_def)
  then show ?thesis
    using k U e(2,3,7) g by (auto simp: decrypt_key_envelope_def aes_gcm_decrypt_def aad_layout_tool)
qed

definition toy_ssl :: openssl where
  "toy_ssl = \<lparr>ssl_sha256 = (\<lambda>d. replicate 32 (sum_list d)),
     ssl_gcm_encrypt = (\<lambda>k iv pt aad. Some (pt, toy_mac k pt iv aad)),
     ssl_gcm_decrypt = (\<lambda>k iv ct aad tag. if tag = toy_mac k ct iv aad then Some ct else None), ssl_random = (\<lambda>n. Some (replicate n 5))\<rparr>"

lemma toy_ssl_laws: "ssl_laws toy_ssl" "same_crypto toy_sgx toy_ssl"
  by (auto simp: ssl_laws_def same_crypto_def toy_ssl_def toy_mac_def)

theorem tool_roundtrip_witness:
  "\<exists>env. encrypt_key_envelope toy_mcl toy_ssl [3] REQUEST_KEY (lit ''fid:a'') [1] (replicate 16 9) [3] (replicate 12 4) = Inr env \<and>
     decrypt_key_envelope toy_mcl toy_ssl [sum_list (lit ''fid:a'') * 3] env = Inr (replicate 16 9)"
proof -
  have p: "derive_public_from_msk toy_mcl [2] = Inr [3]"
    by (simp add: derive_public_from_msk_def get_generator_def serialize_g1_def toy_mcl_def)
  have x: "extract_private_key toy_mcl [2] (lit ''fid:a'') = Inr [sum_list (lit ''fid:a'') * 3]"
    by (simp add: extract_private_key_def serialize_g2_def toy_mcl_def)
  obtain env where e: "encrypt_key_envelope toy_mcl toy_ssl [3] REQUEST_KEY (lit ''fid:a'') [1] (replicate 16 9) [3] (replicate 12 4) = Inr env"
    by (simp add: encrypt_key_envelope_def get_generator_def serialize_g1_def aes_gcm_encrypt_def toy_mcl_def toy_ssl_def Let_def)
  with tool_roundtrip [OF toy_mcl_laws toy_ssl_laws(1) p x e] show ?thesis by simp
qed

text \<open>
  The command writes a file only when it reports success, and then the file is an envelope that the
  decoder accepts, for the purpose and the identity of the command line.
\<close>

theorem tool_main_output:
  assumes "tool_main m ssl fs argv = (code, Some (path, env))"
  shows "code = 0 \<and> f_open fs path \<and> (\<exists>a p. parse_tool_args argv no_args = Inr (Some a) \<and> path = ta_out a \<and>
     env = encode_envelope p \<and> ep_purpose p = ta_purpose a \<and> ep_identity p = ta_identity a \<and>
     hex_to_bytes (ta_aad_context_hex a) = Inr (ep_aad_context p) \<and> length (ep_nonce p) = 12)"
proof -
  from assms obtain a where a: "parse_tool_args argv no_args = Inr (Some a)" "run_tool m ssl fs a = Inr (path, env)" "code = 0"
    by (auto simp: tool_main_def split: if_splits sum.splits option.splits)
  from a(2) obtain mpk ctx key r nonce where r: "hex_to_bytes (ta_aad_context_hex a) = Inr ctx" "length nonce = 12" "path = ta_out a"
    "f_open fs path" "encrypt_key_envelope m ssl mpk (ta_purpose a) (ta_identity a) ctx key r nonce = Inr env"
    by (auto simp: run_tool_def and_then_Inr split: if_splits)
  from encrypt_Inr_parts [OF r(5)] obtain c1 ct tag where
    "env = envelope_layout [BFIBE_PROFILE_ID, ta_purpose a, ta_identity a, ctx, c1, nonce, ct @ tag]" by metis
  then have "env = encode_envelope \<lparr>ep_purpose = ta_purpose a, ep_identity = ta_identity a, ep_aad_context = ctx, ep_c1 = c1, ep_nonce = nonce,
      ep_ciphertext = ct @ tag\<rparr>" by (simp add: encode_layout)
  with a r show ?thesis by (intro conjI exI) (assumption | simp)+
qed

definition demo_argv :: "bytes list" where
  "demo_argv = [lit ''--mpk'', lit ''m'', lit ''--purpose'', lit ''request-key'', lit ''--identity'', lit ''fid:a'',
     lit ''--key-hex'', lit ''00112233445566778899aabbccddeeff'', lit ''--out'', lit ''o'']"

theorem tool_main_output_witness:
  "\<exists>env. tool_main toy_mcl toy_ssl \<lparr>f_read = \<lambda>p. Some [2], f_open = \<lambda>p. True\<rparr> demo_argv = (0, Some (lit ''o'', env)) \<and>
     (\<exists>p. env = encode_envelope p \<and> ep_purpose p = lit ''request-key'')"
proof -
  let ?fs = "\<lparr>f_read = \<lambda>p. Some [2], f_open = \<lambda>p. True\<rparr>"
  have a: "parse_tool_args demo_argv no_args = Inr (Some \<lparr>ta_mpk = lit ''m'', ta_purpose = lit ''request-key'', ta_identity = lit ''fid:a'',
      ta_aad_context_hex = [], ta_key_hex = lit ''00112233445566778899aabbccddeeff'', ta_out = lit ''o'', ta_r_hex = [], ta_nonce_hex = []\<rparr>)"
    by (simp add: demo_argv_def tool_option_def no_args_def)
  have k: "\<exists>key. hex_to_bytes (lit ''00112233445566778899aabbccddeeff'') = Inr key \<and> length key = 16"
    by (simp add: hex_to_bytes_def lit_def hex_value_def)
  then obtain key where k: "hex_to_bytes (lit ''00112233445566778899aabbccddeeff'') = Inr key" "length key = 16" by blast
  have "\<exists>env. tool_main toy_mcl toy_ssl ?fs demo_argv = (0, Some (lit ''o'', env))"
    using k by (simp add: tool_main_def a run_tool_def init_mcl_def hex_to_bytes_def [of "[]"] random_or_hex_def demo_argv_def [symmetric])
      (simp add: demo_argv_def encrypt_key_envelope_def get_generator_def serialize_g1_def aes_gcm_encrypt_def toy_mcl_def toy_ssl_def
        Let_def REQUEST_KEY_def sum_list_replicate)
  then obtain env where e: "tool_main toy_mcl toy_ssl ?fs demo_argv = (0, Some (lit ''o'', env))" by blast
  from tool_main_output [OF e] obtain p where "env = encode_envelope p" "ep_purpose p = lit ''request-key''" unfolding a by auto
  with e show ?thesis by blast
qed

end
