(* ===== verification/KeyPath.thy ===== *)
theory KeyPath
  imports WorkerKeys ClientTool KmsBfibe
begin

text \<open>
  The key path across the three programs: the client tool encrypts a session key, the KMS enclave
  releases the private keys of a function to an attested worker, and the worker enclave opens the
  client's envelope with them.
\<close>

lemma public_from_msk_key:
  assumes "mcl_laws m" "bfibe_mcl_public_from_msk m msk cap i = (Inr mpk, i')" "get_bfibe_g1_generator m = Some g"
  obtains a where "fr_deserialize m msk = Some a" "g1_deserialize m mpk = Some (g1_mul m g a)"
  using assms
  by (auto simp: bfibe_mcl_public_from_msk_def after_init_Inr Let_def bind_eq_Some_conv mcl_serial split: if_splits)

lemma client_envelope_opens:
  assumes laws: "mcl_laws m" "same_crypto s ssl"
    and mpk: "bfibe_mcl_public_from_msk m msk mpk_cap i1 = (Inr mpk, i2)"
    and sk: "bfibe_mcl_extract m msk identity sk_cap i3 = (Inr sk, i4)"
    and enc: "encrypt_key_envelope m ssl mpk purpose identity ctx key r nc = Inr env"
    and w: "key_for w purpose identity = Some sk" "g_bfibe_key_loaded w" "g_mcl_init w \<or> bn_init m = 0" "length (g_bfibe_fid w) \<le> 127"
    and fits: "length purpose + length identity + length ctx \<le> 459"
  shows "fst (DecKey m s e w cap32 (Some env) ctx) = Some (pad32 key)"
proof -
  obtain P g q sh c1 ct tag where e: "purpose = REQUEST_KEY \<or> purpose = FUNCTION_KEY" "length key = 16 \<or> length key = 32"
    "length nc = 12" "g1_deserialize m mpk = Some P" "get_bfibe_g1_generator m = Some g" "g2_hash_map m identity = Some q"
    "gt_serialize m (gt_pow m (pairing m P q) (fr_le_mod m r)) 576 = Some sh"
    "g1_serialize m (g1_mul m g (fr_le_mod m r)) 96 = Some c1"
    "ssl_gcm_encrypt ssl (take 16 (ssl_sha256 ssl sh)) nc key (envelope_aad_layout purpose identity ctx) = Some (ct, tag)"
    "env = envelope_layout [BFIBE_PROFILE_ID, purpose, identity, ctx, c1, nc, ct @ tag]"
    by (rule encrypt_Inr_parts [OF enc])
  obtain a where a: "fr_deserialize m msk = Some a" "g1_deserialize m mpk = Some (g1_mul m g a)"
    by (rule public_from_msk_key [OF laws(1) mpk e(5)])
  have "g2_serialize m (g2_mul m q a) sk_cap = Some sk"
    using sk a(1) e(6) by (auto simp: bfibe_mcl_extract_def after_init_Inr hash_identity_def)
  then have skd: "g2_deserialize m sk = Some (g2_mul m q a)" "sk \<noteq> []"
    using mcl_serial(5,6) [OF laws(1)] by blast+
  obtain U where U: "g1_deserialize m c1 = Some U" "c1 \<noteq> []" "pairing m U (g2_mul m q a) = gt_pow m (pairing m P q) (fr_le_mod m r)"
    using shared_secret_agrees [OF laws(1) a(2) e(8,4)] by blast
  have c: "gcm_dec s (take 16 (ssl_sha256 ssl sh)) ct nc (envelope_aad_layout purpose identity ctx) tag = Some key"
    "length ct = length key" "length tag = 16" "sha256_msg s sh = Some (ssl_sha256 ssl sh)"
    using e(9) laws(2) unfolding same_crypto_def by blast+
  have d: "fst (bfibe_mcl_decrypt_key_envelope m s sk c1 nc (ct @ tag) (envelope_aad_layout purpose identity ctx) (g_mcl_init w)) = Inr (pad32 key)"
    using e(2,3,7) c U skd w(3) by (auto simp: bfibe_mcl_decrypt_key_envelope_def Let_def bind_eq_Some_conv or_fail_def)
  have "length c1 \<le> 96" using mcl_serial(4) [OF laws(1) e(8)] .
  then have l: "length env < 2 ^ 32" using e(2,3) c(2,3) fits by (auto simp: e(10) envelope_layout_def length_frame)
  have "is_bfibe_envelope (Some env)"
    by (simp add: e(10) is_bfibe_envelope_def envelope_layout_def memcmp_eq_def nth_append)
  moreover have "\<exists>purpose' identity' c1' nonce' ct' sk'. env = envelope_layout [BFIBE_PROFILE_ID, purpose', identity', ctx, c1', nonce', ct'] \<and>
       c1' \<noteq> [] \<and> length nonce' = 12 \<and> 16 < length ct' \<and> key_for w purpose' identity' = Some sk' \<and> sk' \<noteq> [] \<and>
       length purpose' + length identity' + length ctx \<le> 459 \<and>
       fst (bfibe_mcl_decrypt_key_envelope m s sk' c1' nonce' ct' (envelope_aad_layout purpose' identity' ctx) (g_mcl_init w)) = Inr (pad32 key)"
  proof (intro exI conjI)
    show "env = envelope_layout [BFIBE_PROFILE_ID, purpose, identity, ctx, c1, nc, ct @ tag]" by (rule e(10))
    show "16 < length (ct @ tag)" using e(2) c(2,3) by auto
  qed (rule U(2) e(3) w(1) skd(2) fits d)+
  ultimately show ?thesis using dec_key_envelope_iff [OF _ l w(4)] w(2) by blast
qed

text \<open>The private keys of a release are extracted under the master secret the public parameters come from.\<close>

lemma release_extracts:
  assumes "release_private_keys m s k f l = (Some (ri, rsk, fi, fsk, wi), ini)"
  obtains msk i1 i2 where "derive_bfibe_msk m s k (g_mcl_initialized k) = (Inr msk, i1)"
    "bfibe_mcl_extract m msk ri 256 i1 = (Inr rsk, i2)" "bfibe_mcl_extract m msk fi 256 i2 = (Inr fsk, ini)" "rsk \<noteq> []" "fsk \<noteq> []"
  using assms that
  by (auto simp: release_private_keys_def extract_pair_def Let_def split: prod.splits sum.splits option.splits if_splits)

lemma params_public:
  assumes "ecall_get_bfibe_public_params m s k mo cap = (Some mpk, k')"
  obtains msk i1 i2 where "derive_bfibe_msk m s k (g_mcl_initialized k) = (Inr msk, i1)"
    "bfibe_mcl_public_from_msk m msk (unat cap) i1 = (Inr mpk, i2)"
  using assms that
  by (auto simp: ecall_get_bfibe_public_params_def Let_def split: prod.splits sum.splits option.splits if_splits)

lemma derive_msk_same:
  assumes "derive_bfibe_msk m s k i = (Inr a, i')" "derive_bfibe_msk m s k2 j = (Inr b, j')" "g_msk k = g_msk k2"
  shows "a = b"
  using assms by (auto simp: derive_bfibe_msk_def bfibe_mcl_derive_master_secret_def after_init_Inr split: if_splits)

lemma release_loads:
  assumes rel: "ecall_get_bfibe_key_release m s e1 k (Some f) (Some l) (Some pk) (Some out) cap = (Some (buf, sz), k')"
    and laws: "mcl_laws m" "gcm_laws s" "ecdh_laws s" "env_laws s e1"
    and k: "length (g_verified_mrenclave k) = 32" "length out = unat cap"
    and w: "g_worker_keypair_ready w" "pub_from_priv s (g_private_key w) = Some pk" "ecc_open e2" "malloc_ok e2 0"
  obtains rsk fsk wi ini where "release_private_keys m s k f l = (Some (lit ''fid:'' @ f, rsk, lit ''label:'' @ l, fsk, wi), ini)"
    "length f \<le> 54" "length l < 66"
    "ecall_load_bfibe_key_release s e2 w (Some (take (unat sz) buf)) (Some f) =
       (0, with_keys w f [(REQUEST_KEY, lit ''fid:'' @ f, rsk), (FUNCTION_KEY, lit ''label:'' @ l, fsk)])"
  using rel laws(1,2,4) k
proof (rule release_Some)
  fix rsk fsk kpriv kpub shared nc ct tag :: bytes and ini
  let ?wi = "worker_name (g_verified_mrenclave k)"
  let ?rs = "[(REQUEST_KEY, lit ''fid:'' @ f, rsk), (FUNCTION_KEY, lit ''label:'' @ l, fsk)]"
  assume r: "length f \<le> 54" "length l < 66"
    "release_private_keys m s k f l = (Some (lit ''fid:'' @ f, rsk, lit ''label:'' @ l, fsk, ?wi), ini)"
    "length rsk \<le> 256" "length fsk \<le> 256" "fresh_pair e1 = Some (kpriv, kpub)" "shared_dhkey s kpriv (take 64 pk) = Some shared"
    "length kpub = 64" "length nc = 12" "gcm_enc s (take 16 shared) (key_set_layout ?rs) nc (release_aad_layout f ?wi kpub) = Some (ct, tag)"
    "take (unat sz) buf = release_layout [BFIBE_PROFILE_ID, f, ?wi, kpub, nc, ct @ tag]"
  obtain msk i1 i2 where x: "rsk \<noteq> []" "fsk \<noteq> []" by (rule release_extracts [OF r(3)])
  have pk: "length pk = 64" "shared_dhkey s (g_private_key w) kpub = Some shared"
    using r(6,7) laws(4) ecdh_agree [OF laws(3)] w(2) by (auto simp: env_laws_def)
  have lw: "length ?wi = 74" using k(1) by simp
  have c: "gcm_dec s (take 16 shared) ct nc (release_aad_layout f ?wi kpub) tag = Some (key_set_layout ?rs)"
    "length ct = length (key_set_layout ?rs)" "length tag = 16" using gcm_round [OF laws(2) r(10)] by blast+
  have acc: "accepted_keys f ?rs"
    using r(1,2,4,5) x by (auto simp: accepted_keys_def record_ok_def record_fits_def bytes_starts_with_literal_def memcmp_eq_def)
  have len: "length (take (unat sz) buf) < 2 ^ 32"
    using r lw c by (simp add: r(11) length_release length_key_set2)
  have ct: "16 < length (ct @ tag)" using c by (simp add: length_key_set2)
  have fw: "length f + length ?wi \<le> 128" using r(1) lw by simp
  have g: "gcm_dec s (take 16 shared) (take (length (ct @ tag) - 16) (ct @ tag)) nc (release_aad_layout f ?wi kpub)
      (drop (length (ct @ tag) - 16) (ct @ tag)) = Some (key_set_layout ?rs)" using c by simp
  have "\<exists>wi kpub nonce c shared rs. take (unat sz) buf = release_layout [BFIBE_PROFILE_ID, f, wi, kpub, nonce, c] \<and>
       length kpub = 64 \<and> length nonce = 12 \<and> 16 < length c \<and> length f + length wi \<le> 128 \<and>
       g_worker_keypair_ready w \<and> ecc_open e2 \<and> malloc_ok e2 0 \<and> shared_dhkey s (g_private_key w) kpub = Some shared \<and>
       gcm_dec s (take 16 shared) (take (length c - 16) c) nonce (release_aad_layout f wi kpub) (drop (length c - 16) c)
         = Some (key_set_layout rs) \<and>
       accepted_keys f rs \<and> with_keys w f ?rs = with_keys w f rs"
    by (intro exI conjI) (rule r(11) r(8) r(9) ct fw w(1) w(3) w(4) pk(2) g acc refl)+
  then have "ecall_load_bfibe_key_release s e2 w (Some (take (unat sz) buf)) (Some f) = (0, with_keys w f ?rs)"
    by (rule iffD2 [OF load_release_layout_iff [OF laws(2) len]])
  note L = this
  show thesis by (rule that [OF r(3) r(1) r(2) L])
qed

text \<open>
  C11: the key path end to end. A client encrypts a session key with the tool, under the public
  parameters of the KMS enclave, to the FID (or to the label) of a function. If the KMS enclave, with
  the same master secret, produces a key release for that FID and label to the worker's public key,
  then the worker enclave accepts it and from then on opens the client's envelope to that session key, in the
  context it was encrypted for.
\<close>

theorem end_to_end_session_key:
  assumes laws: "mcl_laws m" "gcm_laws s" "ecdh_laws s" "same_crypto s ssl" "env_laws s e1"
    and params: "ecall_get_bfibe_public_params m s k0 mo cap0 = (Some mpk, k0')"
    and enc: "encrypt_key_envelope m ssl mpk purpose identity ctx key r nc = Inr env"
    and rel: "ecall_get_bfibe_key_release m s e1 k (Some f) (Some l) (Some pk) (Some out) cap = (Some (buf, sz), k')"
    and k: "g_msk k0 = g_msk k" "length (g_verified_mrenclave k) = 32" "length out = unat cap"
    and w: "g_worker_keypair_ready w" "pub_from_priv s (g_private_key w) = Some pk" "ecc_open e2" "malloc_ok e2 0"
      "g_mcl_init w \<or> bn_init m = 0"
    and for_function: "purpose = REQUEST_KEY \<and> identity = lit ''fid:'' @ f \<or> purpose = FUNCTION_KEY \<and> identity = lit ''label:'' @ l"
    and ctx: "length ctx \<le> 376"
  shows "\<exists>w'. ecall_load_bfibe_key_release s e2 w (Some (take (unat sz) buf)) (Some f) = (0, w') \<and>
    fst (DecKey m s e3 w' cap32 (Some env) ctx) = Some (pad32 key)"
proof -
  obtain rsk fsk wi ini where r: "release_private_keys m s k f l = (Some (lit ''fid:'' @ f, rsk, lit ''label:'' @ l, fsk, wi), ini)"
    "length f \<le> 54" "length l < 66"
    "ecall_load_bfibe_key_release s e2 w (Some (take (unat sz) buf)) (Some f) =
       (0, with_keys w f [(REQUEST_KEY, lit ''fid:'' @ f, rsk), (FUNCTION_KEY, lit ''label:'' @ l, fsk)])"
    by (rule release_loads [OF rel laws(1,2,3,5) k(2,3) w(1,2,3,4)])
  let ?w = "with_keys w f [(REQUEST_KEY, lit ''fid:'' @ f, rsk), (FUNCTION_KEY, lit ''label:'' @ l, fsk)]"
  obtain msk i1 i2 where x: "derive_bfibe_msk m s k (g_mcl_initialized k) = (Inr msk, i1)"
    "bfibe_mcl_extract m msk (lit ''fid:'' @ f) 256 i1 = (Inr rsk, i2)" "bfibe_mcl_extract m msk (lit ''label:'' @ l) 256 i2 = (Inr fsk, ini)"
    by (rule release_extracts [OF r(1)])
  obtain msk0 j1 j2 where p: "derive_bfibe_msk m s k0 (g_mcl_initialized k0) = (Inr msk0, j1)"
    "bfibe_mcl_public_from_msk m msk0 (unat cap0) j1 = (Inr mpk, j2)"
    by (rule params_public [OF params])
  have mm: "msk0 = msk" by (rule derive_msk_same [OF p(1) x(1) k(1)])
  have W: "g_bfibe_fid ?w = f" "g_bfibe_key_loaded ?w" "g_mcl_init ?w = g_mcl_init w" "g_bfibe_request_sk ?w = rsk" "g_bfibe_function_sk ?w = fsk"
    using r(2) by (simp_all add: with_keys_def last_key_def function_cache_clear_def)
  have kf: "purpose = REQUEST_KEY \<Longrightarrow> key_for ?w purpose identity = Some rsk" "purpose = FUNCTION_KEY \<Longrightarrow> key_for ?w purpose identity = Some fsk"
    using for_function by (auto simp: key_for_def W bytes_starts_with_literal_def memcmp_eq_def)
  have "fst (DecKey m s e3 ?w cap32 (Some env) ctx) = Some (pad32 key)"
    using for_function
  proof
    assume a: "purpose = REQUEST_KEY \<and> identity = lit ''fid:'' @ f"
    show ?thesis
      by (rule client_envelope_opens [OF laws(1,4) p(2) _ enc kf(1)]) (use a x(2) W w(5) r(2) ctx in \<open>simp_all add: mm\<close>)
  next
    assume a: "purpose = FUNCTION_KEY \<and> identity = lit ''label:'' @ l"
    show ?thesis
      by (rule client_envelope_opens [OF laws(1,4) p(2) _ enc kf(2)]) (use a x(3) W w(5) r(2,3) ctx in \<open>simp_all add: mm\<close>)
  qed
  with r(4) show ?thesis by blast
qed

definition attested_worker :: worker where
  "attested_worker = worker_boot\<lparr>g_private_key := replicate 32 3, g_worker_keypair_ready := True\<rparr>"

lemma demo_params:
  "\<exists>mpk k'. ecall_get_bfibe_public_params toy_mcl toy_sgx (release_kms (lit ''f1'')) (Some []) 256 = (Some [mpk], k')"
  by (simp add: ecall_get_bfibe_public_params_def derive_bfibe_msk_def bfibe_mcl_derive_master_secret_def bfibe_mcl_public_from_msk_def
      get_bfibe_g1_generator_def BFIBE_MSK_DOMAIN_def toy_mcl_def toy_sgx_def Let_def release_kms_def ready_kms_def kms_boot_def
      sum_list_replicate zeros_def lit_def)

lemma demo_release:
  "\<exists>buf sz k'. ecall_get_bfibe_key_release toy_mcl toy_sgx toy_env (release_kms (lit ''f1''))
      (Some (lit ''f1'')) (Some (lit ''l1'')) (Some (replicate 64 3)) (Some (zeros 4096)) 4096 = (Some (buf, sz), k')"
proof -
  have "fst (ecall_get_bfibe_key_release toy_mcl toy_sgx toy_env (release_kms (lit ''f1'')) (Some (lit ''f1''))
      (Some (lit ''l1'')) (Some (replicate 64 3)) (Some (zeros 4096)) 4096) \<noteq> None"
    by (subst release_kms_result) simp_all
  then show ?thesis
    by (cases "ecall_get_bfibe_key_release toy_mcl toy_sgx toy_env (release_kms (lit ''f1'')) (Some (lit ''f1''))
      (Some (lit ''l1'')) (Some (replicate 64 3)) (Some (zeros 4096)) 4096") auto
qed

lemma attested_worker_key:
  "g_worker_keypair_ready attested_worker" "pub_from_priv toy_sgx (g_private_key attested_worker) = Some (replicate 64 3)"
  by (simp_all add: attested_worker_def flip: replicate_add)

theorem end_to_end_session_key_witness:
  "\<exists>buf sz env w'. ecall_load_bfibe_key_release toy_sgx toy_env attested_worker (Some (take (unat (sz :: u32)) buf)) (Some (lit ''f1'')) = (0, w') \<and>
     fst (DecKey toy_mcl toy_sgx toy_env w' None (Some env) (lit ''ctx'')) = Some (pad32 (replicate 16 9))"
proof -
  obtain mpk k0' where p: "ecall_get_bfibe_public_params toy_mcl toy_sgx (release_kms (lit ''f1'')) (Some []) 256 = (Some [mpk], k0')"
    using demo_params by blast
  obtain buf sz k' where rel: "ecall_get_bfibe_key_release toy_mcl toy_sgx toy_env (release_kms (lit ''f1''))
      (Some (lit ''f1'')) (Some (lit ''l1'')) (Some (replicate 64 3)) (Some (zeros 4096)) 4096 = (Some (buf, sz), k')"
    using demo_release by blast
  obtain env where enc: "encrypt_key_envelope toy_mcl toy_ssl [mpk] REQUEST_KEY (lit ''fid:'' @ lit ''f1'') (lit ''ctx'') (replicate 16 9) [3]
      (replicate 12 4) = Inr env"
    by (simp add: encrypt_key_envelope_def get_generator_def serialize_g1_def aes_gcm_encrypt_def toy_mcl_def toy_ssl_def Let_def)
  have "\<exists>w'. ecall_load_bfibe_key_release toy_sgx toy_env attested_worker (Some (take (unat sz) buf)) (Some (lit ''f1'')) = (0, w') \<and>
    fst (DecKey toy_mcl toy_sgx toy_env w' None (Some env) (lit ''ctx'')) = Some (pad32 (replicate 16 9))"
  proof (rule end_to_end_session_key [OF toy_mcl_laws toy_gcm_laws toy_ecdh_laws toy_ssl_laws(2) toy_env_laws p enc rel refl _ _
        attested_worker_key])
    show "g_mcl_init attested_worker \<or> bn_init toy_mcl = 0" by (simp add: toy_mcl_def)
  qed (simp_all add: toy_env_def)
  then show ?thesis by blast
qed

subsection \<open>Two decoders of one format\<close>

text \<open>What the worker keeps of a decoded envelope, and which envelopes it can use.\<close>

definition view_of_parts :: "EnvelopeParts \<Rightarrow> BfibeKeyEnvelopeView" where
  "view_of_parts p = \<lparr>ev_profile = BFIBE_PROFILE_ID, ev_purpose = ep_purpose p, ev_identity = ep_identity p,
     ev_aad_context = ep_aad_context p, ev_c1 = ep_c1 p, ev_nonce = ep_nonce p, ev_ciphertext = ep_ciphertext p\<rparr>"

definition worker_wants :: "EnvelopeParts \<Rightarrow> bool" where
  "worker_wants p \<longleftrightarrow> ep_purpose p \<in> {REQUEST_KEY, FUNCTION_KEY} \<and> ep_identity p \<noteq> [] \<and> ep_c1 p \<noteq> [] \<and>
     length (ep_nonce p) = 12 \<and> 16 < length (ep_ciphertext p)"

lemma view_of_parts_iff:
  "v = view_of_parts p \<longleftrightarrow> ev_profile v = BFIBE_PROFILE_ID \<and> p = \<lparr>ep_purpose = ev_purpose v, ep_identity = ev_identity v,
     ep_aad_context = ev_aad_context v, ep_c1 = ev_c1 v, ep_nonce = ev_nonce v, ep_ciphertext = ev_ciphertext v\<rparr>"
  by (cases v; cases p) (auto simp: view_of_parts_def)

lemma encoding_fits:
  assumes "length (encode_envelope p) < 2 ^ 32"
  shows "fits32 (part_list p)"
  using assms fits32_frame [of BFIBE_ENVELOPE_MAGIC "[1]" "BFIBE_PROFILE_ID # part_list p"]
  by (simp add: encode_layout envelope_layout_def part_list_def)

lemma worker_reads_parts:
  assumes "length c < 2 ^ 32"
  shows "parse_bfibe_envelope c = Some (view_of_parts p) \<longleftrightarrow> decode_envelope c = Inr p \<and> worker_wants p"
  using encoding_fits [of p] assms
  by (auto simp: parse_envelope_exact [OF assms] decode_exact encode_layout view_of_parts_def worker_wants_def)

text \<open>
  C19: the two decoders of a key envelope agree. On every buffer of at most 32 bits of length, the worker
  enclave's parser, with its 32-bit cursor, accepts exactly what the client tool's decoder accepts and the
  worker can use (one of the two purposes, an identity, a first component, a 12-byte nonce and more ciphertext
  than a tag), with the same fields; and for what the tool decodes, both sides authenticate the same
  bytes, whenever these fit the worker's buffer of 512.
\<close>

theorem envelope_decoders_agree:
  assumes "length c < 2 ^ 32"
  shows "parse_bfibe_envelope c =
      (case decode_envelope c of Inl e \<Rightarrow> None | Inr p \<Rightarrow> if worker_wants p then Some (view_of_parts p) else None) \<and>
    (\<forall>p. decode_envelope c = Inr p \<longrightarrow>
       map_option (\<lambda>(aad, n). take (unat n) aad) (build_bfibe_envelope_aad (view_of_parts p) (zero_bytes 512) 512) =
         (if length (build_envelope_aad_tool p) \<le> 512 then Some (build_envelope_aad_tool p) else None))"
proof (intro conjI allI impI)
  have "parse_bfibe_envelope c = Some v \<longleftrightarrow> (\<exists>p. decode_envelope c = Inr p \<and> worker_wants p \<and> v = view_of_parts p)" for v
  proof
    assume a: "parse_bfibe_envelope c = Some v"
    then have "ev_profile v = BFIBE_PROFILE_ID" by (simp add: parse_envelope_exact [OF assms])
    then obtain p where "v = view_of_parts p" using view_of_parts_iff by blast
    with a show "\<exists>p. decode_envelope c = Inr p \<and> worker_wants p \<and> v = view_of_parts p"
      using worker_reads_parts [OF assms] by blast
  qed (use worker_reads_parts [OF assms] in blast)
  then show "parse_bfibe_envelope c = (case decode_envelope c of Inl e \<Rightarrow> None | Inr p \<Rightarrow> if worker_wants p then Some (view_of_parts p) else None)"
    by (cases "parse_bfibe_envelope c"; cases "decode_envelope c") (auto split: if_splits)
next
  fix p
  assume "decode_envelope c = Inr p"
  then have "fits32 (part_list p)" by (simp add: decode_exact)
  with build_envelope_aad [of "view_of_parts p"]
  show "map_option (\<lambda>(aad, n). take (unat n) aad) (build_bfibe_envelope_aad (view_of_parts p) (zero_bytes 512) 512) =
      (if length (build_envelope_aad_tool p) \<le> 512 then Some (build_envelope_aad_tool p) else None)"
    by (simp add: view_of_parts_def aad_layout_tool Let_def part_list_def)
qed

theorem envelope_decoders_agree_witness:
  "let p = \<lparr>ep_purpose = REQUEST_KEY, ep_identity = [1], ep_aad_context = [], ep_c1 = [2], ep_nonce = zeros 12,
     ep_ciphertext = zeros 17\<rparr> in parse_bfibe_envelope (encode_envelope p) = Some (view_of_parts p)"
proof -
  let ?p = "\<lparr>ep_purpose = REQUEST_KEY, ep_identity = [1], ep_aad_context = [], ep_c1 = [2], ep_nonce = zeros 12,
     ep_ciphertext = zeros 17\<rparr>"
  have l: "length (encode_envelope ?p) < 2 ^ 32" by (simp add: encode_layout envelope_layout_def length_frame)
  have "decode_envelope (encode_envelope ?p) = Inr ?p" using encoding_fits [OF l] by (simp add: decode_exact)
  with envelope_decoders_agree [OF l] show ?thesis by (simp add: worker_wants_def)
qed

end
