(* ===== verification/Provisioning.thy ===== *)
theory Provisioning
  imports WorkerApp KeyPath
begin

text \<open>
  The key path over the network: the worker process and the KMS server as two readers of each other's
  byte streams. What a stream delivers does not depend on how it is cut; a release and its timing
  trailer arrive as they were sent; a request out of its limits leaves the worker waiting.
\<close>

subsection \<open>The socket loops\<close>

text \<open>How the stream ends: closed by the peer, by a failure, or not at all.\<close>

datatype stream_end = Closed | Broken | Open

fun ending :: "net_event list \<Rightarrow> stream_end" where
  "ending [] = Open"
| "ending (Chunk d # r) = (if d = [] then Closed else ending r)"
| "ending (Intr # r) = ending r"
| "ending (Fault # r) = Broken"
| "ending (Eof # r) = Closed"

lemma sock_read_ending:
  "sock_read evs n = (Got d, r) \<Longrightarrow> 0 < n \<Longrightarrow> ending evs = (if d = [] then Closed else ending r)"
  "sock_read evs n = (Interrupted, r) \<Longrightarrow> ending evs = ending r"
  "sock_read evs n = (ReadError, r) \<Longrightarrow> ending evs = Broken"
  "sock_read evs n = (Blocks, r) \<Longrightarrow> ending evs = Open"
  by (cases evs rule: ending.cases; fastforce split: if_splits)+

lemma read_response_eq:
  "read_kms_response evs n =
     (if n \<le> length (stream evs) then Done (take n (stream evs))
      else case ending evs of Closed \<Rightarrow> Done (stream evs) | Broken \<Rightarrow> Failed | Open \<Rightarrow> Blocked)"
proof (induction evs n rule: read_kms_response.induct)
  case (1 evs left)
  show ?case
  proof (cases "left = 0")
    case False
    obtain x q where x: "sock_read evs left = (x, q)" by (rule prod.exhaust)
    show ?thesis
    proof (cases x)
      case (Got d)
      with x False sock_read_got [of evs left d q] sock_read_ending(1) [of evs left d q] sock_read_shrinks(3) [of evs left d q]
      have st: "stream evs = d @ (if d = [] then [] else stream q)" "ending evs = (if d = [] then Closed else ending q)" "length d \<le> left"
        by auto
      show ?thesis
      proof (cases "d = []")
        case True
        with st x Got False show ?thesis by (subst read_kms_response.simps) simp
      next
        case d: False
        have "read_kms_response evs left = (case read_kms_response q (left - length d) of Done rest \<Rightarrow> Done (d @ rest)
            | Failed \<Rightarrow> Failed | Blocked \<Rightarrow> Blocked)"
          using x Got False d by (subst read_kms_response.simps) simp
        also have "read_kms_response q (left - length d) = (if left - length d \<le> length (stream q) then Done (take (left - length d) (stream q))
            else case ending q of Closed \<Rightarrow> Done (stream q) | Broken \<Rightarrow> Failed | Open \<Rightarrow> Blocked)"
          using 1(1) [OF False _ Got d] x by simp
        finally show ?thesis using st d by (auto split: stream_end.splits)
      qed
    next
      case Interrupted
      with 1(2) [OF False _ Interrupted] x sock_read_ending(2) [of evs left q] sock_read_other(1) [of evs left q] False
      show ?thesis by (subst read_kms_response.simps) (simp split: stream_end.splits)
    next
      case ReadError
      with x sock_read_ending(3) [of evs left q] sock_read_other(2) [of evs left q] False
      show ?thesis by (subst read_kms_response.simps) simp
    next
      case Blocks
      with x sock_read_ending(4) [of evs left q] sock_read_other(3) [of evs left q] False
      show ?thesis by (subst read_kms_response.simps) simp
    qed
  qed (simp add: read_kms_response.simps)
qed

lemma write_exact_all: "write_exact ns d = (out, rest, True) \<Longrightarrow> out = d"
  by (induction ns d arbitrary: out rule: write_exact.induct) (auto split: if_splits prod.splits)

lemma write_parts_all: "write_parts ns ds = (out, True) \<Longrightarrow> out = concat ds"
  by (induction ns ds arbitrary: out rule: write_parts.induct) (auto split: if_splits prod.splits dest: write_exact_all)

lemma concat_request_parts: "concat (request_parts q f l pk p) = request_bytes q f l pk p"
  by (simp add: request_parts_def request_bytes_def sized_def)

subsection \<open>The response\<close>

interpretation host_reader: u32_reader nat "\<lambda>d p. 0 \<le> p \<and> nat p \<le> length d" read_u32_be_host
proof
  fix d :: bytes and p :: int
  assume "0 \<le> p \<and> nat p \<le> length d" "nat p + 4 \<le> length d"
  then have "\<not> (p < 0 \<or> int (length d) - 4 < p)" "nat (p + 4) = nat p + 4" by arith+
  then show "\<exists>q. read_u32_be_host d p = Some (un32 (d ! nat p) (d ! (nat p + 1)) (d ! (nat p + 2)) (d ! (nat p + 3)), q) \<and>
      (0 \<le> q \<and> nat q \<le> length d) \<and> nat q = nat p + 4"
    using \<open>nat p + 4 \<le> length d\<close> by (auto simp: read_u32_be_host_def un32_def Let_def)
qed (auto simp: read_u32_be_host_def)

lemma le64_split: "le64 v = le32 (ucast v) @ le32 (ucast (drop_bit 32 v))"
proof -
  have lo: "(ucast (drop_bit i v) :: byte) = ucast (drop_bit i (ucast v :: u32))" if "i \<le> 24" for i
    using that by (intro bit_word_eqI) (auto simp: bit_simps)
  have hi: "(ucast (drop_bit (32 + i) v) :: byte) = ucast (drop_bit i (ucast (drop_bit 32 v) :: u32))" if "i \<le> 24" for i
    using that by (intro bit_word_eqI) (auto simp: bit_simps ac_simps)
  show ?thesis
    using lo [of 0] lo [of 8] lo [of 16] lo [of 24] hi [of 0] hi [of 8] hi [of 16] hi [of 24]
    by (simp add: le64_def le32_def upt_rec)
qed

lemma unle32_prefix: "unle32 (le32 v @ s) = v"
proof -
  have "unle32 (le32 v @ s) = unle32 (le32 v)" by (simp add: unle32_def nth_append)
  then show ?thesis by simp
qed

lemma unle64_le64: "unle64 (le64 v @ s) = v"
proof -
  have "unle64 (le64 v @ s) = push_bit 32 (ucast (ucast (drop_bit 32 v) :: u32)) OR ucast (ucast v :: u32)"
    by (simp add: unle64_def le64_split unle32_prefix)
  also have "\<dots> = v" by (rule bit_word_eqI) (auto simp: bit_simps)
  finally show ?thesis .
qed

lemma timing_of_trailer: "timing_of (trailer_bytes t) = t"
  using unle64_le64 [of "total_dur_ns t" "[]"] by (simp add: timing_of_def trailer_bytes_def unle64_le64)

lemma length_trailer [simp]: "length (trailer_bytes t) = 24"
  by (simp add: trailer_bytes_def)


lemma payload_len_reads:
  "bfibe_key_release_payload_len b =
     (if \<not> is_bfibe_key_release_response b then -1
      else case do { (ns, p) \<leftarrow> reads read_u32_be_host 6 b 9; Some (of_int p + (\<Sum>n\<leftarrow>ns. ucast n) :: u64) } of
        None \<Rightarrow> -1
      | Some release_len \<Rightarrow> if of_nat (length b) < release_len \<or> 4096 < release_len then -1 else int (unat release_len))"
  by (simp add: nat_6 bfibe_key_release_payload_len_def split_beta' bind_assoc BFIBE_MAX_RELEASE_LEN_def add.assoc cong: if_cong option.case_cong)

lemma ucast_len32: "length d < 2 ^ 32 \<Longrightarrow> (ucast (len32 d) :: u64) = of_nat (length d)"
  by (metis of_nat_unat unat_len32)

lemma length_release_layout: "length (release_layout fs) = 9 + 4 * length fs + length (concat fs)"
  by (simp add: release_layout_def frame_def length_concat o_def sum_list_triv)

lemma is_release: "is_bfibe_key_release_response (release_layout fs @ t)"
  by (simp add: is_bfibe_key_release_response_def release_layout_def memcmp_eq_def nth_append)

lemma payload_len_release:
  assumes "length fs = 6" "fits32 fs" "length (release_layout fs) \<le> 4096" "length t \<le> 24"
  shows "bfibe_key_release_payload_len (release_layout fs @ t) = int (length (release_layout fs))"
proof -
  let ?b = "release_layout fs @ t"
  have "drop (nat 9) ?b = concat (map be32 (map len32 fs)) @ (concat fs @ t)"
    by (simp add: release_layout_def frame_def)
  moreover have ok: "0 \<le> (9::int) \<and> nat 9 \<le> length ?b" by (simp add: release_layout_def)
  ultimately obtain q where q: "reads read_u32_be_host 6 ?b 9 = Some (map len32 fs, q)" "0 \<le> q" "nat q \<le> length ?b"
    "drop (nat q) ?b = concat fs @ t"
    using host_reader.reads_frame [OF ok, of "map len32 fs" "concat fs @ t"] assms(1) by auto
  from arg_cong [OF q(4), of length] q(3) have "nat q = 33"
    using assms(1) by (simp add: length_release_layout)
  with q(2) have "q = 33" by arith
  then have qi: "(of_int q :: u64) = 33" by simp
  have b: "(\<Sum>n\<leftarrow>map len32 fs. ucast n :: u64) = of_nat (length (concat fs))"
    using assms(2) by (induction fs) (auto simp: fits32_def ucast_len32)
  have "(of_int q :: u64) + (\<Sum>n\<leftarrow>map len32 fs. ucast n) = of_nat (length (release_layout fs))"
    using assms(1) unfolding qi b by (simp add: length_release_layout)
  moreover have n: "unat (of_nat n :: u64) = n" if "n \<le> 4120" for n
    using that by (simp add: unat_of_nat)
  have "unat (of_nat (length (release_layout fs)) :: u64) = length (release_layout fs)" "unat (of_nat (length ?b) :: u64) = length ?b"
    using assms(3,4) by (intro n, simp)+
  moreover note this
  moreover have "\<not> length ?b < length (release_layout fs)" by simp
  ultimately show ?thesis
    using assms(3) by (simp add: payload_len_reads q(1) is_release word_less_nat_alt del: length_append of_nat_add)
qed

lemma use_release:
  assumes "length fs = 6" "fits32 fs" "length (release_layout fs) \<le> 4096"
  shows "use_response s e f (release_layout fs @ trailer_bytes t) a =
    a\<lparr>worker_enclave := if delivered e 2
        then snd (ecall_load_bfibe_key_release s (release_env e) (worker_enclave a) (Some (release_layout fs)) (Some f))
        else worker_enclave a, g_kms_timing := t\<rparr>"
proof -
  have "0 < length (release_layout fs)" by (simp add: release_layout_def)
  then show ?thesis
    using payload_len_release [OF assms, of "trailer_bytes t"]
    by (simp add: use_response_def is_release Let_def copy_timing_def KMS_TIMING_TRAILER_LEN_def timing_of_trailer)
qed

subsection \<open>The exchange\<close>

lemma exchange_sent:
  assumes "0 < resolve e host port" "reaches_server e host port"
    "snd (write_parts (send_results e) (request_parts quote f label pk (kms_crypto_profile e)))"
  shows "connect_to_kms s e host port quote f label pk a =
    (let a' = a\<lparr>g_kms_timing := no_timing, kms_sent := kms_sent a @ [request_bytes quote f label pk (kms_crypto_profile e)]\<rparr> in
     case read_kms_response (arrives e) KMS_RESPONSE_MAX_LEN of
       Done buffer \<Rightarrow> Returned (use_response s e f buffer a') | Failed \<Rightarrow> Returned a' | Blocked \<Rightarrow> Stuck)"
proof -
  obtain out where w: "write_parts (send_results e) (request_parts quote f label pk (kms_crypto_profile e)) = (out, True)"
    using assms(3) by (metis prod.collapse)
  from write_parts_all [OF w] have "out = request_bytes quote f label pk (kms_crypto_profile e)"
    by (simp add: concat_request_parts)
  with w assms(1,2) show ?thesis by (simp add: connect_to_kms_def Let_def cong: io.case_cong)
qed


subsection \<open>Provisioning over the network\<close>

definition refusals :: "bytes set" where
  "refusals = {lit ''DCAP_VERIFY_FAILED'', lit ''POLICY_DENIED'', lit ''ENCLAVE_VERIFY_FAILED'', lit ''BFIBE_KEY_RELEASE_ERROR''}"

lemma use_refusal:
  assumes "r \<in> refusals"
  shows "use_response s e f r a = a"
  using assms by (auto simp: refusals_def use_response_def is_bfibe_key_release_response_def memcmp_eq_def KMS_KEYS_LEN_def
      BFIBE_KEY_RELEASE_MAGIC_def lit_def)

lemma refusal_short: "r \<in> refusals \<Longrightarrow> length r \<le> 23"
  by (auto simp: refusals_def)

lemma serve_bfibe:
  assumes "serve_request m s e1 e2 h sim a rq = (reply, k')" "rq_profile rq = lit ''bfibe-mcl-bls12381''" "ecall_ok h 0"
  shows "reply \<in> refusals \<or> (\<exists>buf sz. ecall_get_bfibe_key_release m s e1
      (snd (ecall_verify_quote_for_fid (enclave a) (Some (rq_fid rq)) (Some (rq_quote rq))))
      (Some (rq_fid rq)) (Some (rq_label rq)) (Some (rq_public_key rq)) (Some (zeros 4096)) 4096 = (Some (buf, sz), k') \<and>
      reply = take (unat sz) buf @ trailer_bytes (release_timing h (mono_ns h 2 - mono_ns h 1)))"
  using assms
  by (cases "ecall_verify_quote_for_fid (enclave a) (Some (rq_fid rq)) (Some (rq_quote rq))")
    (auto simp: serve_request_def reply_for_profile_def send_bfibe_release_with_timing_def refusals_def Let_def
      BFIBE_MAX_RELEASE_LEN_def split: if_splits prod.splits option.splits)

lemma verified_length:
  "length (g_verified_mrenclave (snd (ecall_verify_quote_for_fid k (Some f) (Some q)))) = 32"
  by (auto simp: ecall_verify_quote_for_fid_def reset_ra_def Let_def kms_consts split: option.splits)

lemma verified_msk:
  "g_msk (snd (ecall_verify_quote_for_fid k f q)) = g_msk k"
  "g_msk_initialized (snd (ecall_verify_quote_for_fid k f q)) = g_msk_initialized k"
  by (auto simp: ecall_verify_quote_for_fid_def reset_ra_def Let_def split: option.splits)


text \<open>
  The worker enclave holds the two private keys extracted for the FID and the label under the master
  secret of the KMS enclave.
\<close>

definition holds_keys_of :: "('fr, 'g1, 'g2, 'gt) mcl \<Rightarrow> sgx \<Rightarrow> kms \<Rightarrow> bytes \<Rightarrow> bytes \<Rightarrow> worker \<Rightarrow> worker \<Rightarrow> bool" where
  "holds_keys_of m s k f l w w' \<longleftrightarrow> (\<exists>msk rsk fsk i i1 i2. derive_bfibe_msk m s k i = (Inr msk, i1) \<and>
     fst (bfibe_mcl_extract m msk (lit ''fid:'' @ f) 256 i1) = Inr rsk \<and>
     fst (bfibe_mcl_extract m msk (lit ''label:'' @ l) 256 i2) = Inr fsk \<and>
     w' = with_keys w f [(REQUEST_KEY, lit ''fid:'' @ f, rsk), (FUNCTION_KEY, lit ''label:'' @ l, fsk)])"

lemma holds_keys_of_verified:
  "holds_keys_of m s (snd (ecall_verify_quote_for_fid k f' q)) f l w w' = holds_keys_of m s k f l w w'"
  by (simp add: holds_keys_of_def derive_bfibe_msk_def verified_msk cong: if_cong)

text \<open>A reply with a release, used by the worker the release was made for.\<close>

lemma released_keys_used:
  assumes laws: "mcl_laws m" "gcm_laws s" "ecdh_laws s" "env_laws s k1"
    and worker: "g_worker_keypair_ready (worker_enclave a)" "pub_from_priv s (g_private_key (worker_enclave a)) = Some pk"
      "delivered e 2" "ecc_open (release_env e)" "malloc_ok (release_env e) 0"
    and rel: "ecall_get_bfibe_key_release m s k1 k (Some f) (Some l) (Some pk) (Some (zeros 4096)) 4096 = (Some (buf, sz), k')"
    and v: "length (g_verified_mrenclave k) = 32"
  obtains w' where "holds_keys_of m s k f l (worker_enclave a) w'" "ecall_has_key w' f = 1"
    "33 \<le> length (take (unat sz) buf)" "length (take (unat sz) buf) \<le> 4096"
    "use_response s e f (take (unat sz) buf @ trailer_bytes t) a = a\<lparr>worker_enclave := w', g_kms_timing := t\<rparr>"
proof -
  have z: "length (zeros 4096) = unat (4096 :: u32)" by simp
  obtain fs where fs: "take (unat sz) buf = release_layout fs" "length fs = 6" "fits32 fs" "length (release_layout fs) \<le> 4096"
    using rel laws(1,2,4) v z
  proof (rule release_Some)
    fix rsk fsk kpriv kpub shared nc ct tag :: bytes and ini
    let ?fs = "[BFIBE_PROFILE_ID, f, worker_name (g_verified_mrenclave k), kpub, nc, ct @ tag]"
    assume t: "take (unat sz) buf = release_layout ?fs" "unat sz \<le> unat (4096 :: u32)" "unat sz = length (release_layout ?fs)"
    from t(2,3) have "length (release_layout ?fs) \<le> 4096" by simp
    moreover from this have "fits32 ?fs" by (auto simp: fits32_def length_release)
    ultimately show thesis using that [of ?fs] t(1) by simp
  qed
  obtain rsk fsk wi ini where L: "release_private_keys m s k f l = (Some (lit ''fid:'' @ f, rsk, lit ''label:'' @ l, fsk, wi), ini)"
    "length f \<le> 54" "length l < 66"
    "ecall_load_bfibe_key_release s (release_env e) (worker_enclave a) (Some (take (unat sz) buf)) (Some f) =
       (0, with_keys (worker_enclave a) f [(REQUEST_KEY, lit ''fid:'' @ f, rsk), (FUNCTION_KEY, lit ''label:'' @ l, fsk)])"
    by (rule release_loads [OF rel laws v z worker(1,2,4,5)])
  let ?w = "with_keys (worker_enclave a) f [(REQUEST_KEY, lit ''fid:'' @ f, rsk), (FUNCTION_KEY, lit ''label:'' @ l, fsk)]"
  obtain msk i1 i2 where x: "derive_bfibe_msk m s k (g_mcl_initialized k) = (Inr msk, i1)"
    "bfibe_mcl_extract m msk (lit ''fid:'' @ f) 256 i1 = (Inr rsk, i2)" "bfibe_mcl_extract m msk (lit ''label:'' @ l) 256 i2 = (Inr fsk, ini)"
    by (rule release_extracts [OF L(1)])
  have h: "holds_keys_of m s k f l (worker_enclave a) ?w"
    unfolding holds_keys_of_def
    by (rule exI [of _ msk], rule exI [of _ rsk], rule exI [of _ fsk], rule exI [of _ "g_mcl_initialized k"], rule exI [of _ i1],
        rule exI [of _ i2]) (simp add: x)
  have k: "ecall_has_key ?w f = 1" using L(2) by (simp add: ecall_has_key_def with_keys_def function_cache_clear_def)
  show thesis
    by (rule that [OF h k]) (use use_release [OF fs(2,3,4), of s e f t a] worker(3) L(4) fs in \<open>simp_all add: length_release_layout\<close>)
qed

text \<open>
  C12: provisioning a worker over the network. A worker whose report key the request names asks a KMS
  server for the BF-IBE keys of a function; the network may cut both streams anywhere. Then the
  server understands the request, answers it and closes the connection, and the worker's call returns. Either the
  answer is one of the refusals and the worker enclave is unchanged, or the worker enclave
  holds exactly the two private keys extracted for the FID and the label under the server's master
  secret, reports the FID as cached, and the process has the server's three durations.
\<close>

theorem provisioning:
  assumes laws: "mcl_laws m" "gcm_laws s" "ecdh_laws s" "env_laws s k1"
    and worker: "g_worker_keypair_ready (worker_enclave a)" "pub_from_priv s (g_private_key (worker_enclave a)) = Some pk"
      "delivered e 2" "ecc_open (release_env e)" "malloc_ok (release_env e) 0"
    and request: "valid_fields quote f l pk (kms_crypto_profile e)" "0 \<notin> set f" "0 \<notin> set l"
      "kms_crypto_profile e = lit ''bfibe-mcl-bls12381''"
    and connection: "0 < resolve e host port" "reaches_server e host port"
      "snd (write_parts (send_results e) (request_parts quote f l pk (kms_crypto_profile e)))"
    and server: "\<And>i. host_malloc h i" "ecall_ok h 0" "stream evs = request_bytes quote f l pk (kms_crypto_profile e)"
      "handle_client m s k1 k2 h sim ka evs = Some (reply, closed, ka')"
    and answer: "stream (arrives e) = reply" "ending (arrives e) = (if closed then Closed else Open)"
  shows "closed \<and> (\<exists>a'. connect_to_kms s e host port quote f l pk a = Returned a' \<and>
    (if reply \<in> refusals then worker_enclave a' = worker_enclave a \<and> g_kms_timing a' = no_timing
     else holds_keys_of m s (enclave ka) f l (worker_enclave a) (worker_enclave a') \<and>
       ecall_has_key (worker_enclave a') f = 1 \<and>
       g_kms_timing a' = release_timing h (mono_ns h 2 - mono_ns h 1)))"
proof -
  let ?p = "kms_crypto_profile e"
  let ?rq = "\<lparr>rq_quote = quote, rq_fid = f, rq_label = l, rq_public_key = pk, rq_profile = ?p\<rparr>"
  let ?a = "a\<lparr>g_kms_timing := no_timing, kms_sent := kms_sent a @ [request_bytes quote f l pk ?p]\<rparr>"
  have "cstr ?p = ?p" unfolding request(4) by (simp add: cstr_def lit_def)
  then obtain r where "parse_request h evs = Inr (?rq, r)"
    using parse_request_accepts [of h evs quote f l pk ?p "[]"] server(1,3) request(1,2,3) by (auto simp: cstr_id)
  with server(4) obtain k' where sv: "serve_request m s k1 k2 h sim ka ?rq = (reply, k')" "closed"
    by (auto simp: handle_client_def split: prod.splits)
  have read: "connect_to_kms s e host port quote f l pk a = Returned (use_response s e f reply ?a)" if "length reply \<le> 4120"
    using exchange_sent [OF connection, where a = a] answer sv(2) that
    by (simp add: read_response_eq Let_def KMS_RESPONSE_MAX_LEN_def KMS_TIMING_TRAILER_LEN_def BFIBE_MAX_RELEASE_LEN_def)
  let ?k = "snd (ecall_verify_quote_for_fid (enclave ka) (Some f) (Some quote))"
  have "reply \<in> refusals \<or> (\<exists>buf sz. ecall_get_bfibe_key_release m s k1 ?k (Some f) (Some l) (Some pk) (Some (zeros 4096)) 4096 =
      (Some (buf, sz), k') \<and> reply = take (unat sz) buf @ trailer_bytes (release_timing h (mono_ns h 2 - mono_ns h 1)))"
    using serve_bfibe [OF sv(1) _ server(2)] request(4) by simp
  then show ?thesis
  proof (elim disjE exE conjE)
    assume "reply \<in> refusals"
    with read refusal_short [of reply] sv(2) show ?thesis by (auto simp: use_refusal)
  next
    fix buf sz
    let ?t = "release_timing h (mono_ns h 2 - mono_ns h 1)"
    assume rel: "ecall_get_bfibe_key_release m s k1 ?k (Some f) (Some l) (Some pk) (Some (zeros 4096)) 4096 = (Some (buf, sz), k')"
      and rp: "reply = take (unat sz) buf @ trailer_bytes ?t"
    have "worker_enclave ?a = worker_enclave a" by simp
    note W = worker(1,2) [folded this]
    obtain w' where w: "holds_keys_of m s ?k f l (worker_enclave ?a) w'" "ecall_has_key w' f = 1"
      and b: "33 \<le> length (take (unat sz) buf)" "length (take (unat sz) buf) \<le> 4096"
      and u: "use_response s e f (take (unat sz) buf @ trailer_bytes ?t) ?a = ?a\<lparr>worker_enclave := w', g_kms_timing := ?t\<rparr>"
      by (rule released_keys_used [OF laws W worker(3,4,5) rel verified_length])
    have "reply \<notin> refusals" using refusal_short [of reply] b(1) by (auto simp: rp)
    moreover have "connect_to_kms s e host port quote f l pk a = Returned (?a\<lparr>worker_enclave := w', g_kms_timing := ?t\<rparr>)"
      using read u b(2) by (simp add: rp)
    ultimately show ?thesis
      using w by (intro conjI [OF sv(2)] exI [of _ "?a\<lparr>worker_enclave := w', g_kms_timing := ?t\<rparr>"]) (simp add: holds_keys_of_verified)
  qed
qed

definition demo_app_env :: "net_event list \<Rightarrow> app_env" where
  "demo_app_env answer = \<lparr>getenv = (\<lambda>v. if v = lit ''ASYNCS_CRYPTO_PROFILE'' then Some (lit ''bfibe-mcl-bls12381'') else None),
     resolve = (\<lambda>h p. 1), connects = (\<lambda>i j. True), send_results = [7], arrives = answer, delivered = (\<lambda>i. True),
     app_malloc = (\<lambda>i. True), garbage = [], hw_report = (\<lambda>d. zeros 320 @ d), qe_target_info = QlOther, qe_quote_size = None,
     qe_quote = (\<lambda>r. None), report_env = toy_env, dkf_env = toy_env, dklabel_env = toy_env, release_env = toy_env\<rparr>"

definition demo_quote :: bytes where
  "demo_quote = zeros 368 @ replicate 64 192"

lemma demo_env_profile [simp]: "kms_crypto_profile (demo_app_env ans) = lit ''bfibe-mcl-bls12381''"
  by (simp add: kms_crypto_profile_def demo_app_env_def)

lemma demo_env_connection:
  "0 < resolve (demo_app_env ans) host port" "reaches_server (demo_app_env ans) host port" "delivered (demo_app_env ans) i"
  "arrives (demo_app_env ans) = ans" "release_env (demo_app_env ans) = toy_env"
  by (auto simp: demo_app_env_def reaches_server_def kms_connect_attempts_def env_int_default_def upt_rec [of "Suc 0" 6])

lemma demo_env_sends: "ds = d # ds' \<Longrightarrow> length d = 4 \<Longrightarrow> snd (write_parts (send_results (demo_app_env ans)) ds)"
proof -
  have "snd (write_parts [] ds)" for ds by (induction ds) (auto simp: split_beta' Let_def)
  then show "ds = d # ds' \<Longrightarrow> length d = 4 \<Longrightarrow> ?thesis"
    by (cases d) (simp_all add: demo_app_env_def split_beta' Let_def)
qed

lemma demo_verify: "ecall_verify_quote_for_fid (release_kms (lit ''f1'')) (Some (lit ''f1'')) (Some demo_quote) = (0, release_kms (lit ''f1''))"
  by (simp add: ecall_verify_quote_for_fid_def demo_quote_def release_kms_def ready_kms_def kms_boot_def reset_ra_def find_policy_def
      kms_consts slice_def zeros_def Let_def memcmp_eq_def lit_def)

lemma demo_served:
  "\<exists>reply ka'. reply \<notin> refusals \<and> handle_client toy_mcl toy_sgx toy_env toy_env calm_host True
      \<lparr>g_allowed_mrenclaves = [], g_policy_enabled = False, enclave = release_kms (lit ''f1'')\<rparr>
      [Chunk (request_bytes demo_quote (lit ''f1'') (lit ''l1'') (replicate 64 3) (lit ''bfibe-mcl-bls12381'')), Intr] = Some (reply, True, ka')"
proof -
  let ?q = "request_bytes demo_quote (lit ''f1'') (lit ''l1'') (replicate 64 3) (lit ''bfibe-mcl-bls12381'')"
  have c: "cstr (lit ''f1'') = lit ''f1''" "cstr (lit ''l1'') = lit ''l1''" "cstr (lit ''bfibe-mcl-bls12381'') = lit ''bfibe-mcl-bls12381''"
    by (simp_all add: cstr_def lit_def)
  have v: "valid_fields demo_quote (lit ''f1'') (lit ''l1'') (replicate 64 3) (lit ''bfibe-mcl-bls12381'')"
    by (simp add: valid_fields_def within_def kms_app_consts demo_quote_def)
  have n: "?q \<noteq> []" by (simp add: request_bytes_def sized_def le32_def)
  obtain r where p: "parse_request calm_host [Chunk ?q, Intr] = Inr (\<lparr>rq_quote = demo_quote, rq_fid = lit ''f1'', rq_label = lit ''l1'',
      rq_public_key = replicate 64 3, rq_profile = lit ''bfibe-mcl-bls12381''\<rparr>, r)"
    using parse_request_accepts [of calm_host "[Chunk ?q, Intr]" demo_quote "lit ''f1''" "lit ''l1''" "replicate 64 3"
        "lit ''bfibe-mcl-bls12381''" "[]"] v n by (auto simp: c)
  obtain buf sz k' where rel: "ecall_get_bfibe_key_release toy_mcl toy_sgx toy_env (release_kms (lit ''f1''))
      (Some (lit ''f1'')) (Some (lit ''l1'')) (Some (replicate 64 3)) (Some (zeros 4096)) 4096 = (Some (buf, sz), k')"
    using demo_release by blast
  have m: "length (g_verified_mrenclave (release_kms (lit ''f1''))) = 32" by simp
  have z: "length (zeros 4096) = unat (4096 :: u32)" by simp
  have sz: "33 \<le> length (take (unat sz) buf)" "0 < sz"
    using rel toy_mcl_laws toy_gcm_laws toy_env_laws m z
    by (rule release_Some, simp add: length_release word_gt_0 flip: word_unat_eq_iff unat_eq_0)+
  have nr: "take (unat sz) buf @ trailer_bytes t \<notin> refusals" for t
    using refusal_short [of "take (unat sz) buf @ trailer_bytes t"] sz(1) by auto
  show ?thesis
    using nr rel sz(2)
    by (simp add: handle_client_def p serve_request_def demo_verify reply_for_profile_def send_bfibe_release_with_timing_def
        BFIBE_MAX_RELEASE_LEN_def Let_def)
qed


definition demo_process :: worker_app where
  "demo_process = \<lparr>worker_enclave = attested_worker, g_kms_timing = no_timing, kms_sent = []\<rparr>"

theorem provisioning_witness:
  "\<exists>reply a'. connect_to_kms toy_sgx (demo_app_env [Chunk (take 5 reply), Intr, Chunk (drop 5 reply), Eof]) (lit ''h'') 1 demo_quote
      (lit ''f1'') (lit ''l1'') (replicate 64 3) demo_process = Returned a' \<and> ecall_has_key (worker_enclave a') (lit ''f1'') = 1"
proof -
  let ?q = "request_bytes demo_quote (lit ''f1'') (lit ''l1'') (replicate 64 3) (lit ''bfibe-mcl-bls12381'')"
  obtain reply ka' where h: "reply \<notin> refusals" "handle_client toy_mcl toy_sgx toy_env toy_env calm_host True
      \<lparr>g_allowed_mrenclaves = [], g_policy_enabled = False, enclave = release_kms (lit ''f1'')\<rparr> [Chunk ?q, Intr] = Some (reply, True, ka')"
    using demo_served by blast
  let ?e = "demo_app_env [Chunk (take 5 reply), Intr, Chunk (drop 5 reply), Eof]"
  have v: "valid_fields demo_quote (lit ''f1'') (lit ''l1'') (replicate 64 3) (kms_crypto_profile ?e)"
    by (simp add: valid_fields_def within_def kms_app_consts demo_quote_def)
  have f: "0 \<notin> set (lit ''f1'')" "0 \<notin> set (lit ''l1'')" by (simp_all add: lit_def)
  have w: "snd (write_parts (send_results ?e) (request_parts demo_quote (lit ''f1'') (lit ''l1'') (replicate 64 3) (kms_crypto_profile ?e)))"
    by (rule demo_env_sends [OF request_parts_def]) simp
  have q: "?q \<noteq> []" by (simp add: request_bytes_def sized_def le32_def)
  have st: "stream (arrives ?e) = reply" "ending (arrives ?e) = (if True then Closed else Open)"
    by (auto simp: demo_env_connection)
  have "worker_enclave demo_process = attested_worker" by (simp add: demo_process_def)
  then have k: "g_worker_keypair_ready (worker_enclave demo_process)"
    "pub_from_priv toy_sgx (g_private_key (worker_enclave demo_process)) = Some (replicate 64 3)"
    using attested_worker_key by simp_all
  have e: "delivered ?e 2" "ecc_open (release_env ?e)" "malloc_ok (release_env ?e) 0"
    by (simp_all add: demo_env_connection toy_env_def)
  from provisioning [OF toy_mcl_laws toy_gcm_laws toy_ecdh_laws toy_env_laws k e v f demo_env_profile demo_env_connection(1,2) w
      calm_host_simps(1,2) _ h(2) st, of "lit ''h''" 1] h(1) q
  show ?thesis by auto
qed


subsection \<open>Requests the server refuses\<close>

lemma read_sized_refuses:
  assumes "stream evs = sized d @ s" "length d < 2 ^ 32" "\<not> within mx d"
  shows "read_sized evs mx msg b = Inl (Reply (lit msg))"
proof -
  obtain r where "read_u32 evs = Done (len32 d, r)"
    using read_u32_iff [of evs "len32 d" "d @ s"] assms(1) by (auto simp: sized_def)
  moreover have "unat (len32 d) = length d" using assms(2) by simp
  then have "len32 d = 0 \<or> mx < len32 d"
    using assms(3) by (auto simp: within_def word_less_nat_alt unat_eq_0 len32_def)
  ultimately show ?thesis by (auto simp: read_sized_def or_leave_def)
qed

lemma read_sized_next:
  assumes "stream evs = sized d @ s" "length d < 2 ^ 32"
  obtains "\<not> within mx d" "read_sized evs mx msg True = Inl (Reply (lit msg))"
  | r where "within mx d" "read_sized evs mx msg True = Inr (d, r)" "stream r = s"
  using read_sized_refuses [OF assms] read_sized_iff [of evs mx msg d s] assms(1) that by blast

definition parse_errors :: "bytes set" where
  "parse_errors = {lit ''INVALID_QUOTE_SIZE'', lit ''INVALID_FID_LEN'', lit ''INVALID_LABEL_LEN'', lit ''INVALID_CRYPTO_PROFILE''}"

lemma parse_refuses:
  assumes "\<And>i. host_malloc h i" "stream evs = request_bytes q f l pk p" "length pk = 64"
    and "\<And>d. d \<in> {q, f, l, p} \<Longrightarrow> length d < 2 ^ 32" "\<not> valid_fields q f l pk p"
  shows "\<exists>msg. parse_request h evs = Inl (Reply msg) \<and> msg \<in> parse_errors"
proof -
  have st: "stream evs = sized q @ sized f @ sized l @ pk @ sized p" using assms(2) by (simp add: request_bytes_def)
  show ?thesis
  proof (rule read_sized_next [OF st, of KMS_MAX_QUOTE_SIZE "''INVALID_QUOTE_SIZE''"])
    fix e1 assume 1: "within KMS_MAX_QUOTE_SIZE q" "read_sized evs KMS_MAX_QUOTE_SIZE ''INVALID_QUOTE_SIZE'' True = Inr (q, e1)"
      "stream e1 = sized f @ sized l @ pk @ sized p"
    show ?thesis
    proof (rule read_sized_next [OF 1(3), of KMS_MAX_FID_LEN "''INVALID_FID_LEN''"])
      fix e2 assume 2: "within KMS_MAX_FID_LEN f" "read_sized e1 KMS_MAX_FID_LEN ''INVALID_FID_LEN'' True = Inr (f, e2)"
        "stream e2 = sized l @ pk @ sized p"
      show ?thesis
      proof (rule read_sized_next [OF 2(3), of KMS_MAX_LABEL_LEN "''INVALID_LABEL_LEN''"])
        fix e3 assume 3: "within KMS_MAX_LABEL_LEN l" "read_sized e2 KMS_MAX_LABEL_LEN ''INVALID_LABEL_LEN'' True = Inr (l, e3)"
          "stream e3 = pk @ sized p"
        obtain e4 where 4: "read_exact e3 64 = Done (pk, e4)" "stream e4 = sized p @ []"
          using read_exact_iff [of e3 64 pk "sized p"] 3(3) assms(3) by auto
        show ?thesis
          by (rule read_sized_next [OF 4(2), of KMS_MAX_CRYPTO_PROFILE_LEN "''INVALID_CRYPTO_PROFILE''"])
            (use 1 2 3 4 assms in \<open>auto simp: parse_request_def or_leave_def parse_errors_def valid_fields_def\<close>)
      qed (use 1 2 assms in \<open>auto simp: parse_request_def parse_errors_def\<close>)
    qed (use 1 assms in \<open>auto simp: parse_request_def parse_errors_def\<close>)
  qed (use assms in \<open>auto simp: parse_request_def parse_errors_def\<close>)
qed

text \<open>
  C37: a request with a field out of its limits (an empty FID, a label of more than 128 bytes, a
  profile of more than 64 bytes) hangs the worker. The server answers with an error text but does not close the
  connection, and the worker reads until the end of the stream.
\<close>

theorem malformed_request_hangs:
  assumes "0 < resolve e host port" "reaches_server e host port"
      "snd (write_parts (send_results e) (request_parts quote f l pk (kms_crypto_profile e)))"
    and "\<And>i. host_malloc h i" "stream evs = request_bytes quote f l pk (kms_crypto_profile e)"
      "handle_client m s k1 k2 h sim ka evs = Some (reply, closed, ka')"
    and "stream (arrives e) = reply" "ending (arrives e) = (if closed then Closed else Open)"
    and "\<not> valid_fields quote f l pk (kms_crypto_profile e)" "length pk = 64"
      "\<And>d. d \<in> {quote, f, l, kms_crypto_profile e} \<Longrightarrow> length d < 2 ^ 32"
  shows "reply \<in> parse_errors \<and> \<not> closed \<and> ka' = ka \<and> connect_to_kms s e host port quote f l pk a = Stuck"
proof -
  obtain msg where "parse_request h evs = Inl (Reply msg)" "msg \<in> parse_errors"
    using parse_refuses [OF assms(4,5,10,11,9)] by blast
  with assms(6) have r: "reply \<in> parse_errors" "\<not> closed" "ka' = ka" by (auto simp: handle_client_def)
  then have "length (stream (arrives e)) < 4120" using assms(7) by (auto simp: parse_errors_def)
  with r assms(8) have "read_kms_response (arrives e) KMS_RESPONSE_MAX_LEN = Blocked"
    by (simp add: read_response_eq KMS_RESPONSE_MAX_LEN_def KMS_TIMING_TRAILER_LEN_def BFIBE_MAX_RELEASE_LEN_def)
  with r exchange_sent [OF assms(1-3), where a = a] show ?thesis by (simp add: Let_def)
qed

theorem malformed_request_hangs_witness:
  "connect_to_kms toy_sgx (demo_app_env [Chunk (lit ''INVALID_FID_LEN'')]) (lit ''h'') 1 demo_quote [] (lit ''l1'') (replicate 64 3) demo_process = Stuck"
proof -
  let ?e = "demo_app_env [Chunk (lit ''INVALID_FID_LEN'')]"
  let ?evs = "[Chunk (request_bytes demo_quote [] (lit ''l1'') (replicate 64 3) (kms_crypto_profile ?e))]"
  let ?k = "\<lparr>g_allowed_mrenclaves = [], g_policy_enabled = False, enclave = release_kms (lit ''f1'')\<rparr>"
  have n: "request_bytes demo_quote [] (lit ''l1'') (replicate 64 3) p \<noteq> []" for p by (simp add: request_bytes_def sized_def le32_def)
  have st: "stream ?evs = sized demo_quote @ sized [] @ sized (lit ''l1'') @ replicate 64 3 @ sized (kms_crypto_profile ?e)"
    using n by (simp add: request_bytes_def)
  have "within KMS_MAX_QUOTE_SIZE demo_quote" by (simp add: within_def kms_app_consts demo_quote_def)
  then obtain e1 where 1: "read_sized ?evs KMS_MAX_QUOTE_SIZE ''INVALID_QUOTE_SIZE'' True = Inr (demo_quote, e1)"
    "stream e1 = sized [] @ sized (lit ''l1'') @ replicate 64 3 @ sized (kms_crypto_profile ?e)"
    using read_sized_iff st by blast
  have "read_sized e1 KMS_MAX_FID_LEN ''INVALID_FID_LEN'' True = Inl (Reply (lit ''INVALID_FID_LEN''))"
    by (rule read_sized_refuses [OF 1(2)]) (simp_all add: within_def)
  with 1(1) have h: "handle_client toy_mcl toy_sgx toy_env toy_env calm_host True ?k ?evs = Some (lit ''INVALID_FID_LEN'', False, ?k)"
    by (simp add: handle_client_def parse_request_def)
  have w: "snd (write_parts (send_results ?e) (request_parts demo_quote [] (lit ''l1'') (replicate 64 3) (kms_crypto_profile ?e)))"
    by (rule demo_env_sends [OF request_parts_def]) simp
  have v: "\<not> valid_fields demo_quote [] (lit ''l1'') (replicate 64 3) (kms_crypto_profile ?e)" by (simp add: valid_fields_def within_def)
  have st2: "stream ?evs = request_bytes demo_quote [] (lit ''l1'') (replicate 64 3) (kms_crypto_profile ?e)" using n by simp
  have a: "stream (arrives ?e) = lit ''INVALID_FID_LEN''" "ending (arrives ?e) = (if False then Closed else Open)"
    by (simp_all add: demo_env_connection)
  have l: "d \<in> {demo_quote, [], lit ''l1'', kms_crypto_profile ?e} \<Longrightarrow> length d < 2 ^ 32" for d by (auto simp: demo_quote_def)
  have p: "length (replicate 64 3 :: bytes) = 64" by simp
  from malformed_request_hangs [OF demo_env_connection(1,2) w calm_host_simps(1) st2 h a v p l, of "lit ''h''" 1 demo_process]
  show ?thesis by blast
qed

subsection \<open>The simulated quote\<close>

lemma embed_eq:
  assumes "length body = 384" "432 \<le> length q"
  shows "embed_report_in_sim_quote q body = take 48 q @ body @ drop 432 q"
proof -
  have b: "take 320 body @ slice 320 64 body = body"
    using assms(1) by (simp add: slice_def)
  have "embed_report_in_sim_quote q body = blit (take 48 q @ body @ drop 432 q) 368 (slice 320 64 body)"
    using assms by (simp add: embed_report_in_sim_quote_def worker_app_consts blit_def [of q])
  also have "\<dots> = take 48 q @ (take 320 body @ slice 320 64 body) @ drop 432 q"
    using assms by (simp add: blit_def)
  finally show ?thesis by (simp only: b)
qed

lemma sim_quote_fields:
  assumes "length body = 384" "432 \<le> length q"
  shows "length (embed_report_in_sim_quote q body) = length q"
    "slice 112 32 (embed_report_in_sim_quote q body) = slice 64 32 body"
    "slice 368 64 (embed_report_in_sim_quote q body) = slice 320 64 body"
  using assms by (simp_all add: embed_eq slice_def)

text \<open>
  The simulated quote binds the worker's key. If the hardware puts the given report data into the
  report and the KMS enclave accepts the worker's simulated quote for an FID, then the public keys for
  which the KMS enclave then releases keys are exactly those with the hash of the worker's fresh key, and
  the measurement it records is the one of the report.
\<close>

theorem sim_quote_binds_key:
  assumes "sha_laws s" "env_laws s (report_env e)" "wf_registry k"
    and "\<And>d. length d = 64 \<Longrightarrow> length (hw_report e d) = 384 \<and> slice 320 64 (hw_report e d) = d"
    and "delivered e 1" "ecall_create_report s (report_env e) (worker_enclave a) = (Some (report_data, pk), w')"
    and "dummy_quote s e fill a = (quote, public_key, a')"
    and "ecall_verify_quote_for_fid k (Some f) (Some quote) = (0, k')"
  shows "public_key = g_public_key (worker_enclave a') \<and> g_worker_keypair_ready (worker_enclave a') \<and>
    pub_from_priv s (g_private_key (worker_enclave a')) = Some public_key \<and>
    (verify_report_data_binding s k' key \<longleftrightarrow> sha256_msg s (take 64 key) = sha256_msg s public_key) \<and>
    g_verified_mrenclave k' = slice 64 32 (hw_report e report_data)"
proof -
  obtain priv h where c: "fresh_pair (report_env e) = Some (priv, pk)" "sha256_msg s pk = Some h" "report_data = h @ zero_bytes 32"
    "w' = (worker_enclave a)\<lparr>g_private_key := priv, g_public_key := pk, g_worker_keypair_ready := True\<rparr>"
    using assms(6) by (auto simp: ecall_create_report_def Let_def split: if_splits option.splits prod.splits)
  have l: "length h = 32" "pub_from_priv s priv = Some pk" using c(1,2) assms(1,2) by (auto simp: sha_laws_def env_laws_def)
  then have hw: "length (hw_report e report_data) = 384" "slice 320 64 (hw_report e report_data) = report_data"
    using assms(4) [of report_data] c(3) by auto
  from assms(5,6,7) have q: "quote = embed_report_in_sim_quote (replicate 1024 fill) (hw_report e report_data)" "public_key = pk"
    "a' = a\<lparr>worker_enclave := w'\<rparr>"
    by (auto simp: dummy_quote_def create_report_def)
  have g: "432 \<le> length (replicate 1024 fill)" by simp
  have v: "g_ra_verified k'" "g_verified_mrenclave k' = quote_mrenclave quote" "g_verified_report_data k' = quote_report_data quote"
    using verify_quote_effect [OF assms(8,3)] by simp_all
  have "g_verified_report_data k' = report_data"
    using v(3) hw(2) by (simp only: quote_report_data_def q(1) sim_quote_fields(3) [OF hw(1) g])
  moreover have "g_verified_mrenclave k' = slice 64 32 (hw_report e report_data)"
    using v(2) by (simp only: quote_mrenclave_def q(1) sim_quote_fields(2) [OF hw(1) g])
  moreover have "length x = 32" if "sha256_msg s d = Some x" for d x using that assms(1) by (auto simp: sha_laws_def)
  ultimately show ?thesis
    using v(1) c l q by (auto simp: verify_report_data_binding_def memcmp_eq_def split: option.splits)
qed

lemma demo_report:
  "ecall_create_report toy_sgx toy_env attested_worker = (Some (replicate 32 192 @ zero_bytes 32, replicate 64 3),
     attested_worker\<lparr>g_public_key := replicate 64 3\<rparr>)"
  by (simp add: ecall_create_report_def toy_env_def attested_worker_def sum_list_replicate)

theorem sim_quote_binds_key_witness:
  "\<exists>quote pk a' k'. dummy_quote toy_sgx (demo_app_env []) 0xEE demo_process = (quote, pk, a') \<and>
     ecall_verify_quote_for_fid kms_boot (Some (lit ''f1'')) (Some quote) = (0, k') \<and> verify_report_data_binding toy_sgx k' pk"
proof -
  have r: "ecall_create_report toy_sgx (report_env (demo_app_env [])) (worker_enclave demo_process) =
      (Some (replicate 32 192 @ zero_bytes 32, replicate 64 3), attested_worker\<lparr>g_public_key := replicate 64 3\<rparr>)"
    using demo_report by (simp add: demo_app_env_def demo_process_def)
  have hw: "length d = 64 \<Longrightarrow> length (hw_report (demo_app_env []) d) = 384 \<and> slice 320 64 (hw_report (demo_app_env []) d) = d" for d
    by (simp add: demo_app_env_def slice_def)
  obtain quote pk a' where q: "dummy_quote toy_sgx (demo_app_env []) 0xEE demo_process = (quote, pk, a')" by (metis prod_cases3)
  have "length quote = 1024"
    using q hw [of "replicate 32 192 @ zero_bytes 32"] sim_quote_fields(1) [of _ "replicate 1024 0xEE"] r
    by (auto simp: dummy_quote_def create_report_def demo_env_connection split: prod.splits)
  then obtain k' where v: "ecall_verify_quote_for_fid kms_boot (Some (lit ''f1'')) (Some quote) = (0, k')"
    by (simp add: ecall_verify_quote_for_fid_def find_policy_def kms_boot_def reset_ra_def kms_consts Let_def)
  have w: "wf_registry kms_boot" by (simp add: wf_registry_def kms_boot_def)
  have e: "env_laws toy_sgx (report_env (demo_app_env []))" using toy_env_laws by (simp add: demo_app_env_def)
  from sim_quote_binds_key [OF toy_sha_laws e w hw demo_env_connection(3) r q v, of pk] have "verify_report_data_binding toy_sgx k' pk"
    using r q by (auto simp: dummy_quote_def create_report_def demo_env_connection)
  with q v show ?thesis by blast
qed

end
