(* ===== verification/KmsServer.thy ===== *)
theory KmsServer
  imports KmsSystem KmsApp Provisioning
begin

text \<open>
  The KMS process as a whole (\<open>main\<close> of \<open>sgx_kms/App/App.cpp\<close>): the command line, the start of the enclave, the one-shot
  commands, and the accept loop that serves one client after the other. The theorems compose the
  enclave's gates with the host's checks, from the command line to the reply.
\<close>

subsection \<open>The process\<close>

text \<open>One accepted connection: the environments of the enclave calls it leads to, the host, the socket.\<close>

record kms_connection =
  cn_env1 :: env
  cn_env2 :: env
  cn_host :: host_env
  cn_events :: "net_event list"

datatype kms_outcome = KmsExit int | KmsWaiting kms_app | KmsHung

text \<open>
  The accept loop over the connections that arrive (None: \<open>accept\<close> fails): what each client was sent and
  whether its socket was closed, and what the process does then.
\<close>

fun kms_serve ::
  "('fr, 'g1, 'g2, 'gt) mcl \<Rightarrow> sgx \<Rightarrow> bool \<Rightarrow> kms_app \<Rightarrow> kms_connection option list \<Rightarrow> (bytes \<times> bool) list \<times> kms_outcome" where
  "kms_serve m s sim a [] = ([], KmsWaiting a)"
| "kms_serve m s sim a (None # cs) = ([], KmsExit 1)"
| "kms_serve m s sim a (Some c # cs) =
     (case handle_client m s (cn_env1 c) (cn_env2 c) (cn_host c) sim a (cn_events c) of
        None \<Rightarrow> ([], KmsHung)
      | Some (reply, closed, a') \<Rightarrow> let (replies, end) = kms_serve m s sim a' cs in ((reply, closed) # replies, end))"

text \<open>
  The machine the process runs on: whether the enclave is created, the answers to the start and to the one-shot
  command, the files, whether the server socket is set up.
\<close>

record kms_machine =
  km_created :: bool
  km_env :: env
  km_ok :: "nat \<Rightarrow> bool"
  km_stale :: "nat \<Rightarrow> byte"
  km_file :: "bytes \<Rightarrow> bytes option"
  km_writable :: "bytes \<Rightarrow> bool"
  km_cmd_ok :: bool
  km_cmd_env :: env
  km_listens :: bool

definition saved_master :: "kms_machine \<Rightarrow> bytes option \<Rightarrow> (bytes \<times> bytes) list" where
  "saved_master x blob =
     (case blob of
        None \<Rightarrow> []
      | Some b \<Rightarrow> if b \<noteq> [] \<and> km_writable x (lit ''kms_data.sealed'') then [(lit ''kms_data.sealed'', b)] else [])"

definition write_result :: "kms_machine \<Rightarrow> (bytes \<times> bytes) list \<Rightarrow> bytes \<Rightarrow> bytes option \<Rightarrow> (bytes \<times> bytes) list \<times> kms_outcome" where
  "write_result x written path data =
     (case data of
        None \<Rightarrow> (written, KmsExit 1)
      | Some d \<Rightarrow> if \<not> km_writable x path then (written, KmsExit 1) else (written @ [(path, d)], KmsExit 0))"

text \<open>The files written, the replies, and the outcome. The argument list is without the program name.\<close>

definition kms_main ::
  "('fr, 'g1, 'g2, 'gt) mcl \<Rightarrow> sgx \<Rightarrow> sealing \<Rightarrow> kms_machine \<Rightarrow> bool \<Rightarrow> bytes list \<Rightarrow> kms_connection option list
   \<Rightarrow> (bytes \<times> bytes) list \<times> (bytes \<times> bool) list \<times> kms_outcome" where
  "kms_main m s z x sim argv conns =
     (case kms_command_line argv of
        None \<Rightarrow> ([], [], KmsExit 1)
      | Some args \<Rightarrow>
          if \<not> km_created x then ([], [], KmsExit (-1))
          else case kms_start z (km_env x) (km_ok x) (km_stale x) args (km_file x) of
            None \<Rightarrow> ([], [], KmsExit (if km_ok x 0 then 1 else -1))
          | Some (a, blob) \<Rightarrow>
              let written = saved_master x blob in
              if bfibe_test args then (written, [], KmsExit (bfibe_test_cmd m s (km_cmd_ok x) (enclave a)))
              else case bfibe_public_params args of
                Some out \<Rightarrow>
                  let (fs, r) = write_result x written out (public_params_cmd m s (km_cmd_ok x) (enclave a)) in (fs, [], r)
              | None \<Rightarrow>
                  (case print_pubkey args of
                     Some (i, out) \<Rightarrow>
                       let (fs, r) = write_result x written out (print_pubkey_cmd s (km_cmd_env x) (km_cmd_ok x) (enclave a) i)
                       in (fs, [], r)
                   | None \<Rightarrow>
                       if \<not> km_listens x then (written, [], KmsExit 1)
                       else let (replies, end) = kms_serve m s sim a conns in (written, replies, end)))"

subsection \<open>The handler always returns, if the client does not stall\<close>

lemma read_exact_kind:
  "(case read_exact evs n of
      Done (d, r) \<Rightarrow> ending r = ending evs
    | Failed \<Rightarrow> ending evs \<noteq> Open \<and> length (stream evs) < n
    | Blocked \<Rightarrow> ending evs = Open \<and> length (stream evs) < n)"
proof (induction evs n rule: read_exact.induct)
  case (1 evs left)
  show ?case
  proof (cases "left = 0")
    case False
    obtain x q where x: "sock_read evs left = (x, q)" by (rule prod.exhaust)
    show ?thesis
    proof (cases x)
      case (Got d)
      with x False sock_read_got [of evs left d q] sock_read_ending(1) [of evs left d q] sock_read_shrinks(3) [of evs left d q]
      have st: "stream evs = d @ (if d = [] then [] else stream q)" "ending evs = (if d = [] then Closed else ending q)" "length d \<le> left"
        by auto
      show ?thesis
      proof (cases "d = []")
        case True
        with st x Got False show ?thesis by (subst read_exact.simps) simp
      next
        case d: False
        with 1(1) [OF False _ Got d] x st False Got show ?thesis
          by (subst read_exact.simps) (auto split: io.splits prod.splits)
      qed
    next
      case Interrupted
      with 1(2) [OF False _ Interrupted] x sock_read_ending(2) [of evs left q] sock_read_other(1) [of evs left q] False
      show ?thesis by (subst read_exact.simps) (simp split: io.splits prod.splits)
    next
      case ReadError
      with x sock_read_ending(3) [of evs left q] sock_read_other(2) [of evs left q] False
      show ?thesis by (subst read_exact.simps) simp
    next
      case Blocks
      with x sock_read_ending(4) [of evs left q] sock_read_other(3) [of evs left q] False
      show ?thesis by (subst read_exact.simps) simp
    qed
  qed (simp add: read_exact.simps)
qed

lemma read_u32_kind:
  "(case read_u32 evs of Done (v, r) \<Rightarrow> ending r = ending evs | Failed \<Rightarrow> ending evs \<noteq> Open
    | Blocked \<Rightarrow> ending evs = Open)"
  using read_exact_kind [of evs 4] by (auto simp: read_u32_def split: io.splits prod.splits)

text \<open>A step of the parser: it hands on the end of the stream, and it stalls only on a stream left open.\<close>

definition no_stall :: "net_event list \<Rightarrow> early + ('a \<times> net_event list) \<Rightarrow> bool" where
  "no_stall evs r \<longleftrightarrow> (case r of Inl e \<Rightarrow> e = Stalled \<longrightarrow> ending evs = Open | Inr (x, q) \<Rightarrow> ending q = ending evs)"

lemma no_stall_simps [simp]:
  "no_stall evs (Inl e) \<longleftrightarrow> (e = Stalled \<longrightarrow> ending evs = Open)" "no_stall evs (Inr (x, q)) \<longleftrightarrow> ending q = ending evs"
  by (simp_all add: no_stall_def)

lemma no_stall_ending: "ending q = ending evs \<Longrightarrow> no_stall q r = no_stall evs r"
  by (cases r) (auto simp: no_stall_def)

lemma no_stall_then:
  assumes "no_stall evs r" "\<And>x q. ending q = ending evs \<Longrightarrow> no_stall q (f (x, q))"
  shows "no_stall evs (and_then r f)"
proof (cases r)
  case (Inr y)
  obtain x q where y: "y = (x, q)" by (cases y)
  with assms(1) Inr have "ending q = ending evs" by simp
  with assms(2) [OF this, of x] no_stall_ending [OF this, of "f (x, q)"] Inr y show ?thesis by simp
qed (use assms(1) in simp)

lemma no_stall_reads [simp]: "no_stall evs (or_leave (read_exact evs n))" "no_stall evs (or_leave (read_u32 evs))"
  using read_exact_kind [of evs n] read_u32_kind [of evs]
  by (cases "read_exact evs n"; cases "read_u32 evs"; auto simp: or_leave_def)+

lemma no_stall_sized [simp]: "no_stall evs (read_sized evs mx msg b)"
  unfolding read_sized_def by (rule no_stall_then) auto

lemma no_stall_request: "no_stall evs (parse_request h evs)"
  unfolding parse_request_def
  by (rule no_stall_then, simp, simp only: prod.case)+ simp

lemma silent_client_stalls:
  assumes "length (stream evs) < 4" "ending evs = Open"
  shows "parse_request h evs = Inl Stalled"
proof -
  have "read_exact evs 4 = Blocked"
    using read_exact_kind [of evs 4] read_exact_Done [of evs 4] assms by (cases "read_exact evs 4") fastforce+
  then show ?thesis by (simp add: parse_request_def read_sized_def read_u32_def or_leave_def)
qed

text \<open>A connection on which the client sends all it will send and closes, or is cut off.\<close>

abbreviation settled :: "kms_connection \<Rightarrow> bool" where
  "settled c \<equiv> ending (cn_events c) \<noteq> Open"

lemma handle_settled:
  "settled c \<Longrightarrow> \<exists>x. handle_client m s e1 e2 h sim a (cn_events c) = Some x"
  using no_stall_request [of "cn_events c" h]
  by (auto simp: handle_client_def no_stall_def Let_def split: sum.splits early.splits prod.splits)

lemma serve_settled:
  "\<forall>c \<in> set cs. settled c \<Longrightarrow> \<exists>rs a'. length rs = length cs \<and>
     (\<forall>ds. kms_serve m s sim a (map Some cs @ ds) = (let (qs, end) = kms_serve m s sim a' ds in (rs @ qs, end)))"
proof (induction cs arbitrary: a)
  case Nil
  show ?case by (intro exI [of _ "[]"] exI [of _ a]) simp
next
  case (Cons c cs)
  then obtain reply closed a1 where h: "handle_client m s (cn_env1 c) (cn_env2 c) (cn_host c) sim a (cn_events c) = Some (reply, closed, a1)"
    using handle_settled by (metis list.set_intros(1) prod_cases3)
  from Cons obtain rs a' where "length rs = length cs"
    "\<And>ds. kms_serve m s sim a1 (map Some cs @ ds) = (let (qs, end) = kms_serve m s sim a' ds in (rs @ qs, end))" by (metis list.set_intros(2))
  with h show ?case by (intro exI [of _ "(reply, closed) # rs"] exI [of _ a']) (simp split: prod.splits)
qed

subsection \<open>What the process keeps\<close>

text \<open>The parts of the state that serving clients never touches.\<close>

definition fixed_part :: "kms_app \<Rightarrow> PolicyEntry list \<times> bytes \<times> bool \<times> bytes list \<times> bool" where
  "fixed_part a = (g_policy_registry (enclave a), g_msk (enclave a), g_msk_initialized (enclave a), g_allowed_mrenclaves a, g_policy_enabled a)"

lemma verify_quote_msk [simp]:
  "g_msk (snd (ecall_verify_quote_for_fid k f q)) = g_msk k"
  "g_msk_initialized (snd (ecall_verify_quote_for_fid k f q)) = g_msk_initialized k"
  by (simp_all add: ecall_verify_quote_for_fid_def reset_ra_def Let_def split: option.splits)

lemma release_msk [simp]:
  "g_msk (snd (ecall_get_bfibe_key_release m s e k fa la ka oa cap)) = g_msk k"
  "g_msk_initialized (snd (ecall_get_bfibe_key_release m s e k fa la ka oa cap)) = g_msk_initialized k"
  by (simp_all add: ecall_get_bfibe_key_release_def Let_def split: option.splits prod.splits)

definition same_secrets :: "kms \<Rightarrow> kms \<Rightarrow> bool" where
  "same_secrets k k' \<longleftrightarrow> g_policy_registry k' = g_policy_registry k \<and> g_msk k' = g_msk k \<and> g_msk_initialized k' = g_msk_initialized k"

lemma reply_same: "same_secrets k (snd (reply_for_profile m s e1 e2 h k rq t))"
  by (auto simp: same_secrets_def reply_for_profile_def send_bfibe_release_with_timing_def Let_def frame_simps snd_def [symmetric]
      split: option.splits prod.splits if_splits)
    (metis bfibe_frames(2) release_msk snd_conv)+

lemma same_secrets_trans: "same_secrets k k1 \<Longrightarrow> same_secrets k1 k2 \<Longrightarrow> same_secrets k k2"
  by (simp add: same_secrets_def)

lemma serve_same: "same_secrets (enclave a) (snd (serve_request m s e1 e2 h sim a rq))"
proof -
  define k where "k = (if ecall_ok h 0 then snd (ecall_verify_quote_for_fid (enclave a) (Some (rq_fid rq)) (Some (rq_quote rq))) else enclave a)"
  have k: "same_secrets (enclave a) k" by (simp add: k_def same_secrets_def)
  have "snd (serve_request m s e1 e2 h sim a rq) \<in>
      {enclave a, k, snd (reply_for_profile m s e1 e2 h k rq (mono_ns h 2 - mono_ns h 1))}"
    by (auto simp: serve_request_def Let_def k_def split: prod.splits)
  moreover have "same_secrets (enclave a) (enclave a)" by (simp add: same_secrets_def)
  ultimately show ?thesis using k same_secrets_trans [OF k reply_same] by auto
qed

lemma handle_fixed:
  "handle_client m s e1 e2 h sim a evs = Some (reply, closed, a') \<Longrightarrow> fixed_part a' = fixed_part a"
  using serve_same [of a m s e1 e2 h sim]
  by (auto simp: handle_client_def fixed_part_def same_secrets_def Let_def split: sum.splits early.splits prod.splits)
    (metis snd_conv)+

text \<open>Every reply was made by the handler, in a state with the same fixed part.\<close>

lemma serve_nth:
  "kms_serve m s sim a cs = (rs, end) \<Longrightarrow> i < length rs \<Longrightarrow>
   \<exists>c b b'. i < length cs \<and> cs ! i = Some c \<and> fixed_part b = fixed_part a \<and>
     handle_client m s (cn_env1 c) (cn_env2 c) (cn_host c) sim b (cn_events c) = Some (fst (rs ! i), snd (rs ! i), b')"
proof (induction cs arbitrary: a rs i)
  case (Cons d cs)
  then obtain c where d: "d = Some c" by (cases d) auto
  with Cons.prems obtain reply closed a1 qs where h: "handle_client m s (cn_env1 c) (cn_env2 c) (cn_host c) sim a (cn_events c) = Some (reply, closed, a1)"
    and q: "kms_serve m s sim a1 cs = (qs, end)" "rs = (reply, closed) # qs"
    by (auto split: option.splits prod.splits)
  show ?case
  proof (cases i)
    case 0
    with d h q show ?thesis by auto
  next
    case (Suc j)
    with Cons.prems(2) q have "j < length qs" by simp
    from Cons.IH [OF q(1) this] handle_fixed [OF h] Suc d q(2) show ?thesis by auto
  qed
qed simp

lemma serve_fixed: "kms_serve m s sim a cs = (rs, KmsWaiting a') \<Longrightarrow> fixed_part a' = fixed_part a"
proof (induction cs arbitrary: a rs)
  case (Cons d cs)
  then obtain c where "d = Some c" by (cases d) auto
  with Cons show ?case by (auto split: option.splits prod.splits dest: handle_fixed)
qed simp

text \<open>
  A registry that the command line made: no policy is registered, and each bound label was asked for,
  cut as the enclave cuts it.
\<close>

definition from_command_line :: "(bytes \<times> bytes) list \<Rightarrow> PolicyEntry list \<Rightarrow> bool" where
  "from_command_line reqs reg \<longleftrightarrow> (\<forall>en \<in> set reg. \<not> policy_set en \<and>
     (\<forall>l \<in> set (bound_labels en). \<exists>(f0, l0) \<in> set reqs. fid en = take 127 f0 \<and> l = take 64 l0))"

lemma entry_for_command_line:
  assumes "entry_for k f = Some (i, reg)" "from_command_line reqs (g_policy_registry k)"
  shows "from_command_line reqs reg \<and> fid (reg ! i) \<in> {f, take 127 f}"
  using assms find_policy_from_Some [of 0 "g_policy_registry k" f]
  by (auto simp: from_command_line_def new_entry_def MAX_FID_LEN_def find_policy_def elim!: entry_for_cases)

lemma bind_command_line:
  assumes "bind_label_to_fid k f l = (r, k')" "from_command_line reqs (g_policy_registry k)" "(f, l) \<in> set reqs" "wf_registry k"
  shows "from_command_line reqs (g_policy_registry k')"
  using assms(1)
proof (cases rule: bind_cases)
  case (new i reg)
  note e = entry_for_command_line [OF new(2) assms(2)]
  have i: "i < length reg" by (rule entry_for_index [OF new(2)])
  have f: "fid (reg ! i) = take 127 f"
  proof (cases "fid (reg ! i) = f")
    case True
    have "length (fid (reg ! i)) < 128"
      using new(2) assms(4) by (auto simp: wf_registry_def wf_entry_def new_entry_def kms_consts elim!: entry_for_cases
          dest: find_policy_from_Some [of 0 "g_policy_registry k" f, folded find_policy_def])
    with True show ?thesis by simp
  qed (use e in simp)
  have "from_command_line reqs (reg[i := (reg ! i)\<lparr>bound_labels := bound_labels (reg ! i) @ [take 64 l]\<rparr>])"
    using e i f assms(3) unfolding from_command_line_def
    by (auto dest!: set_update_subset_insert [THEN subsetD]) (fastforce dest: nth_mem)+
  with new(5) show ?thesis by (simp add: LABEL_LEN_def)
qed (use assms(2) entry_for_command_line [OF _ assms(2)] in auto)

lemma bind_all_command_line:
  "bind_all ok i k rs = Some k' \<Longrightarrow> wf_registry k \<Longrightarrow> set rs \<subseteq> set reqs \<Longrightarrow> from_command_line reqs (g_policy_registry k) \<Longrightarrow>
   from_command_line reqs (g_policy_registry k') \<and> wf_registry k'"
proof (induction rs arbitrary: i k)
  case (Cons r rs)
  obtain f l where r: "r = (f, l)" by (rule prod.exhaust)
  with Cons.prems obtain k1 where b: "bind_label_to_fid k f l = (0, k1)" and n: "bind_all ok (Suc i) k1 rs = Some k'"
    by (auto simp: ecall_bind_label_to_fid_def split: prod.splits if_splits)
  have "wf_registry k1" by (rule bind_wf [OF Cons.prems(2) b])
  moreover have "from_command_line reqs (g_policy_registry k1)"
    by (rule bind_command_line [OF b Cons.prems(4) _ Cons.prems(2)]) (use Cons.prems(3) r in simp)
  ultimately show ?case using Cons.IH [OF n] Cons.prems(3) by simp
qed simp

lemma start_command_line:
  assumes "kms_start z e ok stale_byte args file = Some (a, blob)"
  shows "from_command_line (bind_requests args) (g_policy_registry (enclave a)) \<and> wf_registry (enclave a)"
    and "g_allowed_mrenclaves a = g_allowed_mrenclaves (load_policy_from_file stale_byte
           \<lparr>g_allowed_mrenclaves = [], g_policy_enabled = False, enclave = kms_boot\<rparr> (file (mrenclave_policy_file args)))"
    and "g_policy_enabled a = g_policy_enabled (load_policy_from_file stale_byte
           \<lparr>g_allowed_mrenclaves = [], g_policy_enabled = False, enclave = kms_boot\<rparr> (file (mrenclave_policy_file args)))"
proof -
  obtain k b where i: "ecall_init_kms z e kms_boot (file (lit ''kms_data.sealed'')) (Some 2048) = (k, b)"
    by (rule prod.exhaust)
  have e: "enclave (load_policy_from_file st \<lparr>g_allowed_mrenclaves = [], g_policy_enabled = False, enclave = kms_boot\<rparr> x) = kms_boot"
    for st x by (simp add: load_policy_from_file_def Let_def split: option.splits)
  with assms i have b: "bind_all ok 1 k (bind_requests args) = Some (enclave a)"
    by (auto simp: kms_start_def Let_def split: if_splits option.splits)
  have "g_policy_registry k = []"
    using i by (auto simp: ecall_init_kms_def kms_boot_def Let_def split: option.splits if_splits)
  then show "from_command_line (bind_requests args) (g_policy_registry (enclave a)) \<and> wf_registry (enclave a)"
    by (intro bind_all_command_line [OF b]) (simp_all add: wf_registry_def from_command_line_def)
qed (use assms in \<open>auto simp: kms_start_def Let_def split: if_splits option.splits prod.splits\<close>)

subsection \<open>From the command line to the reply\<close>

definition kms_refusals :: "bytes set" where
  "kms_refusals = {lit ''DCAP_VERIFY_FAILED'', lit ''POLICY_DENIED'', lit ''ENCLAVE_VERIFY_FAILED'', lit ''BFIBE_KEY_RELEASE_ERROR'',
     lit ''UNSUPPORTED_CRYPTO_PROFILE'', lit ''KEY_GEN_ERROR''}"

text \<open>What the release code answers, if it is no refusal, passed the gates of the enclave.\<close>

lemma reply_releases:
  assumes "fst (reply_for_profile m s e1 e2 h k rq t) \<notin> kms_refusals"
  shows "attested_for s k (rq_fid rq) (rq_public_key rq) \<and> rq_label rq \<in> set (labels_of k (rq_fid rq)) \<and>
    (rq_profile rq = lit ''bfibe-mcl-bls12381'' \<longrightarrow> verify_report_data_binding s k (rq_public_key rq))"
proof (cases "rq_profile rq = lit ''bfibe-mcl-bls12381''")
  case True
  with assms obtain r k' where "ecall_get_bfibe_key_release m s e1 k (Some (rq_fid rq)) (Some (rq_label rq))
      (Some (rq_public_key rq)) (Some (zeros 4096)) BFIBE_MAX_RELEASE_LEN = (Some r, k')"
    by (auto simp: reply_for_profile_def send_bfibe_release_with_timing_def Let_def kms_refusals_def
        split: if_splits option.splits prod.splits)
  then have "release_gates s k (rq_fid rq) (rq_label rq) (rq_public_key rq)" by (rule release_ecall_Some) simp
  then show ?thesis
    using gates_iff [of k "rq_fid rq" s "rq_public_key rq"] by (simp add: release_gates_def is_label_bound_iff)
next
  case False
  with assms obtain d1 d2 where "ecall_derive_keys_batch s e1 e2 k (rq_fid rq) (rq_label rq) (rq_public_key rq) = (0, Some d1, Some d2)"
    by (auto simp: reply_for_profile_def kms_refusals_def split: if_splits option.splits prod.splits)
  then have "derive_label_key_internal s e2 k (rq_fid rq) (rq_label rq) (rq_public_key rq) = Some d2"
    by (auto simp: ecall_derive_keys_batch_def split: if_splits option.splits)
  with False show ?thesis by (auto elim: label_key_Some)
qed

lemma hardware_reply:
  assumes "fst (serve_request m s e1 e2 h False a rq) \<notin> kms_refusals"
  obtains v k where "qv_verify h (rq_quote rq) = Some v" "qv_acceptable v" "432 \<le> length (rq_quote rq)"
    "g_policy_enabled a \<longrightarrow> (\<exists>w \<in> set (g_allowed_mrenclaves a). take 32 w = quote_mrenclave (rq_quote rq))"
    "ecall_verify_quote_for_fid (enclave a) (Some (rq_fid rq)) (Some (rq_quote rq)) = (0, k)"
    "fst (reply_for_profile m s e1 e2 h k rq (mono_ns h 2 - mono_ns h 1)) \<notin> kms_refusals"
proof -
  obtain q k where v: "ecall_verify_quote_for_fid (enclave a) (Some (rq_fid rq)) (Some (rq_quote rq)) = (q, k)"
    by (rule prod.exhaust)
  obtain vr mr where d: "verify_quote_dcap h (rq_quote rq) = (vr, mr)" by (rule prod.exhaust)
  have c: "vr = 0" "check_mrenclave_policy a (the mr)" "ecall_ok h 0" "q = 0"
    "fst (reply_for_profile m s e1 e2 h k rq (mono_ns h 2 - mono_ns h 1)) \<notin> kms_refusals"
    using assms v d by (auto simp: serve_request_def Let_def kms_refusals_def split: if_splits)
  with host_checks [of h "rq_quote rq" mr a] d v that show ?thesis by fastforce
qed

lemma labels_command_line:
  assumes "l \<in> set (labels_of k f)" "from_command_line reqs (g_policy_registry k)" "wf_registry k"
  shows "\<exists>(f0, l0) \<in> set reqs. f = take 127 f0 \<and> l = take 64 l0"
proof -
  obtain en where en: "entry_of k f = Some en" "l \<in> set (bound_labels en)"
    using assms(1) by (cases "entry_of k f") (auto simp: labels_of_entry)
  then have "en \<in> set (g_policy_registry k)"
    using find_policy_from_Some [of 0 "g_policy_registry k" f] by (auto simp: entry_of_def find_policy_def)
  with en entry_of_wf [OF assms(3) en(1)] assms(2) show ?thesis by (auto simp: from_command_line_def)
qed

lemma main_serves:
  assumes "kms_main m s z x sim argv conns = (written, replies, end)" "i < length replies"
  obtains args a0 blob where "kms_command_line argv = Some args"
    "kms_start z (km_env x) (km_ok x) (km_stale x) args (km_file x) = Some (a0, blob)"
    "kms_serve m s sim a0 conns = (replies, end)"
  using assms by (auto simp: kms_main_def Let_def split: option.splits if_splits prod.splits)


text \<open>
  C18: the state of the process while it serves. After any number of clients no FID has a
  registered policy, so that the enclave's check of the measurement never refuses a quote; the labels are
  those of the command line, the master secret and the allow-list those of the start.
\<close>

theorem kms_process_state:
  assumes "kms_main m s z x sim argv conns = (written, replies, KmsWaiting a)"
  shows "\<exists>args a0 blob. kms_command_line argv = Some args \<and>
    kms_start z (km_env x) (km_ok x) (km_stale x) args (km_file x) = Some (a0, blob) \<and>
    (\<forall>f. policy_of (enclave a) f = None) \<and> labels_of (enclave a) = labels_of (enclave a0) \<and>
    g_msk (enclave a) = g_msk (enclave a0) \<and> g_allowed_mrenclaves a = g_allowed_mrenclaves a0 \<and>
    (432 \<le> length q \<longrightarrow> fst (ecall_verify_quote_for_fid (enclave a) (Some f) (Some q)) = 0)"
proof -
  obtain args a0 blob where st: "kms_command_line argv = Some args"
    "kms_start z (km_env x) (km_ok x) (km_stale x) args (km_file x) = Some (a0, blob)"
    "kms_serve m s sim a0 conns = (replies, KmsWaiting a)"
    using assms by (auto simp: kms_main_def write_result_def Let_def split: option.splits if_splits prod.splits)
  note fx = serve_fixed [OF st(3)]
  then have reg: "g_policy_registry (enclave a) = g_policy_registry (enclave a0)" by (simp add: fixed_part_def)
  have c: "from_command_line (bind_requests args) (g_policy_registry (enclave a))" "wf_registry (enclave a)"
    using start_command_line(1) [OF st(2)] reg registry_frame(4) [OF reg] by simp_all
  have p: "policy_of (enclave a) g = None" for g
  proof (cases "entry_of (enclave a) g")
    case (Some en)
    then have "en \<in> set (g_policy_registry (enclave a))"
      using find_policy_from_Some [of 0 "g_policy_registry (enclave a)" g] by (auto simp: entry_of_def find_policy_def)
    with c(1) Some show ?thesis by (simp add: policy_of_entry from_command_line_def)
  qed (simp add: policy_of_entry)
  obtain r k where v: "ecall_verify_quote_for_fid (enclave a) (Some f) (Some q) = (r, k)" by (rule prod.exhaust)
  have "432 \<le> length q \<longrightarrow> r = 0" using verify_quote_effect [OF v c(2)] p by simp
  with v p fx st(1,2) registry_frame(3) [OF reg] show ?thesis
    by (intro exI [of _ args] exI [of _ a0] exI [of _ blob]) (auto simp: fixed_part_def fun_eq_iff)
qed


subsection \<open>A server and its clients\<close>

text \<open>
  A server started with one label, clients that send nothing, too little, and a request with the quote of a worker.
\<close>

definition demo_machine :: kms_machine where
  "demo_machine = \<lparr>km_created = True, km_env = toy_env, km_ok = \<lambda>_. True, km_stale = \<lambda>_. 0, km_file = \<lambda>_. None,
     km_writable = \<lambda>_. True, km_cmd_ok = True, km_cmd_env = toy_env, km_listens = True\<rparr>"

definition demo_command :: "bytes list" where
  "demo_command = [lit ''--bind-label'', lit ''--fid'', lit ''f1'', lit ''--label'', lit ''l1'']"

definition client_of :: "net_event list \<Rightarrow> kms_connection" where
  "client_of evs = \<lparr>cn_env1 = toy_env, cn_env2 = toy_env, cn_host = calm_host, cn_events = evs\<rparr>"

lemma demo_command_line: "kms_command_line demo_command = Some (default_args\<lparr>bind_requests := [(lit ''f1'', lit ''l1'')]\<rparr>)"
  by (simp add: kms_command_line_def demo_command_def default_args_def one_shot_count_def lit_def)

definition started_kms :: kms where
  "started_kms = kms_boot\<lparr>g_msk := replicate 12 5, g_msk_initialized := True,
     g_policy_registry := [\<lparr>fid = lit ''f1'', policy_mrenclave = zeros 32, policy_set = False, bound_labels = [lit ''l1'']\<rparr>]\<rparr>"

lemma demo_start:
  "\<exists>blob. kms_start toy_sealing (km_env demo_machine) (km_ok demo_machine) (km_stale demo_machine)
     (default_args\<lparr>bind_requests := [(lit ''f1'', lit ''l1'')]\<rparr>) (km_file demo_machine) =
     Some (\<lparr>g_allowed_mrenclaves = [], g_policy_enabled = False, enclave = started_kms\<rparr>, blob)"
  by (simp add: kms_start_def default_args_def ecall_init_kms_def unseal_msk_def load_policy_from_file_def Let_def
      toy_sealing_def ecall_bind_label_to_fid_def bind_label_to_fid_def entry_for_def find_policy_def kms_boot_def
      kms_consts new_entry_def demo_machine_def started_kms_def lit_def)

lemma demo_main: "kms_main m s toy_sealing demo_machine sim demo_command conns =
   (fst (kms_main m s toy_sealing demo_machine sim demo_command []),
    kms_serve m s sim \<lparr>g_allowed_mrenclaves = [], g_policy_enabled = False, enclave = started_kms\<rparr> conns)"
proof -
  obtain blob where "kms_start toy_sealing (km_env demo_machine) (km_ok demo_machine) (km_stale demo_machine)
     (default_args\<lparr>bind_requests := [(lit ''f1'', lit ''l1'')]\<rparr>) (km_file demo_machine) =
     Some (\<lparr>g_allowed_mrenclaves = [], g_policy_enabled = False, enclave = started_kms\<rparr>, blob)" using demo_start by blast
  then show ?thesis
    by (simp add: kms_main_def demo_command_line default_args_def split: prod.splits)
      (simp add: demo_machine_def)
qed

theorem kms_process_state_witness:
  "\<exists>a. snd (snd (kms_main toy_mcl toy_sgx toy_sealing demo_machine False demo_command [Some (client_of [Eof])])) = KmsWaiting a \<and>
     policy_of (enclave a) (lit ''f1'') = None"
proof -
  have "parse_request calm_host [Eof] = Inl Silent"
    by (simp add: parse_request_def read_sized_def read_u32_def read_exact.simps or_leave_def)
  then have h: "handle_client toy_mcl toy_sgx toy_env toy_env calm_host False a [Eof] = Some ([], False, a)" for a
    by (simp add: handle_client_def)
  let ?a = "\<lparr>g_allowed_mrenclaves = [], g_policy_enabled = False, enclave = started_kms\<rparr>"
  let ?w = "fst (kms_main toy_mcl toy_sgx toy_sealing demo_machine False demo_command [])"
  have r: "kms_main toy_mcl toy_sgx toy_sealing demo_machine False demo_command [Some (client_of [Eof])] = (?w, [([], False)], KmsWaiting ?a)"
    using demo_main [of toy_mcl toy_sgx False "[Some (client_of [Eof])]"] h by (simp add: client_of_def)
  from kms_process_state [OF r, of "[]" "[]"] r show ?thesis by auto
qed


definition good_quote :: bytes where
  "good_quote = zeros 368 @ replicate 64 192 @ zeros 4"

lemma demo_request_parsed:
  "\<exists>r. parse_request calm_host [Chunk (request_bytes good_quote (lit ''f1'') (lit ''l1'') (replicate 64 3) (lit ''eccibe''))] =
    Inr (\<lparr>rq_quote = good_quote, rq_fid = lit ''f1'', rq_label = lit ''l1'', rq_public_key = replicate 64 3, rq_profile = lit ''eccibe''\<rparr>, r)"
proof -
  let ?q = "request_bytes good_quote (lit ''f1'') (lit ''l1'') (replicate 64 3) (lit ''eccibe'')"
  have "?q \<noteq> []" by (simp add: request_bytes_def sized_def le32_def)
  then have st: "stream [Chunk ?q] = ?q @ []" by simp
  have v: "valid_fields good_quote (lit ''f1'') (lit ''l1'') (replicate 64 3) (lit ''eccibe'')"
    by (simp add: valid_fields_def within_def kms_app_consts good_quote_def)
  have c: "cstr (lit ''f1'') = lit ''f1''" "cstr (lit ''l1'') = lit ''l1''" "cstr (lit ''eccibe'') = lit ''eccibe''"
    by (simp_all add: cstr_def lit_def)
  from parse_request_accepts [OF calm_host_simps(1) st v] c show ?thesis by auto
qed

definition attested_kms :: kms where
  "attested_kms = started_kms\<lparr>g_ra_verified := True, g_verified_mrenclave := zeros 32, g_verified_fid := lit ''f1'',
     g_verified_report_data := replicate 64 192\<rparr>"

lemma demo_attested: "ecall_verify_quote_for_fid started_kms (Some (lit ''f1'')) (Some good_quote) = (0, attested_kms)"
  by (simp add: ecall_verify_quote_for_fid_def good_quote_def started_kms_def attested_kms_def kms_boot_def reset_ra_def find_policy_def
      kms_consts slice_def Let_def zeros_def lit_def)

lemma demo_keys: "\<exists>d l. ecall_derive_keys_batch toy_sgx toy_env toy_env attested_kms (lit ''f1'') (lit ''l1'') (replicate 64 3) = (0, Some d, Some l) \<and> 64 \<le> length d"
  by (simp add: ecall_derive_keys_batch_def ecall_get_key_def derive_label_key_internal_def verify_ra_for_fid_def find_policy_def
      attested_kms_def started_kms_def kms_boot_def verify_report_data_binding_def memcmp_eq_def sum_list_replicate
      derive_key_pair_def wrap_for_worker_def Let_def is_label_bound_to_fid_def DEFAULT_FID_def lit_def)


end
