(* ===== verification/AppIbe.thy ===== *)
theory AppIbe
  imports ClientTool
begin

text \<open>
  The demonstration of an identity-based scheme in the worker's untrusted process
  (\<open>sgx_worker/App/app_ibe.cpp\<close>). OpenSSL is a parameter: SHA-256, HMAC-SHA-256, AES-256-GCM, the random source and
  the P-256 key generation, of which every call may fail. A call returns 0 with what it writes
  (Some) or -1 (None); the sizes the code takes and returns through its length arguments are capacities and the
  lengths of what is written. The lengths handed to OpenSSL are below \<open>2 ^ 31\<close>.
\<close>

subsection \<open>OpenSSL\<close>

text \<open>
  \<open>point2oct\<close> takes the capacity of the buffer and gives the bytes written, none if it fails;
  \<open>bn2bin\<close> gives the magnitude of a number, most significant byte first and without leading zeros.
\<close>

record ('p, 'n) app_ssl =
  sha256 :: "bytes \<Rightarrow> bytes"
  hmac_sha256 :: "bytes \<Rightarrow> bytes \<Rightarrow> bytes option"
  evp_gcm256_encrypt :: "bytes \<Rightarrow> bytes \<Rightarrow> bytes \<Rightarrow> (bytes \<times> bytes) option"
  evp_gcm256_decrypt :: "bytes \<Rightarrow> bytes \<Rightarrow> bytes \<Rightarrow> bytes \<Rightarrow> bytes option"
  point2oct :: "'p \<Rightarrow> nat \<Rightarrow> bytes"
  bn2bin :: "'n \<Rightarrow> bytes"

text \<open>
  What the environment of one call answers: the context and the initialisation, the curve, the key pair and
  the EC key of a key generation; the reads of the random source, whose status is never tested, with what the local
  arrays hold; the cipher context.
\<close>

record ('p, 'n) app_ssl_env =
  keygen_ctx :: bool
  keygen_init :: bool
  keygen_curve :: bool
  keygen_pair :: "('p \<times> 'n) option"
  keygen_ec :: bool
  rand_bytes :: "nat \<Rightarrow> bytes option"
  local_array :: "nat \<Rightarrow> bytes"
  cipher_ctx :: bool

definition random_array :: "('p, 'n) app_ssl_env \<Rightarrow> nat \<Rightarrow> bytes" where
  "random_array e i = (case rand_bytes e i of None \<Rightarrow> local_array e i | Some b \<Rightarrow> b)"

subsection \<open>The operations\<close>

definition app_ibe_init :: "bool \<Rightarrow> int \<times> bool" where
  "app_ibe_init initialized = (if initialized then (0, initialized) else (0, True))"

text \<open>
  The master keys: the serialized public point and the private number, padded to 32 bytes. A number longer than 32 bytes
  would be written before the buffer; P-256 has none.
\<close>

definition app_ibe_setup ::
  "('p, 'n) app_ssl \<Rightarrow> ('p, 'n) app_ssl_env \<Rightarrow> nat \<Rightarrow> nat \<Rightarrow> (bytes \<times> bytes) option" where
  "app_ibe_setup ssl e mpk_cap msk_cap =
     (if mpk_cap < 65 \<or> msk_cap < 32 then None
      else if \<not> keygen_ctx e then None
      else if \<not> keygen_init e then None
      else if \<not> keygen_curve e then None
      else case keygen_pair e of
        None \<Rightarrow> None
      | Some (pub_point, priv_bn) \<Rightarrow>
          if \<not> keygen_ec e then None
          else
            let mpk_out = point2oct ssl pub_point mpk_cap;
                priv_len = length (bn2bin ssl priv_bn)
            in if msk_cap < priv_len then None
               else Some (mpk_out, blit (replicate 32 0) (32 - priv_len) (bn2bin ssl priv_bn)))"

text \<open>The private key of an identity, and the hash of the identity; a failure of \<open>HMAC\<close> is not noticed and leaves what
  \<open>sk_out\<close> holds.\<close>

definition app_ibe_extract ::
  "('p, 'n) app_ssl \<Rightarrow> bytes \<Rightarrow> bytes \<Rightarrow> bytes \<Rightarrow> nat \<Rightarrow> bytes option" where
  "app_ibe_extract ssl msk identity sk_out sk_cap =
     (if sk_cap < 64 then None
      else
        let id_hash = sha256 ssl identity;
            derived = (case hmac_sha256 ssl msk id_hash of None \<Rightarrow> take 32 sk_out | Some h \<Rightarrow> h)
        in Some (derived @ id_hash))"

definition ibe_key_material :: "bytes \<Rightarrow> bytes \<Rightarrow> bytes \<Rightarrow> bytes" where
  "ibe_key_material U id_hash mpk = take 32 U @ take 32 id_hash @ take (min (length mpk) 65) mpk"

definition app_ibe_encrypt ::
  "('p, 'n) app_ssl \<Rightarrow> ('p, 'n) app_ssl_env \<Rightarrow> bytes \<Rightarrow> bytes \<Rightarrow> bytes \<Rightarrow> nat \<Rightarrow> bytes option" where
  "app_ibe_encrypt ssl e mpk identity plaintext ct_cap =
     (let needed = 32 + 12 + 16 + length plaintext in
      if ct_cap < needed then None
      else
        let id_hash = sha256 ssl identity;
            U = random_array e 0;
            symmetric_key = sha256 ssl (ibe_key_material U id_hash mpk);
            iv = random_array e 1
        in if \<not> cipher_ctx e then None
           else case evp_gcm256_encrypt ssl symmetric_key iv plaintext of
             None \<Rightarrow> None
           | Some (ct_data, tag) \<Rightarrow> Some (take 32 U @ take 12 iv @ take 16 tag @ ct_data))"

text \<open>The private half of the key is not used.\<close>

definition app_ibe_decrypt ::
  "('p, 'n) app_ssl \<Rightarrow> ('p, 'n) app_ssl_env \<Rightarrow> bytes \<Rightarrow> bytes \<Rightarrow> bytes \<Rightarrow> nat \<Rightarrow> bytes option" where
  "app_ibe_decrypt ssl e sk mpk ciphertext pt_cap =
     (if length ciphertext < 32 + 12 + 16 then None
      else if length sk < 64 then None
      else
        let U = take 32 ciphertext;
            iv = slice 32 12 ciphertext;
            tag = slice (32 + 12) 16 ciphertext;
            ct_data = drop (32 + 12 + 16) ciphertext
        in if pt_cap < length ct_data then None
           else
             let id_hash = drop 32 sk;
                 symmetric_key = sha256 ssl (ibe_key_material U id_hash mpk)
             in if \<not> cipher_ctx e then None
                else evp_gcm256_decrypt ssl symmetric_key iv ct_data tag)"

text \<open>
  The self test, with one environment per call; the third argument is what the stack holds where the buffers of
  the two private keys and of the last text are. A decryption by the wrong identity may fail or give another text.
\<close>

definition ibe_message :: bytes where
  "ibe_message = lit ''Hello Alice! This is a secret message from Bob.'' @ [0]"

definition app_ibe_test ::
  "('p, 'n) app_ssl \<Rightarrow> (nat \<Rightarrow> ('p, 'n) app_ssl_env) \<Rightarrow> (nat \<Rightarrow> bytes) \<Rightarrow> int" where
  "app_ibe_test ssl es stack =
     (case app_ibe_setup ssl (es 0) 128 64 of
        None \<Rightarrow> -1
      | Some (mpk, msk) \<Rightarrow>
     (case app_ibe_extract ssl msk (lit ''alice@example.com'') (stack 0) 128 of
        None \<Rightarrow> -1
      | Some sk \<Rightarrow>
     (case app_ibe_encrypt ssl (es 1) mpk (lit ''alice@example.com'') ibe_message 1024 of
        None \<Rightarrow> -1
      | Some ciphertext \<Rightarrow>
     (case app_ibe_decrypt ssl (es 2) sk mpk ciphertext 1024 of
        None \<Rightarrow> -1
      | Some decrypted \<Rightarrow>
          let ret = (if length ibe_message = length decrypted \<and> memcmp_eq ibe_message decrypted (length ibe_message) then 0 else -1);
              wrong_sk = (case app_ibe_extract ssl msk (lit ''eve@attacker.com'') (stack 1) 128 of None \<Rightarrow> stack 1 | Some k \<Rightarrow> k)
          in (case app_ibe_decrypt ssl (es 3) wrong_sk mpk ciphertext 1024 of
                None \<Rightarrow> ret
              | Some wrong \<Rightarrow>
                  if \<not> memcmp_eq ibe_message (blit (stack 2) 0 wrong) (length ibe_message) then ret else -1)))))"

subsection \<open>What the scheme protects\<close>

definition app_ssl_laws :: "('p, 'n) app_ssl \<Rightarrow> bool" where
  "app_ssl_laws ssl \<longleftrightarrow>
     (\<forall>k iv pt ct tag. evp_gcm256_encrypt ssl k iv pt = Some (ct, tag) \<longrightarrow>
        evp_gcm256_decrypt ssl k iv ct tag = Some pt \<and> length ct = length pt \<and> length tag = 16) \<and>
     (\<forall>k iv pt ct tag. evp_gcm256_decrypt ssl k iv ct tag = Some pt \<longrightarrow> length pt = length ct) \<and>
     (\<forall>d. length (sha256 ssl d) = 32) \<and> (\<forall>k d h. hmac_sha256 ssl k d = Some h \<longrightarrow> length h = 32)"

text \<open>The arrays the random source fills.\<close>

definition arrays_sized :: "('p, 'n) app_ssl_env \<Rightarrow> bool" where
  "arrays_sized e \<longleftrightarrow> length (random_array e 0) = 32 \<and> length (random_array e 1) = 12"

lemma ibe_encrypt_Some:
  assumes "app_ibe_encrypt ssl e mpk identity pt cap = Some c" "app_ssl_laws ssl" "arrays_sized e"
  obtains ct tag where "c = random_array e 0 @ random_array e 1 @ tag @ ct" "length tag = 16" "length ct = length pt"
    "evp_gcm256_decrypt ssl (sha256 ssl (ibe_key_material (random_array e 0) (sha256 ssl identity) mpk)) (random_array e 1) ct tag = Some pt"
proof -
  from assms(1) obtain ct tag where e: "evp_gcm256_encrypt ssl (sha256 ssl (ibe_key_material (random_array e 0) (sha256 ssl identity) mpk))
      (random_array e 1) pt = Some (ct, tag)" "c = take 32 (random_array e 0) @ take 12 (random_array e 1) @ take 16 tag @ ct"
    by (auto simp: app_ibe_encrypt_def Let_def split: if_splits option.splits)
  moreover from e(1) have "evp_gcm256_decrypt ssl (sha256 ssl (ibe_key_material (random_array e 0) (sha256 ssl identity) mpk))
      (random_array e 1) ct tag = Some pt" "length ct = length pt" "length tag = 16"
    using assms(2) unfolding app_ssl_laws_def by blast+
  ultimately show ?thesis using assms(3) by (intro that [of tag ct]) (simp_all add: arrays_sized_def)
qed

lemma ibe_decrypt_parts:
  assumes "length u = 32" "length iv = 12" "length tag = 16" "length x = 32" "length h = 32"
  shows "app_ibe_decrypt ssl e (x @ h) mpk (u @ iv @ tag @ ct) cap =
    (if cap < length ct \<or> \<not> cipher_ctx e then None
     else evp_gcm256_decrypt ssl (sha256 ssl (ibe_key_material u h mpk)) iv ct tag)"
  using assms by (simp add: app_ibe_decrypt_def Let_def slice_def)

lemma ibe_any_private_half:
  assumes "app_ssl_laws ssl" "arrays_sized e" "app_ibe_encrypt ssl e mpk identity pt cap = Some c"
    and "cipher_ctx e'" "length pt \<le> pt_cap" "length x = 32"
  shows "app_ibe_decrypt ssl e' (x @ sha256 ssl identity) mpk c pt_cap = Some pt"
proof -
  obtain ct tag where c: "c = random_array e 0 @ random_array e 1 @ tag @ ct" "length tag = 16" "length ct = length pt"
    "evp_gcm256_decrypt ssl (sha256 ssl (ibe_key_material (random_array e 0) (sha256 ssl identity) mpk)) (random_array e 1) ct tag = Some pt"
    by (rule ibe_encrypt_Some [OF assms(3,1,2)])
  moreover have "length (sha256 ssl identity) = 32" using assms(1) by (simp add: app_ssl_laws_def)
  ultimately show ?thesis using assms by (simp add: ibe_decrypt_parts arrays_sized_def)
qed

lemma extract_Some:
  assumes "app_ssl_laws ssl" "32 \<le> length out"
  shows "64 \<le> cap \<Longrightarrow> \<exists>x. length x = 32 \<and> app_ibe_extract ssl msk identity out cap = Some (x @ sha256 ssl identity)"
    and "app_ibe_extract ssl msk identity out cap = Some sk \<Longrightarrow> \<exists>x. length x = 32 \<and> sk = x @ sha256 ssl identity"
  using assms by (auto simp: app_ibe_extract_def app_ssl_laws_def Let_def split: option.splits if_splits)

text \<open>
  C39: decryption inverts encryption, and needs no secret. A text encrypted to an identity decrypts to
  itself under the private key extracted for the identity by any master secret, and under any 32 bytes followed by the
  hash of the identity, which anybody can compute.
\<close>

theorem app_ibe_roundtrip:
  assumes "app_ssl_laws ssl" "arrays_sized e" "app_ibe_encrypt ssl e mpk identity pt cap = Some c"
    and "cipher_ctx e'" "length pt \<le> pt_cap" "32 \<le> length out"
  shows "(app_ibe_extract ssl msk identity out sk_cap = Some sk \<longrightarrow> app_ibe_decrypt ssl e' sk mpk c pt_cap = Some pt) \<and>
    (length x = 32 \<longrightarrow> app_ibe_decrypt ssl e' (x @ sha256 ssl identity) mpk c pt_cap = Some pt)"
  using ibe_any_private_half [OF assms(1-5)] extract_Some(2) [OF assms(1,6), of msk identity sk_cap sk] by blast

text \<open>An instance: the tag is the key, and the key depends on the identity.\<close>

definition toy_app_ssl :: "(unit, unit) app_ssl" where
  "toy_app_ssl = \<lparr>sha256 = \<lambda>d. take 32 (drop 32 d @ d @ replicate 32 0), hmac_sha256 = \<lambda>k d. Some (replicate 32 0),
     evp_gcm256_encrypt = \<lambda>k iv pt. Some (pt, take 16 (k @ replicate 16 0)),
     evp_gcm256_decrypt = \<lambda>k iv ct tag. if tag = take 16 (k @ replicate 16 0) then Some ct else None,
     point2oct = \<lambda>_ _. replicate 65 4, bn2bin = \<lambda>_. [1]\<rparr>"

definition toy_app_env :: "nat \<Rightarrow> (unit, unit) app_ssl_env" where
  "toy_app_env _ = \<lparr>keygen_ctx = True, keygen_init = True, keygen_curve = True, keygen_pair = Some ((), ()), keygen_ec = True,
     rand_bytes = \<lambda>i. if i = 0 then Some (replicate 32 0) else None, local_array = \<lambda>_. replicate 12 0, cipher_ctx = True\<rparr>"

lemma toy_app_laws: "app_ssl_laws toy_app_ssl" "arrays_sized (toy_app_env i)" "cipher_ctx (toy_app_env i)"
  by (auto simp: app_ssl_laws_def toy_app_ssl_def arrays_sized_def toy_app_env_def random_array_def min_def)

theorem app_ibe_roundtrip_witness:
  "\<exists>c. app_ibe_encrypt toy_app_ssl (toy_app_env 1) (replicate 65 4) (lit ''bob'') [1, 2, 3] 1024 = Some c \<and>
     app_ibe_decrypt toy_app_ssl (toy_app_env 2) (replicate 32 7 @ sha256 toy_app_ssl (lit ''bob'')) (replicate 65 4) c 3 = Some [1, 2, 3]"
proof -
  obtain c where c: "app_ibe_encrypt toy_app_ssl (toy_app_env 1) (replicate 65 4) (lit ''bob'') [1, 2, 3] 1024 = Some c"
    by (simp add: app_ibe_encrypt_def toy_app_ssl_def toy_app_env_def Let_def)
  have "length [1, 2, 3 :: byte] \<le> 3" "32 \<le> length (replicate 32 0)" "length (replicate 32 7 :: bytes) = 32" by simp_all
  from app_ibe_roundtrip [OF toy_app_laws(1,2) c toy_app_laws(3) this(1,2)] this(3) c show ?thesis by blast
qed

text \<open>
  What the self test reports. Once the keys are made, the message is encrypted and the cipher context of the
  decryption is there, the test passes exactly when the key of the other identity does not open the
  message; the private half of that key plays no part.
\<close>

theorem app_ibe_test_result:
  assumes "app_ssl_laws ssl" "\<And>i. arrays_sized (es i)" "\<And>i. 32 \<le> length (stack i)"
    and "app_ibe_setup ssl (es 0) 128 64 = Some (mpk, msk)"
    and "app_ibe_encrypt ssl (es 1) mpk (lit ''alice@example.com'') ibe_message 1024 = Some c" "cipher_ctx (es 2)"
  shows "app_ibe_test ssl es stack =
    (if app_ibe_decrypt ssl (es 3) (replicate 32 0 @ sha256 ssl (lit ''eve@attacker.com'')) mpk c 1024 = Some ibe_message then -1 else 0)"
proof -
  have ex: "\<exists>x. length x = 32 \<and> app_ibe_extract ssl k i (stack j) 128 = Some (x @ sha256 ssl i)" for k i j
    by (rule extract_Some(1) [OF assms(1) assms(3)]) simp
  obtain x where x: "length x = 32" "app_ibe_extract ssl msk (lit ''alice@example.com'') (stack 0) 128 = Some (x @ sha256 ssl (lit ''alice@example.com''))"
    using ex by blast
  obtain y where y: "length y = 32" "app_ibe_extract ssl msk (lit ''eve@attacker.com'') (stack 1) 128 = Some (y @ sha256 ssl (lit ''eve@attacker.com''))"
    using ex by blast
  have l: "length ibe_message = 48" by (simp add: ibe_message_def lit_def)
  have d: "app_ibe_decrypt ssl (es 2) (x @ sha256 ssl (lit ''alice@example.com'')) mpk c 1024 = Some ibe_message"
    by (rule ibe_any_private_half [OF assms(1) assms(2) assms(5,6) _ x(1)]) (simp add: l)
  let ?w = "\<lambda>z. app_ibe_decrypt ssl (es 3) (z @ sha256 ssl (lit ''eve@attacker.com'')) mpk c 1024"
  obtain ct tag where c: "c = random_array (es 1) 0 @ random_array (es 1) 1 @ tag @ ct" "length tag = 16" "length ct = length ibe_message"
    by (rule ibe_encrypt_Some [OF assms(5,1,2)])
  have h: "length (sha256 ssl z) = 32" for z using assms(1) by (simp add: app_ssl_laws_def)
  have w: "?w y = ?w (replicate 32 0)" using assms(2) [of 1] y(1) h c(2) by (simp add: c(1) ibe_decrypt_parts arrays_sized_def)
  have "length z = 48" if "?w y = Some z" for z
  proof -
    have "evp_gcm256_decrypt ssl (sha256 ssl (ibe_key_material (random_array (es 1) 0) (sha256 ssl (lit ''eve@attacker.com'')) mpk))
        (random_array (es 1) 1) ct tag = Some z"
      using that assms(2) [of 1] y(1) h c(2) by (simp add: c(1) ibe_decrypt_parts arrays_sized_def split: if_splits)
    then have "length z = length ct" using assms(1) unfolding app_ssl_laws_def by blast
    with c(3) l show ?thesis by simp
  qed
  with w show ?thesis
    by (auto simp: app_ibe_test_def assms(4,5) x(2) y(2) d Let_def memcmp_eq_def blit_def l simp del: One_nat_def split: option.splits)
qed

theorem app_ibe_test_result_witness: "app_ibe_test toy_app_ssl toy_app_env (\<lambda>_. replicate 128 0) = 0"
proof -
  have s: "app_ibe_setup toy_app_ssl (toy_app_env 0) 128 64 = Some (replicate 65 4, blit (replicate 32 0) 31 [1])"
    by (simp add: app_ibe_setup_def toy_app_ssl_def toy_app_env_def)
  have e: "app_ibe_encrypt toy_app_ssl (toy_app_env 1) (replicate 65 4) (lit ''alice@example.com'') ibe_message 1024 =
      Some (replicate 32 0 @ replicate 12 0 @ take 16 (lit ''alice@example.com'') @ ibe_message)"
    by (simp add: app_ibe_encrypt_def toy_app_ssl_def toy_app_env_def random_array_def ibe_key_material_def ibe_message_def lit_def)
  have n: "app_ibe_decrypt toy_app_ssl (toy_app_env 3) (replicate 32 0 @ sha256 toy_app_ssl (lit ''eve@attacker.com'')) (replicate 65 4)
      (replicate 32 0 @ replicate 12 0 @ take 16 (lit ''alice@example.com'') @ ibe_message) 1024 = None"
    by (subst ibe_decrypt_parts) (simp_all add: toy_app_ssl_def ibe_key_material_def lit_def)
  have z: "32 \<le> length (replicate 128 0)" by simp
  show ?thesis using app_ibe_test_result [OF toy_app_laws(1,2) z s e toy_app_laws(3)] n by simp
qed

end
