(* ===== verification/WorkerAad.thy ===== *)
theory WorkerAad
  imports WorkerBfibe
begin

text \<open>
  The derived values of an encrypted invocation: the request identifier, the authenticated data of
  package, request and output, the function label and its local key, and the encodings of what
  the enclave hands to the program and prints. \<open>allocated\<close> is the result of the allocation the
  function makes.
\<close>

subsection \<open>The canonical FID\<close>

definition hex_nibble :: "byte \<Rightarrow> byte option" where
  "hex_nibble c =
     (if 48 \<le> c \<and> c \<le> 57 then Some (c - 48)
      else if 97 \<le> c \<and> c \<le> 102 then Some (10 + (c - 97))
      else if 65 \<le> c \<and> c \<le> 70 then Some (10 + (c - 65))
      else None)"

fun decode_nibbles :: "bytes \<Rightarrow> bytes option" where
  "decode_nibbles (hi # lo # cs) =
     do { h \<leftarrow> hex_nibble hi; l \<leftarrow> hex_nibble lo; r \<leftarrow> decode_nibbles cs;
          Some ((push_bit 4 h OR l) # r) }"
| "decode_nibbles cs = Some []"

definition fid_to_bytes_or_str :: "bytes \<Rightarrow> bytes" where
  "fid_to_bytes_or_str f =
     (let s = take 128 f in
      if length s = 64 then (case decode_nibbles s of Some b \<Rightarrow> b | None \<Rightarrow> s) else s)"

definition compute_rid_from_fid_and_c_req :: "sgx \<Rightarrow> bool \<Rightarrow> bytes \<Rightarrow> bytes \<Rightarrow> bytes option" where
  "compute_rid_from_fid_and_c_req s allocated f c_req =
     (if \<not> allocated then None else sha256_msg s (fid_to_bytes_or_str f @ c_req))"

subsection \<open>Labels\<close>

definition sha256_bytes :: "sgx \<Rightarrow> bytes \<Rightarrow> bytes option" where
  "sha256_bytes s data = sha256_msg s data"

definition compute_label_from_cfunc :: "sgx \<Rightarrow> bytes \<Rightarrow> bytes option" where
  "compute_label_from_cfunc s c_func = sha256_msg s c_func"

definition DKLABEL :: bytes where "DKLABEL = lit ''DKLABEL''"

definition derive_dklabelfunc :: "sgx \<Rightarrow> bool \<Rightarrow> bool \<Rightarrow> bytes \<Rightarrow> bytes \<Rightarrow> bytes option" where
  "derive_dklabelfunc s allocated1 allocated2 dkf label32 =
     do { tmp \<leftarrow> sha256_concat s allocated1 dkf label32; sha256_concat s allocated2 tmp DKLABEL }"

subsection \<open>Authenticated data\<close>

definition PKG :: bytes where "PKG = lit ''PKG''"
definition REQ :: bytes where "REQ = lit ''REQ''"
definition OUT :: bytes where "OUT = lit ''OUT''"

definition build_aad_pkg :: "bool \<Rightarrow> bytes \<Rightarrow> bytes option" where
  "build_aad_pkg allocated f = (if allocated then Some (PKG @ fid_to_bytes_or_str f) else None)"

definition build_aad_req :: "sgx \<Rightarrow> bool \<Rightarrow> bytes \<Rightarrow> bytes \<Rightarrow> bytes \<Rightarrow> bytes option" where
  "build_aad_req s allocated f nonce16 pkU65 =
     do { h_pkU \<leftarrow> sha256_bytes s (take 65 pkU65);
          if allocated then Some (REQ @ fid_to_bytes_or_str f @ take 16 nonce16 @ h_pkU) else None }"

definition build_aad_out :: "sgx \<Rightarrow> bool \<Rightarrow> bytes \<Rightarrow> bytes \<Rightarrow> bytes \<Rightarrow> bytes option" where
  "build_aad_out s allocated f rid32 pkU65 =
     do { h_pkU \<leftarrow> sha256_bytes s (take 65 pkU65);
          if allocated then Some (OUT @ fid_to_bytes_or_str f @ take 32 rid32 @ h_pkU) else None }"

subsection \<open>Encodings\<close>

definition base64_table :: bytes where
  "base64_table = lit ''ABCDEFGHIJKLMNOPQRSTUVWXYZabcdefghijklmnopqrstuvwxyz0123456789+/''"

definition base64_quad :: "byte \<Rightarrow> byte \<Rightarrow> byte \<Rightarrow> bytes" where
  "base64_quad a b c =
     (let triple = push_bit 16 (ucast a) OR push_bit 8 (ucast b) OR ucast c :: u32
      in map (\<lambda>n. base64_table ! unat (drop_bit n triple AND 0x3F)) [18, 12, 6, 0])"

fun base64_loop :: "bytes \<Rightarrow> bytes" where
  "base64_loop [] = []"
| "base64_loop [a] = base64_quad a 0 0"
| "base64_loop [a, b] = base64_quad a b 0"
| "base64_loop (a # b # c # r) = base64_quad a b c @ base64_loop r"

definition base64_encode :: "bool \<Rightarrow> bytes \<Rightarrow> bytes option" where
  "base64_encode allocated data =
     (if data = [] \<or> \<not> allocated then None
      else let out = base64_loop data; n = length out in
        Some (if length data mod 3 = 1 then out[n - 2 := 61, n - 1 := 61]
              else if length data mod 3 = 2 then out[n - 1 := 61]
              else out))"

definition empty_sha256 :: bytes where
  "empty_sha256 = lit ''e3b0c44298fc1c149afbf4c8996fb92427ae41e4649b934ca495991b7852b855''"

text \<open>The data pointer is None for NULL.\<close>

definition sha256_hex :: "sgx \<Rightarrow> bytes option \<Rightarrow> bytes option" where
  "sha256_hex s data =
     (case data of
        None \<Rightarrow> Some empty_sha256
      | Some d \<Rightarrow> if d = [] then Some empty_sha256
                 else do { hash \<leftarrow> sha256_msg s d; Some (hex_string hash) })"

fun dec_string :: "nat \<Rightarrow> bytes" where
  "dec_string n = (if n < 10 then [48 + of_nat n] else dec_string (n div 10) @ [48 + of_nat (n mod 10)])"

declare dec_string.simps [simp del]

subsection \<open>Printing\<close>

text \<open>
  While a program runs, what it prints is captured; else it goes to the host. An output that does
  not fit sets the overflow flag and is dropped.
\<close>

definition enclave_print :: "worker \<Rightarrow> bytes \<Rightarrow> worker" where
  "enclave_print w message =
     (if capture_output w then
        let len = length message in
        (case global_output_buffer w of
           Some buf \<Rightarrow>
             if unat (global_output_pos w) + len \<le> unat (global_output_capacity w)
             then w\<lparr>global_output_buffer := Some (blit buf (unat (global_output_pos w)) message),
                    global_output_pos := global_output_pos w + of_nat len\<rparr>
             else w\<lparr>capture_output_overflow := True\<rparr>
         | None \<Rightarrow> w\<lparr>capture_output_overflow := True\<rparr>)
      else w\<lparr>host_log := host_log w @ [message]\<rparr>)"

definition print_hex_prefixed :: "worker \<Rightarrow> bytes \<Rightarrow> bytes \<Rightarrow> worker" where
  "print_hex_prefixed w prefix data =
     enclave_print (foldl (\<lambda>w b. enclave_print w (hex_byte b)) (enclave_print w prefix) data) [10]"

definition trace_e3_payload_consumed :: "sgx \<Rightarrow> worker \<Rightarrow> bytes option \<Rightarrow> worker" where
  "trace_e3_payload_consumed s w data =
     enclave_print w
       (case sha256_hex s data of
          Some h \<Rightarrow> lit ''ACSC_TRACE_E3_PAYLOAD:payload_bytes_consumed='' @
                     dec_string (case data of None \<Rightarrow> 0 | Some d \<Rightarrow> length d) @ lit '' payload_sha256='' @ h @ [10]
        | None \<Rightarrow> lit ''ACSC_TRACE_E3_PAYLOAD:payload_bytes_consumed= payload_sha256='' @ [10])"

end
