(* ===== verification/WorkerRun.thy ===== *)
theory WorkerRun
  imports WorkerKeys WorkerAad
begin

text \<open>
  The invocation ECALLs of the worker: output capture, the WASM runner, KEM encapsulation and the
  two encrypted invocations. The WASM runtime is a parameter: whether it loads, instantiates and
  prepares a program, and the calls of the program into the native functions the enclave offers.
  The local key arrays of the two ECALLs are fields of the run state, so that what they hold at
  the end can be stated. The shared phases of the two ECALLs are one definition each; a
  \<open>goto cleanup\<close> is None.
\<close>

subsection \<open>Parameters\<close>

datatype native_call = TscBegin u64 | TscEnd u64 | SetOutput "bytes option" | Print bytes

text \<open>\<open>wasm_main code arg capacity\<close> gives the calls of the program and whether \<open>main\<close> succeeded.\<close>

record runtime =
  wasm_load :: "bytes \<Rightarrow> bool"
  wasm_instantiate :: "bytes \<Rightarrow> bool"
  wasm_exec_env :: "bytes \<Rightarrow> bool"
  wasm_main :: "bytes \<Rightarrow> bytes option \<Rightarrow> u32 \<Rightarrow> native_call list \<times> bool"

text \<open>One environment per cryptographic call of an invocation, and the readings of the cycle counter.\<close>

record run_env =
  env_main :: env
  env_req :: env
  env_func :: env
  env_kem :: env
  tsc :: "nat \<Rightarrow> u64"

record invocation =
  encrypted_wasm :: bytes
  encrypted_input :: bytes
  c_k_func :: "bytes option"
  c_key :: "bytes option"
  nonce :: bytes
  pkU :: bytes
  max_out_size :: u32
  wasm_iv :: bytes
  wasm_mac :: bytes
  input_iv :: bytes
  input_mac :: bytes

subsection \<open>The invocation trace\<close>

record c1_asyncs_invoke_trace =
  tr_version :: u32
  tr_flags :: u32
  tr_rid :: bytes
  payload_bytes_consumed :: u32
  payload_sha256 :: bytes
  function_cache_bytes :: u32
  input_key_decap_begin_cycles :: u64
  input_key_decap_end_cycles :: u64
  input_aes_gcm_begin_cycles :: u64
  input_aes_gcm_end_cycles :: u64
  workload_begin_cycles :: u64
  workload_end_cycles :: u64
  output_kem_begin_cycles :: u64
  output_kem_end_cycles :: u64
  output_aes_gcm_begin_cycles :: u64
  output_aes_gcm_end_cycles :: u64
  input_key_decap_cycles :: u64
  input_aes_gcm_cycles :: u64
  workload_core_cycles :: u64
  output_kem_cycles :: u64
  output_aes_gcm_cycles :: u64
  function_key_decap_begin_cycles :: u64
  function_key_decap_end_cycles :: u64
  function_key_decap_cycles :: u64
  cfunc_aes_gcm_begin_cycles :: u64
  cfunc_aes_gcm_end_cycles :: u64
  cfunc_aes_gcm_cycles :: u64
  wasm_load_begin_cycles :: u64
  wasm_load_end_cycles :: u64
  wasm_load_cycles :: u64
  wasm_instantiate_begin_cycles :: u64
  wasm_instantiate_end_cycles :: u64
  wasm_instantiate_cycles :: u64

definition zero_trace :: c1_asyncs_invoke_trace where
  "zero_trace = \<lparr>tr_version = 0, tr_flags = 0, tr_rid = zero_bytes 32, payload_bytes_consumed = 0,
     payload_sha256 = zero_bytes 32, function_cache_bytes = 0, input_key_decap_begin_cycles = 0,
     input_key_decap_end_cycles = 0, input_aes_gcm_begin_cycles = 0, input_aes_gcm_end_cycles = 0,
     workload_begin_cycles = 0, workload_end_cycles = 0, output_kem_begin_cycles = 0, output_kem_end_cycles = 0,
     output_aes_gcm_begin_cycles = 0, output_aes_gcm_end_cycles = 0, input_key_decap_cycles = 0,
     input_aes_gcm_cycles = 0, workload_core_cycles = 0, output_kem_cycles = 0, output_aes_gcm_cycles = 0,
     function_key_decap_begin_cycles = 0, function_key_decap_end_cycles = 0, function_key_decap_cycles = 0,
     cfunc_aes_gcm_begin_cycles = 0, cfunc_aes_gcm_end_cycles = 0, cfunc_aes_gcm_cycles = 0,
     wasm_load_begin_cycles = 0, wasm_load_end_cycles = 0, wasm_load_cycles = 0,
     wasm_instantiate_begin_cycles = 0, wasm_instantiate_end_cycles = 0, wasm_instantiate_cycles = 0\<rparr>"

text \<open>The bit of each flag.\<close>

definition C1_TRACE_RID_VALID :: nat where "C1_TRACE_RID_VALID = 0"
definition C1_TRACE_PAYLOAD_VALID :: nat where "C1_TRACE_PAYLOAD_VALID = 1"
definition C1_TRACE_FUNCTION_CACHE_HIT :: nat where "C1_TRACE_FUNCTION_CACHE_HIT = 2"
definition C1_TRACE_CFUNC_DECRYPT_EXECUTED :: nat where "C1_TRACE_CFUNC_DECRYPT_EXECUTED = 3"
definition C1_TRACE_WORKLOAD_CYCLES_VALID :: nat where "C1_TRACE_WORKLOAD_CYCLES_VALID = 4"
definition C1_TRACE_OUTPUT_KEM_CYCLES_VALID :: nat where "C1_TRACE_OUTPUT_KEM_CYCLES_VALID = 5"
definition C1_TRACE_OUTPUT_AES_GCM_CYCLES_VALID :: nat where "C1_TRACE_OUTPUT_AES_GCM_CYCLES_VALID = 6"
definition C1_TRACE_FUNCTION_CACHE_VALID :: nat where "C1_TRACE_FUNCTION_CACHE_VALID = 7"
definition C1_TRACE_SUCCESS :: nat where "C1_TRACE_SUCCESS = 8"
definition C3_TRACE_INPUT_KEY_CYCLES_VALID :: nat where "C3_TRACE_INPUT_KEY_CYCLES_VALID = 9"
definition C3_TRACE_INPUT_AES_GCM_CYCLES_VALID :: nat where "C3_TRACE_INPUT_AES_GCM_CYCLES_VALID = 10"
definition C2_TRACE_FUNCTION_KEY_CYCLES_VALID :: nat where "C2_TRACE_FUNCTION_KEY_CYCLES_VALID = 11"
definition C2_TRACE_CFUNC_AES_GCM_CYCLES_VALID :: nat where "C2_TRACE_CFUNC_AES_GCM_CYCLES_VALID = 12"
definition C2_TRACE_WASM_LOAD_CYCLES_VALID :: nat where "C2_TRACE_WASM_LOAD_CYCLES_VALID = 13"
definition C2_TRACE_WASM_INSTANTIATE_CYCLES_VALID :: nat where "C2_TRACE_WASM_INSTANTIATE_CYCLES_VALID = 14"

definition set_flag :: "nat \<Rightarrow> c1_asyncs_invoke_trace \<Rightarrow> c1_asyncs_invoke_trace" where
  "set_flag n t = t\<lparr>tr_flags := tr_flags t OR push_bit n 1\<rparr>"

subsection \<open>Output capture and the native functions\<close>

definition ASYNCS_MAX_OUTPUT_CAPACITY_BYTES :: u32 where
  "ASYNCS_MAX_OUTPUT_CAPACITY_BYTES = 1024 * 1024"

definition output_capture_prepare :: "worker \<Rightarrow> bool \<Rightarrow> u32 \<Rightarrow> bool \<times> worker" where
  "output_capture_prepare w allocated capacity =
     (let w1 = output_capture_release w in
      if capacity = 0 \<or> ASYNCS_MAX_OUTPUT_CAPACITY_BYTES < capacity then (False, w1)
      else if \<not> allocated then (False, w1)
      else (True, w1\<lparr>global_output_buffer := Some (zero_bytes (unat capacity + 1)), global_output_capacity := capacity\<rparr>))"

definition c1_workload_tsc_begin :: "worker \<Rightarrow> u64 \<Rightarrow> worker" where
  "c1_workload_tsc_begin w v = w\<lparr>g_workload_tsc := (Some v, snd (g_workload_tsc w))\<rparr>"

definition c1_workload_tsc_end :: "worker \<Rightarrow> u64 \<Rightarrow> worker" where
  "c1_workload_tsc_end w v = w\<lparr>g_workload_tsc := (fst (g_workload_tsc w), Some v)\<rparr>"

definition c1_workload_set_output :: "worker \<Rightarrow> bytes option \<Rightarrow> int \<times> worker" where
  "c1_workload_set_output w data =
     (case (global_output_buffer w, data) of
        (Some buf, Some d) \<Rightarrow>
          if \<not> capture_output w \<or> len32 d = 0 \<or> global_output_capacity w < len32 d
          then (-1, w\<lparr>capture_output_overflow := True\<rparr>)
          else (0, w\<lparr>global_output_buffer := Some (blit buf 0 (d @ [0])), global_output_pos := len32 d\<rparr>)
      | _ \<Rightarrow> (-1, w\<lparr>capture_output_overflow := True\<rparr>))"

definition native :: "worker \<Rightarrow> native_call \<Rightarrow> worker" where
  "native w c =
     (case c of
        TscBegin v \<Rightarrow> c1_workload_tsc_begin w v
      | TscEnd v \<Rightarrow> c1_workload_tsc_end w v
      | SetOutput d \<Rightarrow> snd (c1_workload_set_output w d)
      | Print m \<Rightarrow> enclave_print w m)"

subsection \<open>The WASM runner\<close>

definition execute_main ::
  "runtime \<Rightarrow> worker \<Rightarrow> bytes \<Rightarrow> bytes option \<Rightarrow> bool \<times> worker" where
  "execute_main rt w wasm input_str =
     (let w1 = w\<lparr>capture_output := True, capture_output_overflow := False, global_output_pos := 0\<rparr> in
      if global_output_buffer w1 = None \<or> global_output_capacity w1 = 0
      then (False, w1\<lparr>capture_output := False\<rparr>)
      else
        let w2 = w1\<lparr>global_output_buffer := Some (zero_bytes (unat (global_output_capacity w1) + 1)),
                    g_workload_tsc := (None, None)\<rparr>;
            (calls, execute_ok) = wasm_main rt wasm input_str (global_output_capacity w2);
            w3 = (foldl native w2 calls)\<lparr>capture_output := False\<rparr>
        in if capture_output_overflow w3 then (False, w3) else (execute_ok, w3))"

text \<open>The trace is None for a NULL \<open>invoke_trace\<close>.\<close>

definition run_wasm_helper ::
  "runtime \<Rightarrow> bool \<Rightarrow> (nat \<Rightarrow> u64) \<Rightarrow> worker \<Rightarrow> bytes \<Rightarrow> bytes option \<Rightarrow> c1_asyncs_invoke_trace option
   \<Rightarrow> bool \<times> worker \<times> c1_asyncs_invoke_trace option" where
  "run_wasm_helper rt copied ts w wasm input_str trace =
     (if wasm = [] then (False, w, trace)
      else if \<not> copied then (False, w, trace)
      else
        let t1 = map_option (\<lambda>t. t\<lparr>wasm_load_begin_cycles := ts 8\<rparr>) trace in
        if \<not> wasm_load rt wasm then (False, w, t1)
        else
          let t2 = map_option (\<lambda>t. set_flag C2_TRACE_WASM_LOAD_CYCLES_VALID
                     (t\<lparr>wasm_load_end_cycles := ts 9, wasm_load_cycles := ts 9 - wasm_load_begin_cycles t\<rparr>)) t1;
              t3 = map_option (\<lambda>t. t\<lparr>wasm_instantiate_begin_cycles := ts 10\<rparr>) t2
          in if \<not> wasm_instantiate rt wasm then (False, w, t3)
          else
            let t4 = map_option (\<lambda>t. set_flag C2_TRACE_WASM_INSTANTIATE_CYCLES_VALID
                       (t\<lparr>wasm_instantiate_end_cycles := ts 11,
                          wasm_instantiate_cycles := ts 11 - wasm_instantiate_begin_cycles t\<rparr>)) t3
            in if \<not> wasm_exec_env rt wasm then (False, w, t4)
            else let (r, w') = execute_main rt w wasm input_str in (r, w', t4))"

definition ecall_run_wasm :: "runtime \<Rightarrow> run_env \<Rightarrow> worker \<Rightarrow> bytes \<Rightarrow> worker" where
  "ecall_run_wasm rt e w wasm =
     (let (ok, w1) = output_capture_prepare w (malloc_ok (env_main e) 0) 4096 in
      if \<not> ok then w1
      else let (r, w2, t) = run_wasm_helper rt (malloc_ok (env_main e) 1) (tsc e) w1 wasm None None
           in output_capture_release w2)"

subsection \<open>KEM encapsulation\<close>

text \<open>The ciphertext and the key; None for -1. Coordinates change between big and little endian.\<close>

definition ecall_kem_encap :: "sgx \<Rightarrow> env \<Rightarrow> bytes \<Rightarrow> (bytes \<times> bytes) option" where
  "ecall_kem_encap s e pk =
     (if pk ! 0 \<noteq> 4 then None
      else if \<not> ecc_open e then None
      else do { (eph_sk, eph_pk) \<leftarrow> fresh_pair e;
                shared_secret \<leftarrow> shared_dhkey s eph_sk (rev (slice 1 32 pk) @ rev (slice 33 32 pk));
                hash \<leftarrow> sha256_msg s (take 32 shared_secret);
                Some ([4] @ rev (slice 0 32 eph_pk) @ rev (slice 32 32 eph_pk), hash) })"

end
