(* ===== verification/WorkerInvoke.thy ===== *)
theory WorkerInvoke
  imports WorkerRun
begin

text \<open>
  The two encrypted invocations. A phase takes the run state and gives its result, or None for
  \<open>goto cleanup\<close>, and the state. The allocations of the handler are numbered in its order; those
  of \<open>DecKey\<close> and the KEM belong to their own environments.
\<close>

subsection \<open>The run state\<close>

record run_state =
  rs_w :: worker
  label32 :: bytes
  dklabelfunc32 :: bytes
  k_func32 :: bytes
  k_req32 :: bytes
  k_func_128 :: bytes
  k_req_128 :: bytes
  input_b64 :: "bytes option"

record kem_state = run_state +
  rs_t :: c1_asyncs_invoke_trace
  k_U :: bytes
  k_U_128 :: bytes
  kem_derived :: bool

definition phase_then :: "'a option \<times> 's \<Rightarrow> ('a \<Rightarrow> 's \<Rightarrow> 'b option \<times> 's) \<Rightarrow> 'b option \<times> 's" where
  "phase_then r f = (case r of (None, st) \<Rightarrow> (None, st) | (Some a, st) \<Rightarrow> f a st)"

lemma phase_then_simps [simp]:
  "phase_then (None, st) f = (None, st)" "phase_then (Some a, st) f = f a st"
  by (simp_all add: phase_then_def)

lemma phase_then_Some:
  "phase_then r f = (Some b, st') \<longleftrightarrow> (\<exists>a st. r = (Some a, st) \<and> f a st = (Some b, st'))"
  by (cases r; cases "fst r") auto

subsection \<open>Phases both ECALLs share\<close>

text \<open>Which key material the request needs, whether it is loaded, and the FID it belongs to.\<close>

definition enter_invocation :: "worker \<Rightarrow> invocation \<Rightarrow> (bool \<times> bytes) option" where
  "enter_invocation w a =
     (let use_bfibe_keys = request_uses_bfibe_key_ciphertexts (c_k_func a) (c_key a) in
      if \<not> use_bfibe_keys \<and> \<not> g_key_loaded w then None
      else if use_bfibe_keys \<and> \<not> g_bfibe_key_loaded w then None
      else Some (use_bfibe_keys, if use_bfibe_keys then g_bfibe_fid w else g_worker_fid w))"

definition c_req_full :: "invocation \<Rightarrow> bytes" where
  "c_req_full a = take 12 (input_iv a) @ take 16 (input_mac a) @ encrypted_input a"

definition build_aads :: "sgx \<Rightarrow> env \<Rightarrow> bytes \<Rightarrow> invocation \<Rightarrow> bytes \<Rightarrow> (bytes \<times> bytes \<times> bytes) option" where
  "build_aads s e f a rid32 =
     do { aad_pkg \<leftarrow> build_aad_pkg (malloc_ok e 2) f;
          aad_req \<leftarrow> build_aad_req s (malloc_ok e 3) f (nonce a) (pkU a);
          aad_out \<leftarrow> build_aad_out s (malloc_ok e 4) f rid32 (pkU a);
          Some (aad_pkg, aad_req, aad_out) }"

definition missing :: "bytes option \<Rightarrow> bool" where
  "missing x \<longleftrightarrow> x = None \<or> x = Some []"

text \<open>The label, the cached code if there is any, and the check of the key ciphertexts.\<close>

definition find_function ::
  "sgx \<Rightarrow> bytes \<Rightarrow> invocation \<Rightarrow> 'z run_state_scheme \<Rightarrow> bytes option option \<times> 'z run_state_scheme" where
  "find_function s f a st =
     (case compute_label_from_cfunc s (encrypted_wasm a) of
        None \<Rightarrow> (None, st)
      | Some l \<Rightarrow>
          let st1 = st\<lparr>label32 := l\<rparr>;
              cached = function_cache_lookup (rs_w st1) f l
          in if missing (c_key a) \<or> (cached = None \<and> missing (c_k_func a)) then (None, st1)
             else (Some cached, st1))"

definition select_dklabel ::
  "sgx \<Rightarrow> env \<Rightarrow> bool \<Rightarrow> bytes option \<Rightarrow> 'z run_state_scheme \<Rightarrow> unit option \<times> 'z run_state_scheme" where
  "select_dklabel s e use_bfibe_keys cached st =
     (if cached \<noteq> None then (Some (), st)
      else case (if use_bfibe_keys then Some (zero_bytes 32)
                 else if g_dklabel_from_kms (rs_w st) then Some (g_worker_dklabel (rs_w st))
                 else derive_dklabelfunc s (malloc_ok e 5) (malloc_ok e 6) (g_worker_key (rs_w st)) (label32 st)) of
        None \<Rightarrow> (None, st)
      | Some d \<Rightarrow> (Some (), st\<lparr>dklabelfunc32 := d, rs_w := (rs_w st)\<lparr>g_dklabel_func := d, g_dklabel_func_valid := True\<rparr>\<rparr>))"

definition DOM_CKEY :: bytes where "DOM_CKEY = lit ''C_KEY''"
definition DOM_CKFUNC :: bytes where "DOM_CKFUNC = lit ''C_K_FUNC''"

definition dec_request_key ::
  "('fr, 'g1, 'g2, 'gt) mcl \<Rightarrow> sgx \<Rightarrow> env \<Rightarrow> bool \<Rightarrow> invocation \<Rightarrow> bytes \<Rightarrow> 'z run_state_scheme
   \<Rightarrow> unit option \<times> 'z run_state_scheme" where
  "dec_request_key m s e use_bfibe_keys a aad_req st =
     (let (k, w) = (if use_bfibe_keys then DecKey m s e (rs_w st) None (c_key a) aad_req
                    else DecKey m s e (rs_w st) (Some (g_worker_key (rs_w st))) (c_key a) DOM_CKEY);
          st1 = st\<lparr>rs_w := w\<rparr>
      in case k of None \<Rightarrow> (None, st1) | Some key \<Rightarrow> (Some (), st1\<lparr>k_req32 := key\<rparr>))"

definition dec_function_key ::
  "('fr, 'g1, 'g2, 'gt) mcl \<Rightarrow> sgx \<Rightarrow> env \<Rightarrow> bool \<Rightarrow> invocation \<Rightarrow> bytes \<Rightarrow> bytes option \<Rightarrow> 'z run_state_scheme
   \<Rightarrow> unit option \<times> 'z run_state_scheme" where
  "dec_function_key m s e use_bfibe_keys a aad_pkg cached st =
     (if cached \<noteq> None then (Some (), st)
      else let (k, w) = (if use_bfibe_keys then DecKey m s e (rs_w st) None (c_k_func a) aad_pkg
                         else DecKey m s e (rs_w st) (Some (g_dklabel_func (rs_w st))) (c_k_func a) DOM_CKFUNC);
               st1 = st\<lparr>rs_w := w\<rparr>
           in case k of None \<Rightarrow> (None, st1) | Some key \<Rightarrow> (Some (), st1\<lparr>k_func32 := key\<rparr>))"

text \<open>After the keys are there: the label key goes, the AES keys are the first halves.\<close>

definition drop_label_key :: "bytes option \<Rightarrow> 'z run_state_scheme \<Rightarrow> 'z run_state_scheme" where
  "drop_label_key cached st =
     (let st1 = (if cached \<noteq> None then st
                 else st\<lparr>rs_w := ecall_zeroize_label_key (rs_w st),
                         dklabelfunc32 := secure_zeroize (dklabelfunc32 st),
                         k_func_128 := take 16 (k_func32 st)\<rparr>)
      in st1\<lparr>k_req_128 := take 16 (k_req32 st1)\<rparr>)"

text \<open>Decrypted code: the function keys go and the code enters the cache if it can.\<close>

definition keep_function :: "env \<Rightarrow> bytes \<Rightarrow> bytes \<Rightarrow> 'z run_state_scheme \<Rightarrow> 'z run_state_scheme" where
  "keep_function e f wasm st =
     (let (stored, w) = function_cache_store (rs_w st) (malloc_ok e 8) f (label32 st) wasm
      in st\<lparr>k_func_128 := secure_zeroize (k_func_128 st), k_func32 := secure_zeroize (k_func32 st), rs_w := w\<rparr>)"

text \<open>The cleanup both ECALLs run on every exit but the first returns.\<close>

definition cleanup :: "'z run_state_scheme \<Rightarrow> 'z run_state_scheme" where
  "cleanup st =
     st\<lparr>rs_w := output_capture_release (ecall_zeroize_label_key (rs_w st)),
        k_func_128 := secure_zeroize (k_func_128 st), k_func32 := secure_zeroize (k_func32 st),
        k_req_128 := secure_zeroize (k_req_128 st), k_req32 := secure_zeroize (k_req32 st),
        dklabelfunc32 := secure_zeroize (dklabelfunc32 st), label32 := secure_zeroize (label32 st)\<rparr>"

subsection \<open>ecall\_run\_encrypted\_wasm\<close>

definition say :: "bytes \<Rightarrow> 'z run_state_scheme \<Rightarrow> 'z run_state_scheme" where
  "say message st = st\<lparr>rs_w := enclave_print (rs_w st) message\<rparr>"

definition four_hex :: "bytes \<Rightarrow> bytes \<Rightarrow> bytes" where
  "four_hex name d = name @ hex_string (take 4 d) @ lit ''...'' @ [10]"

text \<open>What the ECALL prints before it decrypts: with it the first bytes of the FID key.\<close>

definition debug_prints :: "bool \<Rightarrow> invocation \<Rightarrow> 'z run_state_scheme \<Rightarrow> 'z run_state_scheme" where
  "debug_prints use_bfibe_keys a st =
     say (four_hex (lit ''CT: '') (encrypted_wasm a))
       (say (four_hex (lit ''Tag: '') (wasm_mac a))
         (say (four_hex (lit ''IV: '') (wasm_iv a))
           (if use_bfibe_keys then st else say (four_hex (lit ''Key: '') (g_worker_key (rs_w st))) st)))"

definition load_function ::
  "sgx \<Rightarrow> env \<Rightarrow> bool \<Rightarrow> bytes \<Rightarrow> invocation \<Rightarrow> bytes \<Rightarrow> bytes option \<Rightarrow> run_state \<Rightarrow> bytes option \<times> run_state" where
  "load_function s e use_bfibe_keys f a aad_pkg cached st =
     (case cached of
        Some wasm \<Rightarrow> (Some wasm, st)
      | None \<Rightarrow>
          if \<not> malloc_ok e 7 then (None, st)
          else let st1 = debug_prints use_bfibe_keys a st in
            (case gcm_dec s (k_func_128 st1) (encrypted_wasm a) (take 12 (wasm_iv a)) aad_pkg (take 16 (wasm_mac a)) of
               None \<Rightarrow> (None, st1)
             | Some wasm \<Rightarrow> (Some wasm, keep_function e f wasm st1)))"

definition load_input ::
  "sgx \<Rightarrow> env \<Rightarrow> invocation \<Rightarrow> bytes \<Rightarrow> 'z run_state_scheme \<Rightarrow> bytes option option \<times> 'z run_state_scheme" where
  "load_input s e a aad_req st =
     (if encrypted_input a = [] then (Some None, st)
      else if \<not> malloc_ok e 9 then (None, st)
      else (case gcm_dec s (k_req_128 st) (encrypted_input a) (take 12 (input_iv a)) aad_req (take 16 (input_mac a)) of
              None \<Rightarrow> (None, st)
            | Some d \<Rightarrow> (Some (Some d), st)))"

definition function_cache_trace :: "bytes option \<Rightarrow> bytes \<Rightarrow> bytes" where
  "function_cache_trace cached wasm =
     lit ''ACSC_TRACE_FUNCTION_CACHE:function_cache_hit='' @ (if cached \<noteq> None then [49] else [48])
     @ lit '' cfunc_decrypt_executed='' @ (if cached \<noteq> None then [48] else [49])
     @ lit '' function_cache_bytes='' @ dec_string (length wasm) @ [10]"

text \<open>
  The program is run on the Base64 text of the input, which is erased after the run. (If the output
  buffer cannot be prepared it is not.)
\<close>

definition run_program ::
  "runtime \<Rightarrow> run_env \<Rightarrow> invocation \<Rightarrow> bytes \<Rightarrow> bytes option \<Rightarrow> c1_asyncs_invoke_trace option \<Rightarrow> 'z run_state_scheme
   \<Rightarrow> bool \<times> c1_asyncs_invoke_trace option \<times> 'z run_state_scheme" where
  "run_program rt e a wasm input trace st =
     (let b64 = (case input of None \<Rightarrow> None | Some d \<Rightarrow> base64_encode (malloc_ok (env_main e) 10) d);
          (ready, w1) = output_capture_prepare (rs_w st) (malloc_ok (env_main e) 11) (max_out_size a);
          st1 = st\<lparr>rs_w := w1, input_b64 := b64\<rparr>
      in if \<not> ready then (False, trace, st1)
         else let (ok, w2, t) = run_wasm_helper rt (malloc_ok (env_main e) 12) (tsc e) w1 wasm b64 trace
              in (ok, t, st1\<lparr>rs_w := w2, input_b64 := None\<rparr>))"

record run_result =
  encrypted_result :: bytes
  result_size :: u32
  result_tag :: bytes
  result_iv :: bytes

text \<open>The captured output, encrypted; the status of the random source is not tested.\<close>

definition encrypt_result ::
  "sgx \<Rightarrow> env \<Rightarrow> invocation \<Rightarrow> bytes \<Rightarrow> bytes \<Rightarrow> worker \<Rightarrow> run_result option" where
  "encrypt_result s e a key aad_out w =
     (if max_out_size a < global_output_pos w then None
      else let iv = rand_unchecked e 0 in
        do { (c, tag) \<leftarrow> gcm_enc s key (take (unat (global_output_pos w)) (the (global_output_buffer w))) iv aad_out;
             Some \<lparr>encrypted_result = c, result_size = global_output_pos w, result_tag = tag, result_iv = iv\<rparr> })"

definition finish_legacy ::
  "runtime \<Rightarrow> sgx \<Rightarrow> run_env \<Rightarrow> invocation \<Rightarrow> bytes option \<Rightarrow> bytes \<Rightarrow> bytes option \<Rightarrow> bytes \<Rightarrow> run_state
   \<Rightarrow> run_result option \<times> run_state" where
  "finish_legacy rt s e a cached wasm input aad_out st =
     (let w0 = enclave_print (trace_e3_payload_consumed s (rs_w st) input) (function_cache_trace cached wasm);
          (wasm_ok, t, st1) = run_program rt e a wasm input None (st\<lparr>rs_w := w0\<rparr>)
      in if \<not> wasm_ok then (None, st1)
         else (encrypt_result s (env_main e) a (k_req_128 st1) aad_out (rs_w st1), st1))"

definition fresh_run :: "worker \<Rightarrow> run_state" where
  "fresh_run w = \<lparr>rs_w = w, label32 = zero_bytes 32, dklabelfunc32 = zero_bytes 32, k_func32 = zero_bytes 32,
     k_req32 = zero_bytes 32, k_func_128 = zero_bytes 16, k_req_128 = zero_bytes 16, input_b64 = None\<rparr>"

text \<open>
  The handler. If the request identifier cannot be computed, the handler goes on with what the
  local array holds.
\<close>

definition run_legacy ::
  "('fr, 'g1, 'g2, 'gt) mcl \<Rightarrow> sgx \<Rightarrow> runtime \<Rightarrow> run_env \<Rightarrow> invocation \<Rightarrow> bool \<Rightarrow> bytes \<Rightarrow> bytes \<Rightarrow> run_state
   \<Rightarrow> run_result option \<times> run_state" where
  "run_legacy m s rt e a use_bfibe_keys f rid32 st =
     (case build_aads s (env_main e) f a rid32 of
        None \<Rightarrow> (None, st)
      | Some (aad_pkg, aad_req, aad_out) \<Rightarrow>
          phase_then (find_function s f a st) (\<lambda>cached st.
          phase_then (select_dklabel s (env_main e) use_bfibe_keys cached st) (\<lambda>_ st.
          phase_then (dec_request_key m s (env_req e) use_bfibe_keys a aad_req st) (\<lambda>_ st.
          phase_then (dec_function_key m s (env_func e) use_bfibe_keys a aad_pkg cached st) (\<lambda>_ st.
          phase_then (load_function s (env_main e) use_bfibe_keys f a aad_pkg cached (drop_label_key cached st)) (\<lambda>wasm st.
          phase_then (load_input s (env_main e) a aad_req st) (\<lambda>input st.
          finish_legacy rt s e a cached wasm input aad_out st)))))))"

definition ecall_run_encrypted_wasm ::
  "('fr, 'g1, 'g2, 'gt) mcl \<Rightarrow> sgx \<Rightarrow> runtime \<Rightarrow> run_env \<Rightarrow> worker \<Rightarrow> invocation \<Rightarrow> run_result option \<times> run_state" where
  "ecall_run_encrypted_wasm m s rt e w a =
     (case enter_invocation w a of
        None \<Rightarrow> (None, fresh_run w)
      | Some (use_bfibe_keys, f) \<Rightarrow>
          if \<not> malloc_ok (env_main e) 0 then (None, fresh_run w)
          else
            let (rid32, w1) = (case compute_rid_from_fid_and_c_req s (malloc_ok (env_main e) 1) f (c_req_full a) of
                                 Some rid \<Rightarrow> (rid, print_hex_prefixed w (lit ''RID_HEX:'') rid)
                               | None \<Rightarrow> (stale (env_main e), w));
                (r, st) = run_legacy m s rt e a use_bfibe_keys f rid32 (fresh_run w1)
            in (r, cleanup st))"

subsection \<open>ecall\_run\_encrypted\_wasm\_kem\<close>

definition traced :: "(c1_asyncs_invoke_trace \<Rightarrow> c1_asyncs_invoke_trace) \<Rightarrow> 'z kem_state_scheme \<Rightarrow> 'z kem_state_scheme" where
  "traced f st = st\<lparr>rs_t := f (rs_t st)\<rparr>"

definition dec_request_key_timed ::
  "('fr, 'g1, 'g2, 'gt) mcl \<Rightarrow> sgx \<Rightarrow> run_env \<Rightarrow> bool \<Rightarrow> invocation \<Rightarrow> bytes \<Rightarrow> kem_state \<Rightarrow> unit option \<times> kem_state" where
  "dec_request_key_timed m s e use_bfibe_keys a aad_req st =
     phase_then (dec_request_key m s (env_req e) use_bfibe_keys a aad_req
                (traced (\<lambda>t. t\<lparr>input_key_decap_begin_cycles := tsc e 0\<rparr>) st))
       (\<lambda>_ st. (Some (), traced (\<lambda>t. set_flag C3_TRACE_INPUT_KEY_CYCLES_VALID
          (t\<lparr>input_key_decap_end_cycles := tsc e 1,
             input_key_decap_cycles := tsc e 1 - input_key_decap_begin_cycles t\<rparr>)) st))"

definition dec_function_key_timed ::
  "('fr, 'g1, 'g2, 'gt) mcl \<Rightarrow> sgx \<Rightarrow> run_env \<Rightarrow> bool \<Rightarrow> invocation \<Rightarrow> bytes \<Rightarrow> bytes option \<Rightarrow> kem_state
   \<Rightarrow> unit option \<times> kem_state" where
  "dec_function_key_timed m s e use_bfibe_keys a aad_pkg cached st =
     (if cached \<noteq> None then (Some (), st)
      else phase_then (dec_function_key m s (env_func e) use_bfibe_keys a aad_pkg cached
                      (traced (\<lambda>t. t\<lparr>function_key_decap_begin_cycles := tsc e 2\<rparr>) st))
             (\<lambda>_ st. (Some (), traced (\<lambda>t. set_flag C2_TRACE_FUNCTION_KEY_CYCLES_VALID
                (t\<lparr>function_key_decap_end_cycles := tsc e 3,
                   function_key_decap_cycles := tsc e 3 - function_key_decap_begin_cycles t\<rparr>)) st)))"

definition load_function_timed ::
  "sgx \<Rightarrow> run_env \<Rightarrow> bytes \<Rightarrow> invocation \<Rightarrow> bytes \<Rightarrow> bytes option \<Rightarrow> kem_state \<Rightarrow> bytes option \<times> kem_state" where
  "load_function_timed s e f a aad_pkg cached st =
     (case cached of
        Some wasm \<Rightarrow> (Some wasm, st)
      | None \<Rightarrow>
          if \<not> malloc_ok (env_main e) 7 then (None, st)
          else
            let st1 = traced (\<lambda>t. t\<lparr>cfunc_aes_gcm_begin_cycles := tsc e 4, cfunc_aes_gcm_end_cycles := tsc e 5\<rparr>) st in
            (case gcm_dec s (k_func_128 st) (encrypted_wasm a) (take 12 (wasm_iv a)) aad_pkg (take 16 (wasm_mac a)) of
               None \<Rightarrow> (None, st1)
             | Some wasm \<Rightarrow>
                 (Some wasm, keep_function (env_main e) f wasm
                    (traced (\<lambda>t. set_flag C2_TRACE_CFUNC_AES_GCM_CYCLES_VALID
                       (t\<lparr>cfunc_aes_gcm_cycles := cfunc_aes_gcm_end_cycles t - cfunc_aes_gcm_begin_cycles t\<rparr>)) st1))))"

definition load_input_timed ::
  "sgx \<Rightarrow> run_env \<Rightarrow> invocation \<Rightarrow> bytes \<Rightarrow> kem_state \<Rightarrow> bytes option option \<times> kem_state" where
  "load_input_timed s e a aad_req st =
     (if encrypted_input a = [] then (Some None, st)
      else if \<not> malloc_ok (env_main e) 9 then (None, st)
      else
        let st1 = traced (\<lambda>t. t\<lparr>input_aes_gcm_begin_cycles := tsc e 6, input_aes_gcm_end_cycles := tsc e 7\<rparr>) st in
        (case gcm_dec s (k_req_128 st) (encrypted_input a) (take 12 (input_iv a)) aad_req (take 16 (input_mac a)) of
           None \<Rightarrow> (None, st1)
         | Some d \<Rightarrow>
             (Some (Some d), traced (\<lambda>t. set_flag C3_TRACE_INPUT_AES_GCM_CYCLES_VALID
                (t\<lparr>input_aes_gcm_cycles := input_aes_gcm_end_cycles t - input_aes_gcm_begin_cycles t\<rparr>)) st1)))"

text \<open>
  The SDK's \<open>sgx_sha256_msg\<close> refuses a NULL pointer, which is what an empty input is here.
\<close>

definition capture_e3_payload_evidence ::
  "sgx \<Rightarrow> bytes option \<Rightarrow> c1_asyncs_invoke_trace \<Rightarrow> c1_asyncs_invoke_trace option" where
  "capture_e3_payload_evidence s data t =
     (case data of
        None \<Rightarrow> None
      | Some d \<Rightarrow>
          do { hash \<leftarrow> sha256_msg s d;
               Some (set_flag C1_TRACE_PAYLOAD_VALID (t\<lparr>payload_bytes_consumed := len32 d, payload_sha256 := hash\<rparr>)) })"

definition evidence_phase ::
  "sgx \<Rightarrow> bytes option \<Rightarrow> bytes \<Rightarrow> bytes option \<Rightarrow> kem_state \<Rightarrow> unit option \<times> kem_state" where
  "evidence_phase s cached wasm input st =
     (case capture_e3_payload_evidence s input (rs_t st) of
        None \<Rightarrow> (None, st)
      | Some t \<Rightarrow>
          let t1 = set_flag C1_TRACE_FUNCTION_CACHE_VALID (t\<lparr>function_cache_bytes := len32 wasm\<rparr>);
              t2 = (if cached \<noteq> None then set_flag C1_TRACE_FUNCTION_CACHE_HIT t1
                    else set_flag C1_TRACE_CFUNC_DECRYPT_EXECUTED t1)
          in (Some (), st\<lparr>rs_t := t2, k_req_128 := secure_zeroize (k_req_128 st), k_req32 := secure_zeroize (k_req32 st)\<rparr>))"

definition workload_phase ::
  "runtime \<Rightarrow> run_env \<Rightarrow> invocation \<Rightarrow> bytes \<Rightarrow> bytes option \<Rightarrow> kem_state \<Rightarrow> unit option \<times> kem_state" where
  "workload_phase rt e a wasm input st =
     (let (wasm_ok, t, st1) = run_program rt e a wasm input (Some (rs_t st)) st;
          st2 = st1\<lparr>rs_t := the t\<rparr>
      in if \<not> wasm_ok then (None, st2)
         else (case g_workload_tsc (rs_w st2) of
                 (Some b, Some n) \<Rightarrow>
                   if n < b then (None, st2)
                   else (Some (), traced (\<lambda>t. set_flag C1_TRACE_WORKLOAD_CYCLES_VALID
                          (t\<lparr>workload_begin_cycles := b, workload_end_cycles := n, workload_core_cycles := n - b\<rparr>)) st2)
               | _ \<Rightarrow> (None, st2)))"

definition kem_phase ::
  "sgx \<Rightarrow> run_env \<Rightarrow> invocation \<Rightarrow> kem_state \<Rightarrow> bytes option \<times> kem_state" where
  "kem_phase s e a st =
     (case ecall_kem_encap s (env_kem e) (pkU a) of
        None \<Rightarrow> (None, st)
      | Some (ct, key) \<Rightarrow>
          (Some ct, (traced (\<lambda>t. set_flag C1_TRACE_OUTPUT_KEM_CYCLES_VALID
             (t\<lparr>output_kem_begin_cycles := tsc e 12, output_kem_end_cycles := tsc e 13, output_kem_cycles := tsc e 13 - tsc e 12\<rparr>)) st)
             \<lparr>k_U := key, k_U_128 := take 16 key, kem_derived := True\<rparr>))"

definition output_phase ::
  "sgx \<Rightarrow> run_env \<Rightarrow> invocation \<Rightarrow> bytes \<Rightarrow> bytes \<Rightarrow> kem_state \<Rightarrow> (run_result \<times> bytes) option \<times> kem_state" where
  "output_phase s e a aad_out kem_ct st =
     (case encrypt_result s (env_main e) a (k_U_128 st) aad_out (rs_w st) of
        None \<Rightarrow> (None, st)
      | Some r \<Rightarrow>
          (Some (r, kem_ct), traced (\<lambda>t. set_flag C1_TRACE_SUCCESS (set_flag C1_TRACE_OUTPUT_AES_GCM_CYCLES_VALID
             (t\<lparr>output_aes_gcm_begin_cycles := tsc e 14, output_aes_gcm_end_cycles := tsc e 15,
                output_aes_gcm_cycles := tsc e 15 - tsc e 14\<rparr>))) st))"

definition fresh_kem :: "worker \<Rightarrow> kem_state" where
  "fresh_kem w = \<lparr>rs_w = w, label32 = zero_bytes 32, dklabelfunc32 = zero_bytes 32, k_func32 = zero_bytes 32,
     k_req32 = zero_bytes 32, k_func_128 = zero_bytes 16, k_req_128 = zero_bytes 16, input_b64 = None,
     rs_t = zero_trace\<lparr>tr_version := 1\<rparr>, k_U = zero_bytes 32, k_U_128 = zero_bytes 16, kem_derived = False\<rparr>"

definition cleanup_kem :: "kem_state \<Rightarrow> kem_state" where
  "cleanup_kem st =
     (let st1 = cleanup st in
      if kem_derived st1
      then st1\<lparr>k_U_128 := secure_zeroize (k_U_128 st1), k_U := secure_zeroize (k_U st1)\<rparr> else st1)"

definition run_kem ::
  "('fr, 'g1, 'g2, 'gt) mcl \<Rightarrow> sgx \<Rightarrow> runtime \<Rightarrow> run_env \<Rightarrow> invocation \<Rightarrow> bool \<Rightarrow> bytes \<Rightarrow> kem_state
   \<Rightarrow> (run_result \<times> bytes) option \<times> kem_state" where
  "run_kem m s rt e a use_bfibe_keys f st =
     (case compute_rid_from_fid_and_c_req s (malloc_ok (env_main e) 1) f (c_req_full a) of
        None \<Rightarrow> (None, st)
      | Some rid32 \<Rightarrow>
          let st = traced (\<lambda>t. set_flag C1_TRACE_RID_VALID (t\<lparr>tr_rid := rid32\<rparr>)) st in
          (case build_aads s (env_main e) f a rid32 of
             None \<Rightarrow> (None, st)
           | Some (aad_pkg, aad_req, aad_out) \<Rightarrow>
               phase_then (find_function s f a st) (\<lambda>cached st.
               phase_then (select_dklabel s (env_main e) use_bfibe_keys cached st) (\<lambda>_ st.
               phase_then (dec_request_key_timed m s e use_bfibe_keys a aad_req st) (\<lambda>_ st.
               phase_then (dec_function_key_timed m s e use_bfibe_keys a aad_pkg cached st) (\<lambda>_ st.
               phase_then (load_function_timed s e f a aad_pkg cached (drop_label_key cached st)) (\<lambda>wasm st.
               phase_then (load_input_timed s e a aad_req st) (\<lambda>input st.
               phase_then (evidence_phase s cached wasm input st) (\<lambda>_ st.
               phase_then (workload_phase rt e a wasm input st) (\<lambda>_ st.
               phase_then (kem_phase s e a st) (\<lambda>kem_ct st.
               output_phase s e a aad_out kem_ct st)))))))))))"

definition ecall_run_encrypted_wasm_kem ::
  "('fr, 'g1, 'g2, 'gt) mcl \<Rightarrow> sgx \<Rightarrow> runtime \<Rightarrow> run_env \<Rightarrow> worker \<Rightarrow> invocation
   \<Rightarrow> (run_result \<times> bytes) option \<times> kem_state" where
  "ecall_run_encrypted_wasm_kem m s rt e w a =
     (case enter_invocation w a of
        None \<Rightarrow> (None, fresh_kem w)
      | Some (use_bfibe_keys, f) \<Rightarrow>
          if \<not> malloc_ok (env_main e) 0 then (None, fresh_kem w)
          else let (r, st) = run_kem m s rt e a use_bfibe_keys f (fresh_kem w) in (r, cleanup_kem st))"

end
