(* ===== verification/WorkerOutput.thy ===== *)
theory WorkerOutput
  imports WorkerInvoke
begin

text \<open>
  The output buffer of an invocation: the native functions and \<open>enclave_print\<close> refine an abstract
  output that prints append to and explicit outputs replace.
\<close>

subsection \<open>The captured output\<close>

text \<open>
  What a sequence of native calls writes into a buffer of a capacity: prints append, an explicit
  output replaces; None once anything did not fit.
\<close>

fun captured_call :: "nat \<Rightarrow> native_call \<Rightarrow> bytes \<Rightarrow> bytes option" where
  "captured_call cap (Print m) b = (if length b + length m \<le> cap then Some (b @ m) else None)"
| "captured_call cap (SetOutput None) b = None"
| "captured_call cap (SetOutput (Some d)) b = (if d \<noteq> [] \<and> length d \<le> cap then Some d else None)"
| "captured_call cap c b = Some b"

fun captured :: "nat \<Rightarrow> native_call list \<Rightarrow> bytes \<Rightarrow> bytes option" where
  "captured cap [] b = Some b"
| "captured cap (c # cs) b = do { b' \<leftarrow> captured_call cap c b; captured cap cs b' }"

text \<open>The lengths WebAssembly can express.\<close>

definition call_fits :: "native_call \<Rightarrow> bool" where
  "call_fits c \<longleftrightarrow> (case c of SetOutput (Some d) \<Rightarrow> length d < 2 ^ 32 | _ \<Rightarrow> True)"

definition capturing :: "nat \<Rightarrow> worker \<Rightarrow> bool" where
  "capturing cap w \<longleftrightarrow> capture_output w \<and> unat (global_output_capacity w) = cap \<and>
     unat (global_output_pos w) \<le> cap \<and>
     (\<exists>buf. global_output_buffer w = Some buf \<and> length buf = cap + 1)"

definition holds_output :: "worker \<Rightarrow> bytes \<Rightarrow> bool" where
  "holds_output w b \<longleftrightarrow> unat (global_output_pos w) = length b \<and>
     (\<exists>buf. global_output_buffer w = Some buf \<and> take (length b) buf = b)"

lemma u32_add_nat: "unat (p :: u32) + n \<le> unat (c :: u32) \<Longrightarrow> unat (p + of_nat n) = unat p + n"
  using unat_u32_bound [of c] by (simp add: unat_word_ariths unat_of_nat_u32)

lemma len32_small: "length d < 2 ^ 32 \<Longrightarrow> \<not> (c :: u32) < len32 d \<longleftrightarrow> length d \<le> unat c"
  by (simp add: word_less_nat_alt not_less)

lemma len32_zero: "length d < 2 ^ 32 \<Longrightarrow> len32 d = 0 \<longleftrightarrow> d = []"
  by (auto simp: word_unat_eq_iff)

lemma native_print:
  assumes "capturing cap w"
  shows "native w (Print m) = (if unat (global_output_pos w) + length m \<le> cap
    then w\<lparr>global_output_buffer := Some (blit (the (global_output_buffer w)) (unat (global_output_pos w)) m),
           global_output_pos := global_output_pos w + of_nat (length m)\<rparr>
    else w\<lparr>capture_output_overflow := True\<rparr>)"
  using assms by (auto simp: native_def enclave_print_def capturing_def Let_def)

lemma native_output:
  assumes "capturing cap w" "length d < 2 ^ 32"
  shows "native w (SetOutput (Some d)) = (if d \<noteq> [] \<and> length d \<le> cap
    then w\<lparr>global_output_buffer := Some (blit (the (global_output_buffer w)) 0 (d @ [0])), global_output_pos := len32 d\<rparr>
    else w\<lparr>capture_output_overflow := True\<rparr>)"
  using assms
  by (auto simp: native_def c1_workload_set_output_def capturing_def len32_zero word_less_nat_alt)

lemma native_other [simp]:
  "native w (TscBegin v) = w\<lparr>g_workload_tsc := (Some v, snd (g_workload_tsc w))\<rparr>"
  "native w (TscEnd v) = w\<lparr>g_workload_tsc := (fst (g_workload_tsc w), Some v)\<rparr>"
  "native w (SetOutput None) = w\<lparr>capture_output_overflow := True\<rparr>"
  by (simp_all add: native_def c1_workload_tsc_begin_def c1_workload_tsc_end_def c1_workload_set_output_def split: option.splits)

lemma native_capturing: "capturing cap w \<Longrightarrow> call_fits c \<Longrightarrow> capturing cap (native w c)"
proof (cases c)
  case (SetOutput d)
  then show "capturing cap w \<Longrightarrow> call_fits c \<Longrightarrow> ?thesis"
    by (cases d) (auto simp: native_output call_fits_def capturing_def)
qed (auto simp: native_print capturing_def u32_add_nat)

lemma native_overflow: "capture_output_overflow w \<Longrightarrow> capture_output_overflow (native w c)"
  by (cases c) (auto simp: native_def c1_workload_tsc_begin_def c1_workload_tsc_end_def
      c1_workload_set_output_def enclave_print_def Let_def split: option.splits)

lemma native_refines:
  assumes "capturing cap w" "holds_output w b" "\<not> capture_output_overflow w" "call_fits c"
  shows "(case captured_call cap c b of None \<Rightarrow> capture_output_overflow (native w c)
          | Some b' \<Rightarrow> \<not> capture_output_overflow (native w c) \<and> holds_output (native w c) b')"
proof (cases c)
  case (Print m)
  with assms(1-3) show ?thesis
    by (auto simp: native_print [OF assms(1)] holds_output_def capturing_def u32_add_nat take_blit)
next
  case (SetOutput d)
  show ?thesis
  proof (cases d)
    case (Some x)
    with SetOutput assms show ?thesis
      by (auto simp: native_output [OF assms(1)] call_fits_def holds_output_def capturing_def blit_def)
  qed (use SetOutput in simp)
qed (use assms in \<open>auto simp: holds_output_def\<close>)

lemma natives_refine:
  "capturing cap w \<Longrightarrow> holds_output w b \<Longrightarrow> \<not> capture_output_overflow w \<Longrightarrow> \<forall>c \<in> set cs. call_fits c \<Longrightarrow>
   (case captured cap cs b of None \<Rightarrow> capture_output_overflow (foldl native w cs)
    | Some b' \<Rightarrow> \<not> capture_output_overflow (foldl native w cs) \<and> holds_output (foldl native w cs) b')"
proof (induction cs arbitrary: w b)
  case (Cons c cs)
  have o: "capture_output_overflow w \<Longrightarrow> capture_output_overflow (foldl native w cs)" for w
    by (induction cs arbitrary: w) (auto simp: native_overflow)
  note n = native_refines [OF Cons.prems(1-3), of c] native_capturing [OF Cons.prems(1), of c]
  show ?case
  proof (cases "captured_call cap c b")
    case None
    with n Cons.prems(4) o show ?thesis by simp
  next
    case (Some b')
    with n Cons.prems(4) Cons.IH [of "native w c" b'] show ?thesis by (simp split: option.splits)
  qed
qed simp

text \<open>
  C32: the runner returns what the program wrote. With a prepared buffer, the run succeeds exactly
  when \<open>main\<close> succeeds and every print and output fitted the capacity the caller asked for, and
  then the buffer holds, up to its position, exactly the abstract output of the calls.
\<close>

theorem captured_output_refines:
  assumes "global_output_buffer w = Some buf" "global_output_capacity w = cap" "cap \<noteq> 0"
    and "wasm_main rt wasm arg cap = (calls, ok)" "\<forall>c \<in> set calls. call_fits c"
    and "execute_main rt w wasm arg = (r, w')"
  shows "(r \<longleftrightarrow> ok \<and> captured (unat cap) calls [] \<noteq> None) \<and> \<not> capture_output w' \<and>
    (r \<longrightarrow> holds_output w' (the (captured (unat cap) calls [])))"
proof -
  define w2 where "w2 = w\<lparr>capture_output := True, capture_output_overflow := False, global_output_pos := 0,
    global_output_buffer := Some (zero_bytes (unat cap + 1)), g_workload_tsc := (None, None)\<rparr>"
  have c: "capturing (unat cap) w2" "holds_output w2 []" "\<not> capture_output_overflow w2"
    by (simp_all add: w2_def capturing_def holds_output_def assms(2))
  have e: "execute_main rt w wasm arg = (let w3 = (foldl native w2 calls)\<lparr>capture_output := False\<rparr> in
      if capture_output_overflow w3 then (False, w3) else (ok, w3))"
    using assms(1-4) by (simp add: execute_main_def Let_def w2_def)
  show ?thesis
    using natives_refine [OF c assms(5)] assms(6) unfolding e
    by (cases "captured (unat cap) calls []") (auto simp: Let_def holds_output_def split: if_splits)
qed

theorem captured_output_refines_witness:
  "let w = worker_boot\<lparr>global_output_buffer := Some (zero_bytes 9), global_output_capacity := 8\<rparr>;
       rt = \<lparr>wasm_load = \<lambda>_. True, wasm_instantiate = \<lambda>_. True, wasm_exec_env = \<lambda>_. True,
             wasm_main = \<lambda>_ _ _. ([TscBegin 3, Print [1, 2], Print [3], TscEnd 5], True)\<rparr>
   in holds_output (snd (execute_main rt w [0] None)) [1, 2, 3]"
proof -
  let ?w = "worker_boot\<lparr>global_output_buffer := Some (zero_bytes 9), global_output_capacity := 8\<rparr>"
  let ?rt = "\<lparr>wasm_load = \<lambda>_. True, wasm_instantiate = \<lambda>_. True, wasm_exec_env = \<lambda>_. True,
             wasm_main = \<lambda>_ _ _. ([TscBegin 3, Print [1, 2], Print [3], TscEnd 5], True)\<rparr>"
  obtain r w' where e: "execute_main ?rt ?w [0] None = (r, w')" by fastforce
  have "holds_output w' [1, 2, 3]"
    using captured_output_refines [OF _ _ _ _ _ e, of "zero_bytes 9" 8 "[TscBegin 3, Print [1, 2], Print [3], TscEnd 5]" True]
    by (simp add: call_fits_def)
  with e show ?thesis by (simp add: Let_def)
qed

end
