(* ===== verification/WorkerPhases.thy ===== *)
theory WorkerPhases
  imports WorkerOutput
begin

text \<open>
  What the phases of an invocation leave alone, and the invariant of the cached code that follows:
  it is the authenticated decryption of a package with the label and for the FID it is stored under.
\<close>

subsection \<open>What a phase can change\<close>

text \<open>The key store: all of the state but the label key, the output buffer and the log.\<close>

definition key_store where
  "key_store w = (g_private_key w, g_public_key w, g_worker_keypair_ready w, g_worker_key w, g_worker_fid w, g_key_loaded w,
     g_bfibe_request_sk w, g_bfibe_function_sk w, g_bfibe_fid w, g_bfibe_key_loaded w, g_dklabel_from_kms w, g_worker_dklabel w)"

text \<open>The label key is there only while it is marked valid.\<close>

definition label_clean :: "worker \<Rightarrow> bool" where
  "label_clean w \<longleftrightarrow> (\<not> g_dklabel_func_valid w \<longrightarrow> set (g_dklabel_func w) \<subseteq> {0})"

definition quiet :: "worker \<Rightarrow> worker \<Rightarrow> bool" where
  "quiet w w' \<longleftrightarrow> key_store w' = key_store w \<and> g_cached_function_code w' = g_cached_function_code w \<and>
     capture_output w' = capture_output w \<and> (label_clean w \<longrightarrow> label_clean w')"

lemma quiet_refl [simp]: "quiet w w"
  by (simp add: quiet_def)

lemma quiet_trans: "quiet w w' \<Longrightarrow> quiet w' w'' \<Longrightarrow> quiet w w''"
  by (simp add: quiet_def)

lemma quiet_upd [simp]:
  "quiet w (w'\<lparr>g_mcl_init := i\<rparr>) \<longleftrightarrow> quiet w w'"
  "quiet w (w'\<lparr>host_log := l\<rparr>) \<longleftrightarrow> quiet w w'"
  "quiet w (w'\<lparr>global_output_buffer := b\<rparr>) \<longleftrightarrow> quiet w w'"
  "quiet w (w'\<lparr>global_output_capacity := c\<rparr>) \<longleftrightarrow> quiet w w'"
  "quiet w (w'\<lparr>global_output_pos := p\<rparr>) \<longleftrightarrow> quiet w w'"
  "quiet w (w'\<lparr>capture_output_overflow := v\<rparr>) \<longleftrightarrow> quiet w w'"
  "quiet w (w'\<lparr>g_workload_tsc := ts\<rparr>) \<longleftrightarrow> quiet w w'"
  "quiet w (w'\<lparr>g_invocation_ctx := x\<rparr>) \<longleftrightarrow> quiet w w'"
  by (simp_all add: quiet_def key_store_def label_clean_def)

lemma quiet_capture: "\<not> capture_output w \<Longrightarrow> quiet w (w'\<lparr>capture_output := False\<rparr>) \<longleftrightarrow>
    key_store w' = key_store w \<and> g_cached_function_code w' = g_cached_function_code w \<and> (label_clean w \<longrightarrow> label_clean w')"
  by (simp add: quiet_def key_store_def label_clean_def)

lemma quiet_print [simp]: "quiet w (enclave_print w' x) \<longleftrightarrow> quiet w w'"
  by (auto simp: enclave_print_def Let_def split: option.splits)

lemma quiet_print_hex [simp]: "quiet w (print_hex_prefixed w p d)"
proof -
  have "quiet w (foldl (\<lambda>w b. enclave_print w (hex_byte b)) w d)" for w
  proof (induction d arbitrary: w)
    case (Cons b d)
    then show ?case using quiet_trans [of w "enclave_print w (hex_byte b)"] by simp
  qed simp
  from this [of "enclave_print w p"] quiet_trans [of w "enclave_print w p"] show ?thesis
    by (simp add: print_hex_prefixed_def)
qed

lemma quiet_native [simp]: "quiet w (native w' c) \<longleftrightarrow> quiet w w'"
  by (cases c) (auto simp: native_def c1_workload_tsc_begin_def c1_workload_tsc_end_def
      c1_workload_set_output_def Let_def split: option.splits)

lemma quiet_natives: "quiet w (foldl native w cs)"
proof (induction cs arbitrary: w)
  case (Cons c cs)
  then show ?case using quiet_trans [of w "native w c"] by simp
qed simp

lemma quiet_execute: "\<not> capture_output w \<Longrightarrow> quiet w (snd (execute_main rt w wasm arg))"
  using quiet_natives
  by (auto simp: execute_main_def Let_def quiet_capture quiet_def key_store_def label_clean_def split: prod.splits)

lemma quiet_release [simp]: "quiet w (output_capture_release w') \<longleftrightarrow> quiet w w'"
  by (simp add: output_capture_release_def)

lemma all_zero [simp]: "set (secure_zeroize d) \<subseteq> {0}"
  by (auto simp: secure_zeroize_def)

lemma quiet_zeroize [simp]: "quiet w w' \<Longrightarrow> quiet w (ecall_zeroize_label_key w')"
  using all_zero by (auto simp: ecall_zeroize_label_key_def quiet_def key_store_def label_clean_def)

lemma quiet_prepare [simp]: "quiet w (snd (output_capture_prepare w ok c))"
  by (simp add: output_capture_prepare_def Let_def)

lemma quiet_helper:
  "\<not> capture_output w \<Longrightarrow> quiet w (fst (snd (run_wasm_helper rt c ts w wasm arg t)))"
  using quiet_execute [of w rt wasm arg]
  by (auto simp: run_wasm_helper_def Let_def split: prod.splits)

lemma quiet_DecKey [simp]: "quiet w (snd (DecKey m s e w cap c d))"
  by (auto simp: DecKey_def dec_key_bfibe_def Let_def split: option.splits prod.splits sum.splits)

subsection \<open>Phases\<close>

text \<open>
  A phase is quiet if the worker it leaves is. \<open>keep_function\<close> is the one that is not: it stores
  code under the FID and the label of the invocation.
\<close>

lemma find_function_quiet [simp]: "quiet w (rs_w (snd (find_function s f a st))) \<longleftrightarrow> quiet w (rs_w st)"
  by (simp add: find_function_def Let_def split: option.splits)

lemma select_dklabel_quiet [simp]: "quiet w (rs_w st) \<Longrightarrow> quiet w (rs_w (snd (select_dklabel s e u c st)))"
  by (auto simp: select_dklabel_def Let_def quiet_def key_store_def label_clean_def split: option.splits)

lemma dec_request_key_quiet [simp]: "quiet (rs_w st) (rs_w (snd (dec_request_key m s e u a d st)))"
proof -
  have "quiet (rs_w st) (snd (if u then DecKey m s e (rs_w st) None (c_key a) d
      else DecKey m s e (rs_w st) (Some (g_worker_key (rs_w st))) (c_key a) DOM_CKEY))" by simp
  then show ?thesis by (auto simp: dec_request_key_def Let_def simp del: quiet_DecKey split: option.splits prod.splits)
qed

lemma dec_function_key_quiet [simp]: "quiet (rs_w st) (rs_w (snd (dec_function_key m s e u a d c st)))"
proof -
  have "quiet (rs_w st) (snd (if u then DecKey m s e (rs_w st) None (c_k_func a) d
      else DecKey m s e (rs_w st) (Some (g_dklabel_func (rs_w st))) (c_k_func a) DOM_CKFUNC))" by simp
  then show ?thesis by (auto simp: dec_function_key_def Let_def simp del: quiet_DecKey split: option.splits prod.splits)
qed

lemma drop_label_key_quiet [simp]: "quiet w (rs_w st) \<Longrightarrow> quiet w (rs_w (drop_label_key c st))"
  by (simp add: drop_label_key_def Let_def)

lemma load_input_state [simp]: "snd (load_input s e a d st) = st"
  by (simp add: load_input_def split: option.splits)

lemma run_program_quiet:
  "\<not> capture_output (rs_w st) \<Longrightarrow> quiet (rs_w st) (rs_w (snd (snd (run_program rt e a wasm input t st))))"
proof -
  assume c: "\<not> capture_output (rs_w st)"
  obtain ok w where p: "output_capture_prepare (rs_w st) (malloc_ok (env_main e) 11) (max_out_size a) = (ok, w)" by fastforce
  have q: "quiet (rs_w st) w" using quiet_prepare [of "rs_w st" "malloc_ok (env_main e) 11" "max_out_size a"] p by simp
  then have "\<not> capture_output w" using c by (simp add: quiet_def)
  from quiet_helper [OF this] q p show ?thesis
    by (auto simp: run_program_def Let_def split: prod.splits) (metis fst_conv snd_conv quiet_trans)
qed

lemma cleanup_quiet [simp]: "quiet w (rs_w st) \<Longrightarrow> quiet w (rs_w (cleanup st))"
  by (simp add: cleanup_def)

text \<open>The rule for what all phases preserve, over the \<open>goto cleanup\<close> chain.\<close>

lemma phase_then_inv:
  assumes "P (snd r)" "\<And>a st. r = (Some a, st) \<Longrightarrow> P st \<Longrightarrow> P (snd (f a st))"
  shows "P (snd (phase_then r f))"
  using assms by (cases r; cases "fst r") auto

subsection \<open>The code in the cache\<close>

text \<open>
  Cached code is the decryption of a package with the label it is stored under, authenticated for
  the FID it is stored under.
\<close>

definition package_code :: "sgx \<Rightarrow> bytes \<Rightarrow> bytes \<Rightarrow> bytes \<Rightarrow> bool" where
  "package_code s f l wasm \<longleftrightarrow> (\<exists>k c iv tag. sha256_msg s c = Some l \<and>
     gcm_dec s k c iv (PKG @ fid_to_bytes_or_str f) tag = Some wasm)"

definition cache_authentic :: "sgx \<Rightarrow> worker \<Rightarrow> bool" where
  "cache_authentic s w \<longleftrightarrow> (\<forall>wasm. cc_valid (g_cached_function_code w) \<longrightarrow> cc_wasm (g_cached_function_code w) = Some wasm \<longrightarrow>
     length (cc_fid (g_cached_function_code w)) \<le> 128 \<and> length (cc_cfunc_hash (g_cached_function_code w)) = 32 \<and>
     package_code s (cc_fid (g_cached_function_code w)) (cc_cfunc_hash (g_cached_function_code w)) wasm)"

lemma cache_authentic_quiet: "quiet w w' \<Longrightarrow> cache_authentic s w' = cache_authentic s w"
  by (simp add: cache_authentic_def quiet_def)

lemma cache_authentic_lookup:
  assumes "cache_authentic s w" "function_cache_lookup w f l = Some wasm" "length l = 32"
  shows "package_code s (take 128 f) l wasm"
  using assms by (auto simp: cache_authentic_def function_cache_lookup_def Let_def strncmp_eq_def memcmp_eq_def split: if_splits)

lemma fid_take [simp]: "fid_to_bytes_or_str (take 128 f) = fid_to_bytes_or_str f"
  by (simp add: fid_to_bytes_or_str_def)

lemma package_code_take [simp]: "package_code s (take 128 f) l wasm = package_code s f l wasm"
  by (simp add: package_code_def)

lemma cache_authentic_store:
  assumes "cache_authentic s w" "function_cache_store w copied f l wasm = (r, w')" "package_code s f l wasm" "length l = 32"
  shows "cache_authentic s w'"
  using assms by (auto simp: function_cache_store_def cache_authentic_def split: if_splits)

subsection \<open>The invariant of a run\<close>

definition owner :: "bytes \<Rightarrow> worker \<Rightarrow> bool" where
  "owner f w \<longleftrightarrow> g_key_loaded w \<and> f = g_worker_fid w \<or> g_bfibe_key_loaded w \<and> f = g_bfibe_fid w"

definition worker_ok :: "sgx \<Rightarrow> worker \<Rightarrow> bool" where
  "worker_ok s w \<longleftrightarrow> \<not> capture_output w \<and> label_clean w \<and> cache_authentic s w \<and> cache_owned w \<and>
     length (g_worker_fid w) \<le> 128 \<and> length (g_bfibe_fid w) \<le> 127"

lemma worker_ok_quiet: "quiet w w' \<Longrightarrow> worker_ok s w \<Longrightarrow> worker_ok s w'"
  by (simp add: worker_ok_def cache_authentic_quiet) (auto simp: quiet_def cache_owned_def key_store_def)

lemma owner_quiet: "quiet w w' \<Longrightarrow> owner f w' = owner f w"
  by (auto simp: owner_def quiet_def key_store_def)

lemma keep_function_ok:
  assumes "worker_ok s (rs_w st)" "owner f (rs_w st)" "package_code s f (label32 st) wasm" "length (label32 st) = 32"
  shows "worker_ok s (rs_w (keep_function e f wasm st))"
proof -
  obtain r w where k: "function_cache_store (rs_w st) (malloc_ok e 8) f (label32 st) wasm = (r, w)" by fastforce
  have "length f \<le> 128" using assms(1,2) by (auto simp: worker_ok_def owner_def)
  with assms k cache_authentic_store [OF _ k assms(3,4)] show ?thesis
    by (auto simp: keep_function_def worker_ok_def function_cache_store_def cache_owned_def owner_def
        function_cache_clear_def label_clean_def split: if_splits)
qed

lemma label_kept [simp]:
  "label32 (snd (select_dklabel s e u c st)) = label32 st"
  "label32 (snd (dec_request_key m s e u a d st)) = label32 st"
  "label32 (snd (dec_function_key m s e u a d c st)) = label32 st"
  "label32 (drop_label_key c st) = label32 st"
  "label32 (snd (snd (run_program rt re a wasm input t st))) = label32 st"
  by (auto simp: select_dklabel_def dec_request_key_def dec_function_key_def drop_label_key_def run_program_def Let_def
      split: option.splits prod.splits)

lemma find_function_Some:
  "find_function s f a st = (Some cached, st') \<Longrightarrow>
   sha256_msg s (encrypted_wasm a) = Some (label32 st') \<and> st' = st\<lparr>label32 := label32 st'\<rparr> \<and> rs_w st' = rs_w st \<and>
   cached = function_cache_lookup (rs_w st) f (label32 st')"
  by (auto simp: find_function_def compute_label_from_cfunc_def Let_def split: option.splits if_splits)

lemma debug_prints_quiet [simp]: "quiet w (rs_w (debug_prints u a st)) \<longleftrightarrow> quiet w (rs_w st)"
  by (simp add: debug_prints_def say_def)

lemma debug_prints_label [simp]: "label32 (debug_prints u a st) = label32 st"
  by (simp add: debug_prints_def say_def)

lemma build_aads_Some:
  "build_aads s e f a rid = Some (aad_pkg, aad_req, aad_out) \<Longrightarrow> aad_pkg = PKG @ fid_to_bytes_or_str f"
  by (auto simp: build_aads_def build_aad_pkg_def bind_eq_Some_conv split: if_splits)

lemma package_codeI:
  "sha256_msg s c = Some l \<Longrightarrow> gcm_dec s k c iv (PKG @ fid_to_bytes_or_str f) tag = Some wasm \<Longrightarrow> package_code s f l wasm"
  unfolding package_code_def by blast

text \<open>The state of a run once the function is known: it is about this FID and this package.\<close>

definition run_inv :: "sgx \<Rightarrow> bytes \<Rightarrow> invocation \<Rightarrow> 'z run_state_scheme \<Rightarrow> bool" where
  "run_inv s f a st \<longleftrightarrow> worker_ok s (rs_w st) \<and> owner f (rs_w st) \<and> sha256_msg s (encrypted_wasm a) = Some (label32 st)"

lemma run_inv_quiet:
  "quiet (rs_w st) (rs_w st') \<Longrightarrow> label32 st' = label32 st \<Longrightarrow> run_inv s f a st \<Longrightarrow> run_inv s f a st'"
  by (simp add: run_inv_def worker_ok_quiet owner_quiet)

lemma keep_function_inv:
  assumes "run_inv s f a st" "sha_laws s" "package_code s f (label32 st) wasm"
  shows "run_inv s f a (keep_function e f wasm st)"
proof -
  have "length (label32 st) = 32" using assms(1) sha_length [OF assms(2)] by (auto simp: run_inv_def)
  then have "worker_ok s (rs_w (keep_function e f wasm st))"
    using assms by (intro keep_function_ok) (auto simp: run_inv_def)
  with assms(1) show ?thesis
    by (auto simp: run_inv_def keep_function_def owner_def function_cache_store_def function_cache_clear_def
        split: prod.splits if_splits)
qed

lemma traced_simps [simp]: "rs_w (traced g st) = rs_w st" "label32 (traced g st) = label32 st"
  by (simp_all add: traced_def)

lemma traced_inv [simp]: "run_inv s f a (traced g st) \<longleftrightarrow> run_inv s f a st"
  by (simp add: run_inv_def)

lemma run_inv_upd [simp]:
  "run_inv s f a (st\<lparr>rs_t := t\<rparr>) \<longleftrightarrow> run_inv s f a st" "run_inv s f a (st\<lparr>k_U := k\<rparr>) \<longleftrightarrow> run_inv s f a st"
  "run_inv s f a (st\<lparr>k_U_128 := k\<rparr>) \<longleftrightarrow> run_inv s f a st" "run_inv s f a (st\<lparr>kem_derived := b\<rparr>) \<longleftrightarrow> run_inv s f a st"
  by (simp_all add: run_inv_def)

lemma shared_phases_inv:
  assumes "run_inv s f a st"
  shows "run_inv s f a (snd (select_dklabel s' e u c st))" "run_inv s f a (snd (dec_request_key m s' e u a' d st))"
    "run_inv s f a (snd (dec_function_key m s' e u a' d c st))" "run_inv s f a (drop_label_key c st)"
  by (rule run_inv_quiet [OF _ _ assms]; simp)+

lemma load_function_inv:
  assumes "run_inv s f a st" "sha_laws s"
  shows "run_inv s f a (snd (load_function s e u f a (PKG @ fid_to_bytes_or_str f) cached st))"
proof -
  have d: "run_inv s f a (debug_prints u a st)" by (rule run_inv_quiet [OF _ _ assms(1)]) simp_all
  have "sha256_msg s (encrypted_wasm a) = Some (label32 (debug_prints u a st))" using assms(1) by (simp add: run_inv_def)
  with d assms show ?thesis
    by (auto simp: load_function_def Let_def intro!: keep_function_inv split: option.splits dest: package_codeI)
qed

lemma load_function_timed_inv:
  assumes "run_inv s f a st" "sha_laws s"
  shows "run_inv s f a (snd (load_function_timed s e f a (PKG @ fid_to_bytes_or_str f) cached st))"
proof -
  have "sha256_msg s (encrypted_wasm a) = Some (label32 st)" using assms(1) by (simp add: run_inv_def)
  with assms show ?thesis
    by (auto simp: load_function_timed_def Let_def intro!: keep_function_inv split: option.splits dest: package_codeI)
qed

lemma run_program_inv:
  "run_inv s f a st \<Longrightarrow> run_inv s f a (snd (snd (run_program rt e a' wasm input t st)))"
  by (rule run_inv_quiet [OF run_program_quiet]) (auto simp: run_inv_def worker_ok_def)

lemma finish_legacy_inv:
  assumes "run_inv s f a st"
  shows "run_inv s f a (snd (finish_legacy rt s' e a' cached wasm input aad st))"
proof -
  let ?w = "enclave_print (trace_e3_payload_consumed s' (rs_w st) input) (function_cache_trace cached wasm)"
  have "run_inv s f a (st\<lparr>rs_w := ?w\<rparr>)"
    by (rule run_inv_quiet [OF _ _ assms]) (simp_all add: trace_e3_payload_consumed_def)
  from run_program_inv [OF this, of rt e a' wasm input None] show ?thesis
    by (auto simp: finish_legacy_def Let_def split: prod.splits)
qed

lemma find_function_inv:
  assumes "worker_ok s (rs_w st)" "owner f (rs_w st)" "find_function s f a st = (Some cached, st')"
  shows "run_inv s f a st'"
  using assms find_function_Some [OF assms(3)] by (simp add: run_inv_def)

lemma run_legacy_ok:
  assumes ok: "worker_ok s (rs_w st)" "owner f (rs_w st)" and sha: "sha_laws s"
  shows "worker_ok s (rs_w (snd (run_legacy m s rt e a u f rid st)))"
proof (cases "build_aads s (env_main e) f a rid")
  case (Some t)
  obtain aad_pkg aad_req aad_out where t: "t = (aad_pkg, aad_req, aad_out)" by (cases t)
  note pkg = build_aads_Some [OF Some [unfolded t]]
  show ?thesis
  proof (cases "find_function s f a st")
    case (Pair r st1)
    show ?thesis
    proof (cases r)
      case None
      have "quiet (rs_w st) (rs_w st1)" using find_function_quiet [of "rs_w st" s f a st] Pair by simp
      with None Pair Some t ok show ?thesis by (simp add: run_legacy_def worker_ok_quiet)
    next
      case r: (Some cached)
      have i: "run_inv s f a st1" using find_function_inv ok Pair r by blast
      have "run_inv s f a (snd (run_legacy m s rt e a u f rid st))"
        using i by (auto simp: run_legacy_def Some t Pair r pkg load_function_inv sha shared_phases_inv finish_legacy_inv
            intro!: phase_then_inv [where P = "run_inv s f a"])
      then show ?thesis by (simp add: run_inv_def)
    qed
  qed
qed (use ok in \<open>simp add: run_legacy_def\<close>)

lemma evidence_inv: "run_inv s f a st \<Longrightarrow> run_inv s f a (snd (evidence_phase s' cached wasm input st))"
  by (auto simp: evidence_phase_def run_inv_def Let_def split: option.splits)

lemma workload_inv: "run_inv s f a st \<Longrightarrow> run_inv s f a (snd (workload_phase rt e a' wasm input st))"
  using run_program_inv [of s f a st rt e a' wasm input "Some (rs_t st)"]
  by (auto simp: workload_phase_def Let_def split: prod.splits option.splits)

lemma kem_inv: "run_inv s f a st \<Longrightarrow> run_inv s f a (snd (kem_phase s' e a' st))"
  by (auto simp: kem_phase_def run_inv_def split: option.splits)

lemma output_inv: "run_inv s f a st \<Longrightarrow> run_inv s f a (snd (output_phase s' e a' aad ct st))"
  by (auto simp: output_phase_def split: option.splits)

lemma load_input_timed_inv: "run_inv s f a st \<Longrightarrow> run_inv s f a (snd (load_input_timed s' e a' aad st))"
  by (auto simp: load_input_timed_def Let_def split: option.splits)

lemma dec_timed_inv:
  assumes "run_inv s f a st"
  shows "run_inv s f a (snd (dec_request_key_timed m s' e u a' d st))"
    "run_inv s f a (snd (dec_function_key_timed m s' e u a' d c st))"
  using assms
  by (auto simp: dec_request_key_timed_def dec_function_key_timed_def shared_phases_inv
      intro!: phase_then_inv [where P = "run_inv s f a"])

lemma run_kem_ok:
  assumes ok: "worker_ok s (rs_w st)" "owner f (rs_w st)" and sha: "sha_laws s"
  shows "worker_ok s (rs_w (snd (run_kem m s rt e a u f st)))"
proof (cases "compute_rid_from_fid_and_c_req s (malloc_ok (env_main e) 1) f (c_req_full a)")
  case rid: (Some rid)
  let ?st = "traced (\<lambda>t. set_flag C1_TRACE_RID_VALID (t\<lparr>tr_rid := rid\<rparr>)) st"
  show ?thesis
  proof (cases "build_aads s (env_main e) f a rid")
    case (Some t)
    obtain aad_pkg aad_req aad_out where t: "t = (aad_pkg, aad_req, aad_out)" by (cases t)
    note pkg = build_aads_Some [OF Some [unfolded t]]
    show ?thesis
    proof (cases "find_function s f a ?st")
      case (Pair r st1)
      show ?thesis
      proof (cases r)
        case None
        have "quiet (rs_w st) (rs_w st1)" using find_function_quiet [of "rs_w st" s f a ?st] Pair by simp
        with None Pair Some t ok rid show ?thesis by (simp add: run_kem_def worker_ok_quiet del: One_nat_def)
      next
        case r: (Some cached)
        have i: "run_inv s f a st1" using find_function_inv [of s ?st f a cached st1] ok Pair r by simp
        have "run_inv s f a (snd (run_kem m s rt e a u f st))"
          using i by (auto simp: run_kem_def rid Some t Pair r pkg load_function_timed_inv sha shared_phases_inv dec_timed_inv
              load_input_timed_inv evidence_inv workload_inv kem_inv output_inv simp del: One_nat_def intro!: phase_then_inv [where P = "run_inv s f a"])
        then show ?thesis by (simp add: run_inv_def)
      qed
    qed
  qed (use ok rid in \<open>simp add: run_kem_def del: One_nat_def\<close>)
qed (use ok in \<open>simp add: run_kem_def del: One_nat_def\<close>)

lemma snd_Some: "r = (a, st) \<Longrightarrow> st = snd r"
  by simp

subsection \<open>The ECALLs keep the worker in order\<close>

lemma entered_owner: "enter_invocation w a = Some (u, f) \<Longrightarrow> owner f w"
  by (auto simp: enter_invocation_def owner_def Let_def split: if_splits)

lemma fresh_simps [simp]: "rs_w (fresh_run w) = w" "rs_w (fresh_kem w) = w"
  by (simp_all add: fresh_run_def fresh_kem_def)

lemma cleanup_kem_rs_w [simp]: "rs_w (cleanup_kem st) = rs_w (cleanup st)"
  by (simp add: cleanup_kem_def Let_def)

lemma cleanup_ok: "worker_ok s (rs_w st) \<Longrightarrow> worker_ok s (rs_w (cleanup st))"
  by (rule worker_ok_quiet [OF cleanup_quiet [OF quiet_refl]])

lemma encrypted_run_ok:
  assumes "worker_ok s w" "sha_laws s"
  shows "worker_ok s (rs_w (snd (ecall_run_encrypted_wasm m s rt e w a)))"
proof (cases "enter_invocation w a")
  case (Some t)
  obtain u f where t: "t = (u, f)" by (cases t)
  note o = entered_owner [OF Some [unfolded t]]
  have q: "quiet w (print_hex_prefixed w p d)" for p d by simp
  have "worker_ok s (print_hex_prefixed w p d) \<and> owner f (print_hex_prefixed w p d)" for p d
    using assms(1) o worker_ok_quiet [OF q] owner_quiet [OF q] by simp
  with Some t o assms show ?thesis
    by (auto simp: ecall_run_encrypted_wasm_def Let_def cleanup_ok run_legacy_ok split: prod.splits option.splits
        intro!: run_legacy_ok [where st = "fresh_run _", simplified] dest!: snd_Some)
qed (use assms in \<open>simp add: ecall_run_encrypted_wasm_def\<close>)

lemma encrypted_run_kem_ok:
  assumes "worker_ok s w" "sha_laws s"
  shows "worker_ok s (rs_w (snd (ecall_run_encrypted_wasm_kem m s rt e w a)))"
proof (cases "enter_invocation w a")
  case (Some t)
  obtain u f where t: "t = (u, f)" by (cases t)
  have "worker_ok s (rs_w (snd (run_kem m s rt e a u f (fresh_kem w))))"
    using assms entered_owner [OF Some [unfolded t]] by (intro run_kem_ok) simp_all
  with Some t assms show ?thesis
    by (auto simp: ecall_run_encrypted_wasm_kem_def Let_def cleanup_ok split: prod.splits)
qed (use assms in \<open>simp add: ecall_run_encrypted_wasm_kem_def\<close>)


end
