(* ===== verification/WorkerResult.thy ===== *)
theory WorkerResult
  imports WorkerPhases
begin

text \<open>
  What a successful invocation with KEM-encrypted output has checked and computed, and what its
  trace says.
\<close>

subsection \<open>A phase that succeeds\<close>

abbreviation "flags st \<equiv> tr_flags (rs_t st)"
abbreviation "flag n \<equiv> push_bit n 1 :: u32"

lemma flags_set [simp]: "tr_flags (set_flag n t) = tr_flags t OR flag n"
  by (simp add: set_flag_def)

lemma find_flags: "find_function s f a st = (r, st') \<Longrightarrow> rs_t st' = rs_t st"
  by (auto simp: find_function_def Let_def split: option.splits if_splits)

lemma select_flags: "select_dklabel s e u c st = (r, st') \<Longrightarrow> rs_t st' = rs_t st"
  by (auto simp: select_dklabel_def Let_def split: option.splits if_splits)

lemma select_Some: "select_dklabel s e u c st = (r, st') \<Longrightarrow> quiet (rs_w st) (rs_w st') \<and> label32 st' = label32 st"
  using select_dklabel_quiet [OF quiet_refl, of st s e u c] label_kept(1) [of s e u c st] by simp

lemma dec_request_timed_Some:
  assumes "dec_request_key_timed m s e u a d st = (Some x, st')"
  shows "fst (DecKey m s (env_req e) (rs_w st) (if u then None else Some (g_worker_key (rs_w st))) (c_key a)
      (if u then d else DOM_CKEY)) = Some (k_req32 st') \<and>
    quiet (rs_w st) (rs_w st') \<and> label32 st' = label32 st \<and> flags st' = flags st OR flag C3_TRACE_INPUT_KEY_CYCLES_VALID"
proof -
  obtain k w where D: "DecKey m s (env_req e) (rs_w st) (if u then None else Some (g_worker_key (rs_w st))) (c_key a)
      (if u then d else DOM_CKEY) = (k, w)" by fastforce
  then have "quiet (rs_w st) w" by (metis quiet_DecKey snd_conv)
  with D assms show ?thesis
    by (cases u) (auto simp: dec_request_key_timed_def dec_request_key_def phase_then_Some Let_def traced_def split: option.splits)
qed

lemma dec_function_timed_Some:
  assumes "dec_function_key_timed m s e u a d cached st = (Some x, st')"
  shows "k_req32 st' = k_req32 st \<and> quiet (rs_w st) (rs_w st') \<and> label32 st' = label32 st \<and>
    flags st' = (if cached = None then flags st OR flag C2_TRACE_FUNCTION_KEY_CYCLES_VALID else flags st)"
proof -
  obtain k w where D: "DecKey m s (env_func e) (rs_w st) (if u then None else Some (g_dklabel_func (rs_w st))) (c_k_func a)
      (if u then d else DOM_CKFUNC) = (k, w)" by fastforce
  then have "quiet (rs_w st) w" by (metis quiet_DecKey snd_conv)
  with D assms show ?thesis
    by (cases u) (auto simp: dec_function_key_timed_def dec_function_key_def phase_then_Some Let_def traced_def
        split: option.splits if_splits)
qed

lemma drop_label_simps [simp]:
  "k_req_128 (drop_label_key c st) = take 16 (k_req32 st)" "rs_t (drop_label_key c st) = rs_t st"
  by (simp_all add: drop_label_key_def Let_def)

lemma keep_function_simps [simp]:
  "k_req_128 (keep_function e f wasm st) = k_req_128 st" "rs_t (keep_function e f wasm st) = rs_t st"
  "label32 (keep_function e f wasm st) = label32 st"
  by (simp_all add: keep_function_def split: prod.splits)

lemma load_function_timed_Some:
  assumes "load_function_timed s e f a (PKG @ fid_to_bytes_or_str f) cached st = (Some wasm, st')"
    and "sha256_msg s (encrypted_wasm a) = Some (label32 st)"
  shows "(cached = Some wasm \<or> cached = None \<and> package_code s f (label32 st) wasm) \<and> k_req_128 st' = k_req_128 st \<and>
    label32 st' = label32 st \<and>
    flags st' = (if cached = None then flags st OR flag C2_TRACE_CFUNC_AES_GCM_CYCLES_VALID else flags st)"
  using assms by (auto simp: load_function_timed_def Let_def traced_def dest: package_codeI split: option.splits if_splits)

lemma load_input_timed_Some:
  assumes "load_input_timed s e a d st = (Some input, st')"
  shows "rs_w st' = rs_w st \<and> label32 st' = label32 st \<and>
    (input = None \<and> encrypted_input a = [] \<or>
     (\<exists>x. input = Some x \<and> gcm_dec s (k_req_128 st) (encrypted_input a) (take 12 (input_iv a)) d (take 16 (input_mac a)) = Some x
        \<and> flags st' = flags st OR flag C3_TRACE_INPUT_AES_GCM_CYCLES_VALID))"
  using assms
  by (cases "gcm_dec s (k_req_128 st) (encrypted_input a) (take 12 (input_iv a)) d (take 16 (input_mac a))")
    (auto simp: load_input_timed_def Let_def traced_def split: if_splits)

lemma evidence_Some:
  assumes "evidence_phase s cached wasm input st = (Some x, st')"
  shows "rs_w st' = rs_w st \<and> label32 st' = label32 st \<and> (\<exists>d h. input = Some d \<and> sha256_msg s d = Some h \<and>
     payload_sha256 (rs_t st') = h \<and> payload_bytes_consumed (rs_t st') = len32 d) \<and>
    flags st' = flags st OR flag C1_TRACE_PAYLOAD_VALID OR flag C1_TRACE_FUNCTION_CACHE_VALID OR
      flag (if cached = None then C1_TRACE_CFUNC_DECRYPT_EXECUTED else C1_TRACE_FUNCTION_CACHE_HIT)"
  using assms
  by (auto simp: evidence_phase_def capture_e3_payload_evidence_def Let_def bind_eq_Some_conv set_flag_def or.assoc
      split: option.splits if_splits)

lemma prepare_True:
  "output_capture_prepare w ok c = (True, w') \<Longrightarrow> global_output_buffer w' = Some (zero_bytes (unat c + 1)) \<and>
   global_output_capacity w' = c \<and> c \<noteq> 0 \<and> c \<le> ASYNCS_MAX_OUTPUT_CAPACITY_BYTES"
  by (auto simp: output_capture_prepare_def Let_def not_less split: if_splits)

lemma helper_True:
  assumes "run_wasm_helper rt c ts w wasm arg (Some t) = (True, w', t')"
  shows "execute_main rt w wasm arg = (True, w') \<and> (\<exists>u. t' = Some u \<and>
    tr_flags u = tr_flags t OR flag C2_TRACE_WASM_LOAD_CYCLES_VALID OR flag C2_TRACE_WASM_INSTANTIATE_CYCLES_VALID \<and>
    payload_sha256 u = payload_sha256 t \<and> payload_bytes_consumed u = payload_bytes_consumed t \<and> tr_rid u = tr_rid t)"
  using assms by (auto simp: run_wasm_helper_def Let_def set_flag_def or.assoc split: if_splits prod.splits)

lemma workload_Some:
  assumes "workload_phase rt e a wasm input st = (Some x, st')" and "wasm_main rt wasm arg (max_out_size a) = (calls, ok)"
    and "arg = (case input of None \<Rightarrow> None | Some d \<Rightarrow> base64_encode (malloc_ok (env_main e) 10) d)"
    and "\<forall>c \<in> set calls. call_fits c"
  shows "ok \<and> (\<exists>b. captured (unat (max_out_size a)) calls [] = Some b \<and> holds_output (rs_w st') b) \<and>
    label32 st' = label32 st \<and>
    payload_sha256 (rs_t st') = payload_sha256 (rs_t st) \<and> payload_bytes_consumed (rs_t st') = payload_bytes_consumed (rs_t st) \<and>
    flags st' = flags st OR flag C2_TRACE_WASM_LOAD_CYCLES_VALID OR flag C2_TRACE_WASM_INSTANTIATE_CYCLES_VALID OR
      flag C1_TRACE_WORKLOAD_CYCLES_VALID"
proof -
  obtain w1 where p: "output_capture_prepare (rs_w st) (malloc_ok (env_main e) 11) (max_out_size a) = (True, w1)"
    and r: "\<exists>w2 t b n. run_wasm_helper rt (malloc_ok (env_main e) 12) (tsc e) w1 wasm arg (Some (rs_t st)) = (True, w2, t) \<and>
      st' = traced (\<lambda>t. set_flag C1_TRACE_WORKLOAD_CYCLES_VALID
        (t\<lparr>workload_begin_cycles := b, workload_end_cycles := n, workload_core_cycles := n - b\<rparr>))
        (st\<lparr>rs_w := w2, input_b64 := None, rs_t := the t\<rparr>)"
    using assms(1) unfolding workload_phase_def run_program_def assms(3) [symmetric]
    by (auto simp: Let_def split: prod.splits option.splits if_splits)
  from r obtain w2 t b n where r: "run_wasm_helper rt (malloc_ok (env_main e) 12) (tsc e) w1 wasm arg (Some (rs_t st)) = (True, w2, t)"
      and st': "st' = traced (\<lambda>t. set_flag C1_TRACE_WORKLOAD_CYCLES_VALID
        (t\<lparr>workload_begin_cycles := b, workload_end_cycles := n, workload_core_cycles := n - b\<rparr>))
        (st\<lparr>rs_w := w2, input_b64 := None, rs_t := the t\<rparr>)" by blast
  note h = helper_True [OF r] and q = prepare_True [OF p]
  from captured_output_refines [of w1 _ "max_out_size a" rt wasm arg calls ok True w2] q h assms(2,4)
  have "ok \<and> (\<exists>b. captured (unat (max_out_size a)) calls [] = Some b \<and> holds_output w2 b)" by auto
  with h st' show ?thesis by (auto simp: traced_def set_flag_def or.assoc)
qed

lemma kem_Some:
  assumes "kem_phase s e a st = (Some ct, st')"
  shows "\<exists>key. ecall_kem_encap s (env_kem e) (pkU a) = Some (ct, key) \<and> k_U_128 st' = take 16 key \<and> rs_w st' = rs_w st \<and>
    payload_sha256 (rs_t st') = payload_sha256 (rs_t st) \<and> payload_bytes_consumed (rs_t st') = payload_bytes_consumed (rs_t st) \<and>
    flags st' = flags st OR flag C1_TRACE_OUTPUT_KEM_CYCLES_VALID"
  using assms by (auto simp: kem_phase_def traced_def set_flag_def split: option.splits)

lemma output_Some:
  assumes "output_phase s e a aad ct st = (Some r, st')"
  shows "encrypt_result s (env_main e) a (k_U_128 st) aad (rs_w st) = Some (fst r) \<and> snd r = ct \<and>
    payload_sha256 (rs_t st') = payload_sha256 (rs_t st) \<and> payload_bytes_consumed (rs_t st') = payload_bytes_consumed (rs_t st) \<and>
    flags st' = flags st OR flag C1_TRACE_OUTPUT_AES_GCM_CYCLES_VALID OR flag C1_TRACE_SUCCESS"
  using assms by (auto simp: output_phase_def traced_def set_flag_def or.assoc split: option.splits)

lemma encrypt_result_Some:
  assumes "encrypt_result s e a key aad w = Some r" "holds_output w b" "length b < 2 ^ 32"
  shows "gcm_enc s key b (result_iv r) aad = Some (encrypted_result r, result_tag r) \<and> result_size r = len32 b \<and>
    result_iv r = rand_unchecked e 0"
proof -
  have "unat (global_output_pos w) = length b" and t: "take (unat (global_output_pos w)) (the (global_output_buffer w)) = b"
    using assms(2) by (auto simp: holds_output_def)
  then have "global_output_pos w = len32 b" using len32_of_unat [of b "global_output_pos w"] by simp
  with t assms(1) show ?thesis by (auto simp: encrypt_result_def Let_def bind_eq_Some_conv split: if_splits)
qed

subsection \<open>A successful invocation\<close>

text \<open>
  Everything a successful invocation has checked and computed: the code belongs to the label of the
  package and the FID, the request authenticates under the FID, the nonce and the client's key, the
  output is what the code wrote on that request, and it is encrypted to the client's key under the
  FID, the request identifier and that key.
\<close>

definition invocation_result ::
  "('fr, 'g1, 'g2, 'gt) mcl \<Rightarrow> sgx \<Rightarrow> runtime \<Rightarrow> run_env \<Rightarrow> worker \<Rightarrow> invocation \<Rightarrow> bool \<Rightarrow> bytes \<Rightarrow> bool
   \<Rightarrow> bytes \<Rightarrow> bytes \<Rightarrow> bytes \<Rightarrow> run_result \<Rightarrow> bytes \<Rightarrow> bool" where
  "invocation_result m s rt e w a u f hit wasm input output r kem_ct \<longleftrightarrow>
     (\<exists>l rid hpk w1 key kU calls. sha256_msg s (encrypted_wasm a) = Some l \<and> package_code s f l wasm \<and>
        hit = (function_cache_lookup w f l \<noteq> None) \<and>
        sha256_msg s (fid_to_bytes_or_str f @ c_req_full a) = Some rid \<and> sha256_msg s (take 65 (pkU a)) = Some hpk \<and>
        quiet w w1 \<and>
        fst (DecKey m s (env_req e) w1 (if u then None else Some (g_worker_key w)) (c_key a)
          (if u then REQ @ fid_to_bytes_or_str f @ take 16 (nonce a) @ hpk else DOM_CKEY)) = Some key \<and>
        gcm_dec s (take 16 key) (encrypted_input a) (take 12 (input_iv a))
          (REQ @ fid_to_bytes_or_str f @ take 16 (nonce a) @ hpk) (take 16 (input_mac a)) = Some input \<and>
        wasm_main rt wasm (base64_encode (malloc_ok (env_main e) 10) input) (max_out_size a) = (calls, True) \<and>
        captured (unat (max_out_size a)) calls [] = Some output \<and>
        ecall_kem_encap s (env_kem e) (pkU a) = Some (kem_ct, kU) \<and>
        gcm_enc s (take 16 kU) output (result_iv r) (OUT @ fid_to_bytes_or_str f @ take 32 rid @ hpk)
          = Some (encrypted_result r, result_tag r) \<and> result_size r = len32 output)"

definition success_flags :: "bool \<Rightarrow> u32" where
  "success_flags hit = (if hit then 0x67F7 else 0x7FFB)"

definition programs_fit :: "runtime \<Rightarrow> bool" where
  "programs_fit rt \<longleftrightarrow> (\<forall>wasm arg cap. \<forall>c \<in> set (fst (wasm_main rt wasm arg cap)). call_fits c)"

lemmas flag_defs = C1_TRACE_RID_VALID_def C1_TRACE_PAYLOAD_VALID_def C1_TRACE_FUNCTION_CACHE_HIT_def
  C1_TRACE_CFUNC_DECRYPT_EXECUTED_def C1_TRACE_WORKLOAD_CYCLES_VALID_def C1_TRACE_OUTPUT_KEM_CYCLES_VALID_def
  C1_TRACE_OUTPUT_AES_GCM_CYCLES_VALID_def C1_TRACE_FUNCTION_CACHE_VALID_def C1_TRACE_SUCCESS_def
  C3_TRACE_INPUT_KEY_CYCLES_VALID_def C3_TRACE_INPUT_AES_GCM_CYCLES_VALID_def C2_TRACE_FUNCTION_KEY_CYCLES_VALID_def
  C2_TRACE_CFUNC_AES_GCM_CYCLES_VALID_def C2_TRACE_WASM_LOAD_CYCLES_VALID_def C2_TRACE_WASM_INSTANTIATE_CYCLES_VALID_def

lemma captured_length: "captured cap cs b = Some b' \<Longrightarrow> length b \<le> cap \<Longrightarrow> length b' \<le> cap"
proof (induction cs arbitrary: b)
  case (Cons c cs)
  then obtain x where x: "captured_call cap c b = Some x" "captured cap cs x = Some b'"
    by (auto simp: bind_eq_Some_conv)
  from x(1) Cons.prems(2) have "length x \<le> cap"
    by (cases "(cap, c, b)" rule: captured_call.cases) (auto split: if_splits)
  with Cons.IH x(2) show ?case by blast
qed simp

lemma build_aads_parts:
  assumes "build_aads s e f a rid = Some (aad_pkg, aad_req, aad_out)"
  shows "\<exists>hpk. sha256_msg s (take 65 (pkU a)) = Some hpk \<and> aad_pkg = PKG @ fid_to_bytes_or_str f \<and>
    aad_req = REQ @ fid_to_bytes_or_str f @ take 16 (nonce a) @ hpk \<and>
    aad_out = OUT @ fid_to_bytes_or_str f @ take 32 rid @ hpk"
  using assms
  by (auto simp: build_aads_def build_aad_pkg_def build_aad_req_def build_aad_out_def sha256_bytes_def bind_eq_Some_conv
      split: if_splits)

lemma run_kem_Some:
  assumes "run_kem m s rt e a u f st0 = (Some (r, ct), st')"
    and ok: "worker_ok s (rs_w st0)" "owner f (rs_w st0)" "sha_laws s" "programs_fit rt"
  shows "\<exists>hit wasm input output. invocation_result m s rt e (rs_w st0) a u f hit wasm input output r ct \<and>
    sha256_msg s input = Some (payload_sha256 (rs_t st')) \<and> payload_bytes_consumed (rs_t st') = len32 input \<and>
    (flags st0 = 0 \<longrightarrow> flags st' = success_flags hit)"
proof -
  from assms(1) obtain rid where rid: "compute_rid_from_fid_and_c_req s (malloc_ok (env_main e) 1) f (c_req_full a) = Some rid"
    by (auto simp: run_kem_def simp del: One_nat_def split: option.splits)
  define st1 where "st1 = traced (\<lambda>t. set_flag C1_TRACE_RID_VALID (t\<lparr>tr_rid := rid\<rparr>)) st0"
  from assms(1) rid obtain aad_pkg aad_req aad_out where aads: "build_aads s (env_main e) f a rid = Some (aad_pkg, aad_req, aad_out)"
    by (auto simp: run_kem_def Let_def simp del: One_nat_def split: option.splits)
  from build_aads_parts [OF aads] obtain hpk where A: "sha256_msg s (take 65 (pkU a)) = Some hpk"
    "aad_pkg = PKG @ fid_to_bytes_or_str f" "aad_req = REQ @ fid_to_bytes_or_str f @ take 16 (nonce a) @ hpk"
    "aad_out = OUT @ fid_to_bytes_or_str f @ take 32 rid @ hpk" by blast
  from assms(1) rid aads obtain cached st2 x3 st3 x4 st4 x5 st5 wasm st6 input st7 x8 st8 x9 st9 ct' st10 where
    2: "find_function s f a st1 = (Some cached, st2)" and
    3: "select_dklabel s (env_main e) u cached st2 = (Some x3, st3)" and
    4: "dec_request_key_timed m s e u a aad_req st3 = (Some x4, st4)" and
    5: "dec_function_key_timed m s e u a aad_pkg cached st4 = (Some x5, st5)" and
    6: "load_function_timed s e f a aad_pkg cached (drop_label_key cached st5) = (Some wasm, st6)" and
    7: "load_input_timed s e a aad_req st6 = (Some input, st7)" and
    8: "evidence_phase s cached wasm input st7 = (Some x8, st8)" and
    9: "workload_phase rt e a wasm input st8 = (Some x9, st9)" and
    10: "kem_phase s e a st9 = (Some ct', st10)" and
    11: "output_phase s e a aad_out ct' st10 = (Some (r, ct), st')"
    by (auto simp: run_kem_def Let_def phase_then_Some st1_def simp del: One_nat_def)
  define l where "l = label32 st2"
  have F: "sha256_msg s (encrypted_wasm a) = Some l" "rs_w st2 = rs_w st0" "cached = function_cache_lookup (rs_w st0) f l"
    using find_function_Some [OF 2] by (simp_all add: l_def st1_def)
  note S3 = select_Some [OF 3] and S4 = dec_request_timed_Some [OF 4] and S5 = dec_function_timed_Some [OF 5]
  have q: "quiet (rs_w st0) (rs_w st3)" using S3 F(2) by simp
  have l5: "label32 st5 = l" using S3 S4 S5 by (simp add: l_def)
  have S6: "(cached = Some wasm \<or> cached = None \<and> package_code s f l wasm) \<and> k_req_128 st6 = take 16 (k_req32 st4) \<and>
      flags st6 = (if cached = None then flags st5 OR flag C2_TRACE_CFUNC_AES_GCM_CYCLES_VALID else flags st5)"
    using load_function_timed_Some [OF 6 [unfolded A(2)]] F(1) l5 S5 by simp
  have pc: "package_code s f l wasm"
    using S6 cache_authentic_lookup [of s "rs_w st0" f l wasm] ok(1) sha_length [OF ok(3) F(1)] F(3)
    by (auto simp: worker_ok_def)
  from evidence_Some [OF 8] obtain d h where E: "input = Some d" "sha256_msg s d = Some h" "payload_sha256 (rs_t st8) = h"
    "payload_bytes_consumed (rs_t st8) = len32 d"
    "flags st8 = flags st7 OR flag C1_TRACE_PAYLOAD_VALID OR flag C1_TRACE_FUNCTION_CACHE_VALID OR
      flag (if cached = None then C1_TRACE_CFUNC_DECRYPT_EXECUTED else C1_TRACE_FUNCTION_CACHE_HIT)" by blast
  from load_input_timed_Some [OF 7] E(1) have I: "gcm_dec s (take 16 (k_req32 st4)) (encrypted_input a) (take 12 (input_iv a)) aad_req
      (take 16 (input_mac a)) = Some d" "flags st7 = flags st6 OR flag C3_TRACE_INPUT_AES_GCM_CYCLES_VALID"
    using S6 by auto
  obtain calls mok where m: "wasm_main rt wasm (base64_encode (malloc_ok (env_main e) 10) d) (max_out_size a) = (calls, mok)"
    by fastforce
  have "\<forall>c \<in> set calls. call_fits c" using ok(4) m by (metis programs_fit_def fst_conv)
  from workload_Some [OF 9 m _ this] E(1) obtain b where W: "mok" "captured (unat (max_out_size a)) calls [] = Some b"
    "holds_output (rs_w st9) b" "payload_sha256 (rs_t st9) = payload_sha256 (rs_t st8)"
    "payload_bytes_consumed (rs_t st9) = payload_bytes_consumed (rs_t st8)"
    "flags st9 = flags st8 OR flag C2_TRACE_WASM_LOAD_CYCLES_VALID OR flag C2_TRACE_WASM_INSTANTIATE_CYCLES_VALID OR
      flag C1_TRACE_WORKLOAD_CYCLES_VALID" by auto
  note O = output_Some [OF 11]
  then have "ct' = ct" by simp
  with kem_Some [OF 10] obtain kU where K: "ecall_kem_encap s (env_kem e) (pkU a) = Some (ct, kU)" "k_U_128 st10 = take 16 kU"
    "rs_w st10 = rs_w st9" "payload_sha256 (rs_t st10) = payload_sha256 (rs_t st9)"
    "payload_bytes_consumed (rs_t st10) = payload_bytes_consumed (rs_t st9)"
    "flags st10 = flags st9 OR flag C1_TRACE_OUTPUT_KEM_CYCLES_VALID" by blast
  have "length b < 2 ^ 32" using captured_length [OF W(2)] unat_u32_bound [of "max_out_size a"] by simp
  with O K W(3) encrypt_result_Some [of s "env_main e" a "take 16 kU" aad_out "rs_w st9" r b]
  have R: "gcm_enc s (take 16 kU) b (result_iv r) aad_out = Some (encrypted_result r, result_tag r)" "result_size r = len32 b"
    by auto
  have g: "g_worker_key (rs_w st3) = g_worker_key (rs_w st0)" using q by (simp add: quiet_def key_store_def)
  have dk: "fst (DecKey m s (env_req e) (rs_w st3) (if u then None else Some (g_worker_key (rs_w st0))) (c_key a)
      (if u then REQ @ fid_to_bytes_or_str f @ take 16 (nonce a) @ hpk else DOM_CKEY)) = Some (k_req32 st4)"
    using conjunct1 [OF S4] unfolding g A(3) .
  have rd: "sha256_msg s (fid_to_bytes_or_str f @ c_req_full a) = Some rid"
    using rid by (simp add: compute_rid_from_fid_and_c_req_def split: if_splits)
  have "invocation_result m s rt e (rs_w st0) a u f (cached \<noteq> None) wasm d b r ct"
    unfolding invocation_result_def
    by (intro exI [of _ l] exI [of _ rid] exI [of _ hpk] exI [of _ "rs_w st3"] exI [of _ "k_req32 st4"] exI [of _ kU]
        exI [of _ calls] conjI)
      (use F pc rd A(1) q dk I(1) [unfolded A(3)] m W(1,2) K(1) R [unfolded A(4)] in \<open>simp_all only: simp_thms\<close>)
  moreover have "flags st' = success_flags (cached \<noteq> None)" if "flags st0 = 0"
  proof -
    have "flags st2 = flag C1_TRACE_RID_VALID" using find_flags [OF 2] that by (simp add: st1_def traced_def)
    then have "flags st4 = flag C1_TRACE_RID_VALID OR flag C3_TRACE_INPUT_KEY_CYCLES_VALID"
      using select_flags [OF 3] S4 by simp
    then show ?thesis
      using S5 S6 I(2) E(5) W(6) K(6) O by (cases cached) (simp_all add: flag_defs success_flags_def)
  qed
  ultimately show ?thesis using O K(4,5) W(4,5) E by metis
qed

subsection \<open>Invocations that fail\<close>

definition no_success :: "'z kem_state_scheme \<Rightarrow> bool" where
  "no_success st \<longleftrightarrow> \<not> bit (tr_flags (rs_t st)) C1_TRACE_SUCCESS"

text \<open>What a chain leaves when it fails somewhere.\<close>

definition none_inv :: "('s \<Rightarrow> bool) \<Rightarrow> 'a option \<times> 's \<Rightarrow> bool" where
  "none_inv P r \<longleftrightarrow> (fst r = None \<longrightarrow> P (snd r))"

lemma none_inv_then:
  "P (snd r) \<Longrightarrow> (\<And>a st. P st \<Longrightarrow> none_inv P (f a st)) \<Longrightarrow> none_inv P (phase_then r f)"
  by (cases r; cases "fst r") (auto simp: none_inv_def)

lemma shared_trace [simp]:
  "rs_t (snd (find_function s f a st)) = rs_t st" "rs_t (snd (select_dklabel s e' u c st)) = rs_t st"
  "rs_t (snd (dec_request_key m s e' u a d st)) = rs_t st" "rs_t (snd (dec_function_key m s e' u a d c st)) = rs_t st"
  "rs_t (snd (snd (run_program rt e a wasm input t st))) = rs_t st"
  by (auto simp: find_function_def select_dklabel_def dec_request_key_def dec_function_key_def run_program_def Let_def
      split: option.splits prod.splits)

lemma bit8: "n \<noteq> C1_TRACE_SUCCESS \<Longrightarrow> bit (x OR 2 ^ n :: u32) C1_TRACE_SUCCESS \<longleftrightarrow> bit x C1_TRACE_SUCCESS"
  by (simp add: bit_or_iff bit_exp_iff C1_TRACE_SUCCESS_def)

lemma flags_distinct [simp]:
  "C3_TRACE_INPUT_KEY_CYCLES_VALID \<noteq> C1_TRACE_SUCCESS" "C2_TRACE_FUNCTION_KEY_CYCLES_VALID \<noteq> C1_TRACE_SUCCESS"
  "C2_TRACE_CFUNC_AES_GCM_CYCLES_VALID \<noteq> C1_TRACE_SUCCESS" "C3_TRACE_INPUT_AES_GCM_CYCLES_VALID \<noteq> C1_TRACE_SUCCESS"
  "C1_TRACE_PAYLOAD_VALID \<noteq> C1_TRACE_SUCCESS" "C1_TRACE_FUNCTION_CACHE_VALID \<noteq> C1_TRACE_SUCCESS"
  "C1_TRACE_FUNCTION_CACHE_HIT \<noteq> C1_TRACE_SUCCESS" "C1_TRACE_CFUNC_DECRYPT_EXECUTED \<noteq> C1_TRACE_SUCCESS"
  "C2_TRACE_WASM_LOAD_CYCLES_VALID \<noteq> C1_TRACE_SUCCESS" "C2_TRACE_WASM_INSTANTIATE_CYCLES_VALID \<noteq> C1_TRACE_SUCCESS"
  "C1_TRACE_WORKLOAD_CYCLES_VALID \<noteq> C1_TRACE_SUCCESS" "C1_TRACE_OUTPUT_KEM_CYCLES_VALID \<noteq> C1_TRACE_SUCCESS"
  "C1_TRACE_RID_VALID \<noteq> C1_TRACE_SUCCESS"
  by (simp_all add: flag_defs)

lemma helper_no_success:
  "\<exists>u. snd (snd (run_wasm_helper rt c ts w wasm arg (Some t))) = Some u \<and> (bit (tr_flags u) C1_TRACE_SUCCESS \<longleftrightarrow> bit (tr_flags t) C1_TRACE_SUCCESS)"
  by (auto simp: run_wasm_helper_def Let_def bit8 split: prod.splits)

lemma run_program_no_success:
  "\<exists>u. fst (snd (run_program rt e a wasm input (Some t) st)) = Some u \<and> (bit (tr_flags u) C1_TRACE_SUCCESS \<longleftrightarrow> bit (tr_flags t) C1_TRACE_SUCCESS)"
proof -
  obtain r w where p: "output_capture_prepare (rs_w st) (malloc_ok (env_main e) 11) (max_out_size a) = (r, w)" by fastforce
  let ?arg = "case input of None \<Rightarrow> None | Some d \<Rightarrow> base64_encode (malloc_ok (env_main e) 10) d"
  obtain ok w2 t2 where h: "run_wasm_helper rt (malloc_ok (env_main e) 12) (tsc e) w wasm ?arg (Some t) = (ok, w2, t2)"
    by (metis prod_cases3)
  show ?thesis
    using helper_no_success [of rt "malloc_ok (env_main e) 12" "tsc e" w wasm ?arg t] h
    by (simp add: run_program_def p Let_def)
qed

lemma shared_no_success [simp]:
  "no_success (snd (find_function s f a st)) \<longleftrightarrow> no_success st" "no_success (snd (select_dklabel s e' u c st)) \<longleftrightarrow> no_success st"
  "no_success (drop_label_key c st) \<longleftrightarrow> no_success st"
  by (simp_all add: no_success_def)

lemma timed_phases_no_success:
  assumes "no_success st"
  shows "no_success (snd (dec_request_key_timed m s e u a d st))" "no_success (snd (dec_function_key_timed m s e u a d c st))"
proof -
  show "no_success (snd (dec_request_key_timed m s e u a d st))"
    unfolding dec_request_key_timed_def
    by (rule phase_then_inv [where P = no_success]) (use assms in \<open>auto simp: no_success_def traced_def bit8\<close>)
  show "no_success (snd (dec_function_key_timed m s e u a d c st))"
  proof (cases "c = None")
    case True
    have "no_success (snd (phase_then (dec_function_key m s (env_func e) u a d c (traced (\<lambda>t. t\<lparr>function_key_decap_begin_cycles := tsc e 2\<rparr>) st))
             (\<lambda>_ st. (Some (), traced (\<lambda>t. set_flag C2_TRACE_FUNCTION_KEY_CYCLES_VALID
                (t\<lparr>function_key_decap_end_cycles := tsc e 3,
                   function_key_decap_cycles := tsc e 3 - function_key_decap_begin_cycles t\<rparr>)) st))))"
      by (rule phase_then_inv [where P = no_success]) (use assms in \<open>auto simp: no_success_def traced_def bit8\<close>)
    with True show ?thesis by (simp add: dec_function_key_timed_def)
  qed (use assms in \<open>simp add: dec_function_key_timed_def\<close>)
qed

lemma phases_no_success:
  assumes "no_success st"
  shows "no_success (snd (load_function_timed s e f a d c st))" "no_success (snd (load_input_timed s e a d st))"
    "no_success (snd (evidence_phase s c wasm input st))" "no_success (snd (kem_phase s e a st))"
  using assms
  by (auto simp: no_success_def load_function_timed_def load_input_timed_def evidence_phase_def capture_e3_payload_evidence_def
      kem_phase_def traced_def bit8 Let_def bind_eq_Some_conv split: option.splits)

lemma workload_no_success:
  assumes "no_success st"
  shows "no_success (snd (workload_phase rt e a wasm input st))"
  using assms run_program_no_success [of rt e a wasm input "rs_t st" st]
  by (auto simp: no_success_def workload_phase_def traced_def bit8 Let_def split: prod.splits option.splits)

lemma output_no_success: "no_success st \<Longrightarrow> none_inv no_success (output_phase s e a d ct st)"
  by (auto simp: none_inv_def output_phase_def split: option.splits)

lemma run_kem_None:
  assumes "no_success st"
  shows "none_inv no_success (run_kem m s rt e a u f st)"
proof -
  have "no_success (traced (\<lambda>t. set_flag C1_TRACE_RID_VALID (t\<lparr>tr_rid := rid\<rparr>)) st)" for rid
    using assms by (simp add: no_success_def traced_def bit8)
  with assms show ?thesis
    unfolding run_kem_def Let_def
    by (auto simp del: One_nat_def split: option.split prod.split intro!: none_inv_then
        output_no_success phases_no_success timed_phases_no_success workload_no_success) (simp_all add: none_inv_def)
qed

lemma success_flags_bit: "bit (success_flags hit) C1_TRACE_SUCCESS"
  by (simp add: success_flags_def C1_TRACE_SUCCESS_def bit_numeral_rec numeral_eq_Suc)

end
