(* ===== verification/WorkerSystem.thy ===== *)
theory WorkerSystem
  imports WorkerResult
begin

text \<open>
  The worker enclave as a state machine over its ECALLs: the invariant of every reachable state,
  what an invocation leaves behind, and the client's side of the output encryption.
\<close>

subsection \<open>The self test\<close>

text \<open>\<open>mcl_ibe.cpp\<close> forwards to the trusted scheme.\<close>

definition mcl_ibe_init where "mcl_ibe_init m ini = bfibe_mcl_init m ini"
definition mcl_ibe_setup where "mcl_ibe_setup m e mpk_cap msk_cap ini = bfibe_mcl_setup m e mpk_cap msk_cap ini"
definition mcl_ibe_extract where "mcl_ibe_extract m msk identity cap ini = bfibe_mcl_extract m msk identity cap ini"
definition mcl_ibe_encrypt where
  "mcl_ibe_encrypt m s e mpk identity message cap ini = bfibe_mcl_encrypt m s e mpk identity message cap ini"
definition mcl_ibe_decrypt where "mcl_ibe_decrypt m s sk ciphertext cap ini = bfibe_mcl_decrypt m s sk ciphertext cap ini"

definition smoke_plaintext :: bytes where
  "smoke_plaintext = lit ''ASYNCS-BFIBE-OK''"

definition ecall_mcl_ibe_test ::
  "('fr, 'g1, 'g2, 'gt) mcl \<Rightarrow> sgx \<Rightarrow> env \<Rightarrow> env \<Rightarrow> worker \<Rightarrow> int \<times> worker" where
  "ecall_mcl_ibe_test m s e1 e2 w =
     (let identity = lit ''bfibe-smoke-identity'';
          (r1, i1) = mcl_ibe_setup m e1 256 64 (g_mcl_init w) in
      case r1 of Inl _ \<Rightarrow> (-1, w\<lparr>g_mcl_init := i1\<rparr>)
      | Inr (mpk, msk) \<Rightarrow>
          let (r2, i2) = mcl_ibe_extract m msk identity 256 i1 in
          (case r2 of Inl _ \<Rightarrow> (-1, w\<lparr>g_mcl_init := i2\<rparr>)
           | Inr sk_id \<Rightarrow>
               let (r3, i3) = mcl_ibe_encrypt m s e2 mpk identity smoke_plaintext 512 i2 in
               (case r3 of Inl _ \<Rightarrow> (-1, w\<lparr>g_mcl_init := i3\<rparr>)
                | Inr ciphertext \<Rightarrow>
                    let (r4, i4) = mcl_ibe_decrypt m s sk_id ciphertext 64 i3 in
                    (case r4 of Inl _ \<Rightarrow> (-1, w\<lparr>g_mcl_init := i4\<rparr>)
                     | Inr plaintext_out \<Rightarrow>
                         (if length plaintext_out \<noteq> length smoke_plaintext \<or>
                             \<not> memcmp_eq plaintext_out smoke_plaintext (length smoke_plaintext) then -1 else 0,
                          w\<lparr>g_mcl_init := i4\<rparr>)))))"

subsection \<open>The state machine\<close>

datatype worker_call =
    CreateReport env
  | DecryptKey env bytes bytes
  | DecryptKeysBatch env env bytes bytes bytes
  | LoadRelease env "bytes option" "bytes option"
  | HasKey bytes
  | RunWasm run_env bytes
  | RunEncrypted run_env invocation
  | KemEncap env bytes
  | RunEncryptedKem run_env invocation
  | MclIbeTest env env
  | CleanCtx
  | ZeroizeLabelKey

fun worker_exec ::
  "('fr, 'g1, 'g2, 'gt) mcl \<Rightarrow> sgx \<Rightarrow> runtime \<Rightarrow> worker_call \<Rightarrow> worker \<Rightarrow> worker" where
  "worker_exec m s rt (CreateReport e) w = snd (ecall_create_report s e w)"
| "worker_exec m s rt (DecryptKey e k f) w = snd (ecall_decrypt_key s e w k f)"
| "worker_exec m s rt (DecryptKeysBatch e1 e2 k l f) w = ecall_decrypt_keys_batch s e1 e2 w k l f"
| "worker_exec m s rt (LoadRelease e r f) w = snd (ecall_load_bfibe_key_release s e w r f)"
| "worker_exec m s rt (HasKey f) w = w"
| "worker_exec m s rt (RunWasm e wasm) w = ecall_run_wasm rt e w wasm"
| "worker_exec m s rt (RunEncrypted e a) w = rs_w (snd (ecall_run_encrypted_wasm m s rt e w a))"
| "worker_exec m s rt (KemEncap e pk) w = w"
| "worker_exec m s rt (RunEncryptedKem e a) w = rs_w (snd (ecall_run_encrypted_wasm_kem m s rt e w a))"
| "worker_exec m s rt (MclIbeTest e1 e2) w = snd (ecall_mcl_ibe_test m s e1 e2 w)"
| "worker_exec m s rt CleanCtx w = ecall_clean_ctx w"
| "worker_exec m s rt ZeroizeLabelKey w = ecall_zeroize_label_key w"

inductive worker_step ::
  "('fr, 'g1, 'g2, 'gt) mcl \<Rightarrow> sgx \<Rightarrow> runtime \<Rightarrow> worker_call \<Rightarrow> worker \<Rightarrow> worker \<Rightarrow> bool" for m s rt where
  "worker_step m s rt c w (worker_exec m s rt c w)"

inductive_cases worker_stepE: "worker_step m s rt c w w'"

subsection \<open>The invariant\<close>

lemma ok_create_report: "worker_ok s w \<Longrightarrow> worker_ok s (snd (ecall_create_report s' e w))"
  by (auto simp: ecall_create_report_def worker_ok_def label_clean_def cache_authentic_def cache_owned_def Let_def split: option.splits prod.splits)

lemma ok_upd [simp]:
  "worker_ok s (w\<lparr>g_worker_key := k\<rparr>) = worker_ok s w" "worker_ok s (w\<lparr>g_worker_dklabel := k\<rparr>) = worker_ok s w"
  "worker_ok s (w\<lparr>g_dklabel_from_kms := b\<rparr>) = worker_ok s w" "worker_ok s (w\<lparr>g_bfibe_request_sk := k\<rparr>) = worker_ok s w"
  "worker_ok s (w\<lparr>g_bfibe_function_sk := k\<rparr>) = worker_ok s w"
  by (simp_all add: worker_ok_def label_clean_def cache_authentic_def cache_owned_def)

lemma cache_authentic_clear [simp]: "cache_authentic s (function_cache_clear w)"
  by (simp add: cache_authentic_def function_cache_clear_def empty_cache_def)

lemma ok_enter_fid: "worker_ok s w \<Longrightarrow> worker_ok s (enter_fid w f)"
  using enter_fid_owned [of w f]
  by (auto simp: worker_ok_def label_clean_def enter_fid_def cache_authentic_def Let_def function_cache_clear_def empty_cache_def)

lemma ok_decrypt_key: "worker_ok s w \<Longrightarrow> worker_ok s (snd (ecall_decrypt_key s' e w k f))"
  by (auto simp: ecall_decrypt_key_def intro!: ok_enter_fid split: option.splits)

lemma ok_decrypt_batch: "worker_ok s w \<Longrightarrow> worker_ok s (ecall_decrypt_keys_batch s' e1 e2 w k l f)"
  by (auto simp: ecall_decrypt_keys_batch_def Let_def intro!: ok_enter_fid split: option.splits)

text \<open>A key set import changes nothing but the two BF-IBE keys.\<close>

definition keys_only :: "worker \<Rightarrow> worker \<Rightarrow> bool" where
  "keys_only w w' \<longleftrightarrow> (\<exists>k1 k2. w' = w\<lparr>g_bfibe_request_sk := k1, g_bfibe_function_sk := k2\<rparr>)"

lemma keys_onlyI: "w' = w\<lparr>g_bfibe_request_sk := k1, g_bfibe_function_sk := k2\<rparr> \<Longrightarrow> keys_only w w'"
  unfolding keys_only_def by blast

lemma keys_only_trans: "keys_only w w1 \<Longrightarrow> keys_only w1 w2 \<Longrightarrow> keys_only w w2"
  unfolding keys_only_def by (elim exE) (simp, blast)

lemma keys_only_record:
  "import_bfibe_private_key_record w p i k f fr ff = Some (w', st) \<Longrightarrow> keys_only w w'"
  by (cases w) (auto simp: import_bfibe_private_key_record_def keys_only_def Let_def split: if_splits)

lemma keys_only_clear: "keys_only w (w\<lparr>g_bfibe_request_sk := [], g_bfibe_function_sk := []\<rparr>)"
  unfolding keys_only_def by blast

lemma keys_only_refl: "keys_only w w"
proof -
  have "w = w\<lparr>g_bfibe_request_sk := g_bfibe_request_sk w, g_bfibe_function_sk := g_bfibe_function_sk w\<rparr>" by simp
  then show ?thesis by (rule keys_onlyI)
qed

lemma keys_only_records: "import_records n d f p w fr ff = (r, w') \<Longrightarrow> keys_only w w'"
proof (induction n arbitrary: p w fr ff)
  case (Suc n)
  show ?case
  proof (cases "do { (fs, q) \<leftarrow> read_fields worker_rd worker_tk 3 d p;
                st \<leftarrow> import_bfibe_private_key_record w (fs ! 0) (fs ! 1) (fs ! 2) f fr ff; Some (q, st) }")
    case None
    then show ?thesis using Suc.prems keys_only_clear [of w] by (simp only: import_records_step option.case prod.inject)
  next
    case (Some t)
    obtain q w1 fr1 ff1 where t: "t = (q, w1, fr1, ff1)" by (cases t)
    have n: "import_records n d f q w1 fr1 ff1 = (r, w')"
      using Suc.prems Some t by (simp only: import_records_step option.case prod.case)
    obtain fs where "import_bfibe_private_key_record w (fs ! 0) (fs ! 1) (fs ! 2) f fr ff = Some (w1, fr1, ff1)"
      using Some t by (auto simp: bind_eq_Some_conv)
    then show ?thesis using Suc.IH [OF n] keys_only_record keys_only_trans by blast
  qed
qed (simp add: keys_only_refl)

lemma keys_only_set: "parse_bfibe_private_key_set w d f = (r, w') \<Longrightarrow> keys_only w w'"
proof -
  assume p: "parse_bfibe_private_key_set w d f = (r, w')"
  show ?thesis
  proof (cases "length d < 17 \<or> key_set_header d = None")
    case False
    then obtain n q where h: "key_set_header d = Some (n, q)" by auto
    obtain x w1 where i: "import_records (unat n) d f q (w\<lparr>g_bfibe_request_sk := [], g_bfibe_function_sk := []\<rparr>) False False = (x, w1)"
      by fastforce
    have "w' = w1" using p False h i by (cases x) (auto simp: key_set_unfold split: prod.splits)
    then show ?thesis using keys_only_trans [OF keys_only_clear keys_only_records [OF i]] by simp
  next
    case True
    then have "parse_bfibe_private_key_set w d f = (False, w)" by (auto simp: key_set_unfold)
    with p keys_only_refl show ?thesis by simp
  qed
qed

lemma ok_new_bfibe_fid:
  assumes "worker_ok s w"
  shows "worker_ok s ((if \<not> g_bfibe_key_loaded w \<or> \<not> strncmp_eq 128 (g_bfibe_fid w) f then function_cache_clear w else w)
    \<lparr>g_bfibe_fid := take 127 f, g_bfibe_key_loaded := True\<rparr>)"
proof (cases "g_bfibe_key_loaded w \<and> strncmp_eq 128 (g_bfibe_fid w) f")
  case True
  then have e: "take 128 f = g_bfibe_fid w" using assms by (simp add: strncmp_eq_def worker_ok_def)
  have "take 127 f = take 127 (take 128 f)" by simp
  also have "\<dots> = g_bfibe_fid w" unfolding e using assms by (simp add: worker_ok_def)
  finally have "take 127 f = g_bfibe_fid w" .
  then show ?thesis using True assms by (simp add: worker_ok_def label_clean_def cache_authentic_def cache_owned_def)
qed (use assms in \<open>auto simp: worker_ok_def label_clean_def cache_authentic_def cache_owned_def function_cache_clear_def empty_cache_def\<close>)

text \<open>What the ECALL that loads a release can do to the state.\<close>

lemma load_release_cases:
  obtains (refused) "snd (ecall_load_bfibe_key_release s e w r f) = w"
  | (keys) w1 where "keys_only w w1" "snd (ecall_load_bfibe_key_release s e w r f) = w1"
  | (loaded) w1 g where "keys_only w w1" "snd (ecall_load_bfibe_key_release s e w r f) =
      (if \<not> g_bfibe_key_loaded w1 \<or> \<not> strncmp_eq 128 (g_bfibe_fid w1) g then function_cache_clear w1 else w1)
        \<lparr>g_bfibe_fid := take 127 g, g_bfibe_key_loaded := True\<rparr>"
proof (cases "\<exists>g v d. f = Some g \<and> Option.bind r parse_bfibe_key_release = Some v \<and> g_worker_keypair_ready w \<and>
    \<not> (length (rv_fid v) \<noteq> length g \<or> \<not> memcmp_eq (rv_fid v) g (length (rv_fid v))) \<and> release_plaintext s e w v = Some d")
  case True
  then obtain g v d where h: "f = Some g" "Option.bind r parse_bfibe_key_release = Some v" "g_worker_keypair_ready w"
    "\<not> (length (rv_fid v) \<noteq> length g \<or> \<not> memcmp_eq (rv_fid v) g (length (rv_fid v)))" "release_plaintext s e w v = Some d"
    by blast
  obtain b w1 where p: "parse_bfibe_private_key_set w d g = (b, w1)" by fastforce
  have k: "keys_only w w1" by (rule keys_only_set [OF p])
  have "snd (ecall_load_bfibe_key_release s e w r f) = (if \<not> b then w1 else
      (if \<not> g_bfibe_key_loaded w1 \<or> \<not> strncmp_eq 128 (g_bfibe_fid w1) g then function_cache_clear w1 else w1)
        \<lparr>g_bfibe_fid := take 127 g, g_bfibe_key_loaded := True\<rparr>)"
    using h p by (simp add: ecall_load_bfibe_key_release_def Let_def)
  then show thesis using that(2) [OF k] that(3) [OF k, of g] by (cases b) simp_all
next
  case False
  then have "snd (ecall_load_bfibe_key_release s e w r f) = w"
    by (auto simp: ecall_load_bfibe_key_release_def split: option.splits)
  with that(1) show thesis by blast
qed

lemma ok_keys_only: "keys_only w w' \<Longrightarrow> worker_ok s w' = worker_ok s w"
  by (auto simp: keys_only_def)

lemma ok_load_release: "worker_ok s w \<Longrightarrow> worker_ok s (snd (ecall_load_bfibe_key_release s' e w r f))"
proof (rule load_release_cases [of s' e w r f])
  fix w1 g assume "worker_ok s w" "keys_only w w1"
    and e: "snd (ecall_load_bfibe_key_release s' e w r f) =
      (if \<not> g_bfibe_key_loaded w1 \<or> \<not> strncmp_eq 128 (g_bfibe_fid w1) g then function_cache_clear w1 else w1)
        \<lparr>g_bfibe_fid := take 127 g, g_bfibe_key_loaded := True\<rparr>"
  then have "worker_ok s w1" by (simp add: ok_keys_only)
  then show ?thesis unfolding e by (rule ok_new_bfibe_fid)
qed (simp_all add: ok_keys_only)

lemma ok_run_wasm: "worker_ok s w \<Longrightarrow> worker_ok s (ecall_run_wasm rt e w wasm)"
proof -
  assume ok: "worker_ok s w"
  obtain r w1 where p: "output_capture_prepare w (malloc_ok (env_main e) 0) 4096 = (r, w1)" by fastforce
  then have q: "quiet w w1" using quiet_prepare [of w "malloc_ok (env_main e) 0" 4096] by simp
  then have "\<not> capture_output w1" using ok by (simp add: worker_ok_def quiet_def)
  from quiet_helper [OF this, of rt "malloc_ok (env_main e) 1" "tsc e" wasm None None] q
  have "quiet w (fst (snd (run_wasm_helper rt (malloc_ok (env_main e) 1) (tsc e) w1 wasm None None)))"
    by (rule quiet_trans [rotated])
  with q have "quiet w (ecall_run_wasm rt e w wasm)"
    by (auto simp: ecall_run_wasm_def p Let_def split: prod.splits)
  then show ?thesis using ok by (rule worker_ok_quiet)
qed

lemma ok_test: "worker_ok s w \<Longrightarrow> worker_ok s (snd (ecall_mcl_ibe_test m s' e1 e2 w))"
  by (rule worker_ok_quiet [of w])
    (auto simp: ecall_mcl_ibe_test_def Let_def split: prod.splits sum.splits)

text \<open>Between ECALLs the label key and the output buffer are gone.\<close>

definition at_rest :: "worker \<Rightarrow> bool" where
  "at_rest w \<longleftrightarrow> \<not> g_dklabel_func_valid w \<and> global_output_buffer w = None"

lemma rest_upd:
  "at_rest (w\<lparr>g_mcl_init := i\<rparr>) = at_rest w" "at_rest (function_cache_clear w) = at_rest w" "at_rest (enter_fid w f) = at_rest w"
  "at_rest (w\<lparr>g_worker_key := k\<rparr>) = at_rest w" "at_rest (w\<lparr>g_worker_dklabel := k\<rparr>) = at_rest w"
  "at_rest (w\<lparr>g_dklabel_from_kms := b\<rparr>) = at_rest w" "at_rest (w\<lparr>g_bfibe_fid := x\<rparr>) = at_rest w"
  "at_rest (w\<lparr>g_bfibe_key_loaded := b\<rparr>) = at_rest w" "at_rest (w\<lparr>g_bfibe_request_sk := k\<rparr>) = at_rest w"
  "at_rest (w\<lparr>g_bfibe_function_sk := k\<rparr>) = at_rest w" "at_rest (w\<lparr>g_private_key := k\<rparr>) = at_rest w"
  "at_rest (w\<lparr>g_public_key := k\<rparr>) = at_rest w" "at_rest (w\<lparr>g_worker_keypair_ready := b\<rparr>) = at_rest w"
  by (simp_all add: at_rest_def function_cache_clear_def enter_fid_def Let_def)

lemma rest_cleanup [simp]: "at_rest (rs_w (cleanup st))"
  by (simp add: at_rest_def cleanup_def output_capture_release_def ecall_zeroize_label_key_def)

lemma rest_load_release: "at_rest w \<Longrightarrow> at_rest (snd (ecall_load_bfibe_key_release s' e w r f))"
  by (rule load_release_cases [of s' e w r f]) (auto simp: keys_only_def rest_upd)

lemma label_valid_print [simp]: "g_dklabel_func_valid (enclave_print w x) = g_dklabel_func_valid w"
  by (simp add: enclave_print_def Let_def split: option.splits)

lemma label_valid_natives [simp]: "g_dklabel_func_valid (foldl native w cs) = g_dklabel_func_valid w"
proof (induction cs arbitrary: w)
  case (Cons c cs)
  have "g_dklabel_func_valid (native w c) = g_dklabel_func_valid w"
    by (cases c) (auto simp: native_def c1_workload_tsc_begin_def c1_workload_tsc_end_def
      c1_workload_set_output_def Let_def split: option.splits)
  with Cons show ?case by simp
qed simp

lemma label_valid_helper [simp]:
  "g_dklabel_func_valid (fst (snd (run_wasm_helper rt c ts w wasm arg t))) = g_dklabel_func_valid w"
  by (auto simp: run_wasm_helper_def execute_main_def Let_def split: prod.splits)

lemma rest_run_wasm: "at_rest w \<Longrightarrow> at_rest (ecall_run_wasm rt e w wasm)"
proof -
  assume r: "at_rest w"
  obtain ok w1 where p: "output_capture_prepare w (malloc_ok (env_main e) 0) 4096 = (ok, w1)" by fastforce
  then have w1: "\<not> g_dklabel_func_valid w1" "\<not> ok \<Longrightarrow> global_output_buffer w1 = None"
    using r by (auto simp: output_capture_prepare_def output_capture_release_def at_rest_def Let_def split: if_splits)
  obtain x w2 t where h: "run_wasm_helper rt (malloc_ok (env_main e) 1) (tsc e) w1 wasm None None = (x, w2, t)"
    by (metis prod_cases3)
  have "\<not> g_dklabel_func_valid w2" using label_valid_helper [of rt "malloc_ok (env_main e) 1" "tsc e" w1 wasm None None] w1(1) by (simp only: h fst_conv snd_conv) simp
  with w1 show ?thesis by (simp add: ecall_run_wasm_def p h at_rest_def output_capture_release_def del: One_nat_def)
qed

lemma rest_runs:
  "at_rest w \<Longrightarrow> at_rest (rs_w (snd (ecall_run_encrypted_wasm m s rt e w a)))"
  "at_rest w \<Longrightarrow> at_rest (rs_w (snd (ecall_run_encrypted_wasm_kem m s rt e w a)))"
  by (auto simp: ecall_run_encrypted_wasm_def ecall_run_encrypted_wasm_kem_def Let_def split: option.splits prod.splits)

lemma rest_test: "at_rest w \<Longrightarrow> at_rest (snd (ecall_mcl_ibe_test m s e1 e2 w))"
  by (auto simp: ecall_mcl_ibe_test_def rest_upd Let_def split: prod.splits sum.splits)

lemma rest_keys:
  assumes "at_rest w"
  shows "at_rest (snd (ecall_create_report s e w))" "at_rest (snd (ecall_decrypt_key s e w k f))"
    "at_rest (ecall_decrypt_keys_batch s e e2 w k l f)" "at_rest (ecall_clean_ctx w)" "at_rest (ecall_zeroize_label_key w)"
  using assms by (auto simp: ecall_create_report_def ecall_decrypt_key_def ecall_decrypt_keys_batch_def rest_upd Let_def
    split: option.splits) (simp_all add: at_rest_def ecall_clean_ctx_def ecall_zeroize_label_key_def output_capture_release_def)

lemma ok_clean: "worker_ok s w \<Longrightarrow> worker_ok s (ecall_clean_ctx w)" "worker_ok s w \<Longrightarrow> worker_ok s (ecall_zeroize_label_key w)"
  by (rule worker_ok_quiet [of w]; simp add: ecall_clean_ctx_def)+

text \<open>
  The invariant of the enclave: it needs of the SDK only that digests have 32 bytes.
\<close>

definition worker_inv :: "sgx \<Rightarrow> worker \<Rightarrow> bool" where
  "worker_inv s w \<longleftrightarrow> sha_laws s \<longrightarrow> worker_ok s w \<and> at_rest w"

lemma worker_inv_step: "sha_laws s \<Longrightarrow> worker_ok s w \<and> at_rest w \<Longrightarrow> worker_ok s (worker_exec m s rt c w) \<and> at_rest (worker_exec m s rt c w)"
  by (cases c) (simp_all add: ok_create_report rest_keys ok_decrypt_key ok_decrypt_batch ok_load_release rest_load_release
      ok_run_wasm rest_run_wasm encrypted_run_ok encrypted_run_kem_ok rest_runs ok_test rest_test ok_clean)

interpretation worker_runs: history_invariant "worker_step m s rt" "\<lambda>cs. worker_inv s" for m s rt
  by unfold_locales (auto simp: worker_inv_def worker_inv_step elim!: worker_stepE)

lemma worker_boot_inv: "worker_inv s worker_boot"
  by (simp add: worker_inv_def worker_ok_def at_rest_def worker_boot_def label_clean_def zero_bytes_def cache_authentic_def
      cache_owned_def empty_cache_def)

lemma reachable_inv:
  assumes "runs (worker_step m s rt) worker_boot cs w" "sha_laws s"
  shows "worker_ok s w" "at_rest w"
  using worker_runs.runs_inv [OF assms(1) worker_boot_inv] assms(2) by (simp_all add: worker_inv_def)

subsection \<open>What an invocation leaves behind\<close>

lemma zeroized_zero: "set (secure_zeroize d) \<subseteq> {0}" by simp

text \<open>The output key is erased only if it was derived, so it must be zero where it was not.\<close>

definition kU_clean :: "kem_state \<Rightarrow> bool" where
  "kU_clean st \<longleftrightarrow> kem_derived st \<or> set (k_U st) \<subseteq> {0} \<and> set (k_U_128 st) \<subseteq> {0}"

lemma kU_clean_eq:
  "kem_derived st' = kem_derived st \<Longrightarrow> k_U st' = k_U st \<Longrightarrow> k_U_128 st' = k_U_128 st \<Longrightarrow> kU_clean st \<Longrightarrow> kU_clean st'"
  by (simp add: kU_clean_def)

lemma kU_clean_traced [simp]: "kU_clean (traced g st) = kU_clean st"
  by (simp add: kU_clean_def traced_def)

lemma kU_phases:
  assumes "kU_clean st"
  shows "kU_clean (snd (find_function s f a st))" "kU_clean (snd (select_dklabel s e u c st))"
    "kU_clean (snd (dec_request_key m s e u a d st))" "kU_clean (snd (dec_function_key m s e u a d c st))"
    "kU_clean (drop_label_key c st)" "kU_clean (keep_function e f wasm st)"
    "kU_clean (snd (snd (run_program rt re a wasm input t st)))"
  by (rule kU_clean_eq [OF _ _ _ assms]; auto simp: find_function_def select_dklabel_def dec_request_key_def dec_function_key_def
      drop_label_key_def keep_function_def run_program_def Let_def split: option.splits prod.splits)+

lemma kU_timed:
  assumes "kU_clean st"
  shows "kU_clean (snd (dec_request_key_timed m s re u a d st))" "kU_clean (snd (dec_function_key_timed m s re u a d c st))"
    "kU_clean (snd (load_function_timed s re f a d c st))" "kU_clean (snd (load_input_timed s re a d st))"
    "kU_clean (snd (evidence_phase s c wasm input st))" "kU_clean (snd (workload_phase rt re a wasm input st))"
    "kU_clean (snd (kem_phase s re a st))" "kU_clean (snd (output_phase s re a d ct st))"
proof -
  show "kU_clean (snd (dec_request_key_timed m s re u a d st))"
    unfolding dec_request_key_timed_def using assms by (intro phase_then_inv [where P = kU_clean] kU_phases) simp_all
  show "kU_clean (snd (dec_function_key_timed m s re u a d c st))"
    unfolding dec_function_key_timed_def using assms by (auto intro!: phase_then_inv [where P = kU_clean] kU_phases)
  show "kU_clean (snd (load_function_timed s re f a d c st))" "kU_clean (snd (load_input_timed s re a d st))"
    using assms by (auto simp: load_function_timed_def load_input_timed_def Let_def intro!: kU_phases split: option.splits)
  show "kU_clean (snd (evidence_phase s c wasm input st))"
    using assms by (auto simp: evidence_phase_def Let_def kU_clean_def split: option.splits)
  show "kU_clean (snd (workload_phase rt re a wasm input st))"
    using kU_phases(7) [OF assms, of rt re a wasm input "Some (rs_t st)"]
    by (auto simp: workload_phase_def Let_def kU_clean_def traced_def split: prod.splits option.splits)
  show "kU_clean (snd (kem_phase s re a st))" "kU_clean (snd (output_phase s re a d ct st))"
    using assms by (auto simp: kem_phase_def output_phase_def kU_clean_def traced_def split: option.splits)
qed

lemma kU_run_kem: "kU_clean st \<Longrightarrow> kU_clean (snd (run_kem m s rt e a u f st))"
  unfolding run_kem_def Let_def
  by (auto simp del: One_nat_def split: option.split prod.split intro!: phase_then_inv [where P = kU_clean] kU_timed kU_phases)

lemma kU_fresh: "kU_clean (fresh_kem w)"
  by (simp add: kU_clean_def fresh_kem_def zero_bytes_def)

definition key_locals :: "kem_state \<Rightarrow> bytes list" where
  "key_locals st = [label32 st, dklabelfunc32 st, k_func32 st, k_req32 st, k_func_128 st, k_req_128 st, k_U st, k_U_128 st]"

lemma cleanup_key_locals:
  assumes "kU_clean st"
  shows "\<forall>k \<in> set (key_locals (cleanup_kem st)). set k \<subseteq> {0}"
proof -
  have c: "kem_derived (cleanup st) = kem_derived st" "k_U (cleanup st) = k_U st" "k_U_128 (cleanup st) = k_U_128 st"
    "label32 (cleanup st) = secure_zeroize (label32 st)" "dklabelfunc32 (cleanup st) = secure_zeroize (dklabelfunc32 st)"
    "k_func32 (cleanup st) = secure_zeroize (k_func32 st)" "k_req32 (cleanup st) = secure_zeroize (k_req32 st)"
    "k_func_128 (cleanup st) = secure_zeroize (k_func_128 st)" "k_req_128 (cleanup st) = secure_zeroize (k_req_128 st)"
    by (simp_all add: cleanup_def)
  show ?thesis
  proof (cases "kem_derived st")
    case True
    then show ?thesis by (simp only: cleanup_kem_def Let_def c) (simp add: key_locals_def c)
  next
    case False
    with assms have "set (k_U st) \<subseteq> {0}" "set (k_U_128 st) \<subseteq> {0}" by (simp_all add: kU_clean_def)
    with False show ?thesis by (simp only: cleanup_kem_def Let_def c) (simp add: key_locals_def c)
  qed
qed

lemma fresh_key_locals: "\<forall>k \<in> set (key_locals (fresh_kem w)). set k \<subseteq> {0}"
  by (simp add: key_locals_def fresh_kem_def zero_bytes_def)

lemma kem_key_locals: "\<forall>k \<in> set (key_locals (snd (ecall_run_encrypted_wasm_kem m s rt e w a))). set k \<subseteq> {0}"
proof (cases "enter_invocation w a = None \<or> \<not> malloc_ok (env_main e) 0")
  case True
  then show ?thesis using fresh_key_locals by (auto simp: ecall_run_encrypted_wasm_kem_def split: option.splits)
next
  case False
  then obtain u f where "enter_invocation w a = Some (u, f)" "malloc_ok (env_main e) 0" by auto
  then have "snd (ecall_run_encrypted_wasm_kem m s rt e w a) = cleanup_kem (snd (run_kem m s rt e a u f (fresh_kem w)))"
    by (simp add: ecall_run_encrypted_wasm_kem_def split_beta' Let_def)
  with cleanup_key_locals [OF kU_run_kem [OF kU_fresh]] show ?thesis by simp
qed

text \<open>The trace of the ECALL is the one the phases left.\<close>

lemma cleanup_trace: "rs_t (cleanup_kem st) = rs_t st"
  by (simp add: cleanup_kem_def cleanup_def Let_def)

lemma kem_cases:
  assumes "ecall_run_encrypted_wasm_kem m s rt e w a = (Some (r, ct), st)"
  obtains u f st' where "enter_invocation w a = Some (u, f)" "run_kem m s rt e a u f (fresh_kem w) = (Some (r, ct), st')"
    "rs_t st = rs_t st'"
proof -
  from assms obtain u f where e: "enter_invocation w a = Some (u, f)" "malloc_ok (env_main e) 0"
    by (auto simp: ecall_run_encrypted_wasm_kem_def split: option.splits prod.splits if_splits)
  obtain x st' where r: "run_kem m s rt e a u f (fresh_kem w) = (x, st')" by fastforce
  with assms e have "x = Some (r, ct)" "st = cleanup_kem st'" by (simp_all add: ecall_run_encrypted_wasm_kem_def)
  with that [OF e(1)] r cleanup_trace show thesis by simp
qed

lemma fresh_trace [simp]: "flags (fresh_kem w) = 0" "no_success (fresh_kem w)"
  by (simp_all add: fresh_kem_def zero_trace_def no_success_def)

lemma kem_None: "fst (ecall_run_encrypted_wasm_kem m s rt e w a) = None \<Longrightarrow>
    \<not> bit (tr_flags (rs_t (snd (ecall_run_encrypted_wasm_kem m s rt e w a)))) C1_TRACE_SUCCESS"
proof -
  assume n: "fst (ecall_run_encrypted_wasm_kem m s rt e w a) = None"
  show ?thesis
  proof (cases "enter_invocation w a = None \<or> \<not> malloc_ok (env_main e) 0")
    case True
    then show ?thesis by (auto simp: ecall_run_encrypted_wasm_kem_def split: option.splits)
  next
    case False
    then obtain u f where e: "enter_invocation w a = Some (u, f)" "malloc_ok (env_main e) 0" by auto
    with n have "fst (run_kem m s rt e a u f (fresh_kem w)) = None"
      by (simp add: ecall_run_encrypted_wasm_kem_def split_beta' Let_def del: not_None_eq)
    then have "no_success (snd (run_kem m s rt e a u f (fresh_kem w)))"
      using run_kem_None [of "fresh_kem w" m s rt e a u f] by (simp add: none_inv_def del: not_None_eq)
    with e show ?thesis by (simp add: ecall_run_encrypted_wasm_kem_def split_beta' Let_def cleanup_trace no_success_def)
  qed
qed

subsection \<open>The client\<close>

text \<open>
  \<open>decap\<close> of the client's KEM (\<open>crypto_lib/kem.py\<close>): its keys are big endian, and it reverses the shared
  secret into the SDK's byte order before hashing it, so it is the SDK's exchange on reversed keys.
\<close>

definition p256_decap :: "sgx \<Rightarrow> bytes \<Rightarrow> bytes \<Rightarrow> bytes option" where
  "p256_decap s sk ct =
     (if length sk \<noteq> 32 then None
      else if length ct \<noteq> 65 \<or> ct ! 0 \<noteq> 4 then None
      else do { shared \<leftarrow> shared_dhkey s (rev sk) (rev (slice 1 32 ct) @ rev (slice 33 32 ct));
                sha256_msg s (take 32 shared) })"

text \<open>\<open>decrypt_result\<close> of the client SDK, on the result's parts.\<close>

definition client_decrypt_result ::
  "sgx \<Rightarrow> bytes \<Rightarrow> run_result \<Rightarrow> bytes \<Rightarrow> bytes \<Rightarrow> bytes \<Rightarrow> bytes \<Rightarrow> bytes option" where
  "client_decrypt_result s ct r skU fid_bytes rid_bytes pk =
     do { k_U \<leftarrow> p256_decap s skU ct;
          h_pkU \<leftarrow> sha256_msg s pk;
          gcm_dec s (take 16 k_U) (encrypted_result r) (result_iv r) (OUT @ fid_bytes @ rid_bytes @ h_pkU) (result_tag r) }"

definition point_be :: "bytes \<Rightarrow> bytes" where
  "point_be p = [4] @ rev (take 32 p) @ rev (drop 32 p)"

lemma point_be_coords:
  "length p = 64 \<Longrightarrow> rev (slice 1 32 (point_be p)) @ rev (slice 33 32 (point_be p)) = p"
  by (simp add: point_be_def slice_def)

lemma encap_decap:
  assumes "ecall_kem_encap s e (point_be p) = Some (ct, key)" "ecdh_laws s" "env_laws s e"
    and "pub_from_priv s (rev sk) = Some p" "length sk = 32"
  shows "p256_decap s sk ct = Some key"
proof -
  have p: "length p = 64" using ecdh_agree(2) assms(2,4) by blast
  from assms(1) obtain a q sh where f: "fresh_pair e = Some (a, q)" and sh: "shared_dhkey s a p = Some sh"
    "sha256_msg s (take 32 sh) = Some key" and ct: "ct = [4] @ rev (slice 0 32 q) @ rev (slice 32 32 q)"
    by (auto simp: ecall_kem_encap_def point_be_coords [OF p] bind_eq_Some_conv simp del: One_nat_def split: if_splits)
  from assms(3) f have q: "pub_from_priv s a = Some q" "length q = 64" by (auto simp: env_laws_def)
  then have ct': "ct = point_be q" using ct by (simp add: point_be_def slice_def)
  have "length ct = 65" "ct ! 0 = 4" using q(2) by (simp_all add: ct' point_be_def)
  with sh assms(5) ecdh_agree(1) [OF assms(2) q(1) assms(4)] show ?thesis
    by (simp add: p256_decap_def ct' point_be_coords [OF q(2)] del: One_nat_def)
qed

end
