(* ===== verification/WorkerDriver.thy ===== *)
theory WorkerDriver
  imports WorkerApp WorkerSystem
begin

text \<open>
  The untrusted worker process (\<open>sgx_worker/App/App.cpp\<close>), its commands: the parsing of an invocation, the
  invocation itself, the command loop of the server mode and \<open>main\<close>. An invocation gives an
  exit code and, on success, the encrypted result and the trace of the enclave.
\<close>

definition ASYNCS_DEFAULT_OUTPUT_CAPACITY_BYTES :: u32 where "ASYNCS_DEFAULT_OUTPUT_CAPACITY_BYTES = 4096"

definition C1_TRACE_REQUIRED_FLAGS :: u32 where
  "C1_TRACE_REQUIRED_FLAGS =
     flag C1_TRACE_RID_VALID OR flag C1_TRACE_PAYLOAD_VALID OR flag C1_TRACE_WORKLOAD_CYCLES_VALID OR
     flag C1_TRACE_OUTPUT_KEM_CYCLES_VALID OR flag C1_TRACE_OUTPUT_AES_GCM_CYCLES_VALID OR
     flag C1_TRACE_FUNCTION_CACHE_VALID OR flag C1_TRACE_SUCCESS"

subsection \<open>The cycle counter\<close>

text \<open>
  The frequency, and how it was found. \<open>leaf\<close> is the CPUID leaf 0x15 where there is one; \<open>start\<close> and \<open>stop\<close>
  are the readings of the clock, in seconds and nanoseconds.
\<close>

definition initialize_c1_tsc_frequency ::
  "(u32 \<times> u32 \<times> u32) option \<Rightarrow> (u64 \<times> u64) option \<Rightarrow> (u64 \<times> u64) option \<Rightarrow> u64 \<Rightarrow> u64 \<Rightarrow> u64 \<times> string" where
  "initialize_c1_tsc_frequency leaf start stop start_cycles end_cycles =
     (let calibrated =
        (case (start, stop) of
           (Some (s1, n1), Some (s2, n2)) \<Rightarrow>
             (let elapsed_ns = (s2 - s1) * 1000000000;
                  elapsed_ns = (if n1 \<le> n2 then elapsed_ns + (n2 - n1) else elapsed_ns - 1000000000 + (1000000000 + n2 - n1)) in
              if 0 < elapsed_ns \<and> start_cycles < end_cycles
              then (ucast ((ucast (end_cycles - start_cycles) * 1000000000 :: 128 word) div ucast elapsed_ns),
                    ''calibrated_monotonic_raw_20ms'')
              else (0, ''unavailable''))
         | _ \<Rightarrow> (0, ''unavailable'')) in
      case leaf of
        None \<Rightarrow> calibrated
      | Some (denominator, numerator, crystal_hz) \<Rightarrow>
          if denominator \<noteq> 0 \<and> numerator \<noteq> 0 \<and> crystal_hz \<noteq> 0
          then ((ucast crystal_hz * ucast numerator) div ucast denominator, ''cpuid_0x15_crystal'')
          else calibrated)"

definition c1_cycles_to_ns :: "u64 \<Rightarrow> u64 \<Rightarrow> u64" where
  "c1_cycles_to_ns cycles tsc_hz =
     (if tsc_hz = 0 then 0 else ucast ((ucast cycles * 1000000000 :: 128 word) div ucast tsc_hz))"

subsection \<open>The command line of an invocation\<close>

record InvokeArgs =
  ia_fid :: bytes
  ia_wasm_file :: bytes
  ia_input_file :: bytes
  ia_label :: bytes
  ia_c_k_func_file :: bytes
  ia_c_key_file :: bytes
  ia_pku_file :: bytes
  ia_nonce_file :: bytes
  ia_max_output_bytes :: u32

function split_tokens :: "bytes \<Rightarrow> bytes list" where
  "split_tokens line =
     (let t = dropWhile is_space line in
      if t = [] then []
      else takeWhile (\<lambda>c. \<not> is_space c) t # split_tokens (dropWhile (\<lambda>c. \<not> is_space c) t))"
  by pat_completeness auto
termination
proof (relation "measure length", goal_cases)
  case (2 line t)
  then have "t \<noteq> []" "\<not> is_space (hd t)" "length t \<le> length line"
    by (auto simp: hd_dropWhile length_dropWhile_le)
  then have "length (dropWhile (\<lambda>c. \<not> is_space c) t) < length t"
    by (cases t) (auto simp: length_dropWhile_le le_imp_less_Suc)
  with \<open>length t \<le> length line\<close> show ?case by simp
qed simp

declare split_tokens.simps [simp del]

definition output_capacity :: "bytes \<Rightarrow> u32 option" where
  "output_capacity s =
     (let (parsed, rest, erange) = strtoul s in
      if erange \<or> rest = s \<or> rest \<noteq> [] \<or> parsed = 0 \<or> int (unat ASYNCS_MAX_OUTPUT_CAPACITY_BYTES) < parsed then None
      else Some (of_int parsed))"

text \<open>The options; the loop stops at the first token that is none.\<close>

fun parse_invoke_options :: "bytes list \<Rightarrow> InvokeArgs \<Rightarrow> string + (InvokeArgs \<times> bytes list)" where
  "parse_invoke_options [] out = Inr (out, [])"
| "parse_invoke_options (t # r) out =
     (if t = lit ''--label'' then
        (case r of
           v # r' \<Rightarrow> parse_invoke_options r' (out\<lparr>ia_label := v\<rparr>)
         | _ \<Rightarrow> Inl ''Usage: invoke ... --label <label>'')
      else if t = lit ''--keys'' then
        (case r of
           v # v' # r' \<Rightarrow> parse_invoke_options r' (out\<lparr>ia_c_k_func_file := v, ia_c_key_file := v'\<rparr>)
         | _ \<Rightarrow> Inl ''Usage: invoke ... --keys <C_k_func_file> <C_key_file>'')
      else if t = lit ''--max-output-bytes'' then
        (case r of
           v # r' \<Rightarrow>
             (case output_capacity v of
                None \<Rightarrow> Inl ''Error: --max-output-bytes must be between 1 and 1048576.''
              | Some n \<Rightarrow> parse_invoke_options r' (out\<lparr>ia_max_output_bytes := n\<rparr>))
         | _ \<Rightarrow> Inl ''Usage: invoke ... --max-output-bytes <bytes>'')
      else Inr (out, t # r))"

definition invoke_usage :: string where
  "invoke_usage = ''Usage: invoke <fid> <encrypted_wasm_file> <encrypted_input_file> [--label <label>] [--max-output-bytes <bytes>] --keys <C_k_func_file> <C_key_file> [pkU_file nonce_file]''"

definition parse_invoke_tokens :: "bytes list \<Rightarrow> string + InvokeArgs" where
  "parse_invoke_tokens tokens =
     (if length tokens < 4 then Inl invoke_usage
      else
        and_then (parse_invoke_options (drop 4 tokens)
            \<lparr>ia_fid = tokens ! 1, ia_wasm_file = tokens ! 2, ia_input_file = tokens ! 3, ia_label = lit ''default_label'',
             ia_c_k_func_file = [], ia_c_key_file = [], ia_pku_file = [], ia_nonce_file = [],
             ia_max_output_bytes = ASYNCS_DEFAULT_OUTPUT_CAPACITY_BYTES\<rparr>) (\<lambda>(out, rest).
          if ia_c_k_func_file out = [] \<or> ia_c_key_file out = []
          then Inl ''Error: Missing --keys <C_k_func_file> <C_key_file> (required for G3).''
          else case rest of
            [] \<Rightarrow> Inr out
          | [p, n] \<Rightarrow> Inr (out\<lparr>ia_pku_file := p, ia_nonce_file := n\<rparr>)
          | _ \<Rightarrow> Inl invoke_usage))"


subsection \<open>An invocation\<close>

text \<open>
  What an invocation is given besides: the files, the point check of OpenSSL, the environment of the
  ECALL, what the output buffers hold when the enclave has refused (it writes the size of the
  result last), whether a pipe can be made and what it holds, a local AES-GCM encryption, and the result of
  creating the enclave.
\<close>

record driver_env =
  exchange :: app_env
  read_file :: "bytes \<Rightarrow> bytes option"
  on_curve :: "bytes \<Rightarrow> bool"
  exec_env :: run_env
  left_tag :: bytes
  left_iv :: bytes
  left_ct :: bytes
  pipe_made :: bool
  pipe_capacity :: nat
  local_encrypt :: "bytes \<Rightarrow> (bytes \<times> bytes) option"
  test_envs :: "env \<times> env"

record invoke_output =
  out_ct :: "bytes option"
  out_result :: bytes
  out_size :: u32
  out_trace :: "c1_asyncs_invoke_trace option"

definition is_valid_p256_point_be :: "driver_env \<Rightarrow> bytes \<Rightarrow> bool" where
  "is_valid_p256_point_be e pt_be =
     (if length pt_be \<noteq> 65 \<or> pt_be ! 0 \<noteq> 4 then False
      else if list_all (\<lambda>b. b = 0) (tl pt_be) then False
      else on_curve e pt_be)"

text \<open>The files an invocation names, as arguments of the ECALL, and whether it is the one with the KEM.\<close>

definition load_invocation :: "driver_env \<Rightarrow> InvokeArgs \<Rightarrow> (invocation \<times> bool) option" where
  "load_invocation e args =
     do { wasm \<leftarrow> read_file e (cstr (ia_wasm_file args));
          if len32 wasm < 28 then None
          else do { input \<leftarrow> read_file e (cstr (ia_input_file args));
            if len32 input < 28 then None
            else do { ckf \<leftarrow> read_file e (cstr (ia_c_k_func_file args));
              if len32 ckf < 65 + 12 + 16 + 16 then None
              else do { ck \<leftarrow> read_file e (cstr (ia_c_key_file args));
                if len32 ck < 65 + 12 + 16 + 16 then None
                else
                  let call = (\<lambda>n pk. \<lparr>encrypted_wasm = drop 28 wasm, encrypted_input = drop 28 input, c_k_func = Some ckf,
                       c_key = Some ck, nonce = n, pkU = pk, max_out_size = ia_max_output_bytes args,
                       wasm_iv = take 12 wasm, wasm_mac = slice 12 16 wasm, input_iv = take 12 input, input_mac = slice 12 16 input\<rparr>) in
                  if ia_pku_file args \<noteq> [] \<or> ia_nonce_file args \<noteq> [] then
                    (if ia_pku_file args = [] \<or> ia_nonce_file args = [] then None
                     else do { pk \<leftarrow> read_file e (cstr (ia_pku_file args));
                       if len32 pk \<noteq> 65 then None
                       else do { n \<leftarrow> read_file e (cstr (ia_nonce_file args));
                         if len32 n \<noteq> 16 then None else Some (call n pk, True) } })
                  else Some (call (zeros 16) (zeros 65), False) } } } }"

text \<open>\<open>RESULT_HEX\<close>: the nonce, the tag and the ciphertext.\<close>

definition result_bytes :: "run_result \<Rightarrow> bytes" where
  "result_bytes r = take 12 (result_iv r) @ take 16 (result_tag r) @ take (unat (result_size r)) (encrypted_result r)"

definition left_over :: "driver_env \<Rightarrow> run_result" where
  "left_over e = \<lparr>encrypted_result = [], result_size = 0, result_tag = left_tag e, result_iv = left_iv e\<rparr>"

definition run_invocation ::
  "('fr, 'g1, 'g2, 'gt) mcl \<Rightarrow> sgx \<Rightarrow> runtime \<Rightarrow> driver_env \<Rightarrow> invocation \<times> bool \<Rightarrow> worker \<Rightarrow> invoke_output option \<times> worker" where
  "run_invocation m s rt e call w =
     (if \<not> delivered (exchange e) 3 then (None, w)
      else if snd call then
        (let (r, st) = ecall_run_encrypted_wasm_kem m s rt (exec_env e) w (fst call);
             (result, kem_ct) = (case r of None \<Rightarrow> (left_over e, left_ct e) | Some x \<Rightarrow> x);
             invoke_trace = rs_t st in
         if \<not> is_valid_p256_point_be e kem_ct then (None, rs_w st)
         else if tr_version invoke_trace \<noteq> 1 \<or>
             tr_flags invoke_trace AND C1_TRACE_REQUIRED_FLAGS \<noteq> C1_TRACE_REQUIRED_FLAGS then (None, rs_w st)
         else (Some \<lparr>out_ct = Some kem_ct, out_result = result_bytes result, out_size = result_size result, out_trace = Some invoke_trace\<rparr>, rs_w st))
      else
        (let (r, st) = ecall_run_encrypted_wasm m s rt (exec_env e) w (fst call);
             result = (case r of None \<Rightarrow> left_over e | Some x \<Rightarrow> x)
         in (Some \<lparr>out_ct = None, out_result = result_bytes result, out_size = result_size result, out_trace = None\<rparr>, rs_w st)))"

text \<open>The exit code and what is printed on success.\<close>

definition do_invoke ::
  "('fr, 'g1, 'g2, 'gt) mcl \<Rightarrow> sgx \<Rightarrow> runtime \<Rightarrow> driver_env \<Rightarrow> bool \<Rightarrow> InvokeArgs \<Rightarrow> bool \<Rightarrow> worker_app
   \<Rightarrow> (int \<times> invoke_output option \<times> worker_app) proc" where
  "do_invoke m s rt e sim args allow_kms_cache a =
     (let f = cstr (ia_fid args);
          need_kms = \<not> (allow_kms_cache \<and> delivered (exchange e) 0 \<and> ecall_has_key (worker_enclave a) f = 1);
          a = a\<lparr>g_kms_timing := no_timing\<rparr> in
      case (if need_kms then generate_quote s (exchange e) sim f (cstr (ia_label args)) a else Returned a) of
        Stuck \<Rightarrow> Stuck
      | Exited code \<Rightarrow> Exited code
      | Returned a \<Rightarrow>
          (case load_invocation e args of
             None \<Rightarrow> Returned (-1, None, a)
           | Some call \<Rightarrow>
               let (out, w) = run_invocation m s rt e call (worker_enclave a);
                   a = a\<lparr>worker_enclave := w\<rparr>
               in Returned (if out = None then -1 else 0, out, a)))"

text \<open>
  A plain program, with its input on standard input: the input is written to a pipe nobody reads yet, so the write of
  more than the pipe holds never returns.
\<close>

definition do_run_wasm :: "runtime \<Rightarrow> driver_env \<Rightarrow> bytes \<Rightarrow> bytes \<Rightarrow> worker_app \<Rightarrow> (int \<times> worker_app) proc" where
  "do_run_wasm rt e wasm_file input_file a =
     (case read_file e (cstr wasm_file) of
        None \<Rightarrow> Returned (-1, a)
      | Some wasm \<Rightarrow>
          let ran = Returned (0, a\<lparr>worker_enclave := if delivered (exchange e) 3
                then ecall_run_wasm rt (exec_env e) (worker_enclave a) wasm else worker_enclave a\<rparr>) in
          if input_file = [] then ran
          else (case read_file e (cstr input_file) of
                  None \<Rightarrow> Returned (-1, a)
                | Some input \<Rightarrow>
                    if \<not> pipe_made e then Returned (-1, a)
                    else if pipe_capacity e < length input then Stuck else ran))"

subsection \<open>The server\<close>

record server_reply =
  sr_error :: "string option"
  sr_rc :: int
  sr_out :: "invoke_output option"

definition reply_error :: "string \<Rightarrow> server_reply" where
  "reply_error err = \<lparr>sr_error = Some err, sr_rc = -1, sr_out = None\<rparr>"

text \<open>One command; a blank line gives no reply.\<close>

definition run_command ::
  "('fr, 'g1, 'g2, 'gt) mcl \<Rightarrow> sgx \<Rightarrow> runtime \<Rightarrow> driver_env \<Rightarrow> bool \<Rightarrow> bytes list \<Rightarrow> worker_app \<Rightarrow> (server_reply \<times> worker_app) proc" where
  "run_command m s rt e sim tokens a =
     (if tokens ! 0 = lit ''invoke'' then
        (case parse_invoke_tokens tokens of
           Inl err \<Rightarrow> Returned (reply_error err, a)
         | Inr args \<Rightarrow>
             (case do_invoke m s rt e sim args True a of
                Returned (rc, out, a) \<Rightarrow> Returned (\<lparr>sr_error = None, sr_rc = rc, sr_out = out\<rparr>, a)
              | Exited code \<Rightarrow> Exited code
              | Stuck \<Rightarrow> Stuck))
      else if tokens ! 0 = lit ''run_wasm'' then
        (if length tokens \<noteq> 2 \<and> length tokens \<noteq> 3 then Returned (reply_error ''usage_run_wasm <wasm_path> [input_path]'', a)
         else (case do_run_wasm rt e (tokens ! 1) (if length tokens = 3 then tokens ! 2 else []) a of
                 Returned (rc, a) \<Rightarrow> Returned (\<lparr>sr_error = None, sr_rc = rc, sr_out = None\<rparr>, a)
               | Exited code \<Rightarrow> Exited code
               | Stuck \<Rightarrow> Stuck))
      else Returned (reply_error ''unknown_command'', a))"

text \<open>The lines of standard input, the environment of each command, and the replies given before the loop ends.\<close>

fun run_server_loop ::
  "('fr, 'g1, 'g2, 'gt) mcl \<Rightarrow> sgx \<Rightarrow> runtime \<Rightarrow> (nat \<Rightarrow> driver_env) \<Rightarrow> bool \<Rightarrow> bytes list \<Rightarrow> nat \<Rightarrow> worker_app
   \<Rightarrow> server_reply list \<times> worker_app proc" where
  "run_server_loop m s rt es sim [] n a = ([], Returned a)"
| "run_server_loop m s rt es sim (line # rest) n a =
     (if line = lit ''exit'' then ([], Returned a)
      else if split_tokens line = [] then run_server_loop m s rt es sim rest n a
      else case run_command m s rt (es n) sim (split_tokens line) a of
        Returned (reply, a) \<Rightarrow>
          let (replies, end) = run_server_loop m s rt es sim rest (n + 1) a in (reply # replies, end)
      | Exited code \<Rightarrow> ([], Exited code)
      | Stuck \<Rightarrow> ([], Stuck))"

subsection \<open>Main\<close>

definition returns :: "int \<Rightarrow> worker_app proc \<Rightarrow> (int \<times> worker_app) proc" where
  "returns code r = (case r of Returned a \<Rightarrow> Returned (code, a) | Exited c \<Rightarrow> Exited c | Stuck \<Rightarrow> Stuck)"

text \<open>The demonstration mode encrypts a file with a fixed key and calls the ECALL with empty key ciphertexts.\<close>

definition run_encrypted_demo ::
  "('fr, 'g1, 'g2, 'gt) mcl \<Rightarrow> sgx \<Rightarrow> runtime \<Rightarrow> driver_env \<Rightarrow> bytes \<Rightarrow> worker_app \<Rightarrow> int \<times> worker_app" where
  "run_encrypted_demo m s rt e wasm_file a =
     (case read_file e wasm_file of
        None \<Rightarrow> (-1, a)
      | Some wasm \<Rightarrow>
          (case local_encrypt e wasm of
             None \<Rightarrow> (-1, a)
           | Some (ciphertext, tag) \<Rightarrow>
               (0, a\<lparr>worker_enclave := if \<not> delivered (exchange e) 3 then worker_enclave a
                  else rs_w (snd (ecall_run_encrypted_wasm m s rt (exec_env e) (worker_enclave a)
                    \<lparr>encrypted_wasm = ciphertext, encrypted_input = [], c_k_func = Some (zeros 60), c_key = Some (zeros 60),
                     nonce = zeros 16, pkU = zeros 65, max_out_size = ASYNCS_DEFAULT_OUTPUT_CAPACITY_BYTES,
                     wasm_iv = replicate 12 0xCD, wasm_mac = tag, input_iv = zeros 12, input_mac = zeros 16\<rparr>))\<rparr>)))"

text \<open>\<open>main\<close> after the enclave was created; the argument list is without the program name.\<close>

definition worker_main ::
  "('fr, 'g1, 'g2, 'gt) mcl \<Rightarrow> sgx \<Rightarrow> runtime \<Rightarrow> (nat \<Rightarrow> driver_env) \<Rightarrow> bool \<Rightarrow> bytes list \<Rightarrow> bytes list \<Rightarrow> worker_app
   \<Rightarrow> (int \<times> worker_app) proc" where
  "worker_main m s rt es sim argv stdin a =
     (let e = es 0; mode = (if argv = [] then [] else argv ! 0); arg = (\<lambda>i d. if i < length argv then argv ! i else d) in
      if mode = lit ''--server'' then returns 0 (snd (run_server_loop m s rt es sim stdin 0 a))
      else if mode = lit ''--ibe-test'' then
        (if \<not> delivered (exchange e) 3 then Returned (-1, a)
         else let (r, w) = ecall_mcl_ibe_test m s (fst (test_envs e)) (snd (test_envs e)) (worker_enclave a)
              in Returned (r, a\<lparr>worker_enclave := w\<rparr>))
      else if mode = lit ''--quote'' then
        returns 0 (generate_quote s (exchange e) sim (arg 1 (lit ''mock_fid_123'')) (arg 2 (lit ''mock_label_456'')) a)
      else if mode = lit ''--attest'' then
        (if length argv < 3 then Returned (-1, a)
         else let (q, a) = generate_quote_bytes s (exchange e) sim a in Returned (if q = None then -1 else 0, a))
      else if mode = lit ''--encrypted'' then
        (case generate_quote s (exchange e) sim (lit ''mock_fid_123'') (lit ''mock_label_456'') a of
           Returned a \<Rightarrow> Returned (run_encrypted_demo m s rt e (arg 1 (lit ''test.wasm'')) a)
         | Exited c \<Rightarrow> Exited c
         | Stuck \<Rightarrow> Stuck)
      else if mode = lit ''--invoke'' then
        (case parse_invoke_tokens argv of
           Inl err \<Rightarrow> Returned (-1, a)
         | Inr args \<Rightarrow>
             (case do_invoke m s rt e sim args False a of
                Returned (rc, out, a) \<Rightarrow> Returned (rc, a)
              | Exited c \<Rightarrow> Exited c
              | Stuck \<Rightarrow> Stuck))
      else do_run_wasm rt e (arg 0 (lit ''test.wasm'')) [] a)"

end
