(* ===== verification/WorkerTheorems.thy ===== *)
theory WorkerTheorems
  imports WorkerSystem
begin

text \<open>
  The properties of the worker enclave over all sequences of ECALLs.
\<close>

subsection \<open>An invocation to test the properties on\<close>

definition null_point :: bytes where
  "null_point = replicate 64 1"

lemma length_null_point [simp]: "length null_point = 64"
  by (simp add: null_point_def)

definition null_sgx :: sgx where
  "null_sgx = \<lparr>sha256_msg = (\<lambda>d. Some (zero_bytes 32)), gcm_enc = (\<lambda>k pt iv aad. Some (pt, zero_bytes 16)),
     gcm_dec = (\<lambda>k ct iv aad tag. if tag = zero_bytes 16 then Some ct else None),
     shared_dhkey = (\<lambda>sk pk. Some (zero_bytes 32)), pub_from_priv = (\<lambda>sk. Some null_point)\<rparr>"

definition null_env :: env where
  "null_env = \<lparr>ecc_open = True, fresh_pair = Some (zero_bytes 32, null_point), rand = (\<lambda>i. Some (zero_bytes 12)),
     stale = zero_bytes 12, malloc_ok = (\<lambda>i. True)\<rparr>"

definition demo_runtime :: runtime where
  "demo_runtime = \<lparr>wasm_load = \<lambda>_. True, wasm_instantiate = \<lambda>_. True, wasm_exec_env = \<lambda>_. True,
     wasm_main = \<lambda>_ _ _. ([TscBegin 3, Print [1, 2], TscEnd 5], True)\<rparr>"

definition demo_run_env :: run_env where
  "demo_run_env = \<lparr>env_main = null_env, env_req = null_env, env_func = null_env, env_kem = null_env, tsc = (\<lambda>i. 0)\<rparr>"

definition demo_key :: bytes where "demo_key = [4] @ zero_bytes 108"

definition demo_invocation :: invocation where
  "demo_invocation = \<lparr>encrypted_wasm = [1, 2, 3], encrypted_input = [9], c_k_func = Some demo_key, c_key = Some demo_key,
     nonce = zero_bytes 16, pkU = point_be null_point, max_out_size = 64, wasm_iv = zero_bytes 12,
     wasm_mac = zero_bytes 16, input_iv = zero_bytes 12, input_mac = zero_bytes 16\<rparr>"

definition worker_demo_calls :: "worker_call list" where
  "worker_demo_calls = [DecryptKey null_env (zero_bytes 124) (lit ''f1'')]"

definition demo_loaded :: worker where
  "demo_loaded = enter_fid (worker_boot\<lparr>g_worker_key := zero_bytes 32\<rparr>) (lit ''f1'')"

lemma null_fields [simp]:
  "sha256_msg null_sgx d = Some (zero_bytes 32)" "gcm_enc null_sgx k pt iv aad = Some (pt, zero_bytes 16)"
  "gcm_dec null_sgx k ct iv aad tag = (if tag = zero_bytes 16 then Some ct else None)"
  "shared_dhkey null_sgx sk pk = Some (zero_bytes 32)" "pub_from_priv null_sgx sk = Some null_point"
  "ecc_open null_env" "fresh_pair null_env = Some (zero_bytes 32, null_point)" "rand null_env i = Some (zero_bytes 12)"
  "malloc_ok null_env i" "stale null_env = zero_bytes 12"
  by (simp_all add: null_sgx_def null_env_def)

lemma demo_env_simps [simp]:
  "env_main demo_run_env = null_env" "env_req demo_run_env = null_env" "env_func demo_run_env = null_env"
  "env_kem demo_run_env = null_env" "tsc demo_run_env i = 0"
  by (simp_all add: demo_run_env_def)

lemma null_laws: "sha_laws null_sgx" "gcm_laws null_sgx" "ecdh_laws null_sgx" "env_laws null_sgx null_env"
  by (simp_all add: sha_laws_def gcm_laws_def ecdh_laws_def env_laws_def)

lemma zero_bytes_slice [simp]: "take n (zero_bytes k) = zero_bytes (min n k)" "drop n (zero_bytes k) = zero_bytes (k - n)"
  "rev (zero_bytes n) = zero_bytes n" "zero_bytes m @ zero_bytes n = zero_bytes (m + n)"
  by (simp_all add: zero_bytes_def replicate_add min.commute)

lemma demo_programs_fit: "programs_fit demo_runtime"
  by (simp add: programs_fit_def demo_runtime_def call_fits_def)

lemma worker_demo_run: "runs (worker_step m null_sgx demo_runtime) worker_boot worker_demo_calls demo_loaded"
proof -
  have "ecall_decrypt_key null_sgx null_env worker_boot (zero_bytes 124) (lit ''f1'') = (Some (zero_bytes 32), demo_loaded)"
    by (simp add: ecall_decrypt_key_def unwrap_key_def slice_def demo_loaded_def)
  then have "worker_exec m null_sgx demo_runtime (DecryptKey null_env (zero_bytes 124) (lit ''f1'')) worker_boot = demo_loaded"
    by simp
  then have "worker_step m null_sgx demo_runtime (DecryptKey null_env (zero_bytes 124) (lit ''f1'')) worker_boot demo_loaded"
    using worker_step.intros by metis
  then show ?thesis using runs_snoc [OF runs_nil, of "worker_step m null_sgx demo_runtime"] by (simp add: worker_demo_calls_def)
qed

lemma demo_key_not_envelope: "\<not> is_bfibe_envelope (Some demo_key)"
  by (simp add: is_bfibe_envelope_def demo_key_def memcmp_eq_def BFIBE_ENVELOPE_MAGIC_def lit_def)

lemma demo_key_opens: "DecKey m null_sgx null_env w (Some k) (Some demo_key) d = (Some (zero_bytes 32), w)"
  using demo_key_not_envelope
  by (simp add: DecKey_def dec_key_ecies_def Let_def demo_key_def sha256_concat_def slice_def pad32_def)
    (simp add: zero_bytes_def flip: replicate_add)

definition demo_result :: run_result where
  "demo_result = \<lparr>encrypted_result = [1, 2], result_size = 2, result_tag = zero_bytes 16, result_iv = zero_bytes 12\<rparr>"

lemma demo_loaded_simps [simp]:
  "g_key_loaded demo_loaded" "g_worker_fid demo_loaded = lit ''f1''" "g_worker_key demo_loaded = zero_bytes 32"
  "function_cache_lookup demo_loaded f l = None" "\<not> g_dklabel_from_kms demo_loaded" "\<not> capture_output demo_loaded"
  by (simp_all add: demo_loaded_def enter_fid_def worker_boot_def function_cache_clear_def function_cache_lookup_def empty_cache_def)

lemma demo_invocation_simps [simp]:
  "encrypted_wasm demo_invocation = [1, 2, 3]" "encrypted_input demo_invocation = [9]" "c_k_func demo_invocation = Some demo_key"
  "c_key demo_invocation = Some demo_key" "pkU demo_invocation = point_be null_point" "max_out_size demo_invocation = 64"
  "nonce demo_invocation = zero_bytes 16"
  "wasm_iv demo_invocation = zero_bytes 12" "wasm_mac demo_invocation = zero_bytes 16"
  "input_iv demo_invocation = zero_bytes 12" "input_mac demo_invocation = zero_bytes 16"
  by (simp_all add: demo_invocation_def)

lemma demo_enter: "enter_invocation demo_loaded demo_invocation = Some (False, lit ''f1'')"
  using demo_key_not_envelope by (simp add: enter_invocation_def request_uses_bfibe_key_ciphertexts_def)

lemma demo_aads: "\<exists>p r q. build_aads null_sgx null_env f demo_invocation rid = Some (p, r, q)"
  by (simp add: build_aads_def build_aad_pkg_def build_aad_req_def build_aad_out_def sha256_bytes_def)

lemma demo_find: "rs_w st = demo_loaded \<Longrightarrow> find_function null_sgx f demo_invocation st = (Some None, st\<lparr>label32 := zero_bytes 32\<rparr>)"
  by (simp add: find_function_def compute_label_from_cfunc_def missing_def demo_key_def)

lemma demo_program:
  "\<not> capture_output (rs_w st) \<Longrightarrow> \<exists>st'. workload_phase demo_runtime demo_run_env demo_invocation [1, 2, 3] input st = (Some (), st') \<and>
     global_output_pos (rs_w st') = 2 \<and> take 2 (the (global_output_buffer (rs_w st'))) = [1, 2]"
  apply (simp add: workload_phase_def run_program_def Let_def output_capture_prepare_def ASYNCS_MAX_OUTPUT_CAPACITY_BYTES_def output_capture_release_def
    run_wasm_helper_def demo_runtime_def execute_main_def native_def c1_workload_tsc_begin_def c1_workload_tsc_end_def enclave_print_def blit_def traced_def del: One_nat_def)
  done

lemma demo_before:
  "\<exists>st'. dec_request_key_timed m null_sgx demo_run_env False demo_invocation d st = (Some (), st') \<and> rs_w st' = rs_w st"
  "\<exists>st'. dec_function_key_timed m null_sgx demo_run_env False demo_invocation d None st = (Some (), st') \<and> rs_w st' = rs_w st"
  by (auto simp: dec_request_key_timed_def dec_function_key_timed_def dec_request_key_def dec_function_key_def demo_key_opens traced_def)

lemma demo_select:
  "rs_w st = demo_loaded \<Longrightarrow> \<exists>st'. select_dklabel null_sgx null_env False None st = (Some (), st') \<and> \<not> capture_output (rs_w st')"
  by (simp add: select_dklabel_def derive_dklabelfunc_def sha256_concat_def)

lemma demo_load:
  "\<not> capture_output (rs_w st) \<Longrightarrow> \<exists>st'. load_function_timed null_sgx demo_run_env f demo_invocation d None (drop_label_key None st) = (Some [1, 2, 3], st')
     \<and> \<not> capture_output (rs_w st')"
  by (simp add: load_function_timed_def Let_def traced_def keep_function_def function_cache_store_def function_cache_clear_def
      drop_label_key_def ecall_zeroize_label_key_def)

lemma demo_input:
  "\<exists>st'. load_input_timed null_sgx demo_run_env demo_invocation d st = (Some (Some [9]), st') \<and> rs_w st' = rs_w st"
  "\<exists>st'. evidence_phase null_sgx c wasm (Some [9]) st = (Some (), st') \<and> rs_w st' = rs_w st"
  by (simp_all add: load_input_timed_def Let_def traced_def evidence_phase_def capture_e3_payload_evidence_def)

lemma demo_output:
  "\<exists>st'. kem_phase null_sgx demo_run_env demo_invocation st = (Some (point_be null_point), st') \<and> rs_w st' = rs_w st"
  "global_output_pos (rs_w st) = 2 \<Longrightarrow> take 2 (the (global_output_buffer (rs_w st))) = [1, 2] \<Longrightarrow>
   \<exists>st'. output_phase null_sgx demo_run_env demo_invocation d ct st = (Some (demo_result, ct), st')"
  by (simp_all add: kem_phase_def ecall_kem_encap_def point_be_def slice_def output_phase_def encrypt_result_def rand_unchecked_def
      demo_result_def traced_def)

lemma demo_run_kem: "\<exists>st'. run_kem m null_sgx demo_runtime demo_run_env demo_invocation False (lit ''f1'') (fresh_kem demo_loaded) =
    (Some (demo_result, point_be null_point), st')"
proof -
  let ?a = demo_invocation and ?e = demo_run_env and ?s = null_sgx and ?f = "lit ''f1''"
  define st1 where "st1 = traced (\<lambda>t. set_flag C1_TRACE_RID_VALID (t\<lparr>tr_rid := zero_bytes 32\<rparr>)) (fresh_kem demo_loaded)"
  define st2 where "st2 = st1\<lparr>label32 := zero_bytes 32\<rparr>"
  have 2: "find_function ?s ?f ?a st1 = (Some None, st2)" unfolding st2_def by (rule demo_find) (simp add: st1_def)
  obtain p r q where aads: "build_aads ?s null_env ?f ?a (zero_bytes 32) = Some (p, r, q)" using demo_aads by blast
  obtain st3 where 3: "select_dklabel ?s null_env False None st2 = (Some (), st3)" "\<not> capture_output (rs_w st3)"
    using demo_select [of st2] by (auto simp: st2_def st1_def)
  obtain st4 where 4: "dec_request_key_timed m ?s ?e False ?a r st3 = (Some (), st4)" "rs_w st4 = rs_w st3" using demo_before(1) by blast
  obtain st5 where 5: "dec_function_key_timed m ?s ?e False ?a p None st4 = (Some (), st5)" "rs_w st5 = rs_w st4" using demo_before(2) by blast
  obtain st6 where 6: "load_function_timed ?s ?e ?f ?a p None (drop_label_key None st5) = (Some [1, 2, 3], st6)" "\<not> capture_output (rs_w st6)"
    using demo_load [of st5] 3(2) 4(2) 5(2) by auto
  obtain st7 where 7: "load_input_timed ?s ?e ?a r st6 = (Some (Some [9]), st7)" "rs_w st7 = rs_w st6" using demo_input(1) by blast
  obtain st8 where 8: "evidence_phase ?s None [1, 2, 3] (Some [9]) st7 = (Some (), st8)" "rs_w st8 = rs_w st7" using demo_input(2) by blast
  obtain st9 where 9: "workload_phase demo_runtime ?e ?a [1, 2, 3] (Some [9]) st8 = (Some (), st9)"
    "global_output_pos (rs_w st9) = 2" "take 2 (the (global_output_buffer (rs_w st9))) = [1, 2]"
    using demo_program [of st8 "Some [9]"] 6(2) 7(2) 8(2) by auto
  obtain st10 where 10: "kem_phase ?s ?e ?a st9 = (Some (point_be null_point), st10)" "rs_w st10 = rs_w st9" using demo_output(1) by blast
  obtain st11 where 11: "output_phase ?s ?e ?a q (point_be null_point) st10 = (Some (demo_result, point_be null_point), st11)"
    using demo_output(2) [of st10] 9 10(2) by auto
  show ?thesis
    using 2 3 4 5 6 7 8 9 10 11 aads
    by (simp add: run_kem_def compute_rid_from_fid_and_c_req_def Let_def st1_def [symmetric])
qed

lemma demo_kem: "\<exists>st. ecall_run_encrypted_wasm_kem m null_sgx demo_runtime demo_run_env demo_loaded demo_invocation =
    (Some (demo_result, point_be null_point), st)"
  using demo_run_kem [of m] by (auto simp: ecall_run_encrypted_wasm_kem_def demo_enter)

subsection \<open>Properties\<close>

text \<open>
  C33: what holds of the enclave between ECALLs, in every run. Code that the cache returns for an FID
  and a label is the authenticated decryption of a package with that label for that FID, and the FID
  is one whose keys are loaded; the label key is zero; the output buffer is released and output
  goes to the host again.
\<close>

theorem worker_state_invariant:
  assumes "runs (worker_step m s rt) worker_boot cs w" "sha_laws s"
  shows "(\<forall>f l wasm. function_cache_lookup w f l = Some wasm \<longrightarrow> length l = 32 \<longrightarrow>
       package_code s f l wasm \<and> (ecall_has_key w f = 1)) \<and>
    set (g_dklabel_func w) \<subseteq> {0} \<and> global_output_buffer w = None \<and> \<not> capture_output w"
proof -
  note i = reachable_inv [OF assms]
  have "package_code s f l wasm \<and> ecall_has_key w f = 1" if "function_cache_lookup w f l = Some wasm" "length l = 32" for f l wasm
    using i(1) cache_authentic_lookup [OF _ that] that
    by (auto simp: worker_ok_def cache_owned_def ecall_has_key_def function_cache_lookup_def Let_def split: if_splits)
  with i show ?thesis by (auto simp: worker_ok_def at_rest_def label_clean_def)
qed

theorem worker_state_invariant_witness:
  "set (g_dklabel_func demo_loaded) \<subseteq> {0} \<and> global_output_buffer demo_loaded = None"
  using worker_state_invariant [OF worker_demo_run null_laws(1)] by blast

text \<open>
  C34: what a result of the KEM invocation means, in every run. If the ECALL returns a result, then
  for the FID whose keys the request used, the code is the authenticated decryption of a package
  with the label of the submitted code package, the request key was opened and authenticates the input
  under FID, nonce and the client's key, the output is what the program wrote on that input, and it
  is encrypted to the client's key under FID, request identifier and that key. The trace names the
  hash and length of the input and has exactly the flags of a run that decrypted the code or found it
  in the cache.
\<close>

theorem kem_invocation_sound:
  assumes "runs (worker_step m s rt) worker_boot cs w" "sha_laws s" "programs_fit rt"
    and "ecall_run_encrypted_wasm_kem m s rt e w a = (Some (r, ct), st)"
  shows "\<exists>u f hit wasm input output. enter_invocation w a = Some (u, f) \<and>
    invocation_result m s rt e w a u f hit wasm input output r ct \<and>
    sha256_msg s input = Some (payload_sha256 (rs_t st)) \<and> payload_bytes_consumed (rs_t st) = len32 input \<and>
    tr_flags (rs_t st) = (if hit then 0x67F7 else 0x7FFB)"
proof -
  obtain u f st' where e: "enter_invocation w a = Some (u, f)" "run_kem m s rt e a u f (fresh_kem w) = (Some (r, ct), st')"
    "rs_t st = rs_t st'" using kem_cases [OF assms(4)] by blast
  from run_kem_Some [OF e(2) _ _ assms(2,3)] reachable_inv(1) [OF assms(1,2)] entered_owner [OF e(1)]
  obtain hit wasm input b where i: "invocation_result m s rt e w a u f hit wasm input b r ct"
    "sha256_msg s input = Some (payload_sha256 (rs_t st'))" "payload_bytes_consumed (rs_t st') = len32 input"
    "flags st' = success_flags hit" by auto
  then have f: "tr_flags (rs_t st) = (if hit then 0x67F7 else 0x7FFB)" using e(3) by (simp add: success_flags_def)
  show ?thesis using e i f by (intro exI [of _ u] exI [of _ f] exI [of _ hit] exI [of _ wasm] exI [of _ input] exI [of _ b]) simp
qed

theorem kem_invocation_sound_witness:
  "\<exists>st. ecall_run_encrypted_wasm_kem toy_mcl null_sgx demo_runtime demo_run_env demo_loaded demo_invocation =
      (Some (demo_result, point_be null_point), st) \<and> tr_flags (rs_t st) \<in> {0x67F7, 0x7FFB} \<and>
    (\<exists>input. sha256_msg null_sgx input = Some (payload_sha256 (rs_t st)))"
proof -
  obtain st where r: "ecall_run_encrypted_wasm_kem toy_mcl null_sgx demo_runtime demo_run_env demo_loaded demo_invocation =
      (Some (demo_result, point_be null_point), st)" using demo_kem by blast
  from kem_invocation_sound [OF worker_demo_run null_laws(1) demo_programs_fit this] obtain hit :: bool and input where
    "sha256_msg null_sgx input = Some (payload_sha256 (rs_t st))" "tr_flags (rs_t st) = (if hit then 0x67F7 else 0x7FFB)" by blast
  with r show ?thesis by (intro exI [of _ st]) auto
qed

text \<open>
  The trace tells the host the truth about success. The success flag of the trace the KEM ECALL
  leaves is set exactly when the ECALL returns a result.
\<close>

theorem kem_trace_success_iff:
  assumes "runs (worker_step m s rt) worker_boot cs w" "sha_laws s" "programs_fit rt"
  shows "bit (tr_flags (rs_t (snd (ecall_run_encrypted_wasm_kem m s rt e w a)))) C1_TRACE_SUCCESS \<longleftrightarrow>
    fst (ecall_run_encrypted_wasm_kem m s rt e w a) \<noteq> None"
proof (cases "ecall_run_encrypted_wasm_kem m s rt e w a")
  case (Pair x st)
  show ?thesis
  proof (cases x)
    case None
    with Pair kem_None [of m s rt e w a] show ?thesis by simp
  next
    case (Some t)
    obtain r ct where t: "t = (r, ct)" by (cases t)
    obtain u f st' where e: "enter_invocation w a = Some (u, f)" "run_kem m s rt e a u f (fresh_kem w) = (Some (r, ct), st')"
      "rs_t st = rs_t st'" using kem_cases Pair Some t by blast
    from run_kem_Some [OF e(2) _ _ assms(2,3)] reachable_inv(1) [OF assms(1,2)] entered_owner [OF e(1)]
    obtain hit where "flags st' = success_flags hit" by auto
    with Pair Some e(3) success_flags_bit show ?thesis by simp
  qed
qed

theorem kem_trace_success_iff_witness:
  "bit (tr_flags (rs_t (snd (ecall_run_encrypted_wasm_kem toy_mcl null_sgx demo_runtime demo_run_env demo_loaded demo_invocation))))
     C1_TRACE_SUCCESS"
  using kem_trace_success_iff [OF worker_demo_run null_laws(1) demo_programs_fit, of toy_mcl demo_run_env demo_invocation] demo_kem [of toy_mcl]
  by auto

lemma result_decrypts:
  assumes "invocation_result m s rt e w a u f hit wasm input output r ct"
    and "sha_laws s" "gcm_laws s" "ecdh_laws s" "env_laws s (env_kem e)"
    and "pkU a = point_be p" "pub_from_priv s (rev sk) = Some p" "length sk = 32"
  shows "\<exists>rid. sha256_msg s (fid_to_bytes_or_str f @ c_req_full a) = Some rid \<and>
    client_decrypt_result s ct r sk (fid_to_bytes_or_str f) rid (pkU a) = Some output"
proof -
  from assms(1) obtain rid hpk kU where x: "sha256_msg s (fid_to_bytes_or_str f @ c_req_full a) = Some rid" "sha256_msg s (take 65 (pkU a)) = Some hpk"
    "ecall_kem_encap s (env_kem e) (pkU a) = Some (ct, kU)"
    "gcm_enc s (take 16 kU) output (result_iv r) (OUT @ fid_to_bytes_or_str f @ take 32 rid @ hpk) = Some (encrypted_result r, result_tag r)"
    unfolding invocation_result_def by blast
  have "length p = 64" using ecdh_agree(2) assms(4,7) by blast
  then have pk: "take 65 (pkU a) = pkU a" using assms(6) by (simp add: point_be_def)
  have rid: "take 32 rid = rid" using sha_length [OF assms(2) x(1)] by simp
  have "p256_decap s sk ct = Some kU" using encap_decap [OF x(3) [unfolded assms(6)] assms(4,5,7,8)] .
  then have "client_decrypt_result s ct r sk (fid_to_bytes_or_str f) rid (pkU a) = Some output"
    using x(2) gcm_round(1) [OF assms(3) x(4)] by (simp add: client_decrypt_result_def pk rid)
  with x(1) show ?thesis by blast
qed

text \<open>
  The client reads the output. Whoever holds the private key of the request's public key decrypts the
  result of a KEM invocation to the bytes the program wrote, under the canonical FID and the request
  identifier of the submitted request.
\<close>

theorem kem_output_roundtrip:
  assumes "runs (worker_step m s rt) worker_boot cs w" "sha_laws s" "programs_fit rt"
    and "ecall_run_encrypted_wasm_kem m s rt e w a = (Some (r, ct), st)"
    and "gcm_laws s" "ecdh_laws s" "env_laws s (env_kem e)"
    and "pkU a = point_be p" "pub_from_priv s (rev sk) = Some p" "length sk = 32"
  shows "\<exists>u f rid hit wasm input output. enter_invocation w a = Some (u, f) \<and>
    sha256_msg s (fid_to_bytes_or_str f @ c_req_full a) = Some rid \<and>
    invocation_result m s rt e w a u f hit wasm input output r ct \<and>
    client_decrypt_result s ct r sk (fid_to_bytes_or_str f) rid (pkU a) = Some output"
proof -
  obtain u f st' where e: "enter_invocation w a = Some (u, f)" "run_kem m s rt e a u f (fresh_kem w) = (Some (r, ct), st')"
    using kem_cases [OF assms(4)] by blast
  from run_kem_Some [OF e(2) _ _ assms(2,3)] reachable_inv(1) [OF assms(1,2)] entered_owner [OF e(1)]
  obtain hit wasm input b where i: "invocation_result m s rt e w a u f hit wasm input b r ct" by auto
  from result_decrypts [OF this assms(2,5-10)] e i show ?thesis by blast
qed

theorem kem_output_roundtrip_witness:
  "\<exists>output. client_decrypt_result null_sgx (point_be null_point) demo_result (zero_bytes 32) (lit ''f1'') (zero_bytes 32)
     (point_be null_point) = Some output"
proof -
  obtain st where "ecall_run_encrypted_wasm_kem toy_mcl null_sgx demo_runtime demo_run_env demo_loaded demo_invocation =
      (Some (demo_result, point_be null_point), st)" using demo_kem by blast
  from kem_output_roundtrip [OF worker_demo_run null_laws(1) demo_programs_fit this null_laws(2,3), of null_point "zero_bytes 32"]
  have "\<exists>u f rid output. enter_invocation demo_loaded demo_invocation = Some (u, f) \<and> rid = zero_bytes 32 \<and>
    client_decrypt_result null_sgx (point_be null_point) demo_result (zero_bytes 32) (fid_to_bytes_or_str f) rid
     (point_be null_point) = Some output"
    using null_laws(4) by auto
  then show ?thesis by (auto simp: demo_enter fid_to_bytes_or_str_def)
qed

text \<open>
  C35: no key survives an invocation. Whatever the request and whether it succeeds, when the KEM ECALL
  returns, every local key array, the label and the label key of the enclave are zero, and the output
  buffer is released.
\<close>

theorem kem_leaves_no_keys:
  assumes "runs (worker_step m s rt) worker_boot cs w" "sha_laws s"
    and "ecall_run_encrypted_wasm_kem m s rt e w a = (r, st)"
  shows "(\<forall>k \<in> set [label32 st, dklabelfunc32 st, k_func32 st, k_req32 st, k_func_128 st, k_req_128 st, k_U st, k_U_128 st].
      set k \<subseteq> {0}) \<and> set (g_dklabel_func (rs_w st)) \<subseteq> {0} \<and> global_output_buffer (rs_w st) = None"
proof -
  have "worker_step m s rt (RunEncryptedKem e a) w (rs_w st)"
    using worker_step.intros [of m s rt "RunEncryptedKem e a" w] assms(3) by simp
  with assms(1) have "runs (worker_step m s rt) worker_boot (cs @ [RunEncryptedKem e a]) (rs_w st)" by (rule runs_snoc)
  note i = reachable_inv [OF this assms(2)]
  have "\<forall>k \<in> set (key_locals st). set k \<subseteq> {0}" using kem_key_locals [of m s rt e w a] assms(3) by simp
  with i show ?thesis by (simp add: key_locals_def worker_ok_def at_rest_def label_clean_def)
qed

theorem kem_leaves_no_keys_witness:
  "\<exists>st. ecall_run_encrypted_wasm_kem toy_mcl null_sgx demo_runtime demo_run_env demo_loaded demo_invocation =
      (Some (demo_result, point_be null_point), st) \<and> set (k_req_128 st) \<subseteq> {0} \<and> set (k_U st) \<subseteq> {0}"
proof -
  obtain st where "ecall_run_encrypted_wasm_kem toy_mcl null_sgx demo_runtime demo_run_env demo_loaded demo_invocation =
      (Some (demo_result, point_be null_point), st)" using demo_kem by blast
  with kem_leaves_no_keys [OF worker_demo_run null_laws(1) this] show ?thesis by auto
qed

text \<open>
  One case in which more is left. If the output buffer cannot be prepared, the run ends with the Base64 text of the
  decrypted input still in memory, and the cleanup of the ECALL does not erase it.
\<close>

theorem failed_prepare_keeps_input:
  assumes "max_out_size a = 0 \<or> 1024 * 1024 < max_out_size a \<or> \<not> malloc_ok (env_main e) 11"
    and "run_program rt e a wasm (Some input) trace st = (ok, t, st')"
  shows "\<not> ok \<and> input_b64 (cleanup st') = base64_encode (malloc_ok (env_main e) 10) input"
proof -
  have "output_capture_prepare (rs_w st) (malloc_ok (env_main e) 11) (max_out_size a) = (False, output_capture_release (rs_w st))"
    using assms(1) by (auto simp: output_capture_prepare_def ASYNCS_MAX_OUTPUT_CAPACITY_BYTES_def Let_def)
  with assms(2) show ?thesis by (auto simp: run_program_def cleanup_def Let_def)
qed

theorem failed_prepare_keeps_input_witness:
  "input_b64 (cleanup (snd (snd (run_program demo_runtime demo_run_env (demo_invocation\<lparr>max_out_size := 0\<rparr>) [1] (Some [9]) None
     (fresh_run demo_loaded))))) = base64_encode True [9]"
proof -
  let ?a = "demo_invocation\<lparr>max_out_size := 0\<rparr>"
  obtain ok t st where r: "run_program demo_runtime demo_run_env ?a [1] (Some [9]) None (fresh_run demo_loaded) = (ok, t, st)"
    by (metis prod_cases3)
  from failed_prepare_keeps_input [OF _ this] show ?thesis by (simp add: r)
qed

text \<open>
  C36: a request without input is always refused by the KEM ECALL: the hash of the consumed payload
  is taken of a null pointer.
\<close>

theorem kem_refuses_empty_input:
  assumes "encrypted_input a = []"
  shows "fst (ecall_run_encrypted_wasm_kem m s rt e w a) = None"
proof (rule ccontr)
  assume "fst (ecall_run_encrypted_wasm_kem m s rt e w a) \<noteq> None"
  then obtain r ct st where "ecall_run_encrypted_wasm_kem m s rt e w a = (Some (r, ct), st)" by (metis not_None_eq prod.collapse)
  then obtain u f st' where k: "run_kem m s rt e a u f (fresh_kem w) = (Some (r, ct), st')" using kem_cases by metis
  have "evidence_phase s c wasm None z = (None, z)" for c wasm z by (simp add: evidence_phase_def capture_e3_payload_evidence_def)
  with k assms show False
    by (auto simp: run_kem_def Let_def phase_then_Some load_input_timed_def simp del: One_nat_def split: option.splits)
qed

theorem kem_refuses_empty_input_witness:
  "fst (ecall_run_encrypted_wasm_kem toy_mcl null_sgx demo_runtime demo_run_env demo_loaded (demo_invocation\<lparr>encrypted_input := []\<rparr>)) = None"
  by (rule kem_refuses_empty_input) simp

end
