(* ===== verification/WorkerServer.thy ===== *)
theory WorkerServer
  imports WorkerDriver Provisioning WorkerTheorems
begin

text \<open>
  The worker process around its enclave: all it does to the enclave is a sequence of ECALLs, so what is
  proved of every run of the enclave holds under the process; when the command loop answers;
  and what the exit code of an invocation says.
\<close>

text \<open>The head of the trace, its version and the request identifier, is set before the first phase.\<close>

definition trace_head :: "c1_asyncs_invoke_trace \<Rightarrow> u32 \<times> bytes" where
  "trace_head t = (tr_version t, tr_rid t)"

abbreviation "head_of st \<equiv> trace_head (rs_t st)"

lemma helper_head:
  "\<exists>u. snd (snd (run_wasm_helper rt c ts w wasm arg (Some t))) = Some u \<and> trace_head u = trace_head t"
  by (auto simp: run_wasm_helper_def Let_def set_flag_def trace_head_def split: prod.splits)

lemma run_program_head:
  "\<exists>u. fst (snd (run_program rt e a wasm input (Some t) st)) = Some u \<and> trace_head u = trace_head t"
proof -
  obtain r w where p: "output_capture_prepare (rs_w st) (malloc_ok (env_main e) 11) (max_out_size a) = (r, w)" by fastforce
  let ?arg = "case input of None \<Rightarrow> None | Some d \<Rightarrow> base64_encode (malloc_ok (env_main e) 10) d"
  obtain ok w2 t2 where h: "run_wasm_helper rt (malloc_ok (env_main e) 12) (tsc e) w wasm ?arg (Some t) = (ok, w2, t2)"
    by (metis prod_cases3)
  show ?thesis
    using helper_head [of rt "malloc_ok (env_main e) 12" "tsc e" w wasm ?arg t] h
    by (simp add: run_program_def p Let_def)
qed

lemma head_set [simp]: "trace_head (set_flag i t) = trace_head t"
  by (simp add: set_flag_def trace_head_def)

lemma head_upd [simp]:
  "trace_head (t\<lparr>input_key_decap_begin_cycles := v\<rparr>) = trace_head t"
  "trace_head (t\<lparr>input_key_decap_end_cycles := v\<rparr>) = trace_head t"
  "trace_head (t\<lparr>input_key_decap_cycles := v\<rparr>) = trace_head t"
  "trace_head (t\<lparr>input_aes_gcm_begin_cycles := v\<rparr>) = trace_head t"
  "trace_head (t\<lparr>input_aes_gcm_end_cycles := v\<rparr>) = trace_head t"
  "trace_head (t\<lparr>input_aes_gcm_cycles := v\<rparr>) = trace_head t"
  "trace_head (t\<lparr>output_kem_begin_cycles := v\<rparr>) = trace_head t"
  "trace_head (t\<lparr>output_kem_end_cycles := v\<rparr>) = trace_head t"
  "trace_head (t\<lparr>output_kem_cycles := v\<rparr>) = trace_head t"
  "trace_head (t\<lparr>output_aes_gcm_begin_cycles := v\<rparr>) = trace_head t"
  "trace_head (t\<lparr>output_aes_gcm_end_cycles := v\<rparr>) = trace_head t"
  "trace_head (t\<lparr>output_aes_gcm_cycles := v\<rparr>) = trace_head t"
  "trace_head (t\<lparr>function_key_decap_begin_cycles := v\<rparr>) = trace_head t"
  "trace_head (t\<lparr>function_key_decap_end_cycles := v\<rparr>) = trace_head t"
  "trace_head (t\<lparr>function_key_decap_cycles := v\<rparr>) = trace_head t"
  "trace_head (t\<lparr>cfunc_aes_gcm_begin_cycles := v\<rparr>) = trace_head t"
  "trace_head (t\<lparr>cfunc_aes_gcm_end_cycles := v\<rparr>) = trace_head t"
  "trace_head (t\<lparr>cfunc_aes_gcm_cycles := v\<rparr>) = trace_head t"
  "trace_head (t\<lparr>workload_begin_cycles := v\<rparr>) = trace_head t"
  "trace_head (t\<lparr>workload_end_cycles := v\<rparr>) = trace_head t"
  "trace_head (t\<lparr>workload_core_cycles := v\<rparr>) = trace_head t"
  "trace_head (t\<lparr>payload_bytes_consumed := n\<rparr>) = trace_head t"
  "trace_head (t\<lparr>payload_sha256 := h\<rparr>) = trace_head t"
  "trace_head (t\<lparr>function_cache_bytes := n\<rparr>) = trace_head t"
  by (simp_all add: trace_head_def)

lemma timed_head:
  assumes "head_of st = x"
  shows "head_of (snd (dec_request_key_timed m s e u a d st)) = x" "head_of (snd (dec_function_key_timed m s e u a d c st)) = x"
proof -
  show "head_of (snd (dec_request_key_timed m s e u a d st)) = x"
    unfolding dec_request_key_timed_def by (rule phase_then_inv [where P = "\<lambda>st. head_of st = x"]) (simp_all add: traced_def assms)
  have "head_of (snd (phase_then (dec_function_key m s (env_func e) u a d c (traced (\<lambda>t. t\<lparr>function_key_decap_begin_cycles := tsc e 2\<rparr>) st))
             (\<lambda>_ st. (Some (), traced (\<lambda>t. set_flag C2_TRACE_FUNCTION_KEY_CYCLES_VALID
                (t\<lparr>function_key_decap_end_cycles := tsc e 3,
                   function_key_decap_cycles := tsc e 3 - function_key_decap_begin_cycles t\<rparr>)) st)))) = x"
    by (rule phase_then_inv [where P = "\<lambda>st. head_of st = x"]) (simp_all add: traced_def assms)
  then show "head_of (snd (dec_function_key_timed m s e u a d c st)) = x" using assms by (auto simp: dec_function_key_timed_def)
qed

lemma phases_head:
  assumes "head_of st = x"
  shows "head_of (snd (load_function_timed s e f a d c st)) = x" "head_of (snd (load_input_timed s e a d st)) = x"
    "head_of (snd (evidence_phase s c wasm input st)) = x" "head_of (snd (kem_phase s e a st)) = x"
    "head_of (snd (output_phase s e a d ct st)) = x" "head_of (drop_label_key c st) = x"
    "head_of (snd (find_function s f a st)) = x" "head_of (snd (select_dklabel s e' u c st)) = x"
  using assms
  by (auto simp: load_function_timed_def load_input_timed_def evidence_phase_def capture_e3_payload_evidence_def
      kem_phase_def output_phase_def traced_def Let_def bind_eq_Some_conv split: option.splits)

lemma workload_head: "head_of st = x \<Longrightarrow> head_of (snd (workload_phase rt e a wasm input st)) = x"
  using run_program_head [of rt e a wasm input "rs_t st" st]
  by (auto simp: workload_phase_def traced_def Let_def split: prod.splits option.splits)

lemma run_kem_head:
  "head_of (snd (run_kem m s rt e a u f st)) =
   (case compute_rid_from_fid_and_c_req s (malloc_ok (env_main e) 1) f (c_req_full a) of
      None \<Rightarrow> head_of st | Some rid \<Rightarrow> (tr_version (rs_t st), rid))"
proof (cases "compute_rid_from_fid_and_c_req s (malloc_ok (env_main e) 1) f (c_req_full a)")
  case None
  then show ?thesis by (simp add: run_kem_def del: One_nat_def)
next
  case (Some rid)
  let ?st = "traced (\<lambda>t. set_flag C1_TRACE_RID_VALID (t\<lparr>tr_rid := rid\<rparr>)) st" and ?h = "(tr_version (rs_t st), rid)"
  have h: "head_of ?st = ?h" by (simp add: traced_def) (simp add: trace_head_def)
  have "head_of (snd (run_kem m s rt e a u f st)) = ?h"
    unfolding run_kem_def Let_def Some option.case
    by (split option.split, intro conjI allI impI, simp add: h, split prod.split, intro allI impI, split prod.split, intro allI impI)
      (intro phase_then_inv [where P = "\<lambda>st. head_of st = ?h"] phases_head timed_head workload_head h; assumption)
  with Some show ?thesis by (simp del: One_nat_def)
qed

lemma run_kem_version: "tr_version (rs_t st) = 1 \<Longrightarrow> tr_version (rs_t (snd (run_kem m s rt e a u f st))) = 1"
  using run_kem_head [of m s rt e a u f st] by (simp add: trace_head_def split: option.splits)

lemma required_flags: "success_flags hit AND C1_TRACE_REQUIRED_FLAGS = C1_TRACE_REQUIRED_FLAGS"
  by (simp add: success_flags_def C1_TRACE_REQUIRED_FLAGS_def flag_defs)

lemma required_success: "x AND C1_TRACE_REQUIRED_FLAGS = C1_TRACE_REQUIRED_FLAGS \<Longrightarrow> bit x C1_TRACE_SUCCESS"
proof -
  have "bit C1_TRACE_REQUIRED_FLAGS C1_TRACE_SUCCESS"
    by (simp add: C1_TRACE_REQUIRED_FLAGS_def flag_defs bit_or_iff bit_exp_iff)
  then show "x AND C1_TRACE_REQUIRED_FLAGS = C1_TRACE_REQUIRED_FLAGS \<Longrightarrow> ?thesis" by (metis bit_and_iff)
qed


subsection \<open>The process only makes calls\<close>

lemma runs_trans: "runs step b ds c \<Longrightarrow> runs step a cs b \<Longrightarrow> runs step a (cs @ ds) c"
proof (induction rule: runs.induct)
  case (runs_snoc ds s' d s'')
  then show ?case using runs.runs_snoc [of step a "cs @ ds" s' d s''] by simp
qed simp

definition calls_to :: "('fr, 'g1, 'g2, 'gt) mcl \<Rightarrow> sgx \<Rightarrow> runtime \<Rightarrow> worker \<Rightarrow> worker \<Rightarrow> bool" where
  "calls_to m s rt w w' \<longleftrightarrow> (\<exists>cs. runs (worker_step m s rt) w cs w')"

lemma calls_refl [simp]: "calls_to m s rt w w"
  unfolding calls_to_def by (rule exI [of _ "[]"], rule runs_nil)

lemma calls_trans:
  assumes "calls_to m s rt a b" "calls_to m s rt b c"
  shows "calls_to m s rt a c"
proof -
  obtain cs ds where "runs (worker_step m s rt) a cs b" "runs (worker_step m s rt) b ds c"
    using assms unfolding calls_to_def by (elim exE)
  from runs_trans [OF this(2,1)] show ?thesis unfolding calls_to_def by (rule exI)
qed

lemma calls_one: "worker_exec m s rt c w = w' \<Longrightarrow> calls_to m s rt w w'"
  using runs_snoc [of "worker_step m s rt" w "[]" w c w', OF runs_nil] worker_step.intros [of m s rt c w]
  unfolding calls_to_def by (intro exI [of _ "[c]"]) simp

lemma calls_exec:
  "calls_to m s rt w (snd (ecall_create_report s e w))" "calls_to m s rt w (snd (ecall_load_bfibe_key_release s e w r f'))"
  "calls_to m s rt w (ecall_decrypt_keys_batch s e1 e2 w k l f)" "calls_to m s rt w (snd (ecall_decrypt_key s e w k f))"
  "calls_to m s rt w (ecall_run_wasm rt re w wasm)" "calls_to m s rt w (rs_w (snd (ecall_run_encrypted_wasm m s rt re w a)))"
  "calls_to m s rt w (rs_w (snd (ecall_run_encrypted_wasm_kem m s rt re w a)))"
  by (rule calls_one [of m s rt "CreateReport e"], simp) (rule calls_one [of m s rt "LoadRelease e r f'"], simp,
    rule calls_one [of m s rt "DecryptKeysBatch e1 e2 k l f"], simp, rule calls_one [of m s rt "DecryptKey e k f"], simp,
    rule calls_one [of m s rt "RunWasm re wasm"], simp, rule calls_one [of m s rt "RunEncrypted re a"], simp,
    rule calls_one [of m s rt "RunEncryptedKem re a"], simp)

lemma use_response_calls: "calls_to m s rt (worker_enclave a) (worker_enclave (use_response s e f b a))"
  by (simp add: use_response_def copy_timing_def Let_def calls_exec)

lemma connect_calls:
  "connect_to_kms s e host port q f l pk a = Returned a' \<Longrightarrow> calls_to m s rt (worker_enclave a) (worker_enclave a')"
  using use_response_calls [of m s rt "a\<lparr>g_kms_timing := no_timing, kms_sent := x\<rparr>" for x]
  by (auto simp: connect_to_kms_def Let_def split: if_splits prod.splits io.splits)

lemma report_calls: "create_report s e a = (r, pk, a') \<Longrightarrow> calls_to m s rt (worker_enclave a) (worker_enclave a')"
  using calls_exec(1) [of m s rt "worker_enclave a" "report_env e"]
  by (auto simp: create_report_def Let_def split: if_splits prod.splits option.splits)

lemma dummy_calls: "dummy_quote s e c a = (q, pk, a') \<Longrightarrow> calls_to m s rt (worker_enclave a) (worker_enclave a')"
  by (auto simp: dummy_quote_def dest: report_calls split: prod.splits)

lemma quote_calls: "generate_quote s e sim f l a = Returned a' \<Longrightarrow> calls_to m s rt (worker_enclave a) (worker_enclave a')"
  by (auto simp: generate_quote_def dest!: connect_calls dummy_calls report_calls intro: calls_trans
      split: if_splits prod.splits option.splits)

lemma invocation_calls: "calls_to m s rt w (snd (run_invocation m s rt e call w))"
proof (cases "snd call")
  case True
  obtain r st where "ecall_run_encrypted_wasm_kem m s rt (exec_env e) w (fst call) = (r, st)" by fastforce
  with True calls_exec(7) [of m s rt w "exec_env e" "fst call"] show ?thesis
    by (auto simp: run_invocation_def Let_def split: prod.splits)
next
  case False
  obtain r st where "ecall_run_encrypted_wasm m s rt (exec_env e) w (fst call) = (r, st)" by fastforce
  with False calls_exec(6) [of m s rt w "exec_env e" "fst call"] show ?thesis
    by (auto simp: run_invocation_def Let_def)
qed

text \<open>An invocation: the key path, then the files, then the ECALL.\<close>

lemma do_invoke_cases:
  assumes "do_invoke m s rt e sim args allow a = Returned (rc, out, a')"
  obtains a1 :: worker_app where "calls_to m s rt (worker_enclave a) (worker_enclave a1)"
    "load_invocation e args = None" "rc = -1" "out = None" "a' = a1"
  | a1 :: worker_app and call where "calls_to m s rt (worker_enclave a) (worker_enclave a1)" "load_invocation e args = Some call"
    "run_invocation m s rt e call (worker_enclave a1) = (out, worker_enclave a')" "rc = (if out = None then -1 else 0)"
proof -
  let ?a = "a\<lparr>g_kms_timing := no_timing\<rparr>"
  let ?k = "if \<not> (allow \<and> delivered (exchange e) 0 \<and> ecall_has_key (worker_enclave a) (cstr (ia_fid args)) = 1)
    then generate_quote s (exchange e) sim (cstr (ia_fid args)) (cstr (ia_label args)) ?a else Returned ?a"
  from assms obtain a1 where a1: "?k = Returned a1"
    by (auto simp: do_invoke_def Let_def split: proc.splits)
  have c: "calls_to m s rt (worker_enclave a) (worker_enclave a1)"
    using a1 quote_calls [where a = ?a] by (auto split: if_splits)
  from assms have d: "(case load_invocation e args of None \<Rightarrow> Returned (-1, None, a1)
      | Some call \<Rightarrow> let (out, w) = run_invocation m s rt e call (worker_enclave a1); a = a1\<lparr>worker_enclave := w\<rparr>
          in Returned (if out = None then -1 else 0, out, a)) = Returned (rc, out, a')"
    using a1 by (simp add: do_invoke_def Let_def)
  show thesis
  proof (cases "load_invocation e args")
    case None
    with d that(1) [OF c] show thesis by simp
  next
    case (Some call)
    with d that(2) [OF c Some] show thesis by (auto simp: Let_def split: prod.splits)
  qed
qed

lemma invoke_calls:
  assumes "do_invoke m s rt e sim args allow a = Returned (rc, out, a')"
  shows "calls_to m s rt (worker_enclave a) (worker_enclave a')"
  using assms
proof (cases rule: do_invoke_cases)
  case (2 a1 call)
  with invocation_calls [of m s rt "worker_enclave a1" e call] show ?thesis using calls_trans by simp
qed simp

lemma run_wasm_calls: "do_run_wasm rt e p i a = Returned (rc, a') \<Longrightarrow> calls_to m s rt (worker_enclave a) (worker_enclave a')"
  by (auto simp: do_run_wasm_def Let_def calls_exec split: if_splits option.splits)

lemma command_calls: "run_command m s rt e sim ts a = Returned (r, a') \<Longrightarrow> calls_to m s rt (worker_enclave a) (worker_enclave a')"
  by (auto simp: run_command_def dest: invoke_calls run_wasm_calls split: if_splits proc.splits sum.splits)

lemma server_calls:
  "snd (run_server_loop m s rt es sim lines n a) = Returned a' \<Longrightarrow> calls_to m s rt (worker_enclave a) (worker_enclave a')"
proof (induction m s rt es sim lines n a rule: run_server_loop.induct)
  case (2 m s rt es sim line rest n a)
  then show ?case
    by (auto simp: Let_def dest: command_calls intro: calls_trans split: if_splits proc.splits prod.splits)
qed simp

subsection \<open>When the server answers\<close>

lemma connect_returns: "ending (arrives e) \<noteq> Open \<Longrightarrow> \<exists>a'. connect_to_kms s e host port q f l pk a = Returned a'"
  by (cases "ending (arrives e)") (auto simp: connect_to_kms_def read_response_eq Let_def split: prod.splits)

lemma quote_returns:
  assumes "ending (arrives e) \<noteq> Open" "sim \<or> qe_target_info e = QlSuccess"
  shows "\<exists>a'. generate_quote s e sim f l a = Returned a'"
  using assms(2) connect_returns [OF assms(1)] by (auto simp: generate_quote_def split: prod.splits option.splits)

lemma invoke_returns:
  assumes "ending (arrives (exchange e)) \<noteq> Open" "sim \<or> qe_target_info (exchange e) = QlSuccess"
  shows "\<exists>rc out a'. do_invoke m s rt e sim args allow a = Returned (rc, out, a')"
  using quote_returns [OF assms, of s "cstr (ia_fid args)" "cstr (ia_label args)" "a\<lparr>g_kms_timing := no_timing\<rparr>"]
  by (auto simp: do_invoke_def Let_def split: option.splits prod.splits)

lemma command_returns:
  assumes "ending (arrives (exchange e)) \<noteq> Open" "sim \<or> qe_target_info (exchange e) = QlSuccess"
    and "\<And>p d. read_file e p = Some d \<Longrightarrow> length d \<le> pipe_capacity e"
  shows "\<exists>r a'. run_command m s rt e sim ts a = Returned (r, a')"
proof -
  note i = invoke_returns [OF assms(1,2)]
  have w: "\<exists>rc a'. do_run_wasm rt e p q a = Returned (rc, a')" for p q
    using assms(3) [of "cstr q"] by (auto simp: do_run_wasm_def Let_def not_less split: option.splits)
  show ?thesis
  proof (cases "parse_invoke_tokens ts")
    case (Inr args)
    with i [of m s rt args True a] w [of "ts ! 1" "if length ts = 3 then ts ! 2 else []"] show ?thesis by (auto simp: run_command_def)
  qed (use w [of "ts ! 1" "if length ts = 3 then ts ! 2 else []"] in \<open>auto simp: run_command_def\<close>)
qed




text \<open>The enclave can serve any sequence of commands of the loop: a witness without a network.\<close>

definition demo_files :: "bytes \<Rightarrow> bytes option" where
  "demo_files p =
     (if p = lit ''w'' then Some (zero_bytes 28 @ [1, 2, 3]) else if p = lit ''i'' then Some (zero_bytes 28 @ [9])
      else if p = lit ''k'' then Some demo_key else if p = lit ''p'' then Some (point_be null_point)
      else if p = lit ''n'' then Some (zero_bytes 16) else None)"

definition demo_driver :: driver_env where
  "demo_driver = \<lparr>exchange = demo_app_env [Eof], read_file = demo_files, on_curve = (\<lambda>p. True), exec_env = demo_run_env,
     left_tag = [], left_iv = [], left_ct = [], pipe_made = True, pipe_capacity = 65536, local_encrypt = (\<lambda>d. None),
     test_envs = (null_env, null_env)\<rparr>"

definition demo_args :: InvokeArgs where
  "demo_args = \<lparr>ia_fid = lit ''f1'', ia_wasm_file = lit ''w'', ia_input_file = lit ''i'', ia_label = lit ''l1'', ia_c_k_func_file = lit ''k'',
     ia_c_key_file = lit ''k'', ia_pku_file = lit ''p'', ia_nonce_file = lit ''n'', ia_max_output_bytes = 64\<rparr>"

lemma demo_files_short: "demo_files p = Some d \<Longrightarrow> length d \<le> 65536"
  by (auto simp: demo_files_def demo_key_def point_be_def split: if_splits)

lemma lit_cstr: "0 \<notin> set (lit t) \<Longrightarrow> cstr (lit t) = lit t"
  by (rule cstr_id)

lemma demo_file_facts:
  "cstr (lit ''w'') = lit ''w''" "cstr (lit ''i'') = lit ''i''" "cstr (lit ''k'') = lit ''k''" "cstr (lit ''p'') = lit ''p''"
  "cstr (lit ''n'') = lit ''n''" "length demo_key = 109" "length (point_be null_point) = 65"
  "slice 12 16 (zero_bytes 28 @ d) = zero_bytes 16" "zero_bytes 0 = []"
  by (rule lit_cstr, simp add: lit_def)+ (simp_all add: demo_key_def point_be_def slice_def zero_bytes_def)

lemma demo_call_files: "load_invocation demo_driver demo_args = Some (demo_invocation, True)"
  by (simp add: load_invocation_def demo_driver_def demo_args_def demo_files_def demo_file_facts len32_def demo_invocation_def)


subsection \<open>The exit code of an invocation\<close>


definition loaded_process :: worker_app where
  "loaded_process = \<lparr>worker_enclave = demo_loaded, g_kms_timing = no_timing, kms_sent = []\<rparr>"

lemma demo_no_kms:
  "load_invocation e args = Some call \<Longrightarrow> delivered (exchange e) 0 \<Longrightarrow> ia_fid args = lit ''f1'' \<Longrightarrow>
   do_invoke m s rt e sim args True loaded_process =
     (let (out, w) = run_invocation m s rt e call demo_loaded
      in Returned (if out = None then -1 else 0, out, loaded_process\<lparr>worker_enclave := w\<rparr>))"
proof -
  have "cstr (lit ''f1'') = lit ''f1''" by (rule lit_cstr) (simp add: lit_def)
  moreover have "ecall_has_key demo_loaded (lit ''f1'') = 1" by (simp add: ecall_has_key_def)
  ultimately show "load_invocation e args = Some call \<Longrightarrow> delivered (exchange e) 0 \<Longrightarrow> ia_fid args = lit ''f1'' \<Longrightarrow> ?thesis"
    by (simp add: do_invoke_def loaded_process_def no_timing_def split: prod.splits)
qed

lemma demo_valid: "is_valid_p256_point_be demo_driver (point_be null_point)"
proof -
  have "null_point = 1 # replicate 63 1" by (simp add: null_point_def numeral_eq_Suc)
  then have "point_be null_point ! 0 = 4" "length (point_be null_point) = 65" "1 \<in> set (tl (point_be null_point))"
    by (simp_all add: point_be_def null_point_def)
  then show ?thesis by (auto simp: is_valid_p256_point_be_def list_all_iff demo_driver_def intro!: bexI [of _ 1])
qed

lemma demo_accepted:
  "\<exists>out a'. do_invoke toy_mcl null_sgx demo_runtime demo_driver True demo_args True loaded_process = Returned (0, Some out, a')"
proof -
  have d: "delivered (exchange demo_driver) i" "ia_fid demo_args = lit ''f1''" "exec_env demo_driver = demo_run_env" for i
    by (simp_all add: demo_driver_def demo_args_def demo_env_connection)
  obtain out w where r: "run_invocation toy_mcl null_sgx demo_runtime demo_driver (demo_invocation, True) demo_loaded = (out, w)" by fastforce
  obtain st where k: "ecall_run_encrypted_wasm_kem toy_mcl null_sgx demo_runtime demo_run_env demo_loaded demo_invocation =
    (Some (demo_result, point_be null_point), st)" using demo_kem by blast
  obtain u f st' where e: "enter_invocation demo_loaded demo_invocation = Some (u, f)"
    "run_kem toy_mcl null_sgx demo_runtime demo_run_env demo_invocation u f (fresh_kem demo_loaded) = (Some (demo_result, point_be null_point), st')"
    "rs_t st = rs_t st'" using kem_cases [OF k] by blast
  from run_kem_Some [OF e(2) _ _ null_laws(1) demo_programs_fit] reachable_inv(1) [OF worker_demo_run null_laws(1)] entered_owner [OF e(1)]
  obtain hit where h: "flags st' = success_flags hit" by auto
  have "tr_version (rs_t st) = 1"
    using run_kem_version [of "fresh_kem demo_loaded" toy_mcl null_sgx demo_runtime demo_run_env demo_invocation u f] e(2,3)
    by (simp add: fresh_kem_def)
  with r k d h e(3) required_flags demo_valid have "out \<noteq> None" by (auto simp: run_invocation_def Let_def)
  then show ?thesis
    using demo_no_kms [OF demo_call_files d(1,2), where m = toy_mcl and s = null_sgx and rt = demo_runtime and sim = True] r by auto
qed

lemma loaded_run: "runs (worker_step m null_sgx demo_runtime) worker_boot worker_demo_calls (worker_enclave loaded_process)"
  using worker_demo_run by (simp add: loaded_process_def)


text \<open>
  C38: the exit code of an invocation without the KEM says nothing. Once the files are read and the call
  reaches the enclave, the process reports success, even if the enclave refused the request (no key loaded, a
  wrong ciphertext, a program that failed); the result it prints is then what the output buffers held.
\<close>

theorem legacy_refusal_reported_as_success:
  assumes "do_invoke m s rt e sim args allow a = Returned (rc, out, a')" "load_invocation e args = Some (call, False)"
    and "delivered (exchange e) 3"
  shows "rc = 0 \<and> (\<exists>w result n. calls_to m s rt (worker_enclave a) w \<and>
    out = Some \<lparr>out_ct = None, out_result = result, out_size = n, out_trace = None\<rparr> \<and>
    (fst (ecall_run_encrypted_wasm m s rt (exec_env e) w call) = None \<longrightarrow> result = take 12 (left_iv e) @ take 16 (left_tag e) \<and> n = 0))"
  using assms(1)
proof (cases rule: do_invoke_cases)
  case (2 a1 call')
  obtain x st where x: "ecall_run_encrypted_wasm m s rt (exec_env e) (worker_enclave a1) call = (x, st)" by fastforce
  with 2(2-4) assms(2,3) have "rc = 0" "out = Some \<lparr>out_ct = None, out_result = result_bytes (case x of None \<Rightarrow> left_over e | Some r \<Rightarrow> r),
      out_size = result_size (case x of None \<Rightarrow> left_over e | Some r \<Rightarrow> r), out_trace = None\<rparr>"
    by (auto simp: run_invocation_def Let_def)
  with 2(1) x show ?thesis
    by (intro conjI exI [of _ "worker_enclave a1"] exI [of _ "result_bytes (case x of None \<Rightarrow> left_over e | Some r \<Rightarrow> r)"]
        exI [of _ "result_size (case x of None \<Rightarrow> left_over e | Some r \<Rightarrow> r)"])
      (auto simp: result_bytes_def left_over_def)
qed (use assms(2) in simp)


definition refusing_driver :: driver_env where
  "refusing_driver = demo_driver\<lparr>exec_env := demo_run_env\<lparr>env_main := null_env\<lparr>malloc_ok := \<lambda>i. False\<rparr>\<rparr>,
     left_iv := zero_bytes 12, left_tag := zero_bytes 16\<rparr>"

theorem legacy_refusal_reported_as_success_witness:
  "\<exists>a'. do_invoke toy_mcl null_sgx demo_runtime refusing_driver True (demo_args\<lparr>ia_pku_file := [], ia_nonce_file := []\<rparr>) True loaded_process =
     Returned (0, Some \<lparr>out_ct = None, out_result = zero_bytes 12 @ zero_bytes 16, out_size = 0, out_trace = None\<rparr>, a')"
proof -
  let ?args = "demo_args\<lparr>ia_pku_file := [], ia_nonce_file := []\<rparr>"
  have "\<exists>call. load_invocation refusing_driver ?args = Some (call, False)"
    by (simp add: load_invocation_def refusing_driver_def demo_driver_def demo_args_def demo_files_def demo_file_facts len32_def)
  then obtain call where c: "load_invocation refusing_driver ?args = Some (call, False)" ..
  have d: "delivered (exchange refusing_driver) i" "ia_fid ?args = lit ''f1''" for i
    by (simp_all add: refusing_driver_def demo_driver_def demo_args_def demo_env_connection)
  obtain out w where r: "run_invocation toy_mcl null_sgx demo_runtime refusing_driver (call, False) demo_loaded = (out, w)" by fastforce
  have i: "do_invoke toy_mcl null_sgx demo_runtime refusing_driver True ?args True loaded_process =
      Returned (if out = None then -1 else 0, out, loaded_process\<lparr>worker_enclave := w\<rparr>)"
    using demo_no_kms [OF c d(1,2), where m = toy_mcl and s = null_sgx and rt = demo_runtime and sim = True] r by simp
  have n: "fst (ecall_run_encrypted_wasm toy_mcl null_sgx demo_runtime (exec_env refusing_driver) w call) = None" for w
    by (simp add: ecall_run_encrypted_wasm_def refusing_driver_def split: option.splits)
  from legacy_refusal_reported_as_success [OF i c d(1)] n show ?thesis
    unfolding i by (auto simp: refusing_driver_def)
qed

end
