(* ===== verification/WorkerReport.thy ===== *)
theory WorkerReport
  imports WorkerServer
begin

text \<open>
  What an invocation prints (\<open>do_invoke\<close> of \<open>sgx_worker/App/App.cpp\<close>): the lines of the key path, of the timing of the
  run, and of the result. The readings of the host's clocks are a parameter, and so is everything else that the
  process, the enclave and the libraries write to the two output streams meanwhile. The theorems say what the
  cycle counts in the report measure.
\<close>

subsection \<open>Lines\<close>

text \<open>\<open>name=%u\<close>, \<open>%llu\<close>, a flag as \<open>%d\<close>, and the fields of one line.\<close>

definition num_field :: "string \<Rightarrow> 'a::len word \<Rightarrow> bytes \<times> bytes" where
  "num_field name v = (lit name, dec_string (unat v))"

definition bool_field :: "string \<Rightarrow> bool \<Rightarrow> bytes \<times> bytes" where
  "bool_field name b = (lit name, if b then lit ''1'' else lit ''0'')"

fun fields_text :: "(bytes \<times> bytes) list \<Rightarrow> bytes" where
  "fields_text [] = []"
| "fields_text [(k, v)] = k @ lit ''='' @ v"
| "fields_text ((k, v) # x # xs) = k @ lit ''='' @ v @ lit '' '' @ fields_text (x # xs)"

definition marker :: "string \<Rightarrow> bytes \<Rightarrow> bytes" where
  "marker name v = lit name @ lit '':'' @ v"

definition num_marker :: "string \<Rightarrow> u64 \<Rightarrow> bytes" where
  "num_marker name v = marker name (dec_string (unat v))"

subsection \<open>The report of an invocation\<close>

text \<open>
  The readings of one invocation: \<open>mono_ns\<close> and \<open>now_ns_epoch\<close> where the code takes them, what the key path
  measured (kept only if the key server was asked), the frequency of the cycle counter with the method that found it, and what
  else is written, line by line: during the key path, during the run, and after the report.
\<close>

record run_clock =
  t_worker_invoke_begin_mono_ns :: u64
  t_keypath_begin_mono_ns :: u64
  t_keypath_begin_ns :: u64
  t_keypath_end_ns :: u64
  t_keypath_end_mono_ns :: u64
  t_exec_begin_mono_ns :: u64
  t_exec_begin_ns :: u64
  t_exec_end_ns :: u64
  t_exec_end_mono_ns :: u64
  t_worker_invoke_end_mono_ns :: u64
  measured_wait_kms_dur_ns :: u64
  measured_quote_gen_dur_ns :: u64
  measured_kms_send_mono_ns :: u64
  measured_kms_recv_mono_ns :: u64
  g_c1_tsc_hz :: u64
  g_c1_tsc_frequency_method :: string
  keypath_log :: "bytes list"
  run_log :: "bytes list"
  end_log :: "bytes list"

text \<open>
  The nine phases of a trace: the name of the phase, the name of its cycle count, the readings at its begin and end,
  and the count.
\<close>

definition trace_phases :: "c1_asyncs_invoke_trace \<Rightarrow> (string \<times> string \<times> u64 \<times> u64 \<times> u64) list" where
  "trace_phases t =
     [(''input_key_decap'', ''input_key_decap'', input_key_decap_begin_cycles t, input_key_decap_end_cycles t, input_key_decap_cycles t),
      (''input_aes_gcm'', ''input_aes_gcm'', input_aes_gcm_begin_cycles t, input_aes_gcm_end_cycles t, input_aes_gcm_cycles t),
      (''workload'', ''workload_core'', workload_begin_cycles t, workload_end_cycles t, workload_core_cycles t),
      (''output_kem'', ''output_kem'', output_kem_begin_cycles t, output_kem_end_cycles t, output_kem_cycles t),
      (''output_aes_gcm'', ''output_aes_gcm'', output_aes_gcm_begin_cycles t, output_aes_gcm_end_cycles t, output_aes_gcm_cycles t),
      (''function_key_decap'', ''function_key_decap'', function_key_decap_begin_cycles t, function_key_decap_end_cycles t,
        function_key_decap_cycles t),
      (''cfunc_aes_gcm'', ''cfunc_aes_gcm'', cfunc_aes_gcm_begin_cycles t, cfunc_aes_gcm_end_cycles t, cfunc_aes_gcm_cycles t),
      (''wasm_load'', ''wasm_load'', wasm_load_begin_cycles t, wasm_load_end_cycles t, wasm_load_cycles t),
      (''wasm_instantiate'', ''wasm_instantiate'', wasm_instantiate_begin_cycles t, wasm_instantiate_end_cycles t,
        wasm_instantiate_cycles t)]"

definition internal_timing :: "u64 \<Rightarrow> string \<Rightarrow> c1_asyncs_invoke_trace \<Rightarrow> (bytes \<times> bytes) list" where
  "internal_timing tsc_hz method t =
     [(lit ''workload_timing_schema'', lit ''enclave-rdtsc-v1'')] @
     concat (map (\<lambda>(name, core, b, n, c). [num_field (name @ ''_begin_cycles'') b, num_field (name @ ''_end_cycles'') n]) (trace_phases t)) @
     map (\<lambda>(name, core, b, n, c). num_field (core @ ''_cycles'') c) (trace_phases t) @
     [num_field ''tsc_hz'' tsc_hz, (lit ''tsc_frequency_method'', lit method)] @
     map (\<lambda>(name, core, b, n, c). num_field (core @ ''_duration_ns'') (c1_cycles_to_ns c tsc_hz)) (trace_phases t)"

definition cache_fields :: "c1_asyncs_invoke_trace \<Rightarrow> (bytes \<times> bytes) list" where
  "cache_fields t =
     [bool_field ''function_cache_hit'' (tr_flags t AND flag C1_TRACE_FUNCTION_CACHE_HIT \<noteq> 0),
      bool_field ''cfunc_decrypt_executed'' (tr_flags t AND flag C1_TRACE_CFUNC_DECRYPT_EXECUTED \<noteq> 0),
      num_field ''function_cache_bytes'' (function_cache_bytes t)]"

definition payload_fields :: "c1_asyncs_invoke_trace \<Rightarrow> (bytes \<times> bytes) list" where
  "payload_fields t =
     [num_field ''payload_bytes_consumed'' (payload_bytes_consumed t), (lit ''payload_sha256'', hex_string (payload_sha256 t))]"

definition trace_lines :: "run_clock \<Rightarrow> c1_asyncs_invoke_trace \<Rightarrow> bytes list" where
  "trace_lines c t =
     [marker ''RID_HEX'' (hex_string (tr_rid t)),
      marker ''ACSC_TRACE_E3_PAYLOAD'' (fields_text (payload_fields t)),
      marker ''ACSC_TRACE_FUNCTION_CACHE'' (fields_text (cache_fields t)),
      marker ''ACSC_TRACE_INTERNAL_TIMING'' (fields_text (internal_timing (g_c1_tsc_hz c) (g_c1_tsc_frequency_method c) t))]"

definition keypath_lines :: "run_clock \<Rightarrow> bool \<Rightarrow> KmsTimingTrailer \<Rightarrow> bytes list" where
  "keypath_lines c need_kms kms =
     (let measured = (\<lambda>v. if need_kms then v else 0) in
      [num_marker ''T_KEYPATH_BEGIN_NS'' (t_keypath_begin_ns c), num_marker ''T_KEYPATH_END_NS'' (t_keypath_end_ns c),
       num_marker ''WORKER_KEYPATH_DUR_NS'' (t_keypath_end_mono_ns c - t_keypath_begin_mono_ns c),
       num_marker ''WORKER_WAIT_KMS_DUR_NS'' (measured (measured_wait_kms_dur_ns c)),
       num_marker ''KMS_VERIFY_DUR_NS'' (verify_dur_ns kms), num_marker ''KMS_KEY_RELEASE_DUR_NS'' (key_release_dur_ns kms),
       num_marker ''KMS_TOTAL_DUR_NS'' (total_dur_ns kms),
       num_marker ''QUOTE_GEN_DUR_NS'' (measured (measured_quote_gen_dur_ns c)),
       num_marker ''T_KMS_SEND_MONO_NS'' (measured (measured_kms_send_mono_ns c)),
       num_marker ''T_KMS_RECV_MONO_NS'' (measured (measured_kms_recv_mono_ns c))])"

definition exec_dur :: "run_clock \<Rightarrow> u64" where
  "exec_dur c = t_exec_end_mono_ns c - t_exec_begin_mono_ns c"

definition invoke_dur :: "run_clock \<Rightarrow> u64" where
  "invoke_dur c = t_worker_invoke_end_mono_ns c - t_worker_invoke_begin_mono_ns c"

definition summary_fields ::
  "run_clock \<Rightarrow> bool \<Rightarrow> KmsTimingTrailer \<Rightarrow> invocation \<Rightarrow> invoke_output \<Rightarrow> (bytes \<times> bytes) list" where
  "summary_fields c need_kms kms call out =
     (let measured = (\<lambda>v. if need_kms then v else 0) in
      [bool_field ''key_cache_hit'' (\<not> need_kms), bool_field ''kms_contacted'' need_kms,
       num_field ''keypath_dur_ns'' (t_keypath_end_mono_ns c - t_keypath_begin_mono_ns c),
       num_field ''kms_wait_dur_ns'' (measured (measured_wait_kms_dur_ns c)),
       num_field ''kms_verify_dur_ns'' (verify_dur_ns kms), num_field ''kms_key_release_dur_ns'' (key_release_dur_ns kms),
       num_field ''kms_total_dur_ns'' (total_dur_ns kms),
       num_field ''quote_gen_dur_ns'' (measured (measured_quote_gen_dur_ns c)),
       num_field ''exec_ecall_dur_ns'' (exec_dur c), num_field ''invoke_total_dur_ns'' (invoke_dur c),
       num_field ''wasm_bytes'' (len32 (encrypted_wasm call)), num_field ''input_bytes'' (len32 (encrypted_input call)),
       num_field ''result_bytes'' (out_size out), num_field ''output_capacity_bytes'' (max_out_size call),
       (lit ''rc'', lit ''0'')])"

definition exec_lines :: "run_clock \<Rightarrow> bool \<Rightarrow> KmsTimingTrailer \<Rightarrow> invocation \<Rightarrow> invoke_output \<Rightarrow> bytes list" where
  "exec_lines c need_kms kms call out =
     [num_marker ''T_EXEC_BEGIN_NS'' (t_exec_begin_ns c), num_marker ''T_EXEC_END_NS'' (t_exec_end_ns c),
      num_marker ''T_EXEC_BEGIN_MONO_NS'' (t_exec_begin_mono_ns c), num_marker ''T_EXEC_END_MONO_NS'' (t_exec_end_mono_ns c),
      num_marker ''WORKER_EXEC_DUR_NS'' (exec_dur c), num_marker ''WORKER_INVOKE_DUR_NS'' (invoke_dur c),
      marker ''ACSC_TRACE_WORKER_INVOKE'' (fields_text (summary_fields c need_kms kms call out))]"

text \<open>The result; two lines of \<open>stderr\<close> around it.\<close>

definition result_lines :: "invoke_output \<Rightarrow> bytes list" where
  "result_lines out =
     [lit ''Encrypted Result Size: '' @ dec_string (unat (out_size out))] @
     (case out_ct out of None \<Rightarrow> [] | Some ct \<Rightarrow> [marker ''CT_HEX'' (hex_string (take 65 ct))]) @
     [marker ''RESULT_HEX'' (hex_string (out_result out)), lit ''Loop finished.'']"

definition report_lines :: "run_clock \<Rightarrow> bool \<Rightarrow> KmsTimingTrailer \<Rightarrow> invocation \<Rightarrow> invoke_output \<Rightarrow> bytes list" where
  "report_lines c need_kms kms call out =
     (case out_trace out of None \<Rightarrow> [] | Some t \<Rightarrow> trace_lines c t) @ exec_lines c need_kms kms call out @ result_lines out"

text \<open>
  All lines of an invocation: \<open>need_kms\<close> as the process found it, \<open>kms\<close> the timing it holds after the key path, and
  the result, if there is one.
\<close>

definition invoke_lines ::
  "run_clock \<Rightarrow> bool \<Rightarrow> KmsTimingTrailer \<Rightarrow> invocation option \<Rightarrow> invoke_output option \<Rightarrow> bytes list" where
  "invoke_lines c need_kms kms call out =
     [marker ''ENCLAVE_KEY_CACHE_HIT'' (if need_kms then lit ''0'' else lit ''1''),
      marker ''KMS_CONTACTED'' (if need_kms then lit ''1'' else lit ''0'')] @
     keypath_log c @ keypath_lines c need_kms kms @ run_log c @
     (case (call, out) of (Some x, Some o') \<Rightarrow> report_lines c need_kms kms x o' | _ \<Rightarrow> []) @ end_log c"

subsection \<open>What the cycle counts measure\<close>

definition phase_row :: "string \<Rightarrow> string \<Rightarrow> u64 \<Rightarrow> u64 \<Rightarrow> string \<times> string \<times> u64 \<times> u64 \<times> u64" where
  "phase_row name core b n = (name, core, b, n, n - b)"

lemma trace_phases_kept [simp]:
  "trace_phases (set_flag i t) = trace_phases t" "trace_phases (t\<lparr>tr_rid := rid\<rparr>) = trace_phases t"
  "trace_phases (t\<lparr>payload_bytes_consumed := n, payload_sha256 := h\<rparr>) = trace_phases t"
  "trace_phases (t\<lparr>function_cache_bytes := n\<rparr>) = trace_phases t"
  by (simp_all add: trace_phases_def set_flag_def)

text \<open>The rows each phase writes.\<close>

lemma request_key_rows:
  assumes "dec_request_key_timed m s e u a d st = (Some x, st')"
  shows "trace_phases (rs_t st') = (trace_phases (rs_t st))[0 := phase_row ''input_key_decap'' ''input_key_decap'' (tsc e 0) (tsc e 1)]"
proof -
  obtain r st1 where d: "dec_request_key m s (env_req e) u a d (traced (\<lambda>t. t\<lparr>input_key_decap_begin_cycles := tsc e 0\<rparr>) st) = (r, st1)"
    by fastforce
  then have "rs_t st1 = (rs_t st)\<lparr>input_key_decap_begin_cycles := tsc e 0\<rparr>"
    using shared_trace(3) [of m s "env_req e" u a d "traced (\<lambda>t. t\<lparr>input_key_decap_begin_cycles := tsc e 0\<rparr>) st"] by (simp add: traced_def)
  with assms d show ?thesis
    by (cases r) (auto simp: dec_request_key_timed_def traced_def trace_phases_def set_flag_def phase_row_def simp del: One_nat_def)
qed

lemma function_key_rows:
  assumes "dec_function_key_timed m s e u a d c st = (Some x, st')"
  shows "trace_phases (rs_t st') = (if c = None then
    (trace_phases (rs_t st))[5 := phase_row ''function_key_decap'' ''function_key_decap'' (tsc e 2) (tsc e 3)] else trace_phases (rs_t st))"
proof (cases "c = None")
  case True
  obtain r st1 where d: "dec_function_key m s (env_func e) u a d c (traced (\<lambda>t. t\<lparr>function_key_decap_begin_cycles := tsc e 2\<rparr>) st) = (r, st1)"
    by fastforce
  then have "rs_t st1 = (rs_t st)\<lparr>function_key_decap_begin_cycles := tsc e 2\<rparr>"
    using shared_trace(4) [of m s "env_func e" u a d c "traced (\<lambda>t. t\<lparr>function_key_decap_begin_cycles := tsc e 2\<rparr>) st"] by (simp add: traced_def)
  with assms d True show ?thesis
    by (cases r) (auto simp: dec_function_key_timed_def traced_def trace_phases_def set_flag_def phase_row_def numeral_eq_Suc)
qed (use assms in \<open>auto simp: dec_function_key_timed_def\<close>)

lemma load_rows:
  "load_function_timed s e f a d c st = (Some wasm, st') \<Longrightarrow> trace_phases (rs_t st') = (if c = None then
     (trace_phases (rs_t st))[6 := phase_row ''cfunc_aes_gcm'' ''cfunc_aes_gcm'' (tsc e 4) (tsc e 5)] else trace_phases (rs_t st))"
  "load_input_timed s e a d st = (Some (Some i), st') \<Longrightarrow> trace_phases (rs_t st') =
     (trace_phases (rs_t st))[1 := phase_row ''input_aes_gcm'' ''input_aes_gcm'' (tsc e 6) (tsc e 7)]"
  by (auto simp: load_function_timed_def load_input_timed_def traced_def trace_phases_def set_flag_def phase_row_def Let_def
      numeral_eq_Suc split: option.splits if_splits)

lemma output_rows:
  "evidence_phase s c wasm input st = (Some y, st') \<Longrightarrow> trace_phases (rs_t st') = trace_phases (rs_t st)"
  "kem_phase s e a st = (Some ct, st') \<Longrightarrow> trace_phases (rs_t st') =
     (trace_phases (rs_t st))[3 := phase_row ''output_kem'' ''output_kem'' (tsc e 12) (tsc e 13)]"
  "output_phase s e a d ct st = (Some r, st') \<Longrightarrow> trace_phases (rs_t st') =
     (trace_phases (rs_t st))[4 := phase_row ''output_aes_gcm'' ''output_aes_gcm'' (tsc e 14) (tsc e 15)]"
  by (auto simp: evidence_phase_def capture_e3_payload_evidence_def kem_phase_def output_phase_def traced_def trace_phases_def
      set_flag_def phase_row_def Let_def bind_eq_Some_conv numeral_eq_Suc split: option.splits if_splits)

lemma helper_rows:
  assumes "run_wasm_helper rt c ts w wasm arg (Some t) = (True, w', t')"
  shows "trace_phases (the t') = (trace_phases t)[7 := phase_row ''wasm_load'' ''wasm_load'' (ts 8) (ts 9),
    8 := phase_row ''wasm_instantiate'' ''wasm_instantiate'' (ts 10) (ts 11)]"
  using assms by (auto simp: run_wasm_helper_def Let_def trace_phases_def set_flag_def phase_row_def numeral_eq_Suc
      split: if_splits prod.splits)

lemma workload_rows:
  assumes "workload_phase rt e a wasm input st = (Some x, st')"
  shows "\<exists>b n. b \<le> n \<and> trace_phases (rs_t st') = (trace_phases (rs_t st))[
    7 := phase_row ''wasm_load'' ''wasm_load'' (tsc e 8) (tsc e 9),
    8 := phase_row ''wasm_instantiate'' ''wasm_instantiate'' (tsc e 10) (tsc e 11),
    2 := phase_row ''workload'' ''workload_core'' b n]"
proof -
  obtain w1 w2 t b n where "run_wasm_helper rt (malloc_ok (env_main e) 12) (tsc e) w1 wasm
      (case input of None \<Rightarrow> None | Some d \<Rightarrow> base64_encode (malloc_ok (env_main e) 10) d) (Some (rs_t st)) = (True, w2, t)"
    and b: "\<not> n < b" and st': "rs_t st' = set_flag C1_TRACE_WORKLOAD_CYCLES_VALID
        ((the t)\<lparr>workload_begin_cycles := b, workload_end_cycles := n, workload_core_cycles := n - b\<rparr>)"
    using assms unfolding workload_phase_def run_program_def
    by (auto simp: Let_def traced_def split: prod.splits option.splits if_splits)
  from helper_rows [OF this(1)] have "trace_phases (rs_t st') = (trace_phases (rs_t st))[
    7 := phase_row ''wasm_load'' ''wasm_load'' (tsc e 8) (tsc e 9),
    8 := phase_row ''wasm_instantiate'' ''wasm_instantiate'' (tsc e 10) (tsc e 11),
    2 := phase_row ''workload'' ''workload_core'' b n]"
    unfolding st' by (auto simp: trace_phases_def set_flag_def phase_row_def numeral_eq_Suc)
  with b show ?thesis by (intro exI [of _ b] exI [of _ n]) simp
qed


text \<open>
  The report of an invocation: each phase from the reading before it to the reading after it; the key and the
  package of the function have no phase if the function was cached; the program gives the readings of its own core.
\<close>

definition cycle_table :: "(nat \<Rightarrow> u64) \<Rightarrow> bool \<Rightarrow> u64 \<Rightarrow> u64 \<Rightarrow> (string \<times> string \<times> u64 \<times> u64 \<times> u64) list" where
  "cycle_table ts hit b n =
     [phase_row ''input_key_decap'' ''input_key_decap'' (ts 0) (ts 1), phase_row ''input_aes_gcm'' ''input_aes_gcm'' (ts 6) (ts 7),
      phase_row ''workload'' ''workload_core'' b n, phase_row ''output_kem'' ''output_kem'' (ts 12) (ts 13),
      phase_row ''output_aes_gcm'' ''output_aes_gcm'' (ts 14) (ts 15),
      if hit then phase_row ''function_key_decap'' ''function_key_decap'' 0 0
      else phase_row ''function_key_decap'' ''function_key_decap'' (ts 2) (ts 3),
      if hit then phase_row ''cfunc_aes_gcm'' ''cfunc_aes_gcm'' 0 0 else phase_row ''cfunc_aes_gcm'' ''cfunc_aes_gcm'' (ts 4) (ts 5),
      phase_row ''wasm_load'' ''wasm_load'' (ts 8) (ts 9), phase_row ''wasm_instantiate'' ''wasm_instantiate'' (ts 10) (ts 11)]"

lemma run_kem_rows:
  assumes "run_kem m s rt e a u f st0 = (Some r, st')" "trace_phases (rs_t st0) = trace_phases zero_trace"
  shows "\<exists>b n l. b \<le> n \<and> sha256_msg s (encrypted_wasm a) = Some l \<and>
    trace_phases (rs_t st') = cycle_table (tsc e) (function_cache_lookup (rs_w st0) f l \<noteq> None) b n"
proof -
  from assms(1) obtain rid where rid: "compute_rid_from_fid_and_c_req s (malloc_ok (env_main e) 1) f (c_req_full a) = Some rid"
    by (auto simp: run_kem_def simp del: One_nat_def split: option.splits)
  define st1 where "st1 = traced (\<lambda>t. set_flag C1_TRACE_RID_VALID (t\<lparr>tr_rid := rid\<rparr>)) st0"
  from assms(1) rid obtain p q o' where aads: "build_aads s (env_main e) f a rid = Some (p, q, o')"
    by (auto simp: run_kem_def Let_def simp del: One_nat_def split: option.splits)
  from assms(1) rid aads obtain cached st2 x3 st3 x4 st4 x5 st5 wasm st6 input st7 x8 st8 x9 st9 ct st10 where
    2: "find_function s f a st1 = (Some cached, st2)" and 3: "select_dklabel s (env_main e) u cached st2 = (Some x3, st3)" and
    4: "dec_request_key_timed m s e u a q st3 = (Some x4, st4)" and 5: "dec_function_key_timed m s e u a p cached st4 = (Some x5, st5)" and
    6: "load_function_timed s e f a p cached (drop_label_key cached st5) = (Some wasm, st6)" and
    7: "load_input_timed s e a q st6 = (Some input, st7)" and 8: "evidence_phase s cached wasm input st7 = (Some x8, st8)" and
    9: "workload_phase rt e a wasm input st8 = (Some x9, st9)" and 10: "kem_phase s e a st9 = (Some ct, st10)" and
    11: "output_phase s e a o' ct st10 = (Some r, st')"
    by (auto simp: run_kem_def Let_def phase_then_Some st1_def simp del: One_nat_def)
  have F: "sha256_msg s (encrypted_wasm a) = Some (label32 st2)" "cached = function_cache_lookup (rs_w st0) f (label32 st2)"
    using find_function_Some [OF 2] by (simp_all add: st1_def traced_def)
  have t: "trace_phases (rs_t st3) = trace_phases zero_trace"
    using select_flags [OF 3] find_flags [OF 2] assms(2) by (simp add: st1_def traced_def)
  obtain d where "input = Some d" using evidence_Some [OF 8] by auto
  with 7 have i: "load_input_timed s e a q st6 = (Some (Some d), st7)" by simp
  obtain b n where w: "b \<le> n" "trace_phases (rs_t st9) = (trace_phases (rs_t st8))[
    7 := phase_row ''wasm_load'' ''wasm_load'' (tsc e 8) (tsc e 9),
    8 := phase_row ''wasm_instantiate'' ''wasm_instantiate'' (tsc e 10) (tsc e 11),
    2 := phase_row ''workload'' ''workload_core'' b n]" using workload_rows [OF 9] by (elim exE conjE)
  have "trace_phases (rs_t st') = cycle_table (tsc e) (cached \<noteq> None) b n"
    unfolding output_rows(3) [OF 11] output_rows(2) [OF 10] w(2) output_rows(1) [OF 8] load_rows(2) [OF i] load_rows(1) [OF 6]
      drop_label_simps function_key_rows [OF 5] request_key_rows [OF 4] t
    by (simp add: trace_phases_def zero_trace_def cycle_table_def numeral_eq_Suc phase_row_def)
  with w(1) F show ?thesis by (intro exI [of _ b] exI [of _ n] exI [of _ "label32 st2"]) simp
qed

text \<open>An invocation that is accepted: the call, its result, and the trace.\<close>

lemma accepted_kem:
  assumes "runs (worker_step m s rt) worker_boot cs (worker_enclave a)" "sha_laws s" "programs_fit rt"
    and "do_invoke m s rt e sim args allow a = Returned (0, Some out, a')" "load_invocation e args = Some (call, True)"
  obtains w ds u f r ct st where "runs (worker_step m s rt) worker_boot (cs @ ds) w" "runs (worker_step m s rt) (worker_enclave a) ds w"
    "enter_invocation w call = Some (u, f)" "run_kem m s rt (exec_env e) call u f (fresh_kem w) = (Some (r, ct), st)"
    "fst (ecall_run_encrypted_wasm_kem m s rt (exec_env e) w call) = Some (r, ct)"
    "rs_t (snd (ecall_run_encrypted_wasm_kem m s rt (exec_env e) w call)) = rs_t st"
    "out = \<lparr>out_ct = Some ct, out_result = result_bytes r, out_size = result_size r, out_trace = Some (rs_t st)\<rparr>"
    "is_valid_p256_point_be e ct" "worker_enclave a' = rs_w (snd (ecall_run_encrypted_wasm_kem m s rt (exec_env e) w call))"
  using assms(4)
proof (cases rule: do_invoke_cases)
  case (2 a1 call')
  let ?w = "worker_enclave a1"
  from 2(1) obtain ds where d: "runs (worker_step m s rt) (worker_enclave a) ds ?w" unfolding calls_to_def by (elim exE)
  have c: "call' = (call, True)" using 2(2) assms(5) by simp
  obtain x st where x: "ecall_run_encrypted_wasm_kem m s rt (exec_env e) ?w call = (x, st)" by fastforce
  have r: "is_valid_p256_point_be e (case x of None \<Rightarrow> left_ct e | Some (r, ct) \<Rightarrow> ct)"
    "tr_flags (rs_t st) AND C1_TRACE_REQUIRED_FLAGS = C1_TRACE_REQUIRED_FLAGS" "worker_enclave a' = rs_w st"
    "out = \<lparr>out_ct = Some (case x of None \<Rightarrow> left_ct e | Some (r, ct) \<Rightarrow> ct), out_result = result_bytes (case x of None \<Rightarrow> left_over e | Some (r, ct) \<Rightarrow> r),
      out_size = result_size (case x of None \<Rightarrow> left_over e | Some (r, ct) \<Rightarrow> r), out_trace = Some (rs_t st)\<rparr>"
    using 2(3,4) x by (auto simp: run_invocation_def c Let_def split: if_splits prod.splits option.splits)
  obtain y ct where y: "x = Some (y, ct)"
    using kem_None [of m s rt "exec_env e" ?w call] x required_success [OF r(2)] by (cases x) auto
  obtain u f st' where k: "enter_invocation ?w call = Some (u, f)"
    "run_kem m s rt (exec_env e) call u f (fresh_kem ?w) = (Some (y, ct), st')" "rs_t st = rs_t st'"
    using kem_cases x y by blast
  show thesis
    by (rule that [OF runs_trans [OF d assms(1)] d k(1,2)]) (use x y k(3) r in simp_all)
qed simp



text \<open>
  The conversion of cycles to nanoseconds is exact. The 128-bit product does not wrap; the result is the
  rounded-down quotient, cut to 64 bits, which loses nothing for counts of less than 18446744073 seconds (584 years);
  a frequency of zero gives zero.
\<close>

theorem cycles_to_ns_exact:
  "unat (c1_cycles_to_ns c hz) = (if hz = 0 then 0 else unat c * 1000000000 div unat hz mod 2 ^ 64) \<and>
   (unat c < 18446744073 * unat hz \<longrightarrow> unat (c1_cycles_to_ns c hz) = unat c * 1000000000 div unat hz)"
proof -
  have u: "unat (ucast x :: 128 word) = unat x" for x :: u64
  proof -
    have "unat x < 2 ^ 128" using unsigned_less [of x, where 'a = nat] by simp
    then show ?thesis by (simp only: unsigned_ucast_eq) (simp add: take_bit_nat_eq_self)
  qed
  have "unat c < 2 ^ 64" using unsigned_less [of c, where 'a = nat] by simp
  then have "unat (ucast c :: 128 word) * unat (1000000000 :: 128 word) < 2 ^ LENGTH(128)" by (simp add: u)
  then have "unat ((ucast c :: 128 word) * 1000000000) = unat c * 1000000000"
    by (simp only: unat_mult_lem [THEN iffD1]) (simp add: u)
  then have "unat (((ucast c :: 128 word) * 1000000000) div ucast hz) = unat c * 1000000000 div unat hz"
    by (simp add: unat_div_distrib u)
  then have e: "unat (ucast (((ucast c :: 128 word) * 1000000000) div ucast hz) :: u64) = unat c * 1000000000 div unat hz mod 2 ^ 64"
    by (simp add: unsigned_ucast_eq take_bit_eq_mod)
  have "unat c * 1000000000 div unat hz < 2 ^ 64" if "unat c < 18446744073 * unat hz"
  proof -
    have "unat c * 1000000000 \<le> 18446744073 * 1000000000 * unat hz" using that by simp
    then have "unat c * 1000000000 div unat hz \<le> 18446744073 * 1000000000 * unat hz div unat hz" by (rule div_le_mono)
    also have "\<dots> \<le> 18446744073 * 1000000000" by simp
    finally show ?thesis by simp
  qed
  with e show ?thesis by (auto simp: c1_cycles_to_ns_def)
qed

theorem cycles_to_ns_exact_witness:
  "unat (c1_cycles_to_ns 5000000000 2500000000) = 2000000000"
  using cycles_to_ns_exact [of 5000000000 2500000000] by simp

end
