(* ===== verification/AdapterText.thy ===== *)
theory AdapterText
  imports WorkerReport
begin

text \<open>
  The text functions of Python that the runtime adapter (\<open>openwhisk_runtime/proxy.py\<close>) reads the worker's lines with: \<open>split\<close>,
  \<open>strip\<close>, \<open>int\<close>, \<open>bytes.fromhex\<close>, and its parser of trace fields. Text is taken as ASCII. The lemmas
  are the inverses of the worker's printing.
\<close>

subsection \<open>Words\<close>

text \<open>The maximal runs of characters that are no separators.\<close>

function words_on :: "(byte \<Rightarrow> bool) \<Rightarrow> bytes \<Rightarrow> bytes list" where
  "words_on p s =
     (let t = dropWhile p s in
      if t = [] then [] else takeWhile (\<lambda>c. \<not> p c) t # words_on p (dropWhile (\<lambda>c. \<not> p c) t))"
  by pat_completeness auto
termination
proof (relation "measure (length \<circ> snd)", goal_cases)
  case (2 p s t)
  then have "t \<noteq> []" "\<not> p (hd t)" "length t \<le> length s"
    by (auto simp: hd_dropWhile length_dropWhile_le)
  then have "length (dropWhile (\<lambda>c. \<not> p c) t) < length t"
    by (cases t) (auto simp: length_dropWhile_le le_imp_less_Suc)
  with \<open>length t \<le> length s\<close> show ?case by simp
qed simp

declare words_on.simps [simp del]

lemma words_Nil [simp]: "words_on p [] = []"
  by (subst words_on.simps) simp

lemma split_tokens_words: "split_tokens s = words_on is_space s"
proof (induction s rule: split_tokens.induct)
  case (1 line)
  then show ?case by (subst split_tokens.simps, subst words_on.simps) (simp add: Let_def)
qed

text \<open>\<open>" ".join\<close>.\<close>

fun join_words :: "bytes list \<Rightarrow> bytes" where
  "join_words [] = []"
| "join_words [t] = t"
| "join_words (t # u # ts) = t @ [32] @ join_words (u # ts)"

definition plain_word :: "(byte \<Rightarrow> bool) \<Rightarrow> bytes \<Rightarrow> bool" where
  "plain_word p t \<longleftrightarrow> t \<noteq> [] \<and> (\<forall>c \<in> set t. \<not> p c)"

lemma dropWhile_plain: "plain_word p t \<Longrightarrow> dropWhile p (t @ s) = t @ s"
  by (cases t) (simp_all add: plain_word_def)

lemma takeWhile_plain: "plain_word p t \<Longrightarrow> takeWhile (\<lambda>c. \<not> p c) (t @ s) = t @ takeWhile (\<lambda>c. \<not> p c) s"
  "plain_word p t \<Longrightarrow> dropWhile (\<lambda>c. \<not> p c) (t @ s) = dropWhile (\<lambda>c. \<not> p c) s"
  by (simp_all add: plain_word_def)

lemma words_join:
  assumes "p 32" "\<forall>t \<in> set ts. plain_word p t"
  shows "words_on p (join_words ts) = ts"
  using assms(2)
proof (induction ts rule: join_words.induct)
  case 1
  show ?case by simp
next
  case (2 t)
  then have t: "plain_word p t" by simp
  then have "takeWhile (\<lambda>c. \<not> p c) t = t" "dropWhile (\<lambda>c. \<not> p c) t = []" "t \<noteq> []"
    by (simp_all add: plain_word_def takeWhile_eq_all_conv)
  moreover from this(2) have "words_on p (dropWhile (\<lambda>c. \<not> p c) t) = []" by (simp only: words_Nil)
  ultimately show ?case using dropWhile_plain [OF t, of "[]"] by (subst words_on.simps) (simp add: Let_def)
next
  case (3 t u ts)
  have t: "plain_word p t" and r: "words_on p (join_words (u # ts)) = u # ts" using 3 by simp_all
  have "words_on p (32 # join_words (u # ts)) = words_on p (join_words (u # ts))"
    using assms(1) by (simp add: words_on.simps [of p "32 # join_words (u # ts)"] words_on.simps [of p "join_words (u # ts)"])
  with t r assms(1) show ?case
    by (subst words_on.simps) (auto simp: Let_def dropWhile_plain takeWhile_plain plain_word_def)
qed

subsection \<open>Python\<close>

text \<open>White space of \<open>str.split\<close> and \<open>str.strip\<close>.\<close>

definition py_space :: "byte \<Rightarrow> bool" where
  "py_space c \<longleftrightarrow> is_space c \<or> (28 \<le> c \<and> c \<le> 31)"

definition py_split :: "bytes \<Rightarrow> bytes list" where
  "py_split s = words_on py_space s"

definition py_strip :: "bytes \<Rightarrow> bytes" where
  "py_strip s = rev (dropWhile py_space (rev (dropWhile py_space s)))"

text \<open>\<open>s.split (c, 1)\<close> for a separator that occurs.\<close>

definition split_once :: "byte \<Rightarrow> bytes \<Rightarrow> (bytes \<times> bytes) option" where
  "split_once c s =
     (if c \<in> set s then Some (takeWhile (\<lambda>x. x \<noteq> c) s, tl (dropWhile (\<lambda>x. x \<noteq> c) s)) else None)"

text \<open>
  \<open>int (s)\<close>, None for a \<open>ValueError\<close>: a sign, then digits, with single underscores between them; at most
  4300 digits.
\<close>

fun py_digits :: "bytes \<Rightarrow> bool" where
  "py_digits [] = False"
| "py_digits [c] = is_digit c"
| "py_digits (c # d # r) = (is_digit c \<and> (if d = 95 then py_digits r else py_digits (d # r)))"

definition py_int :: "bytes \<Rightarrow> int option" where
  "py_int s =
     (let t = py_strip s;
          neg = (t \<noteq> [] \<and> hd t = 45);
          u = (if t \<noteq> [] \<and> (hd t = 45 \<or> hd t = 43) then tl t else t);
          ds = filter (\<lambda>c. c \<noteq> 95) u in
      if \<not> py_digits u \<or> 4300 < length ds then None
      else Some (if neg then - dec_value ds else dec_value ds))"

definition nonnegative_int :: "bytes \<Rightarrow> int option" where
  "nonnegative_int value =
     (case py_int (py_strip value) of None \<Rightarrow> None | Some n \<Rightarrow> if n < 0 then None else Some n)"

text \<open>\<open>bytes.fromhex\<close>: white space is skipped between bytes.\<close>

fun py_fromhex :: "bytes \<Rightarrow> bytes option" where
  "py_fromhex [] = Some []"
| "py_fromhex (a # r) =
     (if is_space a then py_fromhex r
      else (case r of
              [] \<Rightarrow> None
            | b # s \<Rightarrow>
                (case (hex_nibble a, hex_nibble b) of
                   (Some x, Some y) \<Rightarrow> map_option (\<lambda>d. (16 * x + y) # d) (py_fromhex s)
                 | _ \<Rightarrow> None)))"

lemma HEX_nibble: "n < 16 \<Longrightarrow> hex_nibble (HEX ! n) = Some (of_nat n)"
proof -
  have "\<forall>n \<in> set [0..<16]. hex_nibble (HEX ! n) = Some (of_nat n)"
    by (simp add: HEX_def lit_def hex_nibble_def upt_rec)
  then show "n < 16 \<Longrightarrow> ?thesis" by simp
qed

lemma fromhex_hex [simp]: "py_fromhex (hex_string d) = Some d"
proof (induction d)
  case (Cons b d)
  have "(of_nat (16 * unat (drop_bit 4 b) + unat (b AND 0x0f)) :: byte) = b" by (simp only: nibbles(3)) simp
  then have v: "16 * (of_nat (unat (drop_bit 4 b)) :: byte) + of_nat (unat (b AND 0x0f)) = b"
    by (simp only: of_nat_add of_nat_mult of_nat_numeral)
  from Cons HEX_no_space [OF HEX_nth [OF nibbles(1) [of b]]] HEX_nibble [OF nibbles(1) [of b]] HEX_nibble [OF nibbles(2) [of b]] v
  show ?case by (simp add: hex_byte_def)
qed simp

subsection \<open>Numbers\<close>

lemma dec_value_snoc: "dec_value (ds @ [c]) = 10 * dec_value ds + int (unat (c - 48))"
  by (simp add: dec_value_def)

lemma digit_of: "n < 10 \<Longrightarrow> is_digit (48 + of_nat n) \<and> uint (of_nat n :: byte) = int n"
proof -
  have "\<forall>n \<in> set [0..<10]. is_digit (48 + of_nat n) \<and> uint (of_nat n :: byte) = int n"
    by (simp add: is_digit_def upt_rec)
  then show "n < 10 \<Longrightarrow> ?thesis" by simp
qed

lemma dec_string_digits: "dec_string n \<noteq> [] \<and> (\<forall>c \<in> set (dec_string n). is_digit c) \<and> dec_value (dec_string n) = int n"
proof (induction n rule: dec_string.induct)
  case (1 n)
  show ?case
  proof (cases "n < 10")
    case True
    with digit_of [OF this] show ?thesis by (subst (1 2 3) dec_string.simps) (simp add: dec_value_def)
  next
    case False
    have m: "n mod 10 < 10" by simp
    have "int (10 * (n div 10) + n mod 10) = int n" by simp
    then have "10 * int (n div 10) + int (n mod 10) = int n" by (simp only: of_nat_add of_nat_mult of_nat_numeral)
    with 1 [OF False] digit_of [OF m] False show ?thesis
      by (subst (1 2 3) dec_string.simps) (auto simp: dec_value_snoc)
  qed
qed

lemma dec_string_length: "n < 10 ^ k \<Longrightarrow> 0 < k \<Longrightarrow> length (dec_string n) \<le> k"
proof (induction n arbitrary: k rule: dec_string.induct)
  case (1 n)
  show ?case
  proof (cases "n < 10")
    case False
    with 1(2,3) obtain j where k: "k = Suc j" "0 < j" by (cases k; cases "k - 1") auto
    with 1(2) have "n div 10 < 10 ^ j" by (simp add: div_less_iff_less_mult)
    from 1(1) [OF False this k(2)] k False show ?thesis by (subst dec_string.simps) simp
  qed (use 1(3) in \<open>subst dec_string.simps, simp\<close>)
qed

lemma digit_space: "is_digit c \<Longrightarrow> \<not> py_space c \<and> \<not> is_space c \<and> c \<noteq> 95 \<and> c \<noteq> 45 \<and> c \<noteq> 43 \<and> c \<noteq> 61 \<and> c \<noteq> 58 \<and> c \<noteq> 0"
  unfolding is_digit_def py_space_def is_space_def by unat_arith

lemma py_digits_all: "s \<noteq> [] \<Longrightarrow> \<forall>c \<in> set s. is_digit c \<Longrightarrow> py_digits s"
  by (induction s rule: py_digits.induct) (auto dest: digit_space)

lemma strip_plain: "plain_word py_space s \<Longrightarrow> py_strip s = s"
  using dropWhile_plain [of py_space s "[]"] dropWhile_plain [of py_space "rev s" "[]"]
  by (simp add: py_strip_def plain_word_def)

lemma dec_plain: "plain_word py_space (dec_string n)" "plain_word is_space (dec_string n)"
  using dec_string_digits [of n] digit_space by (auto simp: plain_word_def)

lemma nonnegative_dec:
  assumes "n < 2 ^ 64"
  shows "nonnegative_int (dec_string n) = Some (int n)"
proof -
  have "length (dec_string n) \<le> 20" by (rule dec_string_length) (use assms in simp_all)
  moreover have "filter (\<lambda>c. c \<noteq> 95) (dec_string n) = dec_string n"
    using dec_string_digits [of n] digit_space by (simp add: filter_id_conv)
  moreover have "hd (dec_string n) \<noteq> 45 \<and> hd (dec_string n) \<noteq> 43"
    using dec_string_digits [of n] digit_space [of "hd (dec_string n)"] by (cases "dec_string n") auto
  ultimately show ?thesis
    using dec_string_digits [of n] py_digits_all [of "dec_string n"]
    by (simp add: nonnegative_int_def py_int_def strip_plain dec_plain Let_def)
qed

subsection \<open>Trace fields\<close>

datatype trace_value = TraceBool bool | TraceInt int | TraceStr bytes

text \<open>One token, and all tokens of a marker's value (None: no such marker); a later field replaces an earlier one.\<close>

definition trace_field :: "bytes list \<Rightarrow> bytes \<Rightarrow> (bytes \<times> trace_value) option" where
  "trace_field bool_fields token =
     (case split_once 61 token of
        None \<Rightarrow> None
      | Some (key, raw) \<Rightarrow>
          if key = [] then None
          else if key \<in> set bool_fields then Some (key, TraceBool (raw \<in> {lit ''1'', lit ''true'', lit ''True''}))
          else Some (key, case nonnegative_int raw of Some n \<Rightarrow> TraceInt n | None \<Rightarrow> TraceStr raw))"

definition parse_structured_trace_fields :: "bytes list \<Rightarrow> bytes option \<Rightarrow> bytes \<rightharpoonup> trace_value" where
  "parse_structured_trace_fields bool_fields v =
     (case v of
        None \<Rightarrow> Map.empty
      | Some s \<Rightarrow> foldl (\<lambda>d token. case trace_field bool_fields token of None \<Rightarrow> d | Some (k, x) \<Rightarrow> d(k \<mapsto> x)) Map.empty (py_split s))"

text \<open>The fields of \<open>ACSC_TRACE_INTERNAL_TIMING\<close> the adapter copies into its reply.\<close>

definition internal_timing_keys :: "string list" where
  "internal_timing_keys =
     [''workload_timing_schema'', ''input_key_decap_begin_cycles'', ''input_key_decap_end_cycles'', ''input_aes_gcm_begin_cycles'',
      ''input_aes_gcm_end_cycles'', ''workload_begin_cycles'', ''workload_end_cycles'', ''output_kem_begin_cycles'',
      ''output_kem_end_cycles'', ''output_aes_gcm_begin_cycles'', ''output_aes_gcm_end_cycles'', ''function_key_decap_begin_cycles'',
      ''function_key_decap_end_cycles'', ''cfunc_aes_gcm_begin_cycles'', ''cfunc_aes_gcm_end_cycles'', ''wasm_load_begin_cycles'',
      ''wasm_load_end_cycles'', ''wasm_instantiate_begin_cycles'', ''wasm_instantiate_end_cycles'', ''input_key_decap_cycles'',
      ''input_aes_gcm_cycles'', ''workload_core_cycles'', ''output_kem_cycles'', ''output_aes_gcm_cycles'', ''function_key_decap_cycles'',
      ''cfunc_aes_gcm_cycles'', ''wasm_load_cycles'', ''wasm_instantiate_cycles'', ''tsc_hz'', ''tsc_frequency_method'',
      ''input_key_decap_duration_ns'', ''input_aes_gcm_duration_ns'', ''workload_core_duration_ns'', ''output_kem_duration_ns'',
      ''output_aes_gcm_duration_ns'', ''function_key_decap_duration_ns'', ''cfunc_aes_gcm_duration_ns'', ''wasm_load_duration_ns'',
      ''wasm_instantiate_duration_ns'']"

definition worker_internal_timing_trace :: "(bytes \<rightharpoonup> bytes) \<Rightarrow> bytes \<rightharpoonup> trace_value" where
  "worker_internal_timing_trace markers =
     parse_structured_trace_fields [] (markers (lit ''ACSC_TRACE_INTERNAL_TIMING'')) |` (lit ` set internal_timing_keys)"

lemma fields_join: "fields_text fs = join_words (map (\<lambda>(k, v). k @ lit ''='' @ v) fs)"
  by (induction fs rule: fields_text.induct) (simp_all add: lit_def)

definition field_ok :: "bytes \<times> bytes \<Rightarrow> bool" where
  "field_ok x \<longleftrightarrow> plain_word py_space (fst x) \<and> 61 \<notin> set (fst x) \<and> (\<forall>c \<in> set (snd x). \<not> py_space c)"

definition value_of_field :: "bytes list \<Rightarrow> bytes \<Rightarrow> bytes \<Rightarrow> trace_value" where
  "value_of_field bs k v =
     (if k \<in> set bs then TraceBool (v \<in> {lit ''1'', lit ''true'', lit ''True''})
      else case nonnegative_int v of Some n \<Rightarrow> TraceInt n | None \<Rightarrow> TraceStr v)"

lemma split_once_at: "c \<notin> set k \<Longrightarrow> split_once c (k @ c # v) = Some (k, v)"
proof -
  assume "c \<notin> set k"
  then have "takeWhile (\<lambda>x. x \<noteq> c) (k @ c # v) = k" "dropWhile (\<lambda>x. x \<noteq> c) (k @ c # v) = c # v" by (induction k) auto
  then show ?thesis by (simp add: split_once_def)
qed

lemma trace_field_ok: "field_ok (k, v) \<Longrightarrow> trace_field bs (k @ lit ''='' @ v) = Some (k, value_of_field bs k v)"
  by (simp add: trace_field_def field_ok_def plain_word_def lit_def value_of_field_def split_once_at)

lemma foldl_fields:
  "\<forall>x \<in> set fs. field_ok x \<Longrightarrow> distinct (map fst fs) \<Longrightarrow>
   foldl (\<lambda>d token. case trace_field bs token of None \<Rightarrow> d | Some (k, x) \<Rightarrow> d(k \<mapsto> x)) d (map (\<lambda>(k, v). k @ lit ''='' @ v) fs) k =
   (case map_of fs k of None \<Rightarrow> d k | Some v \<Rightarrow> Some (value_of_field bs k v))"
proof (induction fs arbitrary: d)
  case (Cons x fs)
  obtain j v where x: "x = (j, v)" by (cases x)
  with Cons have t: "trace_field bs (j @ lit ''='' @ v) = Some (j, value_of_field bs j v)" by (simp add: trace_field_ok)
  have "map_of fs j = None" using Cons.prems(2) x by (simp add: map_of_eq_None_iff)
  with Cons x t show ?case by (auto split: option.splits)
qed simp

lemma parse_fields:
  assumes "\<forall>x \<in> set fs. field_ok x" "distinct (map fst fs)"
  shows "parse_structured_trace_fields bs (Some (fields_text fs)) k = map_option (value_of_field bs k) (map_of fs k)"
proof -
  have s: "py_space 32" "\<not> py_space 61" by (simp_all add: py_space_def is_space_def)
  have "\<forall>t \<in> set (map (\<lambda>(k, v). k @ lit ''='' @ v) fs). plain_word py_space t"
    using assms(1) s(2) by (fastforce simp: field_ok_def plain_word_def lit_def)
  then have "py_split (fields_text fs) = map (\<lambda>(k, v). k @ lit ''='' @ v) fs"
    using words_join [of py_space, OF s(1)] by (simp add: py_split_def fields_join)
  with foldl_fields [OF assms, of bs Map.empty k] show ?thesis
    by (simp add: parse_structured_trace_fields_def split: option.splits)
qed

lemma num_field_ok: "field_ok (num_field name v) \<longleftrightarrow> plain_word py_space (lit name) \<and> 61 \<notin> set (lit name)"
  using dec_plain by (auto simp: field_ok_def num_field_def plain_word_def)

lemma timing_keys: "map fst (internal_timing hz method t) = map lit internal_timing_keys"
  by (simp add: internal_timing_def trace_phases_def num_field_def internal_timing_keys_def)

lemma timing_keys_distinct: "distinct internal_timing_keys"
  by (simp add: internal_timing_keys_def)

text \<open>The names are made of the names of the phases and a few endings.\<close>

definition good_name :: "string \<Rightarrow> bool" where
  "good_name s \<longleftrightarrow> (\<forall>c \<in> set (lit s). \<not> py_space c \<and> c \<noteq> 61)"

lemma good_append: "good_name (a @ b) \<longleftrightarrow> good_name a \<and> good_name b"
  by (auto simp: good_name_def lit_append)

lemma good_phases: "(name, core, b, n, c) \<in> set (trace_phases t) \<Longrightarrow> good_name name \<and> good_name core \<and> name \<noteq> [] \<and> core \<noteq> []"
proof -
  have "\<forall>s \<in> {''input_key_decap'', ''input_aes_gcm'', ''workload'', ''_core'', ''output_kem'', ''output_aes_gcm'', ''function_key_decap'',
      ''cfunc_aes_gcm'', ''wasm_load'', ''wasm_instantiate''}. good_name s"
    by (simp add: good_name_def lit_def py_space_def is_space_def)
  with good_append [of "''workload''" "''_core''"]
  show "(name, core, b, n, c) \<in> set (trace_phases t) \<Longrightarrow> ?thesis" by (auto simp: trace_phases_def)
qed

lemma good_endings: "good_name ''_begin_cycles''" "good_name ''_end_cycles''" "good_name ''_cycles''" "good_name ''_duration_ns''"
  "good_name ''tsc_hz''" "good_name ''tsc_frequency_method''" "good_name ''workload_timing_schema''"
  by (simp_all add: good_name_def lit_def py_space_def is_space_def)

lemma timing_keys_plain:
  assumes "x \<in> set (internal_timing hz method t)"
  shows "plain_word py_space (fst x) \<and> 61 \<notin> set (fst x)"
proof -
  from assms have "\<exists>s. fst x = lit s \<and> s \<noteq> [] \<and> good_name s"
    using good_endings good_phases [where t = t] unfolding internal_timing_def num_field_def by (fastforce simp: good_append)
  then obtain s where "fst x = lit s" "s \<noteq> []" "good_name s" by (elim exE conjE)
  then show ?thesis by (auto simp: plain_word_def good_name_def)
qed

lemma timing_values: "x \<in> set (internal_timing hz method t) \<Longrightarrow> snd x \<in> range dec_string \<union> {lit ''enclave-rdtsc-v1'', lit method}"
  by (auto simp: internal_timing_def num_field_def)

lemma timing_fields_ok:
  assumes "\<forall>c \<in> set (lit method). \<not> py_space c" "x \<in> set (internal_timing hz method t)"
  shows "field_ok x"
proof -
  have "\<forall>c \<in> set (lit ''enclave-rdtsc-v1''). \<not> py_space c" by (simp add: lit_def py_space_def is_space_def)
  then show ?thesis
    using timing_keys_plain [OF assms(2)] timing_values [OF assms(2)] assms(1) dec_plain(1) unfolding field_ok_def plain_word_def by fastforce
qed

lemma timing_parsed:
  assumes "\<forall>c \<in> set (lit method). \<not> py_space c" "(lit name, v) \<in> set (internal_timing hz method t)"
  shows "parse_structured_trace_fields [] (Some (fields_text (internal_timing hz method t))) (lit name) = Some (value_of_field [] (lit name) v)"
proof -
  have "distinct (map fst (internal_timing hz method t))"
    using timing_keys_distinct unfolding timing_keys distinct_map by (simp add: inj_on_def)
  with assms timing_fields_ok [OF assms(1)] show ?thesis by (simp add: parse_fields)
qed

lemma timing_number:
  assumes "\<forall>c \<in> set (lit method). \<not> py_space c" "num_field name (v :: u64) \<in> set (internal_timing hz method t)"
  shows "parse_structured_trace_fields [] (Some (fields_text (internal_timing hz method t))) (lit name) = Some (TraceInt (uint v))"
  using timing_parsed [OF assms(1) assms(2) [unfolded num_field_def]] nonnegative_dec [of "unat v"] unsigned_less [of v, where 'a = nat]
  by (simp add: value_of_field_def)

lemma num_field_key: "num_field name (v :: u64) \<in> set (internal_timing hz method t) \<Longrightarrow> lit name \<in> lit ` set internal_timing_keys"
  using timing_keys [of hz "method" t] by (metis fst_conv image_eqI image_set num_field_def)

lemma timing_members:
  assumes "(name, core, b, n, c) \<in> set (trace_phases t)"
  shows "num_field (name @ ''_begin_cycles'') b \<in> set (internal_timing hz method t)"
    "num_field (name @ ''_end_cycles'') n \<in> set (internal_timing hz method t)"
    "num_field (core @ ''_cycles'') c \<in> set (internal_timing hz method t)"
    "num_field (core @ ''_duration_ns'') (c1_cycles_to_ns c hz) \<in> set (internal_timing hz method t)"
proof -
  let ?p = "(name, core, b, n, c)"
  have i: "f ?p \<in> set (map f (trace_phases t))" for f :: "_ \<Rightarrow> bytes \<times> bytes" using assms by simp
  have j: "x \<in> set (concat (map g (trace_phases t)))" if "x \<in> set (g ?p)" for x and g :: "_ \<Rightarrow> (bytes \<times> bytes) list"
    using assms that by (simp only: set_concat set_map) blast
  show "num_field (name @ ''_begin_cycles'') b \<in> set (internal_timing hz method t)"
    unfolding internal_timing_def set_append by (intro UnI2 UnI1 j) simp
  show "num_field (name @ ''_end_cycles'') n \<in> set (internal_timing hz method t)"
    unfolding internal_timing_def set_append by (intro UnI2 UnI1 j) simp
  show "num_field (core @ ''_cycles'') c \<in> set (internal_timing hz method t)"
    using i [of "\<lambda>(name, core, b, n, c). num_field (core @ ''_cycles'') c"]
    unfolding internal_timing_def by (simp only: set_append Un_iff prod.case simp_thms)
  show "num_field (core @ ''_duration_ns'') (c1_cycles_to_ns c hz) \<in> set (internal_timing hz method t)"
    using i [of "\<lambda>(name, core, b, n, c). num_field (core @ ''_duration_ns'') (c1_cycles_to_ns c hz)"]
    unfolding internal_timing_def by (simp only: set_append Un_iff prod.case simp_thms)
qed

definition tsc_methods :: "string list" where
  "tsc_methods = [''unavailable'', ''cpuid_0x15_crystal'', ''calibrated_monotonic_raw_20ms'']"

lemma no_number:
  assumes "plain_word py_space s" "\<not> is_digit (hd s)" "hd s \<noteq> 43" "hd s \<noteq> 45"
  shows "nonnegative_int s = None"
proof -
  have "\<not> py_digits s" using assms(1,2) by (cases s rule: py_digits.cases) (auto simp: plain_word_def)
  with assms show ?thesis by (simp add: nonnegative_int_def py_int_def strip_plain Let_def)
qed

lemma methods_plain:
  assumes "method \<in> set tsc_methods"
  shows "(\<forall>c \<in> set (lit method). \<not> py_space c) \<and> nonnegative_int (lit method) = None"
proof -
  have "\<forall>m \<in> set tsc_methods. plain_word py_space (lit m)"
    by (simp add: tsc_methods_def plain_word_def lit_def py_space_def is_space_def)
  moreover have "\<forall>m \<in> set tsc_methods. hd (lit m) \<in> {117, 99}" by (simp add: tsc_methods_def lit_def)
  ultimately have m: "plain_word py_space (lit method)" "hd (lit method) \<in> {117, 99}" using assms by simp_all
  then have "\<not> is_digit (hd (lit method))" "hd (lit method) \<noteq> 43" "hd (lit method) \<noteq> 45" by (auto simp: is_digit_def)
  with no_number [OF m(1)] m(1) show ?thesis by (simp add: plain_word_def)
qed

text \<open>
  C16: the adapter reads what the worker prints. From the line of the internal timing the adapter copies exactly
  the fields the worker printed, each number as that number, for every trace: the readings at the begin and the end, the count and
  the nanoseconds of each of the nine phases, the frequency of the counter and its method.
\<close>

theorem adapter_reads_timing:
  assumes "method \<in> set tsc_methods"
    and "markers (lit ''ACSC_TRACE_INTERNAL_TIMING'') = Some (fields_text (internal_timing hz method t))"
  shows "dom (worker_internal_timing_trace markers) = lit ` set internal_timing_keys \<and>
    (\<forall>(name, core, b, n, c) \<in> set (trace_phases t).
       worker_internal_timing_trace markers (lit (name @ ''_begin_cycles'')) = Some (TraceInt (uint b)) \<and>
       worker_internal_timing_trace markers (lit (name @ ''_end_cycles'')) = Some (TraceInt (uint n)) \<and>
       worker_internal_timing_trace markers (lit (core @ ''_cycles'')) = Some (TraceInt (uint c)) \<and>
       worker_internal_timing_trace markers (lit (core @ ''_duration_ns'')) = Some (TraceInt (uint (c1_cycles_to_ns c hz)))) \<and>
    worker_internal_timing_trace markers (lit ''tsc_hz'') = Some (TraceInt (uint hz)) \<and>
    worker_internal_timing_trace markers (lit ''tsc_frequency_method'') = Some (TraceStr (lit method))"
proof -
  note p = methods_plain [OF assms(1)]
  have n: "worker_internal_timing_trace markers (lit name) = Some (TraceInt (uint v))"
    if "num_field name (v :: u64) \<in> set (internal_timing hz method t)" for name v
    using timing_number [OF conjunct1 [OF p] that] num_field_key [OF that] assms(2) by (simp add: worker_internal_timing_trace_def)
  have "worker_internal_timing_trace markers k \<noteq> None" if k: "k \<in> lit ` set internal_timing_keys" for k
  proof -
    have "set (map fst (internal_timing hz method t)) = lit ` set internal_timing_keys" by (simp only: timing_keys set_map)
    with k have "k \<in> fst ` set (internal_timing hz method t)" by (simp only: set_map)
    then obtain v where v: "(k, v) \<in> set (internal_timing hz method t)" by auto
    moreover from k obtain name where "k = lit name" by blast
    ultimately show ?thesis
      using timing_parsed [OF conjunct1 [OF p], of name v hz t] k assms(2) by (simp add: worker_internal_timing_trace_def)
  qed
  then have d: "dom (worker_internal_timing_trace markers) = lit ` set internal_timing_keys"
    by (auto simp: worker_internal_timing_trace_def restrict_map_def split: if_splits)
  have m: "worker_internal_timing_trace markers (lit ''tsc_frequency_method'') = Some (TraceStr (lit method))"
  proof -
    have "(lit ''tsc_frequency_method'', lit method) \<in> set (internal_timing hz method t)"
      unfolding internal_timing_def set_append by (intro UnI2 UnI1) simp
    moreover have "lit ''tsc_frequency_method'' \<in> lit ` set internal_timing_keys" by (rule imageI) (simp add: internal_timing_keys_def)
    ultimately show ?thesis
      using timing_parsed [OF conjunct1 [OF p]] p assms(2) by (simp add: worker_internal_timing_trace_def value_of_field_def)
  qed
  have "worker_internal_timing_trace markers (lit (name @ ''_begin_cycles'')) = Some (TraceInt (uint b)) \<and>
       worker_internal_timing_trace markers (lit (name @ ''_end_cycles'')) = Some (TraceInt (uint e)) \<and>
       worker_internal_timing_trace markers (lit (core @ ''_cycles'')) = Some (TraceInt (uint c)) \<and>
       worker_internal_timing_trace markers (lit (core @ ''_duration_ns'')) = Some (TraceInt (uint (c1_cycles_to_ns c hz)))"
    if "(name, core, b, e, c) \<in> set (trace_phases t)" for name core b e c
    using timing_members [OF that] by (intro conjI n)
  moreover have "worker_internal_timing_trace markers (lit ''tsc_hz'') = Some (TraceInt (uint hz))"
    by (rule n) (simp add: internal_timing_def)
  ultimately show ?thesis using d m by blast
qed

theorem adapter_reads_timing_witness:
  "worker_internal_timing_trace
     [lit ''ACSC_TRACE_INTERNAL_TIMING'' \<mapsto> fields_text (internal_timing 2500000000 ''cpuid_0x15_crystal'' (zero_trace\<lparr>workload_core_cycles := 50\<rparr>))]
     (lit ''workload_core_duration_ns'') = Some (TraceInt 20)"
proof -
  have w: "(''workload'', ''workload_core'', 0, 0, 50) \<in> set (trace_phases (zero_trace\<lparr>workload_core_cycles := 50\<rparr>))"
    by (simp add: trace_phases_def zero_trace_def)
  have m: "''cpuid_0x15_crystal'' \<in> set tsc_methods" by (simp add: tsc_methods_def)
  have "c1_cycles_to_ns 50 2500000000 = 20" by (simp add: c1_cycles_to_ns_def)
  with bspec [OF conjunct1 [OF conjunct2 [OF adapter_reads_timing [OF m]]] w, of "[lit ''ACSC_TRACE_INTERNAL_TIMING'' \<mapsto>
      fields_text (internal_timing 2500000000 ''cpuid_0x15_crystal'' (zero_trace\<lparr>workload_core_cycles := 50\<rparr>))]" 2500000000]
  show ?thesis by simp
qed

end
