(* ===== verification/Adapter.thy ===== *)
theory Adapter
  imports AdapterText
begin

text \<open>
  The runtime adapter of the platform (\<open>openwhisk_runtime/proxy.py\<close>) and its worker process: the process in
  server mode behind two pipes, the adapter's exchange of one command for one response over them, and the \<open>/run\<close>
  route. HTTP, JSON and Base64 are not modelled: a request is given decoded. Exceptions are values. The adapter holds a lock
  during an exchange, so that exchanges do not overlap.
\<close>

subsection \<open>The lines of a response\<close>

definition needs_kms :: "driver_env \<Rightarrow> InvokeArgs \<Rightarrow> bool \<Rightarrow> worker_app \<Rightarrow> bool" where
  "needs_kms e args allow_kms_cache a =
     (\<not> (allow_kms_cache \<and> delivered (exchange e) 0 \<and> ecall_has_key (worker_enclave a) (cstr (ia_fid args)) = 1))"

definition int_text :: "int \<Rightarrow> bytes" where
  "int_text n = (if n < 0 then lit ''-'' @ dec_string (nat (- n)) else dec_string (nat n))"

text \<open>What the command loop prints for a command: the process before, its reply, the process after.\<close>

definition response_lines :: "run_clock \<Rightarrow> driver_env \<Rightarrow> bytes list \<Rightarrow> worker_app \<Rightarrow> server_reply \<Rightarrow> worker_app \<Rightarrow> bytes list" where
  "response_lines c e tokens a reply a' =
     [lit ''BEGIN_RESPONSE''] @
     (case sr_error reply of
        Some err \<Rightarrow> [marker ''ERROR'' (lit err)]
      | None \<Rightarrow>
          (if tokens ! 0 = lit ''invoke'' then
             (case parse_invoke_tokens tokens of
                Inl err \<Rightarrow> []
              | Inr args \<Rightarrow>
                  invoke_lines c (needs_kms e args True a) (g_kms_timing a') (map_option fst (load_invocation e args)) (sr_out reply))
           else run_log c @
             (if sr_rc reply = 0 then [num_marker ''T_EXEC_BEGIN_NS'' (t_exec_begin_ns c), num_marker ''T_EXEC_END_NS'' (t_exec_end_ns c)] else []))) @
     [marker ''RC'' (int_text (sr_rc reply)), lit ''END_RESPONSE'']"

text \<open>
  The worker process at the other end: serving, with the number of commands it has served, ended, or stuck in a
  command. It reads its input line by line; what a command that never ends has printed is of no use to the
  reader but for the first line.
\<close>

datatype worker_state = Serving worker_app nat | Gone | Hanging

fun serve_lines ::
  "('fr, 'g1, 'g2, 'gt) mcl \<Rightarrow> sgx \<Rightarrow> runtime \<Rightarrow> (nat \<Rightarrow> driver_env) \<Rightarrow> (nat \<Rightarrow> run_clock) \<Rightarrow> bool \<Rightarrow> bytes list \<Rightarrow> worker_app \<Rightarrow> nat
   \<Rightarrow> bytes list \<times> worker_state" where
  "serve_lines m s rt es cs sim [] a n = ([], Serving a n)"
| "serve_lines m s rt es cs sim (line # rest) a n =
     (if line = lit ''exit'' then ([], Gone)
      else if split_tokens line = [] then serve_lines m s rt es cs sim rest a n
      else case run_command m s rt (es n) sim (split_tokens line) a of
        Returned (reply, a') \<Rightarrow>
          let (out, end) = serve_lines m s rt es cs sim rest a' (n + 1)
          in (response_lines (cs n) (es n) (split_tokens line) a reply a' @ out, end)
      | Exited code \<Rightarrow> ([lit ''BEGIN_RESPONSE''], Gone)
      | Stuck \<Rightarrow> ([lit ''BEGIN_RESPONSE''], Hanging))"

subsection \<open>The adapter's side of the pipes\<close>

text \<open>The parser of a response: the exit code, the lines, the markers.\<close>

definition add_marker :: "(bytes \<rightharpoonup> bytes) \<Rightarrow> bytes \<Rightarrow> bytes \<rightharpoonup> bytes" where
  "add_marker markers text =
     (case split_once 58 text of None \<Rightarrow> markers | Some (key, v) \<Rightarrow> markers(key \<mapsto> py_strip v))"

fun scan_response ::
  "bool \<Rightarrow> int option \<Rightarrow> bytes list \<Rightarrow> (bytes \<rightharpoonup> bytes) \<Rightarrow> bytes list \<Rightarrow> string + (int \<times> bytes list \<times> (bytes \<rightharpoonup> bytes))" where
  "scan_response in_response rc payload markers [] = Inl ''missing END_RESPONSE''"
| "scan_response in_response rc payload markers (text # lines) =
     (if text = lit ''BEGIN_RESPONSE'' then scan_response True rc payload markers lines
      else if text = lit ''END_RESPONSE'' then
        (case rc of None \<Rightarrow> Inl ''missing RC'' | Some n \<Rightarrow> Inr (n, payload, markers))
      else if \<not> in_response then scan_response in_response rc payload markers lines
      else if take 3 text = lit ''RC:'' then
        (case py_int (let v = py_strip (drop 3 text) in if v = [] then lit ''0'' else v) of
           None \<Rightarrow> Inl ''invalid RC''
         | Some n \<Rightarrow> scan_response in_response (Some n) payload markers lines)
      else scan_response in_response rc (payload @ [text]) (add_marker markers text) lines)"

definition parse_worker_response :: "bytes list \<Rightarrow> string + (int \<times> bytes list \<times> (bytes \<rightharpoonup> bytes))" where
  "parse_worker_response lines = scan_response False None [] Map.empty lines"

text \<open>
  The process the adapter keeps: the profile it was started with, its state, and the lines it has
  written that are not read yet.
\<close>

record worker_process =
  wp_profile :: bytes
  wp_state :: worker_state
  wp_unread :: "bytes list"

text \<open>
  A start of the process: ready to serve, or alive without having said so in 200 lines, or no process at all. A process
  that is alive is kept, whether it became ready or not.
\<close>

datatype spawned = Ready worker_app | Unready worker_app "bytes list" | NoProcess

definition start_sgx_worker ::
  "(bytes \<Rightarrow> spawned) \<Rightarrow> bytes \<Rightarrow> worker_process option \<Rightarrow> bool \<times> worker_process option" where
  "start_sgx_worker spawn crypto_profile_id p =
     (let requested_profile = (if crypto_profile_id = [] then lit ''eccibe'' else crypto_profile_id);
          start = (case spawn requested_profile of
             Ready a \<Rightarrow> (True, Some \<lparr>wp_profile = requested_profile, wp_state = Serving a 0, wp_unread = []\<rparr>)
           | Unready a lines \<Rightarrow> (False, Some \<lparr>wp_profile = requested_profile, wp_state = Serving a 0, wp_unread = lines\<rparr>)
           | NoProcess \<Rightarrow> (False, None)) in
      case p of
        None \<Rightarrow> start
      | Some w \<Rightarrow> if wp_state w \<noteq> Gone \<and> wp_profile w = requested_profile then (True, p) else start)"

fun split_lines :: "bytes \<Rightarrow> bytes list" where
  "split_lines [] = [[]]"
| "split_lines (c # s) =
     (if c = 10 then [] # split_lines s else (case split_lines s of [] \<Rightarrow> [[c]] | l # ls \<Rightarrow> (c # l) # ls))"

text \<open>
  One exchange: the tokens are written as one line of text, and the lines of the worker are read up to the first
  \<open>END_RESPONSE\<close>. None if the call never returns.
\<close>

definition invoke_sgx_worker ::
  "('fr, 'g1, 'g2, 'gt) mcl \<Rightarrow> sgx \<Rightarrow> runtime \<Rightarrow> (nat \<Rightarrow> driver_env) \<Rightarrow> (nat \<Rightarrow> run_clock) \<Rightarrow> bool \<Rightarrow> (bytes \<Rightarrow> spawned)
   \<Rightarrow> bytes list \<Rightarrow> bytes \<Rightarrow> worker_process option
   \<Rightarrow> ((string + (int \<times> bytes list \<times> (bytes \<rightharpoonup> bytes))) \<times> worker_process option) option" where
  "invoke_sgx_worker m s rt es cs sim spawn tokens profile p =
     (case start_sgx_worker spawn profile p of
        (True, Some w) \<Rightarrow>
          let (out, end) = (case wp_state w of
                              Serving a n \<Rightarrow> serve_lines m s rt es cs sim (split_lines (join_words tokens)) a n
                            | x \<Rightarrow> ([], x));
              arriving = wp_unread w @ out in
          if lit ''END_RESPONSE'' \<in> set arriving then
            Some (parse_worker_response (takeWhile (\<lambda>t. t \<noteq> lit ''END_RESPONSE'') arriving @ [lit ''END_RESPONSE'']),
                  Some (w\<lparr>wp_state := end, wp_unread := tl (dropWhile (\<lambda>t. t \<noteq> lit ''END_RESPONSE'') arriving)\<rparr>))
          else if end = Gone then Some (Inl ''worker exited before END_RESPONSE'', Some (w\<lparr>wp_state := end, wp_unread := []\<rparr>))
          else None
      | (started, q) \<Rightarrow> Some (Inl ''worker did not emit SERVER_READY'', q))"

subsection \<open>The route\<close>

text \<open>A request of \<open>/run\<close>, decoded, and the files the adapter writes for it.\<close>

record adapter_request =
  ar_fid :: bytes
  ar_label :: bytes
  ar_profile :: bytes
  ar_capacity :: int
  ar_input :: bytes
  ar_c_k_func :: bytes
  ar_c_key :: bytes
  ar_pku :: bytes
  ar_nonce :: bytes

record adapter_paths =
  WASM_FILE :: bytes
  INPUT_FILE :: bytes
  CKFUNC_FILE :: bytes
  CKEY_FILE :: bytes
  PKU_FILE :: bytes
  NONCE_FILE :: bytes

definition request_files :: "adapter_paths \<Rightarrow> adapter_request \<Rightarrow> (bytes \<times> bytes) list" where
  "request_files p r =
     [(INPUT_FILE p, ar_input r), (CKFUNC_FILE p, ar_c_k_func r), (CKEY_FILE p, ar_c_key r), (PKU_FILE p, ar_pku r),
      (NONCE_FILE p, ar_nonce r)]"

definition with_files :: "(bytes \<times> bytes) list \<Rightarrow> driver_env \<Rightarrow> driver_env" where
  "with_files fs e = e\<lparr>read_file := (\<lambda>p. case map_of (rev fs) p of Some d \<Rightarrow> Some d | None \<Rightarrow> read_file e p)\<rparr>"

definition invoke_tokens :: "adapter_paths \<Rightarrow> adapter_request \<Rightarrow> bytes list" where
  "invoke_tokens p r =
     [lit ''invoke'', ar_fid r, WASM_FILE p, INPUT_FILE p, lit ''--label'', ar_label r, lit ''--keys'', CKFUNC_FILE p, CKEY_FILE p,
      lit ''--max-output-bytes'', int_text (ar_capacity r), PKU_FILE p, NONCE_FILE p]"

definition valid_request :: "adapter_request \<Rightarrow> bool" where
  "valid_request r \<longleftrightarrow> ar_fid r \<noteq> [] \<and> ar_label r \<noteq> [] \<and> 1 \<le> ar_capacity r \<and> ar_capacity r \<le> 1048576"

text \<open>
  The reply: a bad request, a failure of the worker, no result, an exception while the reply is made, or the result: \<open>C_out\<close>,
  \<open>ct\<close> and \<open>rid\<close>, and of the trace the internal timing.
\<close>

datatype run_reply =
    BadRequest
  | WorkerFailed
  | NoResult
  | AdapterFailed
  | Answer bytes "bytes option" "bytes option" "bytes \<rightharpoonup> trace_value"

definition reply_of_markers :: "int \<Rightarrow> (bytes \<rightharpoonup> bytes) \<Rightarrow> run_reply" where
  "reply_of_markers rc markers =
     (if rc \<noteq> 0 then WorkerFailed
      else case markers (lit ''RESULT_HEX'') of
        None \<Rightarrow> NoResult
      | Some res_hex \<Rightarrow>
          (case py_fromhex res_hex of
             None \<Rightarrow> AdapterFailed
           | Some c_out \<Rightarrow>
               (case markers (lit ''CT_HEX'') of
                  None \<Rightarrow> Answer c_out None (markers (lit ''RID_HEX'')) (worker_internal_timing_trace markers)
                | Some ct_hex \<Rightarrow>
                    (case py_fromhex ct_hex of
                       None \<Rightarrow> AdapterFailed
                     | Some ct \<Rightarrow> Answer c_out (Some ct) (markers (lit ''RID_HEX'')) (worker_internal_timing_trace markers)))))"

definition adapter_run ::
  "('fr, 'g1, 'g2, 'gt) mcl \<Rightarrow> sgx \<Rightarrow> runtime \<Rightarrow> (nat \<Rightarrow> driver_env) \<Rightarrow> (nat \<Rightarrow> run_clock) \<Rightarrow> bool \<Rightarrow> (bytes \<Rightarrow> spawned)
   \<Rightarrow> adapter_paths \<Rightarrow> adapter_request \<Rightarrow> worker_process option \<Rightarrow> (run_reply \<times> worker_process option) option" where
  "adapter_run m s rt es cs sim spawn paths r p =
     (if \<not> valid_request r then Some (BadRequest, p)
      else case invoke_sgx_worker m s rt (\<lambda>n. with_files (request_files paths r) (es n)) cs sim spawn (invoke_tokens paths r)
                  (ar_profile r) p of
        None \<Rightarrow> None
      | Some (Inl err, q) \<Rightarrow> Some (WorkerFailed, q)
      | Some (Inr (rc, payload, markers), q) \<Rightarrow> Some (reply_of_markers rc markers, q))"

subsection \<open>Reading a response\<close>

text \<open>A line of the body of a response, and the marker it holds.\<close>

definition body_line :: "bytes \<Rightarrow> bool" where
  "body_line x \<longleftrightarrow> x \<noteq> lit ''BEGIN_RESPONSE'' \<and> x \<noteq> lit ''END_RESPONSE'' \<and> take 3 x \<noteq> lit ''RC:''"

definition marks :: "bytes list \<Rightarrow> bytes \<rightharpoonup> bytes" where
  "marks ls = foldl add_marker Map.empty ls"

lemma add_markers: "foldl add_marker mk ls = mk ++ marks ls"
proof (induction ls arbitrary: mk)
  case (Cons x ls)
  have e: "marks (x # ls) = add_marker Map.empty x ++ marks ls" unfolding marks_def foldl.simps by (rule Cons [unfolded marks_def])
  have "add_marker mk x = mk ++ add_marker Map.empty x" by (auto simp: add_marker_def split: option.splits)
  then show ?case unfolding e by (simp add: Cons)
qed (simp add: marks_def)

lemma marks_simps:
  "marks [] = Map.empty" "marks (xs @ ys) = marks xs ++ marks ys" "marks (x # xs) = add_marker Map.empty x ++ marks xs"
  using add_markers [of "marks xs" ys] add_markers [of "add_marker Map.empty x" xs] by (simp_all add: marks_def)

lemma scan_body:
  "\<forall>x \<in> set ls. body_line x \<Longrightarrow> scan_response True rc pl mk (ls @ rest) = scan_response True rc (pl @ ls) (mk ++ marks ls) rest"
proof (induction ls arbitrary: pl mk)
  case Nil
  show ?case by (simp add: marks_simps)
next
  case (Cons x ls)
  have "add_marker mk x ++ marks ls = mk ++ marks (x # ls)"
    using add_markers [of "add_marker mk x" ls] add_markers [of mk "x # ls"] by simp
  with Cons show ?case by (simp add: body_line_def)
qed

lemma marker_colon: "58 \<in> set (marker n v)"
  by (simp add: marker_def lit_def)

lemma colon_ends: "58 \<in> set x \<Longrightarrow> x \<noteq> lit ''BEGIN_RESPONSE'' \<and> x \<noteq> lit ''END_RESPONSE''"
  by (auto simp: lit_def)

lemma marker_body: "3 \<le> length n \<Longrightarrow> take 3 n \<noteq> ''RC:'' \<Longrightarrow> body_line (marker n v)"
proof -
  assume a: "3 \<le> length n" "take 3 n \<noteq> ''RC:''"
  have "take 3 (marker n v) = lit (take 3 n)" using a(1) by (simp add: marker_def lit_def take_map)
  with a(2) have "take 3 (marker n v) \<noteq> lit ''RC:''" by simp
  with colon_ends [OF marker_colon] show ?thesis by (simp add: body_line_def)
qed

lemma marker_add: "58 \<notin> set (lit n) \<Longrightarrow> add_marker mk (marker n v) = mk(lit n \<mapsto> py_strip v)"
proof -
  have m: "marker n v = lit n @ 58 # v" by (simp add: marker_def lit_def)
  assume "58 \<notin> set (lit n)"
  then show ?thesis by (simp add: add_marker_def m split_once_at)
qed

lemma py_int_text:
  assumes "\<bar>n\<bar> < 2 ^ 63"
  shows "py_int (py_strip (int_text n)) = Some n" "py_strip (int_text n) \<noteq> []"
proof -
  define k where "k = nat \<bar>n\<bar>"
  have k: "k < 2 ^ 64" using assms by (simp add: k_def)
  have l: "length (dec_string k) \<le> 20" by (rule dec_string_length) (use k in simp_all)
  have f: "filter (\<lambda>c. c \<noteq> 95) (dec_string k) = dec_string k"
    using dec_string_digits [of k] digit_space by (simp add: filter_id_conv)
  have h: "hd (dec_string k) \<noteq> 45 \<and> hd (dec_string k) \<noteq> 43" "dec_string k \<noteq> []"
    using dec_string_digits [of k] digit_space [of "hd (dec_string k)"] by (cases "dec_string k", simp_all)
  have p: "plain_word py_space (int_text n)"
    using dec_plain(1) by (auto simp: int_text_def plain_word_def lit_def py_space_def is_space_def)
  have d: "py_digits (dec_string k)" "dec_value (dec_string k) = int k"
    using dec_string_digits [of k] py_digits_all by simp_all
  have s: "py_strip (int_text n) = int_text n" by (rule strip_plain [OF p])
  show "py_strip (int_text n) \<noteq> []" using p by (simp add: s plain_word_def)
  have "py_int (int_text n) = Some n"
  proof (cases "n < 0")
    case True
    then have t: "int_text n = 45 # dec_string k" by (simp add: int_text_def k_def lit_def)
    then have u: "py_strip (45 # dec_string k) = 45 # dec_string k" using s by simp
    have "4300 < length (dec_string k) = False" using l by simp
    moreover have "- int k = n" using True by (simp add: k_def)
    ultimately show ?thesis using d f by (simp add: t py_int_def u Let_def)
  next
    case False
    then have t: "int_text n = dec_string k" by (simp add: int_text_def k_def)
    then have u: "py_strip (dec_string k) = dec_string k" using s by simp
    have "4300 < length (dec_string k) = False" using l by simp
    moreover have "int k = n" using False by (simp add: k_def)
    ultimately show ?thesis using d f h by (simp add: t py_int_def u Let_def)
  qed
  then show "py_int (py_strip (int_text n)) = Some n" by (simp add: s)
qed

lemma scan_end:
  assumes "\<bar>n\<bar> < 2 ^ 63"
  shows "scan_response True rc pl mk [marker ''RC'' (int_text n), lit ''END_RESPONSE''] = Inr (n, pl, mk)"
proof -
  have "take 3 (marker ''RC'' (int_text n)) = lit ''RC:''" "drop 3 (marker ''RC'' (int_text n)) = int_text n"
    by (simp_all add: marker_def lit_def)
  with py_int_text [OF assms] colon_ends [OF marker_colon, of "''RC''" "int_text n"] show ?thesis by (simp add: Let_def)
qed

lemma parse_response:
  assumes "\<forall>x \<in> set body. body_line x" "\<bar>n\<bar> < 2 ^ 63"
  shows "parse_worker_response ([lit ''BEGIN_RESPONSE''] @ body @ [marker ''RC'' (int_text n), lit ''END_RESPONSE'']) = Inr (n, body, marks body)"
  using scan_body [OF assms(1), of None "[]" Map.empty] scan_end [OF assms(2)] by (simp add: parse_worker_response_def)

subsection \<open>The response to an accepted invocation\<close>

text \<open>
  What else is written to the two streams: it must not look like the frame of a response, nor like one of the four markers the
  adapter's reply is made of.
\<close>

definition reply_markers :: "string list" where
  "reply_markers = [''RESULT_HEX'', ''CT_HEX'', ''RID_HEX'', ''ACSC_TRACE_INTERNAL_TIMING'']"

definition unlike_reply :: "bytes \<Rightarrow> bool" where
  "unlike_reply x \<longleftrightarrow> body_line x \<and> (case split_once 58 x of None \<Rightarrow> True | Some (k, v) \<Rightarrow> k \<notin> lit ` set reply_markers)"

definition logs_apart :: "run_clock \<Rightarrow> bool" where
  "logs_apart c \<longleftrightarrow> (\<forall>x \<in> set (keypath_log c) \<union> set (run_log c) \<union> set (end_log c). unlike_reply x)"

lemma log_marks: "\<forall>x \<in> set ls. unlike_reply x \<Longrightarrow> k \<in> lit ` set reply_markers \<Longrightarrow> marks ls k = None"
  by (induction ls) (auto simp: marks_simps unlike_reply_def add_marker_def split: option.splits)

text \<open>The names of the markers of a report.\<close>

definition report_names :: "string list" where
  "report_names =
     [''ENCLAVE_KEY_CACHE_HIT'', ''KMS_CONTACTED'', ''T_KEYPATH_BEGIN_NS'', ''T_KEYPATH_END_NS'', ''WORKER_KEYPATH_DUR_NS'',
      ''WORKER_WAIT_KMS_DUR_NS'', ''KMS_VERIFY_DUR_NS'', ''KMS_KEY_RELEASE_DUR_NS'', ''KMS_TOTAL_DUR_NS'', ''QUOTE_GEN_DUR_NS'',
      ''T_KMS_SEND_MONO_NS'', ''T_KMS_RECV_MONO_NS'', ''ACSC_TRACE_E3_PAYLOAD'', ''ACSC_TRACE_FUNCTION_CACHE'',
      ''T_EXEC_BEGIN_NS'', ''T_EXEC_END_NS'', ''T_EXEC_BEGIN_MONO_NS'', ''T_EXEC_END_MONO_NS'', ''WORKER_EXEC_DUR_NS'',
      ''WORKER_INVOKE_DUR_NS'', ''ACSC_TRACE_WORKER_INVOKE'', ''Encrypted Result Size'']"

lemma report_names_ok: "n \<in> set (reply_markers @ report_names) \<Longrightarrow> 58 \<notin> set (lit n) \<and> 3 \<le> length n \<and> take 3 n \<noteq> ''RC:''"
proof -
  have "\<forall>n \<in> set (reply_markers @ report_names). 58 \<notin> set (lit n) \<and> 3 \<le> length n \<and> take 3 n \<noteq> ''RC:''"
    by (simp add: reply_markers_def report_names_def lit_def)
  then show "n \<in> set (reply_markers @ report_names) \<Longrightarrow> ?thesis" by blast
qed

lemma other_marker: "n \<in> set report_names \<Longrightarrow> unlike_reply (marker n v)"
proof -
  assume n: "n \<in> set report_names"
  have d: "\<forall>n \<in> set report_names. n \<notin> set reply_markers" by (simp add: reply_markers_def report_names_def)
  have m: "marker n v = lit n @ 58 # v" by (simp add: marker_def lit_def)
  from n report_names_ok [of n] marker_body [of n v] have "body_line (marker n v)" "split_once 58 (marker n v) = Some (lit n, v)"
    by (simp_all add: m split_once_at)
  with n d show ?thesis by (auto simp: unlike_reply_def)
qed

text \<open>Lines that do not hold the marker \<open>n\<close> of a reply.\<close>

definition clear_of :: "string \<Rightarrow> bytes list \<Rightarrow> bool" where
  "clear_of n ys \<longleftrightarrow> (\<forall>x \<in> set ys. unlike_reply x \<or> (\<exists>n' v'. n' \<in> set reply_markers \<and> n' \<noteq> n \<and> x = marker n' v'))"

lemma clear_of_simps:
  "clear_of n []" "clear_of n (x # xs) \<longleftrightarrow> clear_of n [x] \<and> clear_of n xs" "clear_of n (xs @ ys) \<longleftrightarrow> clear_of n xs \<and> clear_of n ys"
  by (auto simp: clear_of_def)

lemma clear_ofI: "\<forall>x \<in> set xs. unlike_reply x \<Longrightarrow> clear_of n xs" "n' \<in> set reply_markers \<Longrightarrow> n' \<noteq> n \<Longrightarrow> clear_of n [marker n' v]"
  by (auto simp: clear_of_def)

lemma marks_at:
  assumes "n \<in> set reply_markers" "clear_of n ys"
  shows "marks (xs @ marker n v # ys) (lit n) = Some (py_strip v)"
proof -
  have "marks ys (lit n) = None" using assms(2)
  proof (induction ys)
    case (Cons x ys)
    then have x: "clear_of n [x]" and ys: "clear_of n ys" using clear_of_simps(2) [of n x ys] by simp_all
    have "add_marker Map.empty x (lit n) = None"
    proof (cases "unlike_reply x")
      case True
      with log_marks [of "[x]" "lit n"] assms(1) show ?thesis by (simp add: marks_simps)
    next
      case False
      with x obtain n' v' where "n' \<in> set reply_markers" "n' \<noteq> n" "x = marker n' v'" by (auto simp: clear_of_def)
      with report_names_ok [of n'] show ?thesis by (simp add: marker_add)
    qed
    with Cons ys show ?case by (simp add: marks_simps map_add_def)
  qed (simp add: marks_simps)
  moreover have "add_marker Map.empty (marker n v) (lit n) = Some (py_strip v)" using report_names_ok [of n] assms(1) by (simp add: marker_add)
  ultimately show ?thesis by (simp add: marks_simps map_add_def)
qed

lemma keypath_unlike: "\<forall>x \<in> set (keypath_lines c k tm). unlike_reply x"
  by (simp add: keypath_lines_def num_marker_def Let_def other_marker report_names_def)

lemma exec_unlike: "\<forall>x \<in> set (exec_lines c k tm call out). unlike_reply x"
  by (simp add: exec_lines_def num_marker_def other_marker report_names_def)

lemma rest_unlike:
  "unlike_reply (marker ''ENCLAVE_KEY_CACHE_HIT'' v)" "unlike_reply (marker ''KMS_CONTACTED'' v)"
  "unlike_reply (marker ''ACSC_TRACE_E3_PAYLOAD'' v)" "unlike_reply (marker ''ACSC_TRACE_FUNCTION_CACHE'' v)"
  "unlike_reply (lit ''Encrypted Result Size: '' @ v)" "unlike_reply (lit ''Loop finished.'')"
proof -
  have "lit ''Encrypted Result Size: '' @ v = marker ''Encrypted Result Size'' (32 # v)" by (simp add: marker_def lit_def)
  then show "unlike_reply (lit ''Encrypted Result Size: '' @ v)" by (simp add: other_marker report_names_def)
  show "unlike_reply (lit ''Loop finished.'')" by (simp add: unlike_reply_def body_line_def split_once_def lit_def)
qed (simp_all add: other_marker report_names_def)

lemma strip_hex [simp]: "py_strip (hex_string d) = hex_string d"
proof (cases "hex_string d = []")
  case False
  have "\<not> py_space c" if "c \<in> set HEX" for c using that by (auto simp: HEX_def lit_def py_space_def is_space_def)
  with False set_hex_string [of d] show ?thesis by (intro strip_plain) (auto simp: plain_word_def)
qed (simp add: py_strip_def)

lemma strip_ends: "s \<noteq> [] \<Longrightarrow> \<not> py_space (hd s) \<Longrightarrow> \<not> py_space (last s) \<Longrightarrow> py_strip s = s"
proof -
  have d: "dropWhile py_space x = x" if "x \<noteq> []" "\<not> py_space (hd x)" for x using that by (cases x) auto
  assume "s \<noteq> []" "\<not> py_space (hd s)" "\<not> py_space (last s)"
  with d [of s] d [of "rev s"] show ?thesis by (simp add: py_strip_def hd_rev)
qed

lemma join_ends:
  "ts \<noteq> [] \<Longrightarrow> \<forall>t \<in> set ts. plain_word p t \<Longrightarrow>
   join_words ts \<noteq> [] \<and> hd (join_words ts) = hd (hd ts) \<and> last (join_words ts) = last (last ts)"
  by (induction ts rule: join_words.induct) (auto simp: plain_word_def)

lemma plain_ends: "plain_word p t \<Longrightarrow> \<not> p (hd t) \<and> \<not> p (last t)"
  by (simp add: plain_word_def)

lemma strip_join:
  assumes "ts \<noteq> []" "\<forall>t \<in> set ts. plain_word py_space t"
  shows "py_strip (join_words ts) = join_words ts"
proof -
  have "plain_word py_space (hd ts)" "plain_word py_space (last ts)" using assms by simp_all
  from plain_ends [OF this(1)] plain_ends [OF this(2)] join_ends [OF assms] show ?thesis by (intro strip_ends) simp_all
qed

lemma strip_fields:
  assumes "\<forall>x \<in> set fs. field_ok x" "fs \<noteq> []"
  shows "py_strip (fields_text fs) = fields_text fs"
  unfolding fields_join
proof (rule strip_join)
  show "\<forall>t \<in> set (map (\<lambda>(k, v). k @ lit ''='' @ v) fs). plain_word py_space t"
    using assms(1) by (fastforce simp: field_ok_def plain_word_def lit_def py_space_def is_space_def)
qed (use assms(2) in simp)

lemma strip_timing:
  assumes "method \<in> set tsc_methods"
  shows "py_strip (fields_text (internal_timing hz method t)) = fields_text (internal_timing hz method t)"
proof -
  have "internal_timing hz method t \<noteq> []" by (simp add: internal_timing_def)
  with timing_fields_ok [OF conjunct1 [OF methods_plain [OF assms]]] show ?thesis by (intro strip_fields) simp_all
qed

lemma invoke_body:
  assumes "logs_apart c" "x \<in> set (invoke_lines c k tm call out)"
  shows "body_line x"
proof -
  have "unlike_reply x \<or> (\<exists>n \<in> set reply_markers. \<exists>v. x = marker n v)"
    using assms keypath_unlike [of c k tm] exec_unlike [of c k tm] rest_unlike
    unfolding invoke_lines_def report_lines_def trace_lines_def result_lines_def logs_apart_def reply_markers_def
    by (auto split: option.splits if_splits)
  then show ?thesis using report_names_ok marker_body by (auto simp: unlike_reply_def)
qed

lemma report_marks:
  fixes k :: bool and tm :: KmsTimingTrailer and call :: invocation
  assumes "logs_apart c" "out_trace o' = Some t" "out_ct o' = Some ct" "g_c1_tsc_frequency_method c \<in> set tsc_methods"
  defines "body \<equiv> invoke_lines c k tm (Some call) (Some o')"
  shows "marks body (lit ''RESULT_HEX'') = Some (hex_string (out_result o'))" "marks body (lit ''CT_HEX'') = Some (hex_string (take 65 ct))"
    "marks body (lit ''RID_HEX'') = Some (hex_string (tr_rid t))"
    "marks body (lit ''ACSC_TRACE_INTERNAL_TIMING'') =
       Some (fields_text (internal_timing (g_c1_tsc_hz c) (g_c1_tsc_frequency_method c) t))"
proof -
  let ?pre = "[marker ''ENCLAVE_KEY_CACHE_HIT'' (if k then lit ''0'' else lit ''1''), marker ''KMS_CONTACTED'' (if k then lit ''1'' else lit ''0'')] @
    keypath_log c @ keypath_lines c k tm @ run_log c"
  let ?rid = "marker ''RID_HEX'' (hex_string (tr_rid t))" and ?ct = "marker ''CT_HEX'' (hex_string (take 65 ct))"
  let ?tm = "marker ''ACSC_TRACE_INTERNAL_TIMING'' (fields_text (internal_timing (g_c1_tsc_hz c) (g_c1_tsc_frequency_method c) t))"
  let ?res = "marker ''RESULT_HEX'' (hex_string (out_result o'))" and ?loop = "lit ''Loop finished.''"
  let ?mid = "[marker ''ACSC_TRACE_E3_PAYLOAD'' (fields_text (payload_fields t)), marker ''ACSC_TRACE_FUNCTION_CACHE'' (fields_text (cache_fields t))]"
  let ?ex = "exec_lines c k tm call o' @ [lit ''Encrypted Result Size: '' @ dec_string (unat (out_size o'))]"
  have body: "body = ?pre @ [?rid] @ ?mid @ [?tm] @ ?ex @ [?ct] @ [?res] @ [?loop] @ end_log c"
    using assms(2,3) unfolding body_def invoke_lines_def report_lines_def trace_lines_def result_lines_def by simp
  have "\<forall>x \<in> set ?mid. unlike_reply x" "\<forall>x \<in> set ?ex. unlike_reply x" "\<forall>x \<in> set [?loop]. unlike_reply x" "\<forall>x \<in> set (end_log c). unlike_reply x"
    using rest_unlike exec_unlike [of c k tm call o'] assms(1) by (simp_all add: logs_apart_def)
  from this [THEN clear_ofI(1)] have u: "clear_of n ?mid" "clear_of n ?ex" "clear_of n [?loop]" "clear_of n (end_log c)" for n .
  have n: "''RESULT_HEX'' \<in> set reply_markers" "''CT_HEX'' \<in> set reply_markers" "''RID_HEX'' \<in> set reply_markers"
    "''ACSC_TRACE_INTERNAL_TIMING'' \<in> set reply_markers" by (simp_all add: reply_markers_def)
  have c: "clear_of m [?res]" if "m \<noteq> ''RESULT_HEX''" for m by (rule clear_ofI(2) [OF n(1)]) (use that in simp)
  have d: "clear_of m [?ct]" if "m \<noteq> ''CT_HEX''" for m by (rule clear_ofI(2) [OF n(2)]) (use that in simp)
  have e: "clear_of m [?tm]" if "m \<noteq> ''ACSC_TRACE_INTERNAL_TIMING''" for m by (rule clear_ofI(2) [OF n(4)]) (use that in simp)
  have r: "clear_of ''RESULT_HEX'' (?loop # end_log c)"
    by (subst clear_of_simps(2)) (intro conjI u)
  have ct: "clear_of ''CT_HEX'' (?res # ?loop # end_log c)"
    by (subst clear_of_simps(2), subst (2) clear_of_simps(2)) (intro conjI u c, simp)
  have t: "clear_of ''ACSC_TRACE_INTERNAL_TIMING'' (?ex @ ?ct # ?res # ?loop # end_log c)"
    by (subst clear_of_simps(3), subst clear_of_simps(2), subst (2) clear_of_simps(2), subst (3) clear_of_simps(2)) (intro conjI u c d; simp)
  have rid: "clear_of ''RID_HEX'' (?mid @ [?tm] @ ?ex @ ?ct # ?res # ?loop # end_log c)"
    by (subst clear_of_simps(3), subst clear_of_simps(3), subst clear_of_simps(3), subst clear_of_simps(2), subst (2) clear_of_simps(2),
        subst (3) clear_of_simps(2)) (intro conjI u c d e; simp)
  have "marks ((?pre @ [?rid] @ ?mid @ [?tm] @ ?ex @ [?ct]) @ ?res # ?loop # end_log c) (lit ''RESULT_HEX'') = Some (py_strip (hex_string (out_result o')))"
    by (rule marks_at [OF n(1) r])
  then show "marks body (lit ''RESULT_HEX'') = Some (hex_string (out_result o'))" by (simp add: body)
  have "marks ((?pre @ [?rid] @ ?mid @ [?tm] @ ?ex) @ ?ct # ?res # ?loop # end_log c) (lit ''CT_HEX'') = Some (py_strip (hex_string (take 65 ct)))"
    by (rule marks_at [OF n(2) ct])
  then show "marks body (lit ''CT_HEX'') = Some (hex_string (take 65 ct))" by (simp add: body)
  have "marks (?pre @ ?rid # ?mid @ [?tm] @ ?ex @ ?ct # ?res # ?loop # end_log c) (lit ''RID_HEX'') = Some (py_strip (hex_string (tr_rid t)))"
    by (rule marks_at [OF n(3) rid])
  then show "marks body (lit ''RID_HEX'') = Some (hex_string (tr_rid t))" by (simp add: body)
  have "marks ((?pre @ [?rid] @ ?mid) @ ?tm # ?ex @ ?ct # ?res # ?loop # end_log c) (lit ''ACSC_TRACE_INTERNAL_TIMING'') =
      Some (py_strip (fields_text (internal_timing (g_c1_tsc_hz c) (g_c1_tsc_frequency_method c) t)))"
    by (rule marks_at [OF n(4) t])
  then show "marks body (lit ''ACSC_TRACE_INTERNAL_TIMING'') =
       Some (fields_text (internal_timing (g_c1_tsc_hz c) (g_c1_tsc_frequency_method c) t))"
    by (simp add: body strip_timing [OF assms(4)])
qed

end
