(* ===== verification/AdapterRun.thy ===== *)
theory AdapterRun
  imports Adapter
begin

text \<open>
  What an exchange of the runtime adapter comes to: a request of plain words is answered by exactly what the worker did for
  it, and the client reads the output of the program in the answer; a name with a newline in it shifts all later replies.
\<close>

subsection \<open>The command line of a request\<close>

text \<open>
  The names the adapter hands over: words, and absolute paths. Only these reach the worker as they are.
\<close>

definition plain_request :: "adapter_paths \<Rightarrow> adapter_request \<Rightarrow> bool" where
  "plain_request p r \<longleftrightarrow> plain_word is_space (ar_fid r) \<and> plain_word is_space (ar_label r) \<and>
     (\<forall>f \<in> {WASM_FILE p, INPUT_FILE p, CKFUNC_FILE p, CKEY_FILE p, PKU_FILE p, NONCE_FILE p}. plain_word is_space f \<and> hd f = 47)"

definition request_args :: "adapter_paths \<Rightarrow> adapter_request \<Rightarrow> InvokeArgs" where
  "request_args p r = \<lparr>ia_fid = ar_fid r, ia_wasm_file = WASM_FILE p, ia_input_file = INPUT_FILE p, ia_label = ar_label r,
     ia_c_k_func_file = CKFUNC_FILE p, ia_c_key_file = CKEY_FILE p, ia_pku_file = PKU_FILE p, ia_nonce_file = NONCE_FILE p,
     ia_max_output_bytes = of_int (ar_capacity r)\<rparr>"

lemma split_lines_one: "10 \<notin> set s \<Longrightarrow> split_lines s = [s]"
  by (induction s) auto

lemma plain_no_newline: "plain_word is_space t \<Longrightarrow> 10 \<notin> set t"
  by (auto simp: plain_word_def is_space_def)

lemma join_no_newline: "\<forall>t \<in> set ts. plain_word is_space t \<Longrightarrow> 10 \<notin> set (join_words ts)"
  using plain_no_newline by (induction ts rule: join_words.induct) auto

lemma int_text_dec: "0 \<le> n \<Longrightarrow> int_text n = dec_string (nat n)"
  by (simp add: int_text_def)

lemma capacity_text:
  assumes "1 \<le> n" "n \<le> 1048576"
  shows "output_capacity (int_text n) = Some (of_int n)"
proof -
  let ?s = "dec_string (nat n)"
  have d: "?s \<noteq> []" "\<forall>c \<in> set ?s. is_digit c" "dec_value ?s = n" using dec_string_digits [of "nat n"] assms by simp_all
  then have h: "\<not> is_space (hd ?s)" "hd ?s \<noteq> 45" "hd ?s \<noteq> 43" using digit_space [of "hd ?s"] by auto
  have w: "dropWhile is_space ?s = ?s" using d(1) h(1) by (cases ?s) auto
  have t: "takeWhile is_digit ?s = ?s" "dropWhile is_digit ?s = []" using d(2) by (simp_all add: takeWhile_eq_all_conv)
  have "scan_int ?s = Some (False, n, [])" using d h by (simp add: scan_int_def Let_def w t)
  with assms d(1) show ?thesis
    by (simp add: int_text_dec output_capacity_def strtoul_def ULONG_MAX_def ASYNCS_MAX_OUTPUT_CAPACITY_BYTES_def)
qed

lemma tokens_plain:
  assumes "plain_request p r" "valid_request r"
  shows "\<forall>t \<in> set (invoke_tokens p r). plain_word is_space t"
proof -
  have "plain_word is_space (int_text (ar_capacity r))" using assms(2) dec_plain(2) by (simp add: valid_request_def int_text_dec)
  moreover have "plain_word is_space (lit ''invoke'')" "plain_word is_space (lit ''--label'')" "plain_word is_space (lit ''--keys'')"
    "plain_word is_space (lit ''--max-output-bytes'')" by (simp_all add: plain_word_def lit_def is_space_def)
  ultimately show ?thesis using assms(1) by (simp add: invoke_tokens_def plain_request_def)
qed

lemma parse_request_tokens:
  assumes "plain_request p r" "valid_request r"
  shows "parse_invoke_tokens (invoke_tokens p r) = Inr (request_args p r)"
proof -
  have "hd (lit ''--label'') = 45" "hd (lit ''--keys'') = 45" "hd (lit ''--max-output-bytes'') = 45" by (simp_all add: lit_def)
  then have "PKU_FILE p \<noteq> lit ''--label''" "PKU_FILE p \<noteq> lit ''--keys''" "PKU_FILE p \<noteq> lit ''--max-output-bytes''"
    using assms(1) by (auto simp: plain_request_def)
  moreover have "CKFUNC_FILE p \<noteq> []" "CKEY_FILE p \<noteq> []" using assms(1) by (simp_all add: plain_request_def plain_word_def)
  moreover have "output_capacity (int_text (ar_capacity r)) = Some (of_int (ar_capacity r))"
    by (rule capacity_text) (use assms(2) in \<open>simp_all add: valid_request_def\<close>)
  ultimately show ?thesis by (simp add: parse_invoke_tokens_def invoke_tokens_def request_args_def)
qed

text \<open>The adapter's line is the command the adapter means.\<close>

lemma request_line:
  assumes "plain_request p r" "valid_request r"
  shows "split_lines (join_words (invoke_tokens p r)) = [join_words (invoke_tokens p r)]"
    "split_tokens (join_words (invoke_tokens p r)) = invoke_tokens p r" "join_words (invoke_tokens p r) \<noteq> lit ''exit''"
proof -
  have s: "is_space 32" by (simp add: is_space_def)
  show "split_lines (join_words (invoke_tokens p r)) = [join_words (invoke_tokens p r)]"
    using join_no_newline [OF tokens_plain [OF assms]] by (rule split_lines_one)
  show t: "split_tokens (join_words (invoke_tokens p r)) = invoke_tokens p r"
    unfolding split_tokens_words by (rule words_join [of is_space, OF s tokens_plain [OF assms]])
  have "split_tokens (lit ''exit'') = [lit ''exit'']"
    unfolding split_tokens_words using words_join [of is_space "[lit ''exit'']", OF s] by (simp add: plain_word_def lit_def is_space_def)
  with t show "join_words (invoke_tokens p r) \<noteq> lit ''exit''" by (auto simp: invoke_tokens_def)
qed

subsection \<open>One exchange\<close>

lemma first_response:
  assumes "\<forall>x \<in> set body. body_line x"
  shows "takeWhile (\<lambda>t. t \<noteq> lit ''END_RESPONSE'') ([lit ''BEGIN_RESPONSE''] @ body @ [marker ''RC'' z, lit ''END_RESPONSE''] @ rest) =
      [lit ''BEGIN_RESPONSE''] @ body @ [marker ''RC'' z]"
    "dropWhile (\<lambda>t. t \<noteq> lit ''END_RESPONSE'') ([lit ''BEGIN_RESPONSE''] @ body @ [marker ''RC'' z, lit ''END_RESPONSE''] @ rest) =
      lit ''END_RESPONSE'' # rest"
  using assms colon_ends [OF marker_colon, of "''RC''" z] by (simp_all add: body_line_def takeWhile_append dropWhile_append)

text \<open>The body of the response to the adapter's command.\<close>

lemma request_is_kem: "ia_pku_file args \<noteq> [] \<Longrightarrow> load_invocation e args = Some call \<Longrightarrow> snd call"
  by (auto simp: load_invocation_def bind_eq_Some_conv Let_def split: if_splits)

lemma kem_output_parts:
  assumes "do_invoke m s rt e sim args allow a = Returned (rc, out, a')" "ia_pku_file args \<noteq> []"
  shows "rc = (if out = None then -1 else 0) \<and>
    (\<forall>y. out = Some y \<longrightarrow> (\<exists>call ct t. load_invocation e args = Some call \<and> out_ct y = Some ct \<and> length ct = 65 \<and> out_trace y = Some t))"
  using assms(1)
proof (cases rule: do_invoke_cases)
  case (2 a1 call)
  from request_is_kem [OF assms(2) 2(2)] have k: "snd call" .
  have "\<exists>ct t. out_ct y = Some ct \<and> length ct = 65 \<and> out_trace y = Some t" if "out = Some y" for y
    using 2(3) k that by (auto simp: run_invocation_def is_valid_p256_point_be_def Let_def split: if_splits prod.splits)
  with 2 show ?thesis by auto
qed simp

text \<open>The command of a request, served: the lines of its response, and the process after it.\<close>

lemma request_served:
  assumes "plain_request paths r" "valid_request r"
    and "do_invoke m s rt (es n) sim (request_args paths r) True a = Returned (rc, out, a')"
  shows "\<exists>k. serve_lines m s rt es cs sim (split_lines (join_words (invoke_tokens paths r))) a n =
    ([lit ''BEGIN_RESPONSE''] @ invoke_lines (cs n) k (g_kms_timing a') (map_option fst (load_invocation (es n) (request_args paths r))) out @
     [marker ''RC'' (int_text rc), lit ''END_RESPONSE''], Serving a' (n + 1))"
proof -
  let ?t = "invoke_tokens paths r"
  have t: "?t \<noteq> []" "?t ! 0 = lit ''invoke''" by (simp_all add: invoke_tokens_def)
  have "run_command m s rt (es n) sim ?t a = Returned (\<lparr>sr_error = None, sr_rc = rc, sr_out = out\<rparr>, a')"
    using assms(3) t(2) by (simp add: run_command_def parse_request_tokens [OF assms(1,2)])
  then have "serve_lines m s rt es cs sim (split_lines (join_words ?t)) a n =
      (response_lines (cs n) (es n) ?t a \<lparr>sr_error = None, sr_rc = rc, sr_out = out\<rparr> a', Serving a' (n + 1))"
    unfolding request_line(1) [OF assms(1,2)]
    by (simp only: serve_lines.simps request_line(2,3) [OF assms(1,2)] t(1) if_False proc.case prod.case Let_def append_Nil2)
  moreover have "response_lines (cs n) (es n) ?t a \<lparr>sr_error = None, sr_rc = rc, sr_out = out\<rparr> a' =
      [lit ''BEGIN_RESPONSE''] @ invoke_lines (cs n) (needs_kms (es n) (request_args paths r) True a) (g_kms_timing a')
        (map_option fst (load_invocation (es n) (request_args paths r))) out @ [marker ''RC'' (int_text rc), lit ''END_RESPONSE'']"
    unfolding response_lines_def t(2) parse_request_tokens [OF assms(1,2)] by simp
  ultimately show ?thesis by (intro exI [of _ "needs_kms (es n) (request_args paths r) True a"]) simp
qed

definition same_profile :: "bytes \<Rightarrow> worker_process \<Rightarrow> bool" where
  "same_profile profile w \<longleftrightarrow> wp_profile w = (if profile = [] then lit ''eccibe'' else profile)"

lemma start_running: "same_profile profile w \<Longrightarrow> wp_state w \<noteq> Gone \<Longrightarrow> start_sgx_worker spawn profile (Some w) = (True, Some w)"
  by (simp add: start_sgx_worker_def same_profile_def Let_def)

lemma timing_trace_only:
  "worker_internal_timing_trace markers = worker_internal_timing_trace markers'"
  if "markers (lit ''ACSC_TRACE_INTERNAL_TIMING'') = markers' (lit ''ACSC_TRACE_INTERNAL_TIMING'')"
  using that by (simp add: worker_internal_timing_trace_def)

definition reply_to :: "run_clock \<Rightarrow> invoke_output option \<Rightarrow> run_reply" where
  "reply_to c out =
     (case out of
        None \<Rightarrow> WorkerFailed
      | Some y \<Rightarrow>
          Answer (out_result y) (out_ct y) (map_option (\<lambda>t. hex_string (tr_rid t)) (out_trace y))
            (worker_internal_timing_trace (\<lambda>_. map_option (\<lambda>t. fields_text (internal_timing (g_c1_tsc_hz c) (g_c1_tsc_frequency_method c) t))
              (out_trace y))))"

lemma adapter_exchange:
  assumes "plain_request paths r" "valid_request r" "logs_apart (cs n)" "g_c1_tsc_frequency_method (cs n) \<in> set tsc_methods"
    and w: "wp_state w = Serving a n" "wp_unread w = []" "same_profile (ar_profile r) w"
    and d: "do_invoke m s rt (with_files (request_files paths r) (es n)) sim (request_args paths r) True a = Returned (rc, out, a')"
  shows "adapter_run m s rt es cs sim spawn paths r (Some w) = Some (reply_to (cs n) out, Some (w\<lparr>wp_state := Serving a' (n + 1)\<rparr>))"
proof -
  let ?es = "\<lambda>n. with_files (request_files paths r) (es n)"
  obtain k where s: "serve_lines m s rt ?es cs sim (split_lines (join_words (invoke_tokens paths r))) a n =
    ([lit ''BEGIN_RESPONSE''] @ invoke_lines (cs n) k (g_kms_timing a') (map_option fst (load_invocation (?es n) (request_args paths r))) out @
     [marker ''RC'' (int_text rc), lit ''END_RESPONSE''], Serving a' (n + 1))"
    using request_served [OF assms(1,2), of m s rt ?es n sim a rc out a' cs] d by blast
  let ?body = "invoke_lines (cs n) k (g_kms_timing a') (map_option fst (load_invocation (?es n) (request_args paths r))) out"
  have "ia_pku_file (request_args paths r) \<noteq> []" using assms(1) by (simp add: request_args_def plain_request_def plain_word_def)
  note o' = kem_output_parts [OF d this]
  have b: "\<forall>x \<in> set ?body. body_line x" using invoke_body [OF assms(3)] by blast
  have rc: "\<bar>rc\<bar> < 2 ^ 63" using o' by (simp split: if_splits)
  have i: "invoke_sgx_worker m s rt ?es cs sim spawn (invoke_tokens paths r) (ar_profile r) (Some w) =
      Some (Inr (rc, ?body, marks ?body), Some (w\<lparr>wp_state := Serving a' (n + 1)\<rparr>))"
    using first_response [OF b, of "int_text rc" "[]"] parse_response [OF b rc] w(1,2) start_running [OF w(3)] s
    by (simp add: invoke_sgx_worker_def)
  have "reply_of_markers rc (marks ?body) = reply_to (cs n) out"
  proof (cases out)
    case None
    with o' show ?thesis by (simp add: reply_of_markers_def reply_to_def)
  next
    case (Some y)
    with o' obtain call ct t where y: "load_invocation (?es n) (request_args paths r) = Some call" "out_ct y = Some ct" "length ct = 65"
      "out_trace y = Some t" "rc = 0" by auto
    note mk = report_marks [OF assms(3) y(4,2) assms(4), of k "g_kms_timing a'" "fst call"]
    have "worker_internal_timing_trace (marks ?body) = worker_internal_timing_trace (\<lambda>_. Some (fields_text
        (internal_timing (g_c1_tsc_hz (cs n)) (g_c1_tsc_frequency_method (cs n)) t)))"
      by (rule timing_trace_only) (simp add: y(1) Some mk)
    moreover from y(3) have "take 65 ct = ct" by simp
    ultimately show ?thesis using mk y Some by (simp add: reply_of_markers_def reply_to_def)
  qed
  with i assms(2) show ?thesis by (simp add: adapter_run_def)
qed

subsection \<open>Replies that lag behind\<close>

text \<open>The commands a text holds, and the responses waiting in the pipe.\<close>

definition commands_in :: "bytes \<Rightarrow> bytes list" where
  "commands_in s = filter (\<lambda>line. split_tokens line \<noteq> []) (takeWhile (\<lambda>line. line \<noteq> lit ''exit'') (split_lines s))"

abbreviation waiting :: "bytes list \<Rightarrow> nat" where
  "waiting ls \<equiv> count_list ls (lit ''END_RESPONSE'')"

lemma waiting_pos: "0 < waiting ls \<longleftrightarrow> lit ''END_RESPONSE'' \<in> set ls"
  using count_list_0_iff [of ls "lit ''END_RESPONSE''"] by auto

lemma response_waiting:
  assumes "logs_apart c"
  shows "waiting (response_lines c e ts a reply a') = 1"
proof -
  have z: "waiting ls = 0" if "\<forall>x \<in> set ls. body_line x" for ls using that by (auto simp: body_line_def count_list_0_iff)
  have "waiting (run_log c) = 0" by (rule z) (use assms in \<open>auto simp: logs_apart_def unlike_reply_def\<close>)
  moreover have "waiting (invoke_lines c k tm call out) = 0" for k tm call out by (rule z) (use invoke_body [OF assms] in blast)
  moreover have "marker n v \<noteq> lit ''END_RESPONSE''" for n v using colon_ends [OF marker_colon] by blast
  moreover have "lit ''BEGIN_RESPONSE'' \<noteq> lit ''END_RESPONSE''" by simp
  ultimately show ?thesis by (simp add: response_lines_def num_marker_def split: option.split sum.split)
qed

lemma served_waiting:
  "\<forall>i. logs_apart (cs i) \<Longrightarrow> serve_lines m s rt es cs sim lines a n = (out, Serving a' k) \<Longrightarrow>
   waiting out = length (filter (\<lambda>line. split_tokens line \<noteq> []) (takeWhile (\<lambda>line. line \<noteq> lit ''exit'') lines))"
proof (induction m s rt es cs sim lines a n arbitrary: out rule: serve_lines.induct)
  case (2 m s rt es cs sim line rest a n)
  show ?case
  proof (cases "line = lit ''exit'' \<or> split_tokens line = []")
    case True
    with 2 show ?thesis by auto
  next
    case False
    with 2(4) obtain reply a1 out1 where r: "run_command m s rt (es n) sim (split_tokens line) a = Returned (reply, a1)"
      "serve_lines m s rt es cs sim rest a1 (n + 1) = (out1, Serving a' k)"
      "out = response_lines (cs n) (es n) (split_tokens line) a reply a1 @ out1"
      by (auto split: proc.splits prod.splits)
    with False 2(2) [OF _ _ r(1)] 2(3) response_waiting [of "cs n"] show ?thesis by simp
  qed
qed simp

lemma drop_to_end: "x \<in> set l \<Longrightarrow> \<exists>r. dropWhile (\<lambda>t. t \<noteq> x) l = x # r"
  by (induction l) auto

text \<open>What an exchange does to the responses waiting; a reply that waits is given out before the new command counts.\<close>

lemma exchange_waiting:
  assumes "\<forall>i. logs_apart (cs i)" "same_profile profile w" "wp_state w = Serving a n"
    and "invoke_sgx_worker m s rt es cs sim spawn tokens profile (Some w) = Some (res, Some w')" "wp_state w' = Serving a' n'"
  shows "waiting (wp_unread w') + 1 = waiting (wp_unread w) + length (commands_in (join_words tokens))"
proof -
  obtain out st where s: "serve_lines m s rt es cs sim (split_lines (join_words tokens)) a n = (out, st)" by fastforce
  let ?l = "wp_unread w @ out"
  have st: "start_sgx_worker spawn profile (Some w) = (True, Some w)" by (rule start_running) (use assms(2,3) in simp_all)
  from assms(4) have r: "(if lit ''END_RESPONSE'' \<in> set ?l
      then Some (parse_worker_response (takeWhile (\<lambda>t. t \<noteq> lit ''END_RESPONSE'') ?l @ [lit ''END_RESPONSE'']),
                  Some (w\<lparr>wp_state := st, wp_unread := tl (dropWhile (\<lambda>t. t \<noteq> lit ''END_RESPONSE'') ?l)\<rparr>))
      else if st = Gone then Some (Inl ''worker exited before END_RESPONSE'', Some (w\<lparr>wp_state := st, wp_unread := []\<rparr>))
      else None) = Some (res, Some w')"
    by (simp only: invoke_sgx_worker_def st assms(3) worker_state.case s prod.case option.case bool.case Let_def)
  have e: "lit ''END_RESPONSE'' \<in> set ?l"
  proof (rule ccontr)
    assume "lit ''END_RESPONSE'' \<notin> set ?l"
    with r assms(5) show False by (auto split: if_splits)
  qed
  from r have w': "w' = w\<lparr>wp_state := st, wp_unread := tl (dropWhile (\<lambda>t. t \<noteq> lit ''END_RESPONSE'') ?l)\<rparr>"
    by (simp only: if_P [OF e] option.inject prod.inject simp_thms)
  then have st': "st = Serving a' n'" and u: "wp_unread w' = tl (dropWhile (\<lambda>t. t \<noteq> lit ''END_RESPONSE'') ?l)" using assms(5) by simp_all
  have "waiting ?l = waiting (takeWhile (\<lambda>t. t \<noteq> lit ''END_RESPONSE'') ?l @ dropWhile (\<lambda>t. t \<noteq> lit ''END_RESPONSE'') ?l)"
    by (simp only: takeWhile_dropWhile_id)
  moreover have "waiting (takeWhile (\<lambda>t. t \<noteq> lit ''END_RESPONSE'') ?l) = 0" by (auto simp: count_list_0_iff dest: set_takeWhileD)
  moreover obtain r where "dropWhile (\<lambda>t. t \<noteq> lit ''END_RESPONSE'') ?l = lit ''END_RESPONSE'' # r" using drop_to_end [OF e] by blast
  ultimately have "waiting ?l = waiting (wp_unread w') + 1" by (simp only: u count_list_append list.sel) simp
  moreover have "waiting out = length (commands_in (join_words tokens))"
    unfolding commands_in_def by (rule served_waiting [OF assms(1) s [unfolded st']])
  ultimately show ?thesis by simp
qed

lemma waiting_first:
  assumes "lit ''END_RESPONSE'' \<in> set (wp_unread w)" "same_profile profile w" "wp_state w \<noteq> Gone"
  shows "\<exists>w'. invoke_sgx_worker m s rt es cs sim spawn tokens profile (Some w) =
    Some (parse_worker_response (takeWhile (\<lambda>t. t \<noteq> lit ''END_RESPONSE'') (wp_unread w) @ [lit ''END_RESPONSE'']), Some w')"
proof -
  obtain out st where s: "(case wp_state w of Serving a n \<Rightarrow> serve_lines m s rt es cs sim (split_lines (join_words tokens)) a n | x \<Rightarrow> ([], x)) = (out, st)"
    by fastforce
  have "takeWhile (\<lambda>t. t \<noteq> lit ''END_RESPONSE'') (wp_unread w @ out) = takeWhile (\<lambda>t. t \<noteq> lit ''END_RESPONSE'') (wp_unread w)"
    using assms(1) by (auto simp: takeWhile_append)
  with assms s show ?thesis by (simp add: invoke_sgx_worker_def start_running Let_def)
qed

subsection \<open>A function call, end to end\<close>

text \<open>The call the process makes of a request: what the request holds, and the code in the process's own file.\<close>

definition request_call :: "adapter_request \<Rightarrow> bytes \<Rightarrow> invocation" where
  "request_call r wasm =
     \<lparr>encrypted_wasm = drop 28 wasm, encrypted_input = drop 28 (ar_input r), c_k_func = Some (ar_c_k_func r), c_key = Some (ar_c_key r),
      nonce = ar_nonce r, pkU = ar_pku r, max_out_size = of_int (ar_capacity r), wasm_iv = take 12 wasm, wasm_mac = slice 12 16 wasm,
      input_iv = take 12 (ar_input r), input_mac = slice 12 16 (ar_input r)\<rparr>"

definition separate_files :: "adapter_paths \<Rightarrow> bool" where
  "separate_files p \<longleftrightarrow>
     (let fs = [WASM_FILE p, INPUT_FILE p, CKFUNC_FILE p, CKEY_FILE p, PKU_FILE p, NONCE_FILE p] in distinct fs \<and> (\<forall>f \<in> set fs. 0 \<notin> set f))"

lemma request_loads:
  assumes "plain_request p r" "separate_files p" "load_invocation (with_files (request_files p r) e) (request_args p r) = Some call"
  shows "\<exists>wasm. read_file e (WASM_FILE p) = Some wasm \<and> call = (request_call r wasm, True)"
proof -
  have c: "cstr f = f" if "f \<in> {WASM_FILE p, INPUT_FILE p, CKFUNC_FILE p, CKEY_FILE p, PKU_FILE p, NONCE_FILE p}" for f
    by (rule cstr_id) (use assms(2) that in \<open>auto simp: separate_files_def Let_def\<close>)
  have n: "PKU_FILE p \<noteq> []" "NONCE_FILE p \<noteq> []" using assms(1) by (simp_all add: plain_request_def plain_word_def)
  let ?rd = "read_file (with_files (request_files p r) e)"
  have rd: "?rd (WASM_FILE p) = read_file e (WASM_FILE p)" "?rd (INPUT_FILE p) = Some (ar_input r)" "?rd (CKFUNC_FILE p) = Some (ar_c_k_func r)"
    "?rd (CKEY_FILE p) = Some (ar_c_key r)" "?rd (PKU_FILE p) = Some (ar_pku r)" "?rd (NONCE_FILE p) = Some (ar_nonce r)"
    using assms(2) by (auto simp: with_files_def request_files_def separate_files_def Let_def split: option.splits)
  from assms(3) show ?thesis
    by (auto simp: load_invocation_def request_args_def c rd n request_call_def bind_eq_Some_conv Let_def split: if_splits)
qed

lemma with_files_exchange: "exchange (with_files fs e) = exchange e"
  by (simp add: with_files_def)

lemma with_files_env [simp]: "exec_env (with_files fs e) = exec_env e"
  by (simp add: with_files_def)


text \<open>What an accepted invocation prints, for a caller who holds the private key of the request.\<close>

lemma accepted_output:
  assumes run: "do_invoke m s rt e sim args allow a = Returned (0, Some y, a')" "load_invocation e args = Some (call, True)"
    and laws: "runs (worker_step m s rt) worker_boot calls (worker_enclave a)" "sha_laws s" "programs_fit rt"
      "gcm_laws s" "ecdh_laws s" "env_laws s (env_kem (exec_env e))"
    and key: "pkU call = point_be p" "pub_from_priv s (rev sk) = Some p" "length sk = 32"
  obtains w u f hit code input outp res ct t rid where "calls_to m s rt (worker_enclave a) w" "enter_invocation w call = Some (u, f)"
    "invocation_result m s rt (exec_env e) w call u f hit code input outp res ct"
    "sha256_msg s (fid_to_bytes_or_str f @ c_req_full call) = Some rid" "tr_rid t = rid"
    "client_decrypt_result s ct res sk (fid_to_bytes_or_str f) rid (pkU call) = Some outp"
    "y = \<lparr>out_ct = Some ct, out_result = result_bytes res, out_size = result_size res, out_trace = Some t\<rparr>"
proof -
  obtain w ds u f res ct st where k: "runs (worker_step m s rt) worker_boot (calls @ ds) w" "runs (worker_step m s rt) (worker_enclave a) ds w"
    "enter_invocation w call = Some (u, f)" "run_kem m s rt (exec_env e) call u f (fresh_kem w) = (Some (res, ct), st)"
    "y = \<lparr>out_ct = Some ct, out_result = result_bytes res, out_size = result_size res, out_trace = Some (rs_t st)\<rparr>"
    by (rule accepted_kem [OF laws(1-3) run]) simp
  from run_kem_Some [OF k(4) _ _ laws(2,3)] reachable_inv(1) [OF k(1) laws(2)] entered_owner [OF k(3)]
  obtain hit code input outp where i: "invocation_result m s rt (exec_env e) w call u f hit code input outp res ct" by auto
  from result_decrypts [OF i laws(2,4-6) key] obtain rid where d: "sha256_msg s (fid_to_bytes_or_str f @ c_req_full call) = Some rid"
    "client_decrypt_result s ct res sk (fid_to_bytes_or_str f) rid (pkU call) = Some outp" by blast
  have "compute_rid_from_fid_and_c_req s (malloc_ok (env_main (exec_env e)) 1) f (c_req_full call) = Some rid"
    using d(1) k(4) by (auto simp: compute_rid_from_fid_and_c_req_def run_kem_def simp del: One_nat_def split: if_splits)
  with run_kem_head [of m s rt "exec_env e" call u f "fresh_kem w"] k(4) have "tr_rid (rs_t st) = rid" by (simp add: trace_head_def)
  moreover have "calls_to m s rt (worker_enclave a) w" using k(2) unfolding calls_to_def by (rule exI)
  ultimately show thesis using that k(3,5) i d by blast
qed

text \<open>
  C5: a function call through the runtime adapter, end to end. A request whose names are plain words, sent to a running
  worker that has nothing left to read, is always answered if the key server ends its connections, and by exactly what the worker did for it: either the
  invocation failed and the adapter says so, or the answer holds the output of an invocation of the worker enclave on the
  request's own files and the deployed code package, with the encapsulation and the request identifier, and whoever holds the private key
  of the request decrypts it to what the program wrote. The process is left ready for the next request, with nothing to read and an enclave
  that has served a sequence of ECALLs.
\<close>

theorem function_call_answered:
  assumes "plain_request paths r" "valid_request r" "separate_files paths"
    and "logs_apart (cs n)" "g_c1_tsc_frequency_method (cs n) \<in> set tsc_methods"
    and "wp_state w = Serving a n" "wp_unread w = []" "same_profile (ar_profile r) w"
    and "runs (worker_step m s rt) worker_boot calls (worker_enclave a)" "sha_laws s" "programs_fit rt"
    and "gcm_laws s" "ecdh_laws s" "env_laws s (env_kem (exec_env (es n)))"
    and "ar_pku r = point_be p" "pub_from_priv s (rev sk) = Some p" "length sk = 32"
    and "ending (arrives (exchange (es n))) \<noteq> Open" "sim \<or> qe_target_info (exchange (es n)) = QlSuccess"
  shows "\<exists>rc out a' reply.
    do_invoke m s rt (with_files (request_files paths r) (es n)) sim (request_args paths r) True a = Returned (rc, out, a') \<and>
    calls_to m s rt (worker_enclave a) (worker_enclave a') \<and>
    adapter_run m s rt es cs sim spawn paths r (Some w) = Some (reply, Some (w\<lparr>wp_state := Serving a' (n + 1)\<rparr>)) \<and>
    (if out = None then reply = WorkerFailed
     else \<exists>package e u f hit code input outp res ct rid timing.
       reply = Answer (result_bytes res) (Some ct) (Some (hex_string rid)) timing \<and>
       read_file (es n) (WASM_FILE paths) = Some package \<and> calls_to m s rt (worker_enclave a) e \<and>
       enter_invocation e (request_call r package) = Some (u, f) \<and>
       invocation_result m s rt (exec_env (es n)) e (request_call r package) u f hit code input outp res ct \<and>
       sha256_msg s (fid_to_bytes_or_str f @ c_req_full (request_call r package)) = Some rid \<and>
       client_decrypt_result s ct res sk (fid_to_bytes_or_str f) rid (ar_pku r) = Some outp)"
proof -
  let ?e = "with_files (request_files paths r) (es n)"
  obtain rc out a' where run: "do_invoke m s rt ?e sim (request_args paths r) True a = Returned (rc, out, a')"
    using invoke_returns [of ?e sim m s rt "request_args paths r" True a] assms(18,19) unfolding with_files_exchange by blast
  note x = adapter_exchange [where spawn = spawn and cs = cs and es = es and n = n, OF assms(1,2,4-8) run] and c = invoke_calls [OF run]
  show ?thesis
  proof (cases out)
    case None
    with x run c show ?thesis by (simp add: reply_to_def)
  next
    case (Some y)
    have pk: "ia_pku_file (request_args paths r) \<noteq> []" using assms(1) by (simp add: request_args_def plain_request_def plain_word_def)
    from kem_output_parts [OF run pk] Some obtain call where call: "load_invocation ?e (request_args paths r) = Some call" and rc: "rc = 0"
      by auto
    from request_loads [OF assms(1,3) call] obtain package where l: "read_file (es n) (WASM_FILE paths) = Some package"
      "call = (request_call r package, True)" by blast
    let ?c = "request_call r package"
    have pk: "pkU ?c = point_be p" "pkU ?c = ar_pku r" using assms(15) by (simp_all add: request_call_def)
    obtain e u f hit code input outp res ct t rid where o: "calls_to m s rt (worker_enclave a) e" "enter_invocation e ?c = Some (u, f)"
      "invocation_result m s rt (exec_env (es n)) e ?c u f hit code input outp res ct"
      "sha256_msg s (fid_to_bytes_or_str f @ c_req_full ?c) = Some rid" "tr_rid t = rid"
      "client_decrypt_result s ct res sk (fid_to_bytes_or_str f) rid (pkU ?c) = Some outp"
      "y = \<lparr>out_ct = Some ct, out_result = result_bytes res, out_size = result_size res, out_trace = Some t\<rparr>"
      by (rule accepted_output [OF run [unfolded rc Some] call [unfolded l(2)] assms(9-13) _ pk(1) assms(16,17)]) (use assms(14) in simp_all)
    then obtain timing where "reply_to (cs n) out = Answer (result_bytes res) (Some ct) (Some (hex_string rid)) timing"
      using Some by (simp add: reply_to_def)
    then show ?thesis unfolding x run using c Some l(1) o(1-4,6) pk(2)
      by (intro exI [of _ rc] exI [of _ out] exI [of _ a'] exI [of _ "reply_to (cs n) out"] conjI refl) (simp, simp, blast)
  qed
qed

definition quiet_clock :: run_clock where
  "quiet_clock = \<lparr>t_worker_invoke_begin_mono_ns = 0, t_keypath_begin_mono_ns = 0, t_keypath_begin_ns = 0, t_keypath_end_ns = 0,
     t_keypath_end_mono_ns = 0, t_exec_begin_mono_ns = 0, t_exec_begin_ns = 0, t_exec_end_ns = 0, t_exec_end_mono_ns = 0,
     t_worker_invoke_end_mono_ns = 0, measured_wait_kms_dur_ns = 0, measured_quote_gen_dur_ns = 0, measured_kms_send_mono_ns = 0,
     measured_kms_recv_mono_ns = 0, g_c1_tsc_hz = 1000, g_c1_tsc_frequency_method = ''cpuid_0x15_crystal'', keypath_log = [],
     run_log = [], end_log = []\<rparr>"

definition demo_paths :: adapter_paths where
  "demo_paths = \<lparr>WASM_FILE = lit ''/w'', INPUT_FILE = lit ''/i'', CKFUNC_FILE = lit ''/f'', CKEY_FILE = lit ''/k'', PKU_FILE = lit ''/p'',
     NONCE_FILE = lit ''/n''\<rparr>"

definition demo_request :: adapter_request where
  "demo_request = \<lparr>ar_fid = lit ''f1'', ar_label = lit ''l1'', ar_profile = [], ar_capacity = 64, ar_input = zero_bytes 28 @ [9],
     ar_c_k_func = demo_key, ar_c_key = demo_key, ar_pku = point_be null_point, ar_nonce = zero_bytes 16\<rparr>"

definition deployed_driver :: driver_env where
  "deployed_driver = demo_driver\<lparr>read_file := [lit ''/w'' \<mapsto> zero_bytes 28 @ [1, 2, 3]]\<rparr>"

definition serving_process :: "worker_app \<Rightarrow> worker_process" where
  "serving_process a = \<lparr>wp_profile = lit ''eccibe'', wp_state = Serving a 0, wp_unread = []\<rparr>"

lemma demo_adapter:
  "plain_request demo_paths demo_request" "valid_request demo_request" "separate_files demo_paths" "logs_apart quiet_clock"
  "g_c1_tsc_frequency_method quiet_clock \<in> set tsc_methods" "same_profile (ar_profile demo_request) (serving_process a)"
  by (simp_all add: plain_request_def valid_request_def separate_files_def logs_apart_def same_profile_def demo_paths_def demo_request_def
      quiet_clock_def serving_process_def tsc_methods_def plain_word_def lit_def is_space_def)

lemma demo_request_loads:
  "load_invocation (with_files (request_files demo_paths demo_request) deployed_driver) (request_args demo_paths demo_request) =
   Some (demo_invocation, True)"
proof -
  have c: "cstr (lit ''/w'') = lit ''/w''" "cstr (lit ''/i'') = lit ''/i''" "cstr (lit ''/f'') = lit ''/f''" "cstr (lit ''/k'') = lit ''/k''"
    "cstr (lit ''/p'') = lit ''/p''" "cstr (lit ''/n'') = lit ''/n''"
    by (rule lit_cstr, simp add: lit_def)+
  show ?thesis
    by (simp add: load_invocation_def with_files_def request_files_def request_args_def demo_paths_def demo_request_def deployed_driver_def c
        demo_file_facts len32_def demo_invocation_def)
qed

lemma other_files: "run_invocation m s rt (e\<lparr>read_file := rd\<rparr>) call w = run_invocation m s rt e call w"
proof -
  have "left_over (e\<lparr>read_file := rd\<rparr>) = left_over e" "is_valid_p256_point_be (e\<lparr>read_file := rd\<rparr>) x = is_valid_p256_point_be e x" for x
    by (simp_all add: left_over_def is_valid_p256_point_be_def)
  moreover have "exchange (e\<lparr>read_file := rd\<rparr>) = exchange e" "exec_env (e\<lparr>read_file := rd\<rparr>) = exec_env e"
    "left_ct (e\<lparr>read_file := rd\<rparr>) = left_ct e" by simp_all
  ultimately show ?thesis by (simp only: run_invocation_def)
qed

lemma demo_request_runs:
  "\<exists>y a'. do_invoke toy_mcl null_sgx demo_runtime (with_files (request_files demo_paths demo_request) deployed_driver) True
     (request_args demo_paths demo_request) True loaded_process = Returned (0, Some y, a')"
proof -
  obtain y a1 where i: "do_invoke toy_mcl null_sgx demo_runtime demo_driver True demo_args True loaded_process = Returned (0, Some y, a1)"
    using demo_accepted by blast
  have d: "delivered (exchange demo_driver) 0" by (simp add: demo_driver_def demo_env_connection)
  obtain o1 w1 where r: "run_invocation toy_mcl null_sgx demo_runtime demo_driver (demo_invocation, True) demo_loaded = (o1, w1)" by fastforce
  with i demo_no_kms [OF demo_call_files d, where m = toy_mcl and s = null_sgx and rt = demo_runtime and sim = True]
  have o1: "o1 = Some y" by (simp add: demo_args_def split: if_splits)
  let ?e = "with_files (request_files demo_paths demo_request) deployed_driver"
  have d': "delivered (exchange ?e) 0" "ia_fid (request_args demo_paths demo_request) = lit ''f1''"
    using d by (simp_all add: with_files_def deployed_driver_def request_args_def demo_request_def)
  have "run_invocation toy_mcl null_sgx demo_runtime ?e (demo_invocation, True) demo_loaded = (Some y, w1)"
    unfolding deployed_driver_def with_files_def other_files using r o1 by simp
  with demo_no_kms [OF demo_request_loads d', where m = toy_mcl and s = null_sgx and rt = demo_runtime and sim = True] show ?thesis by simp
qed

theorem function_call_answered_witness:
  "\<exists>res ct rid timing f outp w. adapter_run toy_mcl null_sgx demo_runtime (\<lambda>n. deployed_driver) (\<lambda>n. quiet_clock) True (\<lambda>p. NoProcess)
       demo_paths demo_request (Some (serving_process loaded_process)) =
       Some (Answer (result_bytes res) (Some ct) (Some (hex_string rid)) timing, Some w) \<and>
     client_decrypt_result null_sgx ct res (zero_bytes 32) (fid_to_bytes_or_str f) rid (point_be null_point) = Some outp"
proof -
  obtain y a' where i: "do_invoke toy_mcl null_sgx demo_runtime (with_files (request_files demo_paths demo_request) deployed_driver) True
     (request_args demo_paths demo_request) True loaded_process = Returned (0, Some y, a')" using demo_request_runs by blast
  have w: "wp_state (serving_process loaded_process) = Serving loaded_process 0" "wp_unread (serving_process loaded_process) = []"
    by (simp_all add: serving_process_def)
  have "exec_env deployed_driver = demo_run_env" by (simp add: deployed_driver_def demo_driver_def)
  then have e: "env_laws null_sgx (env_kem (exec_env deployed_driver))" using null_laws(4) by simp
  have p: "ar_pku demo_request = point_be null_point" by (simp add: demo_request_def)
  have k: "pub_from_priv null_sgx (rev (zero_bytes 32)) = Some null_point" "length (zero_bytes 32) = 32" by simp_all
  have x: "ending (arrives (exchange deployed_driver)) \<noteq> Open" "True \<or> qe_target_info (exchange deployed_driver) = QlSuccess"
    by (simp_all add: deployed_driver_def demo_driver_def demo_env_connection)
  from function_call_answered [where cs = "\<lambda>n. quiet_clock" and es = "\<lambda>n. deployed_driver" and n = 0 and spawn = "\<lambda>p. NoProcess",
      OF demo_adapter(1-5) w demo_adapter(6) loaded_run null_laws(1) demo_programs_fit null_laws(2,3) e p k x, of toy_mcl]
  show ?thesis unfolding p i by (simp del: ex_simps) blast
qed

subsection \<open>A newline in a name\<close>

lemma split_lines_app: "10 \<notin> set x \<Longrightarrow> split_lines (x @ 10 # y) = x # split_lines y"
  by (induction x) auto

lemma plain_line:
  assumes "\<forall>t \<in> set ts. plain_word is_space t" "2 \<le> length ts"
  shows "split_tokens (join_words ts) = ts" "join_words ts \<noteq> lit ''exit''" "10 \<notin> set (join_words ts)"
proof -
  have s: "is_space 32" by (simp add: is_space_def)
  show t: "split_tokens (join_words ts) = ts" unfolding split_tokens_words by (rule words_join [of is_space, OF s assms(1)])
  have "split_tokens (lit ''exit'') = [lit ''exit'']"
    unfolding split_tokens_words using words_join [of is_space "[lit ''exit'']", OF s] by (simp add: plain_word_def lit_def is_space_def)
  with t assms(2) show "join_words ts \<noteq> lit ''exit''" by (metis One_nat_def Suc_1 length_Cons list.size(3) not_less_eq_eq order_refl)
  show "10 \<notin> set (join_words ts)" by (rule join_no_newline [OF assms(1)])
qed

lemma one_command:
  assumes "plain_request paths r" "valid_request r"
  shows "length (commands_in (join_words (invoke_tokens paths r))) = 1"
  using request_line [OF assms] by (simp add: commands_in_def invoke_tokens_def)

text \<open>A newline in the function's name: two lines, neither of which is blank or \<open>exit\<close>.\<close>

lemma two_commands:
  assumes "plain_request paths (r\<lparr>ar_fid := f\<rparr>)" "plain_request paths (r\<lparr>ar_fid := g\<rparr>)" "valid_request r" "ar_fid r = f @ [10] @ g"
  shows "length (commands_in (join_words (invoke_tokens paths r))) = 2"
proof -
  let ?a = "[lit ''invoke'', f]" and ?b = "g # drop 2 (invoke_tokens paths r)"
  have v: "valid_request (r\<lparr>ar_fid := f\<rparr>)" "valid_request (r\<lparr>ar_fid := g\<rparr>)"
    using assms(1-3) by (simp_all add: valid_request_def plain_request_def plain_word_def)
  have "\<forall>t \<in> set (invoke_tokens paths (r\<lparr>ar_fid := f\<rparr>)). plain_word is_space t"
    "\<forall>t \<in> set (invoke_tokens paths (r\<lparr>ar_fid := g\<rparr>)). plain_word is_space t"
    by (rule tokens_plain [OF assms(1) v(1)], rule tokens_plain [OF assms(2) v(2)])
  then have p: "\<forall>t \<in> set ?a. plain_word is_space t" "\<forall>t \<in> set ?b. plain_word is_space t"
    by (simp_all add: invoke_tokens_def)
  have "2 \<le> length ?a" "2 \<le> length ?b" by (simp_all add: invoke_tokens_def)
  note a = plain_line [OF p(1) this(1)] and b = plain_line [OF p(2) this(2)]
  have "join_words (invoke_tokens paths r) = join_words ?a @ 10 # join_words ?b" using assms(4) by (simp add: invoke_tokens_def)
  then have "split_lines (join_words (invoke_tokens paths r)) = [join_words ?a, join_words ?b]"
    by (simp only: split_lines_app [OF a(3)] split_lines_one [OF b(3)])
  then show ?thesis using a(1,2) b(1,2) by (simp add: commands_in_def del: join_words.simps)
qed

lemma adapter_invokes:
  "adapter_run m s rt es cs sim spawn paths r p = Some (x, q) \<Longrightarrow> valid_request r \<Longrightarrow>
   \<exists>res. invoke_sgx_worker m s rt (\<lambda>n. with_files (request_files paths r) (es n)) cs sim spawn (invoke_tokens paths r) (ar_profile r) p = Some (res, q)"
  by (auto simp: adapter_run_def split: option.splits sum.splits prod.splits)

definition lagging :: "worker_process \<Rightarrow> bool" where
  "lagging w \<longleftrightarrow> lit ''END_RESPONSE'' \<in> set (wp_unread w)"

lemma lag_after:
  assumes "\<forall>i. logs_apart (cs i)" "valid_request r" "same_profile (ar_profile r) w" "wp_state w = Serving a n"
    and "adapter_run m s rt es cs sim spawn paths r (Some w) = Some (x, Some w')" "wp_state w' = Serving a' n'"
    and "length (commands_in (join_words (invoke_tokens paths r))) + waiting (wp_unread w) \<ge> 2"
  shows "lagging w'"
proof -
  obtain res where i: "invoke_sgx_worker m s rt (\<lambda>n. with_files (request_files paths r) (es n)) cs sim spawn (invoke_tokens paths r)
    (ar_profile r) (Some w) = Some (res, Some w')" using adapter_invokes [OF assms(5,2)] by blast
  from exchange_waiting [OF assms(1,3,4) i assms(6)] assms(7) have "0 < waiting (wp_unread w')" by simp
  then show ?thesis by (simp add: waiting_pos lagging_def)
qed

lemma lag_fixed:
  assumes "lagging w" "wp_state w \<noteq> Gone"
  shows "\<exists>reply. \<forall>es cs spawn r. valid_request r \<and> same_profile (ar_profile r) w \<longrightarrow>
    (\<exists>w'. adapter_run m s rt es cs sim spawn paths r (Some w) = Some (reply, Some w'))"
proof -
  let ?res = "parse_worker_response (takeWhile (\<lambda>t. t \<noteq> lit ''END_RESPONSE'') (wp_unread w) @ [lit ''END_RESPONSE''])"
  let ?reply = "case ?res of Inl err \<Rightarrow> WorkerFailed | Inr (rc, payload, markers) \<Rightarrow> reply_of_markers rc markers"
  have "\<exists>w'. adapter_run m s rt es cs sim spawn paths r (Some w) = Some (?reply, Some w')"
    if "valid_request r \<and> same_profile (ar_profile r) w" for es cs spawn r
  proof -
    from that have v: "valid_request r" "same_profile (ar_profile r) w" by simp_all
    from waiting_first [OF assms(1) [unfolded lagging_def] v(2) assms(2), of m s rt "\<lambda>n. with_files (request_files paths r) (es n)" cs sim spawn
        "invoke_tokens paths r"]
    obtain w' where w': "invoke_sgx_worker m s rt (\<lambda>n. with_files (request_files paths r) (es n)) cs sim spawn (invoke_tokens paths r)
      (ar_profile r) (Some w) = Some (?res, Some w')" by (elim exE)
    show ?thesis
      by (rule exI [of _ w'], simp only: adapter_run_def v(1) simp_thms if_False w' option.case prod.case) (simp split: sum.split prod.split)
  qed
  then show ?thesis by blast
qed

text \<open>
  C40: a newline in a function's name shifts the replies. The adapter checks neither the name nor the label before it writes them
  into the worker's line protocol. Of a request whose name holds a newline between two words the worker reads two commands,
  and gives two responses, of which the adapter reads one: the reply to whatever request comes next is then already fixed, before
  that request is made, and every later well-formed request leaves the worker in the same state, so that each caller is
  handed the reply to an earlier one for as long as the process serves.
\<close>

theorem newline_shifts_replies:
  assumes "\<forall>i. logs_apart (cs i)" "valid_request r" "same_profile (ar_profile r) w" "wp_state w = Serving a n"
    and "ar_fid r = f @ [10] @ g" "plain_request paths (r\<lparr>ar_fid := f\<rparr>)" "plain_request paths (r\<lparr>ar_fid := g\<rparr>)"
    and "adapter_run m s rt es cs sim spawn paths r (Some w) = Some (x, Some w')" "wp_state w' = Serving a' n'"
  shows "lagging w' \<and>
    (\<exists>reply. \<forall>es cs spawn r'. valid_request r' \<and> same_profile (ar_profile r') w' \<longrightarrow>
      (\<exists>w''. adapter_run m s rt es cs sim spawn paths r' (Some w') = Some (reply, Some w''))) \<and>
    (\<forall>es cs spawn r' y v v' b k b' k'. (\<forall>i. logs_apart (cs i)) \<and> plain_request paths r' \<and> valid_request r' \<and> same_profile (ar_profile r') v \<and>
      lagging v \<and> wp_state v = Serving b k \<and>
      adapter_run m s rt es cs sim spawn paths r' (Some v) = Some (y, Some v') \<and> wp_state v' = Serving b' k' \<longrightarrow> lagging v')"
proof (intro conjI)
  show l: "lagging w'"
    by (rule lag_after [OF assms(1-4,8,9)]) (simp add: two_commands [OF assms(6,7,2,5)])
  show "\<exists>reply. \<forall>es cs spawn r'. valid_request r' \<and> same_profile (ar_profile r') w' \<longrightarrow>
      (\<exists>w''. adapter_run m s rt es cs sim spawn paths r' (Some w') = Some (reply, Some w''))"
    by (rule lag_fixed [OF l]) (simp add: assms(9))
  show "\<forall>es cs spawn r' y v v' b k b' k'. (\<forall>i. logs_apart (cs i)) \<and> plain_request paths r' \<and> valid_request r' \<and> same_profile (ar_profile r') v \<and>
      lagging v \<and> wp_state v = Serving b k \<and>
      adapter_run m s rt es cs sim spawn paths r' (Some v) = Some (y, Some v') \<and> wp_state v' = Serving b' k' \<longrightarrow> lagging v'"
  proof (intro allI impI, elim conjE)
    fix es :: "nat \<Rightarrow> driver_env" and cs spawn r' y v v' b k b' k'
    assume h: "\<forall>i. logs_apart (cs i)" "plain_request paths r'" "valid_request r'" "same_profile (ar_profile r') v" "lagging v"
      "wp_state v = Serving b k" "adapter_run m s rt es cs sim spawn paths r' (Some v) = Some (y, Some v')" "wp_state v' = Serving b' k'"
    from h(5) have "0 < waiting (wp_unread v)" by (simp add: lagging_def waiting_pos)
    then show "lagging v'" by (intro lag_after [OF h(1,3,4,6,7,8)]) (simp add: one_command [OF h(2,3)])
  qed
qed


definition split_request :: adapter_request where
  "split_request = demo_request\<lparr>ar_fid := lit ''f1'' @ [10] @ lit ''x''\<rparr>"

lemma split_served:
  "\<exists>x w'. adapter_run m s rt es cs sim spawn demo_paths split_request (Some (serving_process a)) = Some (x, Some w') \<and> wp_state w' = Serving a 2"
proof -
  let ?t = "invoke_tokens demo_paths split_request" and ?a = "[lit ''invoke'', lit ''f1'']" and ?b = "lit ''x'' # drop 2 (invoke_tokens demo_paths split_request)"
  let ?es = "\<lambda>n. with_files (request_files demo_paths split_request) (es n)"
  have v: "valid_request split_request" using demo_adapter(2) by (simp add: valid_request_def split_request_def lit_def)
  have d: "drop 2 ?t = drop 2 (invoke_tokens demo_paths demo_request)" by (simp add: invoke_tokens_def split_request_def)
  have p: "\<forall>t \<in> set ?a. plain_word is_space t" "\<forall>t \<in> set ?b. plain_word is_space t"
    using tokens_plain [OF demo_adapter(1,2)] unfolding d
    by (simp_all add: invoke_tokens_def plain_word_def is_space_def lit_def demo_request_def)
  have "2 \<le> length ?a" "2 \<le> length ?b" by (simp_all add: invoke_tokens_def)
  note a = plain_line [OF p(1) this(1)] and b = plain_line [OF p(2) this(2)]
  have "join_words ?t = join_words ?a @ 10 # join_words ?b" by (simp add: invoke_tokens_def split_request_def)
  then have ls: "split_lines (join_words ?t) = [join_words ?a, join_words ?b]" by (simp only: split_lines_app [OF a(3)] split_lines_one [OF b(3)])
  have "\<exists>r. run_command m s rt (?es 0) sim ?a a = Returned (r, a)" by (simp add: run_command_def parse_invoke_tokens_def)
  then obtain r1 where r1: "run_command m s rt (?es 0) sim ?a a = Returned (r1, a)" ..
  have "\<exists>r. run_command m s rt (?es 1) sim ?b a = Returned (r, a)" by (simp add: run_command_def)
  then obtain r2 where r2: "run_command m s rt (?es 1) sim ?b a = Returned (r2, a)" ..
  have "\<exists>out. serve_lines m s rt ?es cs sim (split_lines (join_words ?t)) a 0 = (out, Serving a 2) \<and> lit ''END_RESPONSE'' \<in> set out"
    unfolding ls serve_lines.simps a(1) b(1) if_not_P [OF a(2)] if_not_P [OF b(2)] add_0 r1
    by (simp add: r2 response_lines_def del: One_nat_def)
  then obtain out where o: "serve_lines m s rt ?es cs sim (split_lines (join_words ?t)) a 0 = (out, Serving a 2)" "lit ''END_RESPONSE'' \<in> set out" by blast
  have "start_sgx_worker spawn (ar_profile split_request) (Some (serving_process a)) = (True, Some (serving_process a))"
    using start_running [OF demo_adapter(6)] by (simp add: serving_process_def split_request_def)
  then obtain res w' where "invoke_sgx_worker m s rt ?es cs sim spawn ?t (ar_profile split_request) (Some (serving_process a)) = Some (res, Some w')"
    "wp_state w' = Serving a 2" using o by (simp add: invoke_sgx_worker_def serving_process_def Let_def)
  then show ?thesis using v by (cases res) (auto simp: adapter_run_def)
qed

theorem newline_shifts_replies_witness:
  "\<exists>x w' reply. adapter_run toy_mcl null_sgx demo_runtime (\<lambda>n. deployed_driver) (\<lambda>n. quiet_clock) True (\<lambda>p. NoProcess) demo_paths
       split_request (Some (serving_process loaded_process)) = Some (x, Some w') \<and>
     (\<forall>r. valid_request r \<and> same_profile (ar_profile r) w' \<longrightarrow>
       (\<exists>w''. adapter_run toy_mcl null_sgx demo_runtime (\<lambda>n. deployed_driver) (\<lambda>n. quiet_clock) True (\<lambda>p. NoProcess) demo_paths r (Some w') =
          Some (reply, Some w'')))"
proof -
  obtain x w' where i: "adapter_run toy_mcl null_sgx demo_runtime (\<lambda>n. deployed_driver) (\<lambda>n. quiet_clock) True (\<lambda>p. NoProcess) demo_paths
       split_request (Some (serving_process loaded_process)) = Some (x, Some w')" "wp_state w' = Serving loaded_process 2"
    using split_served by blast
  have p: "plain_request demo_paths (split_request\<lparr>ar_fid := lit ''f1''\<rparr>)" "plain_request demo_paths (split_request\<lparr>ar_fid := lit ''x''\<rparr>)"
    "valid_request split_request" "same_profile (ar_profile split_request) (serving_process loaded_process)"
    "ar_fid split_request = lit ''f1'' @ [10] @ lit ''x''" "\<forall>i :: nat. logs_apart quiet_clock"
    "wp_state (serving_process loaded_process) = Serving loaded_process 0"
    using demo_adapter by (simp_all add: plain_request_def split_request_def demo_request_def valid_request_def serving_process_def
      plain_word_def is_space_def lit_def)
  from newline_shifts_replies [OF p(6,3,4,7,5,1,2) i] obtain reply where
    "\<forall>es cs spawn r. valid_request r \<and> same_profile (ar_profile r) w' \<longrightarrow>
      (\<exists>w''. adapter_run toy_mcl null_sgx demo_runtime es cs True spawn demo_paths r (Some w') = Some (reply, Some w''))" by (elim conjE exE)
  with i(1) show ?thesis by (intro exI [of _ x] exI [of _ w'] exI [of _ reply]) blast
qed

end
