(* ===== verification/ClientSdk.thy ===== *)
theory ClientSdk
  imports AdapterRun KmsServer
begin

text \<open>
  The client in Python: the AEAD and the key encryption (\<open>crypto_lib/aead.py\<close>, \<open>crypto_lib/ibe.py\<close>, \<open>crypto_lib/kem.py\<close>), the SDK
  (\<open>client_sdk/sdk.py\<close>) and the builder of a call's files (\<open>client_sdk/worker_smoke_artifacts.py\<close>). A string is the list of its
  bytes, an exception is None. The Python cryptography library is the parameter \<open>s\<close> of the enclaves: the same SHA-256, AES-GCM and P-256.
  A point is kept in the SDK's byte order, as two little-endian coordinates, and a private key as a little-endian scalar.
\<close>

subsection \<open>Primitives\<close>

text \<open>What the client draws: its key pair, the results of \<open>os.urandom\<close>, and the ephemeral key pairs, in the order of the calls.\<close>

record client_env =
  ce_keypair :: "bytes \<times> bytes"
  ce_urandom :: "nat \<Rightarrow> bytes"
  ce_ephemeral :: "nat \<Rightarrow> bytes \<times> bytes"

definition p256_pair :: "sgx \<Rightarrow> bytes \<times> bytes \<Rightarrow> bool" where
  "p256_pair s kp \<longleftrightarrow> pub_from_priv s (fst kp) = Some (snd kp) \<and> length (fst kp) = 32"

text \<open>The key, then nonce, tag and ciphertext.\<close>

definition aead_encrypt :: "sgx \<Rightarrow> bytes \<Rightarrow> bytes \<Rightarrow> bytes \<Rightarrow> bytes \<Rightarrow> bytes option" where
  "aead_encrypt s n key plaintext aad =
     do { (ciphertext, tag) \<leftarrow> gcm_enc s key plaintext n aad; Some (n @ tag @ ciphertext) }"

definition aead_decrypt :: "sgx \<Rightarrow> bytes \<Rightarrow> bytes \<Rightarrow> bytes \<Rightarrow> bytes option" where
  "aead_decrypt s key ciphertext aad =
     (if length ciphertext < 28 then None
      else gcm_dec s key (drop 28 ciphertext) (take 12 ciphertext) aad (slice 12 16 ciphertext))"

definition p256_keygen :: "bytes \<times> bytes \<Rightarrow> bytes \<times> bytes" where
  "p256_keygen kp = (point_be (snd kp), rev (fst kp))"

text \<open>
  \<open>ECCIBE.encrypt\<close>: ECIES under a point, with the fresh pair and nonce given. \<open>load_der\<close> reads a public key in DER.
\<close>

definition ecies_encrypt :: "sgx \<Rightarrow> bytes \<times> bytes \<Rightarrow> bytes \<Rightarrow> bytes \<Rightarrow> bytes \<Rightarrow> bytes option" where
  "ecies_encrypt s eph n point message =
     do { shared_secret \<leftarrow> shared_dhkey s (fst eph) point;
          key \<leftarrow> sha256_msg s (shared_secret @ ECC_IBE_ENC);
          (ciphertext, tag) \<leftarrow> gcm_enc s (take 16 key) message n [];
          Some (point_be (snd eph) @ n @ tag @ ciphertext) }"

definition eccibe_encrypt ::
  "sgx \<Rightarrow> (bytes \<Rightarrow> bytes option) \<Rightarrow> bytes \<times> bytes \<Rightarrow> bytes \<Rightarrow> bytes \<Rightarrow> bytes \<Rightarrow> bytes option" where
  "eccibe_encrypt s load_der eph n params message = do { point \<leftarrow> load_der params; ecies_encrypt s eph n point message }"

subsection \<open>The SDK\<close>

definition compute_fid :: "sgx \<Rightarrow> bytes \<Rightarrow> bytes \<Rightarrow> bytes \<Rightarrow> bytes \<Rightarrow> bytes option" where
  "compute_fid s tenant_id action_name version code_wasm =
     do { func_measurement \<leftarrow> sha256_msg s code_wasm;
          fid_raw \<leftarrow> sha256_msg s (tenant_id @ action_name @ version @ func_measurement);
          Some (hex_string fid_raw) }"

definition sdk_aad_pkg :: "bytes \<Rightarrow> bytes option" where
  "sdk_aad_pkg f = do { b \<leftarrow> py_fromhex f; Some (lit ''PKG'' @ b) }"

definition sdk_aad_req :: "sgx \<Rightarrow> bytes \<Rightarrow> bytes \<Rightarrow> bytes \<Rightarrow> bytes option" where
  "sdk_aad_req s f n pk =
     do { fid_raw \<leftarrow> py_fromhex f; nonce_raw \<leftarrow> py_fromhex n; h_pkU \<leftarrow> sha256_msg s pk;
          Some (lit ''REQ'' @ fid_raw @ nonce_raw @ h_pkU) }"

definition sdk_aad_out :: "sgx \<Rightarrow> bytes \<Rightarrow> bytes \<Rightarrow> bytes \<Rightarrow> bytes option" where
  "sdk_aad_out s f rid pk =
     do { fid_raw \<leftarrow> py_fromhex f; rid_raw \<leftarrow> py_fromhex rid; h_pkU \<leftarrow> sha256_msg s pk;
          Some (lit ''OUT'' @ fid_raw @ rid_raw @ h_pkU) }"

definition sdk_compute_rid :: "sgx \<Rightarrow> bytes \<Rightarrow> bytes \<Rightarrow> bytes option" where
  "sdk_compute_rid s f c_req =
     do { fid_raw \<leftarrow> py_fromhex f; rid_raw \<leftarrow> sha256_msg s (fid_raw @ c_req); Some (hex_string rid_raw) }"

record function_package =
  fp_fid :: bytes
  fp_c_func :: bytes
  fp_l :: bytes
  fp_k_func :: bytes

definition encrypt_function_code ::
  "sgx \<Rightarrow> client_env \<Rightarrow> bytes \<Rightarrow> bytes \<Rightarrow> bytes \<Rightarrow> bytes \<Rightarrow> function_package option" where
  "encrypt_function_code s ce tenant_id action_name version code_wasm =
     do { f \<leftarrow> compute_fid s tenant_id action_name version code_wasm;
          let k_func = ce_urandom ce 0;
          aad_pkg \<leftarrow> sdk_aad_pkg f;
          c_func \<leftarrow> aead_encrypt s (ce_urandom ce 1) k_func code_wasm aad_pkg;
          l \<leftarrow> sha256_msg s c_func;
          Some \<lparr>fp_fid = f, fp_c_func = c_func, fp_l = hex_string l, fp_k_func = k_func\<rparr> }"

record prepared_call =
  pc_c_req :: bytes
  pc_c_key :: bytes
  pc_pkU :: bytes
  pc_skU :: bytes
  pc_nonce :: bytes
  pc_rid :: bytes

definition prepare_invocation ::
  "sgx \<Rightarrow> (bytes \<Rightarrow> bytes option) \<Rightarrow> client_env \<Rightarrow> bytes \<Rightarrow> bytes \<Rightarrow> bytes \<Rightarrow> prepared_call option" where
  "prepare_invocation s load_der ce f input_data pk_FID =
     (let k_req = ce_urandom ce 0;
          (pk, sk) = p256_keygen (ce_keypair ce);
          n = hex_string (ce_urandom ce 1)
      in do { aad_req \<leftarrow> sdk_aad_req s f n pk;
              c_req \<leftarrow> aead_encrypt s (ce_urandom ce 2) k_req input_data aad_req;
              c_key \<leftarrow> eccibe_encrypt s load_der (ce_ephemeral ce 0) (ce_urandom ce 3) pk_FID k_req;
              rid \<leftarrow> sdk_compute_rid s f c_req;
              Some \<lparr>pc_c_req = c_req, pc_c_key = c_key, pc_pkU = pk, pc_skU = sk, pc_nonce = n, pc_rid = rid\<rparr> })"

definition decrypt_result :: "sgx \<Rightarrow> bytes \<Rightarrow> bytes \<Rightarrow> bytes \<Rightarrow> bytes \<Rightarrow> bytes \<Rightarrow> bytes \<Rightarrow> bytes option" where
  "decrypt_result s ct c_out skU f rid pk =
     do { k_U \<leftarrow> p256_decap s skU ct;
          aad_out \<leftarrow> sdk_aad_out s f rid pk;
          aead_decrypt s (take 16 k_U) c_out aad_out }"

subsection \<open>The files of a call\<close>

definition fid_bytes :: "bytes \<Rightarrow> bytes" where
  "fid_bytes f =
     (let stripped = py_strip f in
      if length stripped = 64 then (case py_fromhex stripped of Some b \<Rightarrow> b | None \<Rightarrow> stripped) else stripped)"

definition client_aad_pkg :: "bytes \<Rightarrow> bytes" where
  "client_aad_pkg f = lit ''PKG'' @ fid_bytes f"

definition client_aad_req :: "sgx \<Rightarrow> bytes \<Rightarrow> bytes \<Rightarrow> bytes \<Rightarrow> bytes option" where
  "client_aad_req s f n pk =
     (if length n \<noteq> 16 then None else do { h \<leftarrow> sha256_msg s pk; Some (lit ''REQ'' @ fid_bytes f @ n @ h) })"

definition client_rid :: "sgx \<Rightarrow> bytes \<Rightarrow> bytes \<Rightarrow> bytes option" where
  "client_rid s f c_req = map_option hex_string (sha256_msg s (fid_bytes f @ c_req))"

definition sgx_le_public_key_to_x962_be :: "bytes \<Rightarrow> bytes option" where
  "sgx_le_public_key_to_x962_be public_key_sgx_le =
     (if length public_key_sgx_le \<noteq> 65 \<or> public_key_sgx_le ! 0 \<noteq> 4 then None
      else Some ([4] @ rev (slice 1 32 public_key_sgx_le) @ rev (slice 33 32 public_key_sgx_le)))"

definition encrypt_key_ciphertext_v1 :: "sgx \<Rightarrow> bytes \<times> bytes \<Rightarrow> bytes \<Rightarrow> bytes \<Rightarrow> bytes \<Rightarrow> bytes option" where
  "encrypt_key_ciphertext_v1 s eph iv public_key_sgx_le plaintext =
     (if length plaintext \<notin> {16, 32} then None
      else do { be \<leftarrow> sgx_le_public_key_to_x962_be public_key_sgx_le;
                shared_secret \<leftarrow> shared_dhkey s (fst eph) (rev (slice 1 32 be) @ rev (slice 33 32 be));
                key \<leftarrow> sha256_msg s (shared_secret @ ECC_IBE_ENC);
                (ct, tag) \<leftarrow> gcm_enc s (take 16 key) plaintext iv [];
                Some (point_be (snd eph) @ iv @ tag @ ct) })"

record ArtifactPlan =
  ap_label :: bytes
  ap_rid :: bytes
  ap_aad_pkg :: bytes
  ap_aad_req :: bytes
  ap_c_func :: bytes
  ap_c_req :: bytes

definition build_artifact_plan ::
  "sgx \<Rightarrow> bytes \<Rightarrow> bytes \<Rightarrow> bytes \<Rightarrow> bytes \<Rightarrow> bytes \<Rightarrow> bytes \<Rightarrow> bytes \<Rightarrow> bytes \<Rightarrow> bytes \<Rightarrow> ArtifactPlan option" where
  "build_artifact_plan s iv_func iv_req f wasm_bytes input_bytes k_func k_req pk n =
     (if length k_func \<noteq> 16 then None
      else if length k_req \<noteq> 16 then None
      else if length pk \<noteq> 65 \<or> pk ! 0 \<noteq> 4 then None
      else do { c_func \<leftarrow> aead_encrypt s iv_func k_func wasm_bytes (client_aad_pkg f);
                label \<leftarrow> sha256_msg s c_func;
                aad_req \<leftarrow> client_aad_req s f n pk;
                c_req \<leftarrow> aead_encrypt s iv_req k_req input_bytes aad_req;
                rid \<leftarrow> client_rid s f c_req;
                Some \<lparr>ap_label = hex_string label, ap_rid = rid, ap_aad_pkg = client_aad_pkg f, ap_aad_req = aad_req,
                       ap_c_func = c_func, ap_c_req = c_req\<rparr> })"

text \<open>The key tool as a process: it reads the public parameters from a temporary file, and its output file is read back.\<close>

definition tool_argv :: "bytes \<Rightarrow> bytes \<Rightarrow> bytes \<Rightarrow> bytes \<Rightarrow> bytes \<Rightarrow> bytes \<Rightarrow> bytes list" where
  "tool_argv tmp_mpk purpose identity aad_context plaintext out_path =
     [lit ''--mpk'', tmp_mpk, lit ''--purpose'', purpose, lit ''--identity'', identity,
      lit ''--aad-context-hex'', hex_string aad_context, lit ''--key-hex'', hex_string plaintext, lit ''--out'', out_path]"

definition run_bfibe_mcl_client_tool ::
  "('fr, 'g1, 'g2, 'gt) mcl \<Rightarrow> openssl \<Rightarrow> bytes \<Rightarrow> bytes \<Rightarrow> bytes \<Rightarrow> bytes \<Rightarrow> bytes \<Rightarrow> bytes \<Rightarrow> bytes option" where
  "run_bfibe_mcl_client_tool m ssl mpk purpose identity aad_context plaintext out_path =
     (if length plaintext \<notin> {16, 32} then None
      else let tmp_mpk = out_path @ lit ''.mpk'';
               fs = \<lparr>f_read = [tmp_mpk \<mapsto> mpk], f_open = \<lambda>p. True\<rparr>
      in case tool_main m ssl fs (tool_argv tmp_mpk purpose identity aad_context plaintext out_path) of
           (code, written) \<Rightarrow> if code \<noteq> 0 then None else map_option snd written)"

text \<open>What the KMS command line prints; the client checks its form.\<close>

definition run_kms_print_pubkey :: "(bytes \<Rightarrow> bytes option) \<Rightarrow> bytes \<Rightarrow> bytes option" where
  "run_kms_print_pubkey pubkey_file identity =
     do { data \<leftarrow> pubkey_file identity; if length data \<noteq> 65 \<or> data ! 0 \<noteq> 4 then None else Some data }"

definition run_kms_bfibe_public_params :: "bytes option \<Rightarrow> bytes option" where
  "run_kms_bfibe_public_params params =
     do { data \<leftarrow> params; if data = [] \<or> list_all (\<lambda>b. b = 0) data then None else Some data }"

record WorkerSmokeArtifacts =
  sa_plan :: ArtifactPlan
  sa_c_k_func :: bytes
  sa_c_key :: bytes
  sa_pkU :: bytes
  sa_skU :: bytes
  sa_nonce :: bytes

text \<open>
  The builder, with the keys and the nonce drawn at random. \<open>pubkey_file\<close> and \<open>params\<close> are the output files of the two KMS commands,
  \<open>out_dir\<close> the directory of the call's files, \<open>profile\<close> the identifier of the selected profile.
\<close>

definition build_worker_smoke_artifacts ::
  "('fr, 'g1, 'g2, 'gt) mcl \<Rightarrow> sgx \<Rightarrow> (nat \<Rightarrow> openssl) \<Rightarrow> client_env \<Rightarrow> (bytes \<Rightarrow> bytes option) \<Rightarrow> bytes option \<Rightarrow> bytes \<Rightarrow> bytes
   \<Rightarrow> bytes \<Rightarrow> bytes \<Rightarrow> bytes \<Rightarrow> WorkerSmokeArtifacts option" where
  "build_worker_smoke_artifacts m s ssl ce pubkey_file params out_dir profile f wasm_bytes input_bytes =
     (let k_func = ce_urandom ce 0; k_req = ce_urandom ce 1; n = ce_urandom ce 2;
          (pk, sk) = p256_keygen (ce_keypair ce)
      in do { plan \<leftarrow> build_artifact_plan s (ce_urandom ce 3) (ce_urandom ce 4) f wasm_bytes input_bytes k_func k_req pk n;
              (ckf, ck) \<leftarrow>
                (if profile = lit ''eccibe'' then
                   do { fid_pub \<leftarrow> run_kms_print_pubkey pubkey_file f;
                        label_pub \<leftarrow> run_kms_print_pubkey pubkey_file (ap_label plan);
                        ckf \<leftarrow> encrypt_key_ciphertext_v1 s (ce_ephemeral ce 0) (ce_urandom ce 5) label_pub k_func;
                        ck \<leftarrow> encrypt_key_ciphertext_v1 s (ce_ephemeral ce 1) (ce_urandom ce 6) fid_pub k_req;
                        Some (ckf, ck) }
                 else if profile = BFIBE_PROFILE_ID then
                   do { mpk \<leftarrow> run_kms_bfibe_public_params params;
                        ckf \<leftarrow> run_bfibe_mcl_client_tool m (ssl 0) mpk (lit ''function-key'') (lit ''label:'' @ ap_label plan)
                          (ap_aad_pkg plan) k_func (out_dir @ lit ''/c_k_func.enc'');
                        ck \<leftarrow> run_bfibe_mcl_client_tool m (ssl 1) mpk (lit ''request-key'') (lit ''fid:'' @ f)
                          (ap_aad_req plan) k_req (out_dir @ lit ''/c_key.enc'');
                        Some (ckf, ck) }
                 else None);
              Some \<lparr>sa_plan = plan, sa_c_k_func = ckf, sa_c_key = ck, sa_pkU = pk, sa_skU = sk, sa_nonce = n\<rparr> })"

subsection \<open>Client and worker derive the same bytes\<close>

lemma nibble_small: "hex_nibble c = Some n \<Longrightarrow> n < 16"
  by (auto simp: hex_nibble_def word_less_nat_alt word_le_nat_alt unat_sub_if' unat_plus_if' split: if_splits)

lemma join_nibbles: "(x :: byte) < 16 \<Longrightarrow> y < 16 \<Longrightarrow> push_bit 4 x OR y = 16 * x + y"
proof -
  assume "x < 16" "y < 16"
  then have "take_bit 4 y = y" by (simp add: take_bit_eq_mod word_unat_eq_iff unat_mod word_less_nat_alt)
  then have "bit y n \<Longrightarrow> n < 4" for n by (metis bit_take_bit_iff)
  then have "push_bit 4 x + y = push_bit 4 x OR y"
    by (intro disjunctive_add) (auto simp: bit_push_bit_iff not_le)
  then show ?thesis by (simp add: push_bit_eq_mult mult.commute)
qed

lemma fromhex_nibbles:
  "even (length f) \<Longrightarrow> \<forall>c \<in> set f. \<not> is_space c \<Longrightarrow> py_fromhex f = decode_nibbles f"
  by (induction f rule: decode_nibbles.induct) (auto simp: join_nibbles nibble_small bind_eq_Some_conv map_option_case split: option.splits)

text \<open>Both sides read an identifier of a plain word alike.\<close>

lemma fid_bytes_agree:
  assumes "plain_word py_space f" "length f \<le> 128"
  shows "fid_bytes f = fid_to_bytes_or_str f"
proof -
  have s: "py_strip f = f" using assms(1) by (rule strip_plain)
  have "\<forall>c \<in> set f. \<not> is_space c" using assms(1) by (auto simp: plain_word_def py_space_def)
  then have "length f = 64 \<Longrightarrow> py_fromhex f = decode_nibbles f" by (intro fromhex_nibbles) auto
  then show ?thesis using assms(2) by (simp add: fid_bytes_def fid_to_bytes_or_str_def s)
qed

text \<open>The identifiers of \<open>compute_fid\<close>: 64 digits, on both sides the hash itself.\<close>

lemma hex_plain: "h \<noteq> [] \<Longrightarrow> plain_word py_space (hex_string h)"
proof -
  assume "h \<noteq> []"
  then have "hex_string h \<noteq> []" by (cases h) (simp_all add: hex_byte_def)
  moreover have "\<forall>c \<in> set HEX. \<not> py_space c" by (simp add: HEX_def lit_def py_space_def is_space_def)
  ultimately show ?thesis using set_hex_string [of h] by (auto simp: plain_word_def)
qed

lemma hash_fid:
  assumes "length h = 32"
  shows "fid_bytes (hex_string h) = h" "fid_to_bytes_or_str (hex_string h) = h"
proof -
  have h: "h \<noteq> []" "length (hex_string h) = 64" using assms by auto
  have p: "plain_word py_space (hex_string h)" by (rule hex_plain [OF h(1)])
  show "fid_bytes (hex_string h) = h" using h(2) by (simp add: fid_bytes_def strip_plain [OF p])
  then show "fid_to_bytes_or_str (hex_string h) = h" using fid_bytes_agree [OF p] h(2) by simp
qed

text \<open>Nonce, tag and ciphertext, cut apart again.\<close>

lemma sealed_parts:
  assumes "length n = 12" "length tag = 16"
  shows "take 12 (n @ tag @ ct) = n" "slice 12 16 (n @ tag @ ct) = tag" "drop 28 (n @ tag @ ct) = ct"
  using assms by (simp_all add: slice_def)

lemma aead_roundtrip:
  assumes "aead_encrypt s n key pt aad = Some c" "gcm_laws s" "length n = 12"
  shows "aead_decrypt s key c aad = Some pt"
proof -
  from assms(1) obtain ct tag where g: "gcm_enc s key pt n aad = Some (ct, tag)" "c = n @ tag @ ct"
    by (auto simp: aead_encrypt_def bind_eq_Some_conv)
  have "length tag = 16" by (rule gcm_round(3) [OF assms(2) g(1)])
  with g gcm_round(1) [OF assms(2) g(1)] sealed_parts [OF assms(3), of tag ct] assms(3) show ?thesis
    by (simp add: aead_decrypt_def)
qed

subsection \<open>Reading the output\<close>

text \<open>
  What any client of the protocol does with an answer: \<open>decrypt_result\<close>, with the bytes \<open>h\<close> that stand for the function identifier. The SDK can
  call it only for an identifier in hexadecimal digits.
\<close>

definition open_result :: "sgx \<Rightarrow> bytes \<Rightarrow> bytes \<Rightarrow> bytes \<Rightarrow> bytes \<Rightarrow> bytes \<Rightarrow> bytes \<Rightarrow> bytes option" where
  "open_result s ct c_out skU h rid pk =
     do { k_U \<leftarrow> p256_decap s skU ct;
          rid_raw \<leftarrow> py_fromhex rid;
          h_pkU \<leftarrow> sha256_msg s pk;
          aead_decrypt s (take 16 k_U) c_out (OUT @ h @ rid_raw @ h_pkU) }"

lemma sdk_opens: "decrypt_result s ct c_out skU (hex_string h) rid pk = open_result s ct c_out skU h rid pk"
  by (simp add: decrypt_result_def open_result_def sdk_aad_out_def OUT_def)

lemma length_fid_raw: "length (fid_to_bytes_or_str f) \<le> 128"
proof -
  have d: "decode_nibbles x = Some b \<Longrightarrow> length b \<le> length x" for x b
    by (induction x arbitrary: b rule: decode_nibbles.induct) (auto simp: bind_eq_Some_conv map_option_case split: option.splits, fastforce)
  show ?thesis using d [of "take 128 f"] by (auto simp: fid_to_bytes_or_str_def Let_def split: option.splits)
qed

subsection \<open>The key ciphertexts\<close>

text \<open>The SDK's scheme and the builder's are one format.\<close>

lemma key_ciphertext_ecies:
  assumes "length p = 64"
  shows "encrypt_key_ciphertext_v1 s eph iv (4 # p) pt = (if length pt \<in> {16, 32} then ecies_encrypt s eph iv p pt else None)"
proof -
  have "sgx_le_public_key_to_x962_be (4 # p) = Some (point_be p)"
    using assms by (simp add: sgx_le_public_key_to_x962_be_def point_be_def slice_def)
  then show ?thesis using point_be_coords [OF assms] by (simp add: encrypt_key_ciphertext_v1_def ecies_encrypt_def)
qed

lemma length_point_be: "length p = 64 \<Longrightarrow> length (point_be p) = 65"
  by (simp add: point_be_def)

lemma ecies_opens:
  assumes enc: "ecies_encrypt s eph iv p pt = Some c" "length pt \<in> {16, 32}" "length iv = 12" "p256_pair s eph"
    and sk: "pub_from_priv s sk = Some p"
    and laws: "gcm_laws s" "ecdh_laws s" "ecc_open e" "malloc_ok e 0"
  shows "dec_key_ecies s e (Some sk) c = Some (pad32 pt)" "\<not> is_bfibe_envelope (Some c)" "length c = 93 + length pt"
proof -
  from enc(1) obtain sh key ct tag where x: "shared_dhkey s (fst eph) p = Some sh" "sha256_msg s (sh @ ECC_IBE_ENC) = Some key"
    "gcm_enc s (take 16 key) pt iv [] = Some (ct, tag)" "c = point_be (snd eph) @ iv @ tag @ ct"
    by (auto simp: ecies_encrypt_def bind_eq_Some_conv)
  have e: "pub_from_priv s (fst eph) = Some (snd eph)" using enc(4) by (simp add: p256_pair_def)
  have le: "length (snd eph) = 64" by (rule ecdh_agree(2) [OF laws(2) e])
  have sh: "shared_dhkey s sk (snd eph) = Some sh" using ecdh_agree(1) [OF laws(2) sk e] x(1) by simp
  have g: "gcm_dec s (take 16 key) ct iv [] tag = Some pt" "length ct = length pt" "length tag = 16"
    using gcm_round [OF laws(1) x(3)] by blast+
  let ?P = "point_be (snd eph)"
  have lP: "length ?P = 65" by (rule length_point_be [OF le])
  have P0: "c ! 0 = 4" by (simp add: x(4) point_be_def)
  have cut: "drop 93 c = ct" "slice 65 12 c = iv" "slice 77 16 c = tag"
    using lP enc(3) g(3) by (simp_all add: x(4) slice_def)
  have "slice 1 32 c = slice 1 32 ?P" "slice 33 32 c = slice 33 32 ?P" using lP by (simp_all add: x(4) slice_def)
  then have "rev (slice 1 32 c) @ rev (slice 33 32 c) = snd eph" using point_be_coords [OF le] by simp
  moreover show l: "length c = 93 + length pt" using lP enc(3) g by (simp add: x(4))
  ultimately show "dec_key_ecies s e (Some sk) c = Some (pad32 pt)"
    using enc(2) P0 cut sh x(2) g laws(3,4) unfolding dec_key_ecies_def
    by (auto simp: sha256_concat_def Let_def)
  have "hd (take 8 BFIBE_ENVELOPE_MAGIC) \<noteq> 4" by (simp add: BFIBE_ENVELOPE_MAGIC_def lit_def)
  moreover have "hd (take 8 c) = 4" using P0 l by (cases c) auto
  ultimately have "take 8 c \<noteq> take 8 BFIBE_ENVELOPE_MAGIC" by metis
  then show "\<not> is_bfibe_envelope (Some c)" by (simp add: is_bfibe_envelope_def memcmp_eq_def)
qed

text \<open>A run of the key tool that the client accepts is one encryption.\<close>

lemma HEX_value: "n < 16 \<Longrightarrow> hex_value (HEX ! n) = Inr (of_nat n)"
proof -
  have "\<forall>n \<in> set [0..<16]. hex_value (HEX ! n) = Inr (of_nat n)"
    by (simp add: HEX_def lit_def hex_value_def upt_rec)
  then show "n < 16 \<Longrightarrow> ?thesis" by simp
qed

lemma hex_pairs_string: "hex_pairs (hex_string d) = Inr d"
proof (induction d)
  case (Cons b d)
  have "b AND 0x0f = take_bit 4 b" by (simp add: take_bit_eq_mask mask_eq_exp_minus_1)
  then have "push_bit 4 (drop_bit 4 b) OR (b AND 0x0f) = b"
    by (simp only:) (rule bit_word_eqI, auto simp: bit_simps)
  with Cons HEX_value [OF nibbles(1) [of b]] HEX_value [OF nibbles(2) [of b]] show ?case by (simp add: hex_byte_def)
qed simp

lemma hex_to_bytes_string [simp]: "hex_to_bytes (hex_string d) = Inr d"
  by (simp add: hex_to_bytes_def hex_pairs_string)

lemma tool_options:
  "parse_tool_args (tool_argv tmp purpose i ctx key out_path) no_args =
     Inr (Some \<lparr>ta_mpk = tmp, ta_purpose = purpose, ta_identity = i, ta_aad_context_hex = hex_string ctx, ta_key_hex = hex_string key,
       ta_out = out_path, ta_r_hex = [], ta_nonce_hex = []\<rparr>)"
  by (simp add: tool_argv_def no_args_def tool_option_def)

lemma client_tool_encrypts:
  assumes "run_bfibe_mcl_client_tool m ssl mpk purpose i ctx key out_path = Some env"
  shows "\<exists>r n. encrypt_key_envelope m ssl mpk purpose i ctx key r n = Inr env"
proof -
  have n: "tool_argv tmp purpose i ctx key out_path = [lit ''--self-test''] \<longleftrightarrow> False" for tmp by (simp add: tool_argv_def)
  let ?tmp = "out_path @ lit ''.mpk''"
  let ?a = "\<lparr>ta_mpk = ?tmp, ta_purpose = purpose, ta_identity = i, ta_aad_context_hex = hex_string ctx, ta_key_hex = hex_string key,
       ta_out = out_path, ta_r_hex = [], ta_nonce_hex = []\<rparr>"
  from assms obtain path where "run_tool m ssl \<lparr>f_read = [?tmp \<mapsto> mpk], f_open = \<lambda>p. True\<rparr> ?a = Inr (path, env)"
    by (auto simp: run_bfibe_mcl_client_tool_def tool_main_def tool_options n Let_def split: if_splits sum.splits)
  then show ?thesis by (auto simp: run_tool_def and_then_Inr split: if_splits)
qed

end
