(* ===== verification/WorkerServes.thy ===== *)
theory WorkerServes
  imports WorkerTheorems
begin

text \<open>
  When an encrypted invocation with KEM output succeeds: if no call into the SDK and no allocation fails, the keys open, and
  the program ends within its capacity and reports its two time stamps, every phase passes, and the result is the program's
  output under the encapsulated key.
\<close>

subsection \<open>Calls that succeed\<close>

text \<open>The SDK answers every well-formed call, and the environment of a call has all it asks for.\<close>

definition sdk_works :: "sgx \<Rightarrow> bool" where
  "sdk_works s \<longleftrightarrow> (\<forall>d. sha256_msg s d \<noteq> None) \<and>
     (\<forall>k pt iv aad. length k = 16 \<and> length iv = 12 \<longrightarrow> gcm_enc s k pt iv aad \<noteq> None) \<and>
     (\<forall>a p b q. pub_from_priv s a = Some p \<and> pub_from_priv s b = Some q \<longrightarrow> shared_dhkey s a q \<noteq> None)"

definition env_works :: "env \<Rightarrow> bool" where
  "env_works e \<longleftrightarrow> ecc_open e \<and> fresh_pair e \<noteq> None \<and> (\<forall>i. malloc_ok e i)"

definition run_env_works :: "sgx \<Rightarrow> run_env \<Rightarrow> bool" where
  "run_env_works s e \<longleftrightarrow> (\<forall>x \<in> {env_main e, env_req e, env_func e, env_kem e}. env_works x \<and> env_laws s x)"

lemma sdk_works_ex:
  assumes "sdk_works s"
  shows "\<exists>h. sha256_msg s d = Some h" "length k = 16 \<Longrightarrow> length iv = 12 \<Longrightarrow> \<exists>ct tag. gcm_enc s k pt iv aad = Some (ct, tag)"
    "pub_from_priv s a = Some p \<Longrightarrow> pub_from_priv s b = Some q \<Longrightarrow> \<exists>x. shared_dhkey s a q = Some x"
  using assms by (auto simp: sdk_works_def)

lemma rand_length: "env_laws s e \<Longrightarrow> length (rand_unchecked e i) = 12"
  by (auto simp: env_laws_def rand_unchecked_def split: option.split)

subsection \<open>The time stamps of a program\<close>

fun tsc_mark :: "u64 option \<times> u64 option \<Rightarrow> native_call \<Rightarrow> u64 option \<times> u64 option" where
  "tsc_mark (b, n) (TscBegin v) = (Some v, n)"
| "tsc_mark (b, n) (TscEnd v) = (b, Some v)"
| "tsc_mark m c = m"

text \<open>The worker refuses a program that does not mark its begin and its end, in order.\<close>

definition reports_time :: "native_call list \<Rightarrow> bool" where
  "reports_time calls \<longleftrightarrow> (case foldl tsc_mark (None, None) calls of (Some b, Some n) \<Rightarrow> b \<le> n | _ \<Rightarrow> False)"

lemma print_tsc [simp]: "g_workload_tsc (enclave_print w m) = g_workload_tsc w"
  by (simp add: enclave_print_def Let_def split: option.splits)

lemma native_tsc: "g_workload_tsc (native w c) = tsc_mark (g_workload_tsc w) c"
  by (cases c; cases "g_workload_tsc w")
    (auto simp: native_def c1_workload_tsc_begin_def c1_workload_tsc_end_def c1_workload_set_output_def Let_def split: option.splits)

lemma natives_tsc: "g_workload_tsc (foldl native w cs) = foldl tsc_mark (g_workload_tsc w) cs"
  by (induction cs arbitrary: w) (simp_all add: native_tsc)

text \<open>A program that does what the runner expects, and what it leaves.\<close>

definition program_yields :: "runtime \<Rightarrow> bytes \<Rightarrow> bytes option \<Rightarrow> u32 \<Rightarrow> bytes \<Rightarrow> bool" where
  "program_yields rt wasm arg cap outp \<longleftrightarrow> wasm \<noteq> [] \<and> wasm_load rt wasm \<and> wasm_instantiate rt wasm \<and> wasm_exec_env rt wasm \<and>
     (case wasm_main rt wasm arg cap of (calls, ok) \<Rightarrow> ok \<and> captured (unat cap) calls [] = Some outp \<and> reports_time calls)"

lemma yields_length: "program_yields rt wasm arg cap outp \<Longrightarrow> length outp \<le> unat cap"
  using captured_length [of "unat cap" _ "[]" outp] by (auto simp: program_yields_def split: prod.splits)

lemma execute_yields:
  assumes "program_yields rt wasm arg cap outp" "programs_fit rt"
    and "global_output_buffer w = Some buf" "global_output_capacity w = cap" "cap \<noteq> 0"
  shows "\<exists>w' b n. execute_main rt w wasm arg = (True, w') \<and> holds_output w' outp \<and> g_workload_tsc w' = (Some b, Some n) \<and> b \<le> n"
proof -
  obtain calls where m: "wasm_main rt wasm arg cap = (calls, True)" "captured (unat cap) calls [] = Some outp" "reports_time calls"
    using assms(1) by (auto simp: program_yields_def split: prod.splits)
  have f: "\<forall>c \<in> set calls. call_fits c" using assms(2) m(1) by (metis programs_fit_def fst_conv)
  obtain r w' where x: "execute_main rt w wasm arg = (r, w')" by fastforce
  define w2 where "w2 = w\<lparr>capture_output := True, capture_output_overflow := False, global_output_pos := 0,
    global_output_buffer := Some (zero_bytes (unat cap + 1)), g_workload_tsc := (None, None)\<rparr>"
  have c: "capturing (unat cap) w2" "holds_output w2 []" "\<not> capture_output_overflow w2"
    by (simp_all add: w2_def capturing_def holds_output_def assms(4))
  have e: "execute_main rt w wasm arg = (let w3 = (foldl native w2 calls)\<lparr>capture_output := False\<rparr> in
      if capture_output_overflow w3 then (False, w3) else (True, w3))"
    using assms(3-5) m(1) by (simp add: execute_main_def Let_def w2_def)
  have n: "\<not> capture_output_overflow (foldl native w2 calls)" "holds_output (foldl native w2 calls) outp"
    using natives_refine [OF c f] m(2) by simp_all
  have t: "g_workload_tsc (foldl native w2 calls) = foldl tsc_mark (None, None) calls" by (simp add: natives_tsc w2_def)
  with m(3) obtain b n where "g_workload_tsc (foldl native w2 calls) = (Some b, Some n)" "b \<le> n"
    by (auto simp: reports_time_def split: prod.splits option.splits)
  then show ?thesis using n by (auto simp: e Let_def holds_output_def)
qed

subsection \<open>Phases that pass\<close>

lemma DecKey_state: "snd (DecKey m s e w cap c d) = w \<or> (\<exists>i. snd (DecKey m s e w cap c d) = w\<lparr>g_mcl_init := i\<rparr>)"
  by (simp add: DecKey_def dec_key_bfibe_def Let_def split: option.split prod.split sum.split) blast

lemma DecKey_label_key [simp]: "g_dklabel_func (snd (DecKey m s e w cap c d)) = g_dklabel_func w"
  using DecKey_state [of m s e w cap c d] by fastforce

lemma find_passes:
  assumes "sha256_msg s (encrypted_wasm a) = Some l" "\<not> missing (c_key a)" "\<not> missing (c_k_func a)"
  shows "find_function s f a st = (Some (function_cache_lookup (rs_w st) f l), st\<lparr>label32 := l\<rparr>)"
  using assms by (simp add: find_function_def compute_label_from_cfunc_def Let_def)

lemma select_passes:
  assumes "u \<or> g_dklabel_from_kms (rs_w st)"
  shows "\<exists>st'. select_dklabel s e u c st = (Some (), st') \<and> quiet (rs_w st) (rs_w st') \<and> label32 st' = label32 st \<and>
    (c = None \<and> \<not> u \<longrightarrow> g_dklabel_func (rs_w st') = g_worker_dklabel (rs_w st))"
proof -
  obtain st' where "select_dklabel s e u c st = (Some (), st')"
      "c = None \<and> \<not> u \<longrightarrow> g_dklabel_func (rs_w st') = g_worker_dklabel (rs_w st)"
    using assms by (cases "c = None"; cases u) (auto simp: select_dklabel_def)
  with select_Some show ?thesis by blast
qed

lemma dec_request_passes:
  assumes "fst (DecKey m s (env_req e) (rs_w st) (if u then None else Some (g_worker_key (rs_w st))) (c_key a)
      (if u then d else DOM_CKEY)) = Some kr"
  shows "\<exists>st'. dec_request_key_timed m s e u a d st = (Some (), st') \<and> quiet (rs_w st) (rs_w st') \<and> label32 st' = label32 st \<and>
    k_req32 st' = kr \<and> g_dklabel_func (rs_w st') = g_dklabel_func (rs_w st)"
proof -
  obtain w where D: "DecKey m s (env_req e) (rs_w st) (if u then None else Some (g_worker_key (rs_w st))) (c_key a)
      (if u then d else DOM_CKEY) = (Some kr, w)" using assms by (metis prod.collapse)
  then have q: "quiet (rs_w st) w" by (metis quiet_DecKey snd_conv)
  have g: "g_dklabel_func w = g_dklabel_func (rs_w st)" using DecKey_label_key D by (metis snd_conv)
  from D q g show ?thesis
    by (cases u) (auto simp: dec_request_key_timed_def dec_request_key_def Let_def traced_def)
qed

lemma dec_function_passes:
  assumes "c = None \<longrightarrow> fst (DecKey m s (env_func e) (rs_w st) (if u then None else Some (g_dklabel_func (rs_w st))) (c_k_func a)
      (if u then d else DOM_CKFUNC)) = Some kf"
  shows "\<exists>st'. dec_function_key_timed m s e u a d c st = (Some (), st') \<and> quiet (rs_w st) (rs_w st') \<and> label32 st' = label32 st \<and>
    k_req32 st' = k_req32 st \<and> (c = None \<longrightarrow> k_func32 st' = kf)"
proof (cases c)
  case None
  obtain w where D: "DecKey m s (env_func e) (rs_w st) (if u then None else Some (g_dklabel_func (rs_w st))) (c_k_func a)
      (if u then d else DOM_CKFUNC) = (Some kf, w)" using assms None by (metis prod.collapse)
  then have "quiet (rs_w st) w" by (metis quiet_DecKey snd_conv)
  with D None show ?thesis
    by (cases u) (auto simp: dec_function_key_timed_def dec_function_key_def Let_def traced_def)
qed (simp add: dec_function_key_timed_def)

lemma drop_label_func: "k_func_128 (drop_label_key None st) = take 16 (k_func32 st)"
  by (simp add: drop_label_key_def Let_def)

lemma load_function_passes:
  assumes "c = Some wasm \<or> c = None \<and> malloc_ok (env_main e) 7 \<and>
      gcm_dec s (k_func_128 st) (encrypted_wasm a) (take 12 (wasm_iv a)) d (take 16 (wasm_mac a)) = Some wasm"
  shows "\<exists>st'. load_function_timed s e f a d c st = (Some wasm, st') \<and> k_req_128 st' = k_req_128 st \<and>
    rs_w st' = (if c = None then snd (function_cache_store (rs_w st) (malloc_ok (env_main e) 8) f (label32 st) wasm) else rs_w st)"
  using assms by (cases c) (auto simp: load_function_timed_def Let_def traced_def keep_function_def split: prod.splits)

lemma load_input_passes:
  assumes "encrypted_input a \<noteq> []" "malloc_ok (env_main e) 9"
    "gcm_dec s (k_req_128 st) (encrypted_input a) (take 12 (input_iv a)) d (take 16 (input_mac a)) = Some input"
  shows "\<exists>st'. load_input_timed s e a d st = (Some (Some input), st') \<and> rs_w st' = rs_w st"
  using assms by (simp add: load_input_timed_def Let_def traced_def)

lemma evidence_passes: "sdk_works s \<Longrightarrow> \<exists>st'. evidence_phase s c wasm (Some input) st = (Some (), st') \<and> rs_w st' = rs_w st"
  using sdk_works_ex(1) [of s input] by (auto simp: evidence_phase_def capture_e3_payload_evidence_def Let_def)

lemma workload_passes:
  assumes "program_yields rt wasm (base64_encode (malloc_ok (env_main e) 10) input) (max_out_size a) outp" "programs_fit rt"
    and "env_works (env_main e)" "max_out_size a \<noteq> 0" "max_out_size a \<le> ASYNCS_MAX_OUTPUT_CAPACITY_BYTES"
    and "\<not> capture_output (rs_w st)"
  shows "\<exists>st'. workload_phase rt e a wasm (Some input) st = (Some (), st') \<and> holds_output (rs_w st') outp \<and> quiet (rs_w st) (rs_w st')"
proof -
  let ?arg = "base64_encode (malloc_ok (env_main e) 10) input"
  let ?w = "(output_capture_release (rs_w st))\<lparr>global_output_buffer := Some (zero_bytes (unat (max_out_size a) + 1)),
    global_output_capacity := max_out_size a\<rparr>"
  have p: "output_capture_prepare (rs_w st) (malloc_ok (env_main e) 11) (max_out_size a) = (True, ?w)"
    using assms(3-5) by (simp add: output_capture_prepare_def env_works_def Let_def not_less)
  obtain w' b n where x: "execute_main rt ?w wasm ?arg = (True, w')" "holds_output w' outp" "g_workload_tsc w' = (Some b, Some n)" "b \<le> n"
    using execute_yields [OF assms(1,2), of ?w] assms(4) by auto
  have "\<exists>t. run_wasm_helper rt (malloc_ok (env_main e) 12) (tsc e) ?w wasm ?arg (Some (rs_t st)) = (True, w', Some t)"
    using assms(1,3) x(1) by (simp add: run_wasm_helper_def program_yields_def env_works_def)
  then obtain t where "run_program rt e a wasm (Some input) (Some (rs_t st)) st =
      (True, Some t, st\<lparr>rs_w := w', input_b64 := None\<rparr>)" by (auto simp: run_program_def p)
  moreover have q: "quiet (rs_w st) ?w" by (simp add: output_capture_release_def)
  have "\<not> capture_output ?w" using assms(6) by (simp add: output_capture_release_def)
  from quiet_execute [OF this, of rt wasm ?arg] have "quiet ?w w'" unfolding x(1) snd_conv .
  with q have "quiet (rs_w st) w'" by (rule quiet_trans)
  ultimately show ?thesis using x(2-4) by (simp add: workload_phase_def traced_def Let_def not_less)
qed

lemma kem_passes:
  "ecall_kem_encap s (env_kem e) (pkU a) = Some (ct, key) \<Longrightarrow>
   \<exists>st'. kem_phase s e a st = (Some ct, st') \<and> k_U_128 st' = take 16 key \<and> rs_w st' = rs_w st"
  by (simp add: kem_phase_def traced_def)

text \<open>The result an output gives under a key.\<close>

definition sealed_result :: "sgx \<Rightarrow> bytes \<Rightarrow> bytes \<Rightarrow> bytes \<Rightarrow> run_result \<Rightarrow> bool" where
  "sealed_result s key outp aad r \<longleftrightarrow> gcm_enc s key outp (result_iv r) aad = Some (encrypted_result r, result_tag r) \<and>
     result_size r = len32 outp \<and> length (result_iv r) = 12"

lemma output_passes:
  assumes "sdk_works s" "env_laws s (env_main e)" "holds_output (rs_w st) outp" "length (k_U_128 st) = 16"
    and "length outp \<le> unat (max_out_size a)"
  shows "\<exists>r st'. output_phase s e a aad ct st = (Some (r, ct), st') \<and> sealed_result s (k_U_128 st) outp aad r \<and> rs_w st' = rs_w st"
proof -
  let ?iv = "rand_unchecked (env_main e) 0"
  have p: "unat (global_output_pos (rs_w st)) = length outp" and
    t: "take (unat (global_output_pos (rs_w st))) (the (global_output_buffer (rs_w st))) = outp"
    using assms(3) by (auto simp: holds_output_def)
  then have l: "global_output_pos (rs_w st) = len32 outp" using len32_of_unat [of outp "global_output_pos (rs_w st)"] by simp
  have c: "\<not> max_out_size a < global_output_pos (rs_w st)" using p assms(5) by (simp add: word_less_nat_alt)
  obtain x y where g: "gcm_enc s (k_U_128 st) outp ?iv aad = Some (x, y)"
    using sdk_works_ex(2) [OF assms(1,4) rand_length [OF assms(2)]] by blast
  have "encrypt_result s (env_main e) a (k_U_128 st) aad (rs_w st) =
      Some \<lparr>encrypted_result = x, result_size = len32 outp, result_tag = y, result_iv = ?iv\<rparr>"
    using c t g l by (simp add: encrypt_result_def Let_def)
  with g rand_length [OF assms(2)] show ?thesis by (simp add: output_phase_def sealed_result_def traced_def)
qed

subsection \<open>An invocation that passes\<close>

text \<open>The worker after a call: the key store is as it was, and the code is in the cache.\<close>

definition after_call :: "worker \<Rightarrow> bytes \<Rightarrow> bytes \<Rightarrow> bytes \<Rightarrow> worker \<Rightarrow> bool" where
  "after_call w f l wasm w' \<longleftrightarrow> key_store w' = key_store w \<and> \<not> capture_output w' \<and> function_cache_lookup w' f l = Some wasm"

lemma quiet_lookup: "quiet w w' \<Longrightarrow> function_cache_lookup w' f l = function_cache_lookup w f l"
  by (simp add: quiet_def function_cache_lookup_def)

lemma after_call_quiet: "after_call w f l wasm w' \<Longrightarrow> quiet w' w'' \<Longrightarrow> after_call w f l wasm w''"
  using quiet_lookup [of w' w'' f l] by (simp add: after_call_def quiet_def)

lemma after_cached:
  "function_cache_lookup w f l = Some wasm \<Longrightarrow> quiet w w' \<Longrightarrow> \<not> capture_output w \<Longrightarrow> after_call w f l wasm w'"
  using quiet_lookup [of w w' f l] by (simp add: after_call_def quiet_def)

lemma after_stored:
  assumes "quiet w w1" "\<not> capture_output w" "wasm \<noteq> []" "length l = 32"
  shows "after_call w f l wasm (snd (function_cache_store w1 True f l wasm))"
proof -
  let ?w = "snd (function_cache_store w1 True f l wasm)"
  have s: "function_cache_store w1 True f l wasm = (True, ?w)" using assms(3) by (simp add: function_cache_store_def)
  have "key_store ?w = key_store w1" "capture_output ?w = capture_output w1"
    using assms(3) by (simp_all add: function_cache_store_def function_cache_clear_def key_store_def)
  with assms(1,2) lookup_store [OF s assms(4,4), of f] show ?thesis by (simp add: after_call_def quiet_def)
qed

text \<open>
  The request and the package open under the keys: whatever the label key, the state of the worker has changed only in what a
  phase can change.
\<close>

definition keys_open ::
  "('fr, 'g1, 'g2, 'gt) mcl \<Rightarrow> sgx \<Rightarrow> run_env \<Rightarrow> worker \<Rightarrow> invocation \<Rightarrow> bool \<Rightarrow> bytes \<Rightarrow> bytes \<Rightarrow> bytes \<Rightarrow> bytes \<Rightarrow> bool" where
  "keys_open m s e w a u aad_req aad_pkg kr kf \<longleftrightarrow>
     (\<forall>w1. quiet w w1 \<longrightarrow>
        fst (DecKey m s (env_req e) w1 (if u then None else Some (g_worker_key w1)) (c_key a) (if u then aad_req else DOM_CKEY)) = Some kr \<and>
        (u \<or> g_dklabel_func w1 = g_worker_dklabel w \<longrightarrow>
         fst (DecKey m s (env_func e) w1 (if u then None else Some (g_dklabel_func w1)) (c_k_func a) (if u then aad_pkg else DOM_CKFUNC)) = Some kf))"

lemma run_kem_passes:
  assumes works: "sdk_works s" "sha_laws s" "run_env_works s e" "programs_fit rt"
    and w: "rs_w st0 = w" "u \<or> g_dklabel_from_kms w" "\<not> capture_output w"
    and ids: "sha256_msg s (encrypted_wasm a) = Some l" "sha256_msg s (fid_to_bytes_or_str f @ c_req_full a) = Some rid"
      "sha256_msg s (take 65 (pkU a)) = Some hpk"
    and req_aad: "aad_req = REQ @ fid_to_bytes_or_str f @ take 16 (nonce a) @ hpk"
    and pkg_aad: "aad_pkg = PKG @ fid_to_bytes_or_str f"
    and keys: "\<not> missing (c_key a)" "\<not> missing (c_k_func a)" "keys_open m s e w a u aad_req aad_pkg kr kf"
    and code: "function_cache_lookup w f l = Some wasm \<or> function_cache_lookup w f l = None \<and>
      gcm_dec s (take 16 kf) (encrypted_wasm a) (take 12 (wasm_iv a)) aad_pkg (take 16 (wasm_mac a)) = Some wasm"
    and data: "encrypted_input a \<noteq> []"
      "gcm_dec s (take 16 kr) (encrypted_input a) (take 12 (input_iv a)) aad_req (take 16 (input_mac a)) = Some input"
    and prog: "program_yields rt wasm (base64_encode True input) (max_out_size a) outp"
      "max_out_size a \<noteq> 0" "max_out_size a \<le> ASYNCS_MAX_OUTPUT_CAPACITY_BYTES"
    and kem: "ecall_kem_encap s (env_kem e) (pkU a) = Some (ct, kU)"
  shows "\<exists>r st'. run_kem m s rt e a u f st0 = (Some (r, ct), st') \<and>
    sealed_result s (take 16 kU) outp (OUT @ fid_to_bytes_or_str f @ take 32 rid @ hpk) r \<and> after_call w f l wasm (rs_w st')"
proof -
  have M: "malloc_ok (env_main e) i" "env_works (env_main e)" "env_laws s (env_main e)" for i
    using works(3) by (simp_all add: run_env_works_def env_works_def)
  define st1 where "st1 = traced (\<lambda>t. set_flag C1_TRACE_RID_VALID (t\<lparr>tr_rid := rid\<rparr>)) st0"
  let ?c = "function_cache_lookup w f l" and ?out = "OUT @ fid_to_bytes_or_str f @ take 32 rid @ hpk"
  have 0: "compute_rid_from_fid_and_c_req s (malloc_ok (env_main e) 1) f (c_req_full a) = Some rid"
    using M(1) ids(2) by (simp add: compute_rid_from_fid_and_c_req_def)
  have 1: "build_aads s (env_main e) f a rid = Some (aad_pkg, aad_req, ?out)"
    using M(1) ids(3) by (simp add: build_aads_def build_aad_pkg_def build_aad_req_def build_aad_out_def sha256_bytes_def req_aad pkg_aad)
  have 2: "find_function s f a st1 = (Some ?c, st1\<lparr>label32 := l\<rparr>)"
    using find_passes [OF ids(1) keys(1,2), of f st1] w(1) by (simp add: st1_def traced_def)
  have q2: "rs_w (st1\<lparr>label32 := l\<rparr>) = w" using w(1) by (simp add: st1_def traced_def)
  obtain st3 where 3: "select_dklabel s (env_main e) u ?c (st1\<lparr>label32 := l\<rparr>) = (Some (), st3)" "quiet w (rs_w st3)" "label32 st3 = l"
      "?c = None \<and> \<not> u \<longrightarrow> g_dklabel_func (rs_w st3) = g_worker_dklabel w"
    using select_passes [of u "st1\<lparr>label32 := l\<rparr>" s "env_main e" ?c] w(2) q2 by auto
  have k4: "fst (DecKey m s (env_req e) (rs_w st3) (if u then None else Some (g_worker_key (rs_w st3))) (c_key a)
      (if u then aad_req else DOM_CKEY)) = Some kr"
    using keys(3) [unfolded keys_open_def, rule_format, OF 3(2)] by (rule conjunct1)
  obtain st4 where 4: "dec_request_key_timed m s e u a aad_req st3 = (Some (), st4)" "quiet (rs_w st3) (rs_w st4)" "label32 st4 = label32 st3" "k_req32 st4 = kr"
      "g_dklabel_func (rs_w st4) = g_dklabel_func (rs_w st3)"
    using dec_request_passes [OF k4] by (elim exE conjE)
  have q4: "quiet w (rs_w st4)" by (rule quiet_trans [OF 3(2) 4(2)])
  have k5: "?c = None \<longrightarrow> fst (DecKey m s (env_func e) (rs_w st4) (if u then None else Some (g_dklabel_func (rs_w st4))) (c_k_func a)
      (if u then aad_pkg else DOM_CKFUNC)) = Some kf"
    using keys(3) [unfolded keys_open_def, rule_format, OF q4, THEN conjunct2] 4(5) 3(4) by (cases u) simp_all
  obtain st5 where 5: "dec_function_key_timed m s e u a aad_pkg ?c st4 = (Some (), st5)" "quiet (rs_w st4) (rs_w st5)" "label32 st5 = label32 st4" "k_req32 st5 = kr"
      "?c = None \<longrightarrow> k_func32 st5 = kf"
    using dec_function_passes [OF k5, unfolded 4(4)] by (elim exE conjE)
  have "?c = Some wasm \<or> ?c = None \<and> malloc_ok (env_main e) 7 \<and>
      gcm_dec s (k_func_128 (drop_label_key ?c st5)) (encrypted_wasm a) (take 12 (wasm_iv a)) aad_pkg (take 16 (wasm_mac a)) = Some wasm"
    using code 5(5) M(1) drop_label_func [of st5] by (cases ?c) simp_all
  from load_function_passes [OF this, of f] obtain st6 where
    6: "load_function_timed s e f a aad_pkg ?c (drop_label_key ?c st5) = (Some wasm, st6)" "k_req_128 st6 = take 16 kr"
       "rs_w st6 = (if ?c = None then snd (function_cache_store (rs_w (drop_label_key ?c st5)) (malloc_ok (env_main e) 8) f
          (label32 (drop_label_key ?c st5)) wasm) else rs_w (drop_label_key ?c st5))"
    unfolding drop_label_simps 5(4) by (elim exE conjE)
  have q5: "quiet w (rs_w (drop_label_key ?c st5))" by (rule drop_label_key_quiet [OF quiet_trans [OF q4 5(2)]])
  have lab: "label32 (drop_label_key ?c st5) = l" unfolding label_kept(4) 5(3) 4(3) 3(3) ..
  have wasm: "wasm \<noteq> []" using prog(1) by (simp add: program_yields_def)
  have a6: "after_call w f l wasm (rs_w st6)"
  proof (cases ?c)
    case None
    with 6(3) M(1) lab after_stored [OF q5 w(3) wasm sha_length [OF works(2) ids(1)], of f] show ?thesis by simp
  next
    case (Some x)
    with code have "?c = Some wasm" by simp
    with 6(3) after_cached [OF this q5 w(3)] show ?thesis by simp
  qed
  obtain st7 where 7: "load_input_timed s e a aad_req st6 = (Some (Some input), st7)" "rs_w st7 = rs_w st6"
    using load_input_passes [where st = st6, OF data(1) M(1), unfolded 6(2), OF data(2)] by (elim exE conjE)
  obtain st8 where 8: "evidence_phase s ?c wasm (Some input) st7 = (Some (), st8)" "rs_w st8 = rs_w st7" using evidence_passes [OF works(1)] by blast
  have p10: "program_yields rt wasm (base64_encode (malloc_ok (env_main e) 10) input) (max_out_size a) outp" using prog(1) M(1) by simp
  have c8: "\<not> capture_output (rs_w st8)" using a6 7(2) 8(2) by (simp add: after_call_def)
  obtain st9 where 9: "workload_phase rt e a wasm (Some input) st8 = (Some (), st9)" "holds_output (rs_w st9) outp" "quiet (rs_w st8) (rs_w st9)"
    using workload_passes [where st = st8, OF p10 works(4) M(2) prog(2,3) c8] by (elim exE conjE)
  obtain st10 where 10: "kem_phase s e a st9 = (Some ct, st10)" "k_U_128 st10 = take 16 kU" "rs_w st10 = rs_w st9"
    using kem_passes [OF kem] by blast
  have kU: "length (take 16 kU) = 16"
    using kem sha_length [OF works(2)] by (auto simp: ecall_kem_encap_def bind_eq_Some_conv split: if_splits)
  note o = yields_length [OF prog(1)]
  from output_passes [where st = st10 and outp = outp and a = a and aad = ?out and ct = ct, OF works(1) M(3)] 9(2) 10(2,3) kU o obtain r st11 where
    11: "output_phase s e a ?out ct st10 = (Some (r, ct), st11)" "sealed_result s (take 16 kU) outp ?out r" "rs_w st11 = rs_w st10" by auto
  have "after_call w f l wasm (rs_w st11)"
    unfolding 11(3) 10(3) using after_call_quiet [OF a6, of "rs_w st9"] 9(3) 8(2) 7(2) by simp
  note 12 = this
  have "run_kem m s rt e a u f st0 = (Some (r, ct), st11)"
    unfolding run_kem_def 0 option.case Let_def st1_def [symmetric] 1 prod.case 2 3(1) phase_then_simps
      4(1) 5(1) 6(1) 7(1) 8(1) 9(1) 10(1) 11(1) ..
  with 11(2) 12 show ?thesis by blast
qed

end
