(* ===== verification/ClientCall.thy ===== *)
theory ClientCall
  imports ClientSdk WorkerServes
begin

text \<open>
  A function call from the client's files to the client's output: the two ways session keys reach the worker satisfy one interface, and
  over it a call of an honest client is answered by the output of its program on its input.
\<close>

subsection \<open>The invocation of the worker enclave\<close>

lemma cleanup_kem_worker: "rs_w (cleanup_kem st) = rs_w (cleanup st)"
  by (simp add: cleanup_kem_def Let_def)

lemma cleanup_kem_trace: "rs_t (cleanup_kem st) = rs_t st"
  by (simp add: cleanup_kem_def cleanup_def Let_def)

lemma encap_works:
  assumes "sdk_works s" "env_works e" "env_laws s e" "ecdh_laws s" "pub_from_priv s x = Some p"
  shows "\<exists>q a key. fresh_pair e = Some (a, q) \<and> pub_from_priv s a = Some q \<and> ecall_kem_encap s e (point_be p) = Some (point_be q, key)"
proof -
  obtain a q where f: "fresh_pair e = Some (a, q)" using assms(2) by (auto simp: env_works_def)
  then have q: "pub_from_priv s a = Some q" using assms(3) by (auto simp: env_laws_def)
  obtain sh where sh: "shared_dhkey s a p = Some sh" using sdk_works_ex(3) [OF assms(1) q assms(5)] by blast
  obtain key where "sha256_msg s (take 32 sh) = Some key" using sdk_works_ex(1) [OF assms(1)] by blast
  with f sh q assms(2) point_be_coords [OF ecdh_agree(2) [OF assms(4,5)]] ecdh_agree(2) [OF assms(4) q] show ?thesis
    by (simp add: ecall_kem_encap_def env_works_def) (simp add: point_be_def slice_def)
qed

text \<open>What the client's files hold, for the identifier with the bytes \<open>h\<close>.\<close>

definition protects_call ::
  "sgx \<Rightarrow> bytes \<Rightarrow> bytes \<Rightarrow> bytes \<Rightarrow> bytes \<Rightarrow> bytes \<Rightarrow> bytes \<Rightarrow> bytes \<Rightarrow> bytes \<Rightarrow> bytes \<Rightarrow> bytes \<Rightarrow> bool" where
  "protects_call s h wasm input kf kr pk hpk n c_func c_req \<longleftrightarrow>
     length kf = 16 \<and> length kr = 16 \<and> length n = 16 \<and> sha256_msg s pk = Some hpk \<and>
     (\<exists>iv. length iv = 12 \<and> aead_encrypt s iv kf wasm (PKG @ h) = Some c_func) \<and>
     (\<exists>iv. length iv = 12 \<and> aead_encrypt s iv kr input (REQ @ h @ n @ hpk) = Some c_req)"

lemma aead_cut:
  assumes "aead_encrypt s iv key pt aad = Some c" "length iv = 12" "gcm_laws s"
  shows "gcm_dec s key (drop 28 c) (take 12 c) aad (slice 12 16 c) = Some pt" "length c = 28 + length pt"
    "take 12 (take 12 c) @ take 16 (slice 12 16 c) @ drop 28 c = c" "length (slice 12 16 c) = 16"
proof -
  from assms(1) obtain ct tag where g: "gcm_enc s key pt iv aad = Some (ct, tag)" "c = iv @ tag @ ct"
    by (auto simp: aead_encrypt_def bind_eq_Some_conv)
  have l: "length tag = 16" "length ct = length pt" using gcm_round [OF assms(3) g(1)] by blast+
  note parts = sealed_parts [OF assms(2) l(1), of ct]
  show "gcm_dec s key (drop 28 c) (take 12 c) aad (slice 12 16 c) = Some pt"
    unfolding g(2) parts by (rule gcm_round(1) [OF assms(3) g(1)])
  show "length c = 28 + length pt" using l assms(2) by (simp add: g(2))
  show "take 12 (take 12 c) @ take 16 (slice 12 16 c) @ drop 28 c = c" "length (slice 12 16 c) = 16"
    unfolding g(2) parts using l assms(2) by simp_all
qed

lemma pad32_128: "length k = 16 \<Longrightarrow> take 16 (pad32 k) = k"
  by (simp add: pad32_def)

text \<open>
  An invocation on these files, when the keys open: it is accepted, its result holds the output of the program on the client's input,
  the client decrypts it, and the code is in the cache for the next call.
\<close>

lemma ecall_serves:
  assumes works: "sdk_works s" "sha_laws s" "gcm_laws s" "ecdh_laws s" "run_env_works s e" "programs_fit rt"
    and w: "worker_ok s w" "u \<or> g_dklabel_from_kms w"
    and enter: "enter_invocation w a = Some (u, f)" and F: "fid_to_bytes_or_str f = h"
    and files: "protects_call s h wasm input kf kr pk hpk n c_func c_req" "pk = point_be p" "pub_from_priv s (rev sk) = Some p" "length sk = 32"
    and a: "encrypted_wasm a = drop 28 c_func" "wasm_iv a = take 12 c_func" "wasm_mac a = slice 12 16 c_func"
      "encrypted_input a = drop 28 c_req" "input_iv a = take 12 c_req" "input_mac a = slice 12 16 c_req" "nonce a = n" "pkU a = pk"
    and keys: "\<not> missing (c_key a)" "\<not> missing (c_k_func a)" "keys_open m s e w a u (REQ @ h @ n @ hpk) (PKG @ h) (pad32 kr) (pad32 kf)"
    and label: "sha256_msg s (drop 28 c_func) = Some l" "function_cache_lookup w f l \<in> {None, Some wasm}"
    and prog: "input \<noteq> []" "program_yields rt wasm (base64_encode True input) (max_out_size a) outp"
      "max_out_size a \<noteq> 0" "max_out_size a \<le> ASYNCS_MAX_OUTPUT_CAPACITY_BYTES"
    and rid: "sha256_msg s (h @ c_req) = Some rid"
  shows "\<exists>r q b st. ecall_run_encrypted_wasm_kem m s rt e w a = (Some (r, point_be q), st) \<and> pub_from_priv s b = Some q \<and>
    open_result s (point_be q) (result_bytes r) sk h (hex_string rid) pk = Some outp \<and> after_call w f l wasm (rs_w st) \<and>
    tr_rid (rs_t st) = rid"
proof -
  obtain ivf ivr where P: "length kf = 16" "length kr = 16" "length n = 16" "sha256_msg s pk = Some hpk" "length ivf = 12"
    "aead_encrypt s ivf kf wasm (PKG @ h) = Some c_func" "length ivr = 12" "aead_encrypt s ivr kr input (REQ @ h @ n @ hpk) = Some c_req"
    using files(1) unfolding protects_call_def by blast
  note cf = aead_cut [OF P(6,5) works(3)] and cr = aead_cut [OF P(8,7) works(3)]
  have lp: "length p = 64" by (rule ecdh_agree(2) [OF works(4) files(3)])
  have pk: "length pk = 65" using length_point_be [OF lp] files(2) by simp
  obtain x q ct key where K: "pub_from_priv s x = Some q" "ecall_kem_encap s (env_kem e) (pkU a) = Some (point_be q, key)"
    using encap_works [OF works(1) _ _ works(4) files(3), of "env_kem e"] works(5) a(8) files(2) by (auto simp: run_env_works_def)
  have c: "c_req_full a = c_req" by (simp only: c_req_full_def a(4-6) cr(3))
  have R: "length rid = 32" by (rule sha_length [OF works(2) rid])
  have code: "function_cache_lookup w f l = Some wasm \<or> function_cache_lookup w f l = None \<and>
      gcm_dec s (take 16 (pad32 kf)) (encrypted_wasm a) (take 12 (wasm_iv a)) (PKG @ h) (take 16 (wasm_mac a)) = Some wasm"
    using label(2) cf(1,4) P(1) by (auto simp: a pad32_128)
  have data: "encrypted_input a \<noteq> []"
    "gcm_dec s (take 16 (pad32 kr)) (encrypted_input a) (take 12 (input_iv a)) (REQ @ h @ n @ hpk) (take 16 (input_mac a)) = Some input"
    using cr prog(1) P(2) by (simp_all add: a pad32_128)
  have hp: "sha256_msg s (take 65 (pkU a)) = Some hpk" using P(4) pk a(8) by simp
  have lab: "sha256_msg s (encrypted_wasm a) = Some l" using label(1) a(1) by simp
  have rd: "sha256_msg s (fid_to_bytes_or_str f @ c_req_full a) = Some rid" using rid F c by simp
  have aads: "REQ @ h @ n @ hpk = REQ @ fid_to_bytes_or_str f @ take 16 (nonce a) @ hpk" "PKG @ h = PKG @ fid_to_bytes_or_str f"
    using F P(3) a(7) by simp_all
  have nc: "\<not> capture_output w" using w(1) by (simp add: worker_ok_def)
  have fw: "rs_w (fresh_kem w) = w" by (simp add: fresh_kem_def)
  obtain r st where r: "run_kem m s rt e a u f (fresh_kem w) = (Some (r, point_be q), st)"
    "sealed_result s (take 16 key) outp (OUT @ fid_to_bytes_or_str f @ take 32 rid @ hpk) r" "after_call w f l wasm (rs_w st)"
    using run_kem_passes [OF works(1,2,5,6) fw w(2) nc lab rd hp aads keys code data prog(2-4) K(2)] by (elim exE conjE)
  have "malloc_ok (env_main e) 0" using works(5) by (simp add: run_env_works_def env_works_def)
  then have E: "ecall_run_encrypted_wasm_kem m s rt e w a = (Some (r, point_be q), cleanup_kem st)"
    by (simp add: ecall_run_encrypted_wasm_kem_def enter r(1))
  have A: "after_call w f l wasm (rs_w (cleanup_kem st))"
    unfolding cleanup_kem_worker by (rule after_call_quiet [OF r(3)]) simp
  have "compute_rid_from_fid_and_c_req s (malloc_ok (env_main e) 1) f (c_req_full a) = Some rid"
    using rd works(5) by (simp add: compute_rid_from_fid_and_c_req_def run_env_works_def env_works_def)
  then have T: "tr_rid (rs_t (cleanup_kem st)) = rid"
    using run_kem_head [of m s rt e a u f "fresh_kem w"] r(1) by (simp add: cleanup_kem_trace trace_head_def)
  have o: "length outp < 2 ^ 32" using yields_length [OF prog(2)] unat_u32_bound [of "max_out_size a"] by simp
  have S: "gcm_enc s (take 16 key) outp (result_iv r) (OUT @ h @ rid @ hpk) = Some (encrypted_result r, result_tag r)"
    "result_size r = len32 outp" "length (result_iv r) = 12"
    using r(2) R by (simp_all add: sealed_result_def F)
  have g: "gcm_dec s (take 16 key) (encrypted_result r) (result_iv r) (OUT @ h @ rid @ hpk) (result_tag r) = Some outp"
    "length (encrypted_result r) = length outp" "length (result_tag r) = 16"
    using gcm_round [OF works(3) S(1)] by blast+
  have "unat (len32 outp) = length outp" using o by (simp add: len32_def unat_of_nat)
  then have b: "result_bytes r = result_iv r @ result_tag r @ encrypted_result r"
    using g(2,3) S(2,3) by (simp add: result_bytes_def)
  have D: "p256_decap s sk (point_be q) = Some key"
    using encap_decap [OF K(2) [unfolded a(8) files(2)] works(4) _ files(3,4)] works(5) by (simp add: run_env_works_def)
  have "open_result s (point_be q) (result_bytes r) sk h (hex_string rid) pk = Some outp"
    using g(1) S(3) g(3) sealed_parts [OF S(3) g(3), of "encrypted_result r"] P(4)
    by (simp add: open_result_def D aead_decrypt_def b)
  with E K(1) A T show ?thesis by blast
qed

subsection \<open>The worker process and the adapter\<close>

text \<open>What the trace of an accepted invocation says to the process.\<close>

lemma accepted_trace:
  assumes "ecall_run_encrypted_wasm_kem m s rt e w a = (Some (r, ct), st)" "worker_ok s w" "sha_laws s" "programs_fit rt"
  shows "tr_version (rs_t st) = 1" "flags st AND C1_TRACE_REQUIRED_FLAGS = C1_TRACE_REQUIRED_FLAGS"
proof -
  obtain u f st' where k: "enter_invocation w a = Some (u, f)" "run_kem m s rt e a u f (fresh_kem w) = (Some (r, ct), st')" "rs_t st = rs_t st'"
    by (rule kem_cases [OF assms(1)])
  have z: "rs_w (fresh_kem w) = w" "flags (fresh_kem w) = 0" "tr_version (rs_t (fresh_kem w)) = 1" by (simp_all add: fresh_kem_def zero_trace_def)
  from run_kem_Some [OF k(2) _ _ assms(3,4)] z(1,2) assms(2) entered_owner [OF k(1)] obtain hit where "flags st' = success_flags hit" by auto
  then show "flags st AND C1_TRACE_REQUIRED_FLAGS = C1_TRACE_REQUIRED_FLAGS" using required_flags k(3) by simp
  show "tr_version (rs_t st) = 1" using run_kem_version [OF z(3), of m s rt e a u f] k(2,3) by simp
qed

text \<open>The public keys of the SDK are points of the curve, and none has both coordinates zero.\<close>

definition curve_laws :: "sgx \<Rightarrow> driver_env \<Rightarrow> bool" where
  "curve_laws s e \<longleftrightarrow> (\<forall>b q. pub_from_priv s b = Some q \<longrightarrow> on_curve e (point_be q) \<and> \<not> list_all (\<lambda>x. x = 0) q)"

lemma point_valid:
  assumes "curve_laws s e" "pub_from_priv s b = Some q" "length q = 64"
  shows "is_valid_p256_point_be e (point_be q)"
proof -
  obtain x where x: "x \<in> set q" "x \<noteq> 0" using assms(1,2) by (auto simp: curve_laws_def list_all_iff)
  have "set q = set (take 32 q) \<union> set (drop 32 q)" by (metis append_take_drop_id set_append)
  with x have "\<not> list_all (\<lambda>x. x = 0) (tl (point_be q))" by (auto simp: point_be_def list_all_iff)
  with assms length_point_be [OF assms(3)] show ?thesis by (simp add: is_valid_p256_point_be_def curve_laws_def) (simp add: point_be_def)
qed

text \<open>
  The first half of an invocation: the process \<open>a\<close> that holds keys of the function goes on with them, any other asks the KMS. The result is
  the process that runs the call.
\<close>

definition key_path :: "sgx \<Rightarrow> app_env \<Rightarrow> bool \<Rightarrow> bytes \<Rightarrow> bytes \<Rightarrow> worker_app \<Rightarrow> worker_app proc" where
  "key_path s e sim f label a =
     (if delivered e 0 \<and> ecall_has_key (worker_enclave a) f = 1 then Returned (a\<lparr>g_kms_timing := no_timing\<rparr>)
      else generate_quote s e sim f label (a\<lparr>g_kms_timing := no_timing\<rparr>))"

lemma key_path_loaded:
  "delivered e 0 \<Longrightarrow> ecall_has_key (worker_enclave a) f = 1 \<Longrightarrow> key_path s e sim f l a = Returned (a\<lparr>g_kms_timing := no_timing\<rparr>)"
  by (simp add: key_path_def)

lemma do_invoke_keyed:
  assumes "load_invocation e args = Some call" "key_path s (exchange e) sim (cstr (ia_fid args)) (cstr (ia_label args)) a = Returned a1"
    and "run_invocation m s rt e call (worker_enclave a1) = (out, w)"
  shows "do_invoke m s rt e sim args True a = Returned (if out = None then -1 else 0, out, a1\<lparr>worker_enclave := w\<rparr>)"
  using assms by (auto simp: do_invoke_def key_path_def Let_def)

lemma request_loads_files:
  assumes "plain_request p r" "separate_files p" "read_file e (WASM_FILE p) = Some package"
    and "\<forall>f \<in> {package, ar_input r}. 28 \<le> length f \<and> length f < 2 ^ 32"
    and "\<forall>f \<in> {ar_c_k_func r, ar_c_key r}. 109 \<le> length f \<and> length f < 2 ^ 32"
    and "length (ar_pku r) = 65" "length (ar_nonce r) = 16"
  shows "load_invocation (with_files (request_files p r) e) (request_args p r) = Some (request_call r package, True)"
proof -
  have c: "cstr f = f" if "f \<in> {WASM_FILE p, INPUT_FILE p, CKFUNC_FILE p, CKEY_FILE p, PKU_FILE p, NONCE_FILE p}" for f
    by (rule cstr_id) (use assms(2) that in \<open>auto simp: separate_files_def Let_def\<close>)
  have n: "PKU_FILE p \<noteq> []" "NONCE_FILE p \<noteq> []" using assms(1) by (simp_all add: plain_request_def plain_word_def)
  let ?rd = "read_file (with_files (request_files p r) e)"
  have rd: "?rd (WASM_FILE p) = Some package" "?rd (INPUT_FILE p) = Some (ar_input r)" "?rd (CKFUNC_FILE p) = Some (ar_c_k_func r)"
    "?rd (CKEY_FILE p) = Some (ar_c_key r)" "?rd (PKU_FILE p) = Some (ar_pku r)" "?rd (NONCE_FILE p) = Some (ar_nonce r)"
    using assms(2,3) by (auto simp: with_files_def request_files_def separate_files_def Let_def split: option.splits)
  have u: "unat (len32 f) = length f" if "length f < 2 ^ 32" for f :: bytes using that by (simp add: len32_def unat_of_nat)
  have l: "\<not> len32 package < 28" "\<not> len32 (ar_input r) < 28" "\<not> len32 (ar_c_k_func r) < 65 + 12 + 16 + 16"
    "\<not> len32 (ar_c_key r) < 65 + 12 + 16 + 16" "len32 (ar_pku r) = 65" "len32 (ar_nonce r) = 16"
    using assms(4-7) by (simp_all add: u word_less_nat_alt word_unat_eq_iff)
  show ?thesis by (simp add: load_invocation_def request_args_def c rd n l [simplified] request_call_def Let_def)
qed

text \<open>The platform answers, and the adapter holds a running worker with nothing left to read.\<close>

definition platform_works :: "sgx \<Rightarrow> runtime \<Rightarrow> driver_env \<Rightarrow> bool" where
  "platform_works s rt e \<longleftrightarrow> sdk_works s \<and> sha_laws s \<and> gcm_laws s \<and> ecdh_laws s \<and> programs_fit rt \<and>
     run_env_works s (exec_env e) \<and> curve_laws s e \<and> delivered (exchange e) 0 \<and> delivered (exchange e) 3"

definition adapter_idle ::
  "adapter_paths \<Rightarrow> run_clock \<Rightarrow> adapter_request \<Rightarrow> worker_process \<Rightarrow> worker_app \<Rightarrow> nat \<Rightarrow> bool" where
  "adapter_idle paths c r w a n \<longleftrightarrow> plain_request paths r \<and> valid_request r \<and> separate_files paths \<and> logs_apart c \<and>
     g_c1_tsc_frequency_method c \<in> set tsc_methods \<and> wp_state w = Serving a n \<and> wp_unread w = [] \<and> same_profile (ar_profile r) w"

lemma hex_no_nul: "0 \<notin> set (hex_string h)"
proof -
  have "0 \<notin> set HEX" by (simp add: HEX_def lit_def)
  then show ?thesis using set_hex_string [of h] by blast
qed

lemma capacity_words:
  assumes "valid_request r"
  shows "of_int (ar_capacity r) \<noteq> (0 :: u32)" "(of_int (ar_capacity r) :: u32) \<le> ASYNCS_MAX_OUTPUT_CAPACITY_BYTES"
proof -
  have c: "1 \<le> ar_capacity r" "ar_capacity r \<le> 1048576" using assms by (simp_all add: valid_request_def)
  then have u: "uint (of_int (ar_capacity r) :: u32) = ar_capacity r" by (simp add: unsigned_of_int take_bit_int_eq_self)
  show "of_int (ar_capacity r) \<noteq> (0 :: u32)"
  proof
    assume "of_int (ar_capacity r) = (0 :: u32)"
    then have "uint (of_int (ar_capacity r) :: u32) = 0" by simp
    with u c show False by simp
  qed
  show "(of_int (ar_capacity r) :: u32) \<le> ASYNCS_MAX_OUTPUT_CAPACITY_BYTES"
    using u c by (simp add: word_le_def ASYNCS_MAX_OUTPUT_CAPACITY_BYTES_def)
qed

text \<open>A request made of the client's files, posted to the adapter.\<close>

lemma post_answered:
  assumes platform: "platform_works s rt (es n)" and idle: "adapter_idle paths (cs n) r w a n"
    and path: "key_path s (exchange (es n)) sim (ar_fid r) (ar_label r) a = Returned a1"
    and w: "calls_to m s rt worker_boot (worker_enclave a1)" "u \<or> g_dklabel_from_kms (worker_enclave a1)"
    and enter: "enter_invocation (worker_enclave a1) (request_call r c_func) = Some (u, ar_fid r)" and f: "fid_to_bytes_or_str (ar_fid r) = h" "0 \<notin> set (ar_fid r)" "0 \<notin> set (ar_label r)"
    and files: "protects_call s h wasm input kf kr (ar_pku r) hpk (ar_nonce r) c_func (ar_input r)" "read_file (es n) (WASM_FILE paths) = Some c_func"
      "length wasm + 28 < 2 ^ 32" "length input + 28 < 2 ^ 32" "\<forall>f \<in> {ar_c_k_func r, ar_c_key r}. 109 \<le> length f \<and> length f < 2 ^ 32"
    and client: "ar_pku r = point_be p" "pub_from_priv s (rev sk) = Some p" "length sk = 32"
    and keys: "keys_open m s (exec_env (es n)) (worker_enclave a1) (request_call r c_func) u (REQ @ h @ ar_nonce r @ hpk) (PKG @ h) (pad32 kr) (pad32 kf)"
    and label: "sha256_msg s (drop 28 c_func) = Some l" "function_cache_lookup (worker_enclave a1) (ar_fid r) l \<in> {None, Some wasm}"
    and prog: "input \<noteq> []" "program_yields rt wasm (base64_encode True input) (of_int (ar_capacity r)) outp"
    and rid: "sha256_msg s (h @ ar_input r) = Some rid"
  shows "\<exists>out ct timing a'.
    adapter_run m s rt es cs sim spawn paths r (Some w) =
      Some (Answer out (Some ct) (Some (hex_string rid)) timing, Some (w\<lparr>wp_state := Serving a' (n + 1)\<rparr>)) \<and>
    open_result s ct out sk h (hex_string rid) (ar_pku r) = Some outp \<and>
    calls_to m s rt worker_boot (worker_enclave a') \<and> after_call (worker_enclave a1) (ar_fid r) l wasm (worker_enclave a')"
proof -
  let ?c = "request_call r c_func" and ?e = "with_files (request_files paths r) (es n)" and ?w = "worker_enclave a1"
  have I: "plain_request paths r" "valid_request r" "separate_files paths" "logs_apart (cs n)" "g_c1_tsc_frequency_method (cs n) \<in> set tsc_methods"
    "wp_state w = Serving a n" "wp_unread w = []" "same_profile (ar_profile r) w" using idle by (simp_all add: adapter_idle_def)
  have S: "sdk_works s" "sha_laws s" "gcm_laws s" "ecdh_laws s" "run_env_works s (exec_env (es n))" "programs_fit rt"
    and C: "curve_laws s (es n)" and D: "delivered (exchange ?e) 0" "delivered (exchange ?e) 3"
    using platform by (simp_all add: platform_works_def with_files_exchange)
  have ok: "worker_ok s ?w" using w(1) reachable_inv(1) [OF _ S(2)] by (auto simp: calls_to_def)
  obtain ivf ivr where P: "length ivf = 12" "aead_encrypt s ivf kf wasm (PKG @ h) = Some c_func" "length ivr = 12"
    "aead_encrypt s ivr kr input (REQ @ h @ ar_nonce r @ hpk) = Some (ar_input r)" "length (ar_nonce r) = 16"
    using files(1) unfolding protects_call_def by blast
  have L: "length c_func = 28 + length wasm" "length (ar_input r) = 28 + length input"
    using aead_cut(2) [OF P(2,1) S(3)] aead_cut(2) [OF P(4,3) S(3)] by simp_all
  have lp: "length p = 64" by (rule ecdh_agree(2) [OF S(4) client(2)])
  have load: "load_invocation ?e (request_args paths r) = Some (?c, True)"
    by (rule request_loads_files [OF I(1,3) files(2) _ files(5) _ P(5)]) (use L files(3,4) length_point_be [OF lp] client(1) in simp_all)
  have out: "program_yields rt wasm (base64_encode True input) (max_out_size ?c) outp" "max_out_size ?c \<noteq> 0"
    "max_out_size ?c \<le> ASYNCS_MAX_OUTPUT_CAPACITY_BYTES"
    using prog(2) capacity_words [OF I(2)] by (simp_all add: request_call_def)
  have keyed: "\<not> missing (c_key ?c)" "\<not> missing (c_k_func ?c)" using files(5) by (auto simp: request_call_def missing_def)
  have parts: "encrypted_wasm ?c = drop 28 c_func" "wasm_iv ?c = take 12 c_func" "wasm_mac ?c = slice 12 16 c_func"
    "encrypted_input ?c = drop 28 (ar_input r)" "input_iv ?c = take 12 (ar_input r)" "input_mac ?c = slice 12 16 (ar_input r)"
    "nonce ?c = ar_nonce r" "pkU ?c = ar_pku r" by (simp_all add: request_call_def)
  obtain res q b st where E: "ecall_run_encrypted_wasm_kem m s rt (exec_env (es n)) ?w ?c = (Some (res, point_be q), st)"
    "pub_from_priv s b = Some q" "open_result s (point_be q) (result_bytes res) sk h (hex_string rid) (ar_pku r) = Some outp"
    "after_call ?w (ar_fid r) l wasm (rs_w st)" "tr_rid (rs_t st) = rid"
    using ecall_serves [OF S ok w(2) enter f(1) files(1) client parts keyed keys label prog(1) out rid] by (elim exE conjE)
  have "curve_laws s ?e" using C by (simp add: curve_laws_def with_files_def)
  then have v: "is_valid_p256_point_be ?e (point_be q)" by (rule point_valid [OF _ E(2) ecdh_agree(2) [OF S(4) E(2)]])
  let ?y = "\<lparr>out_ct = Some (point_be q), out_result = result_bytes res, out_size = result_size res, out_trace = Some (rs_t st)\<rparr>"
  have "run_invocation m s rt ?e (?c, True) ?w = (Some ?y, rs_w st)"
    using D(2) E(1) v accepted_trace [OF E(1) ok S(2,6)] by (simp add: run_invocation_def Let_def)
  moreover have "cstr (ia_fid (request_args paths r)) = ar_fid r" "cstr (ia_label (request_args paths r)) = ar_label r" "exchange ?e = exchange (es n)"
    by (simp_all add: request_args_def cstr_id [OF f(2)] cstr_id [OF f(3)] with_files_exchange)
  ultimately have "do_invoke m s rt ?e sim (request_args paths r) True a = Returned (0, Some ?y, a1\<lparr>worker_enclave := rs_w st\<rparr>)"
    using do_invoke_keyed [OF load, of s sim a a1 m rt "Some ?y" "rs_w st"] path by simp
  note x = adapter_exchange [where spawn = spawn and cs = cs and es = es and n = n, OF I(1,2,4-8) this]

  have k: "calls_to m s rt worker_boot (rs_w st)"
    using calls_trans [OF w(1) calls_exec(7) [of m s rt _ "exec_env (es n)" ?c]] E(1) by (metis snd_conv)
  obtain timing where "reply_to (cs n) (Some ?y) = Answer (result_bytes res) (Some (point_be q)) (Some (hex_string rid)) timing"
    using E(5) by (simp add: reply_to_def)
  with x E(3,4) k show ?thesis
    by (intro exI [of _ "result_bytes res"] exI [of _ "point_be q"] exI [of _ timing]
        exI [of _ "a1\<lparr>worker_enclave := rs_w st\<rparr>"]) simp
qed

subsection \<open>Key transport\<close>

text \<open>
  How session keys reach a worker: \<open>bfibe\<close> tells which of the two kinds it is, \<open>ready w f l\<close> that the worker holds the keys of the
  function \<open>f\<close> with the label \<open>l\<close>, and the two relations say which key ciphertexts a client makes for the identifier of a function
  and for a label. A worker that is ready opens them.
\<close>

locale key_transport =
  fixes m :: "('fr, 'g1, 'g2, 'gt) mcl" and s :: sgx and bfibe :: bool
    and ready :: "worker \<Rightarrow> bytes \<Rightarrow> bytes \<Rightarrow> bool"
    and seals_request :: "bytes \<Rightarrow> bytes \<Rightarrow> bytes \<Rightarrow> bytes \<Rightarrow> bool"
    and seals_function :: "bytes \<Rightarrow> bytes \<Rightarrow> bytes \<Rightarrow> bytes \<Rightarrow> bool"
  assumes ready_loaded: "ready w f l \<Longrightarrow>
      (if bfibe then g_bfibe_key_loaded w \<and> g_bfibe_fid w = f else g_key_loaded w \<and> g_worker_fid w = f \<and> g_dklabel_from_kms w)"
    and ready_store: "ready w f l \<Longrightarrow> key_store w' = key_store w \<Longrightarrow> ready w' f l"
    and sealed_kind: "ready w f l \<Longrightarrow> seals_request f k d c \<or> seals_function l k d c \<Longrightarrow> length d \<le> 200 \<Longrightarrow>
      is_bfibe_envelope (Some c) = bfibe \<and> 109 \<le> length c \<and> length c < 2 ^ 32"
    and opens_request: "ready w f l \<Longrightarrow> seals_request f k d c \<Longrightarrow> length d \<le> 200 \<Longrightarrow> env_works e \<Longrightarrow>
      fst (DecKey m s e w (if bfibe then None else Some (g_worker_key w)) (Some c) (if bfibe then d else DOM_CKEY)) = Some (pad32 k)"
    and opens_function: "ready w f l \<Longrightarrow> seals_function l k d c \<Longrightarrow> length d \<le> 200 \<Longrightarrow> env_works e \<Longrightarrow>
      fst (DecKey m s e w (if bfibe then None else Some (g_worker_dklabel w)) (Some c) (if bfibe then d else DOM_CKFUNC)) = Some (pad32 k)"
begin

lemma enters:
  assumes "ready w f l" "seals_request f kr d c" "seals_function l kf d' c'" "length d \<le> 200" "length d' \<le> 200"
    and "c_key a = Some c" "c_k_func a = Some c'"
  shows "enter_invocation w a = Some (bfibe, f)"
proof -
  have "is_bfibe_envelope (Some c) = bfibe" "is_bfibe_envelope (Some c') = bfibe"
    using sealed_kind [OF assms(1)] assms(2-5) by blast+
  with ready_loaded [OF assms(1)] assms(6,7) show ?thesis
    by (cases bfibe) (simp_all add: enter_invocation_def request_uses_bfibe_key_ciphertexts_def Let_def)
qed

lemma opens:
  assumes "ready w f l" "seals_request f kr d c" "seals_function l kf d' c'" "length d \<le> 200" "length d' \<le> 200"
    and "c_key a = Some c" "c_k_func a = Some c'" "run_env_works s e"
  shows "keys_open m s e w a bfibe d d' (pad32 kr) (pad32 kf)"
  unfolding keys_open_def assms(6,7)
proof (intro allI impI conjI)
  fix w1
  assume "quiet w w1"
  then have k: "key_store w1 = key_store w" by (simp add: quiet_def)
  then have r: "ready w1 f l" and g: "g_worker_dklabel w1 = g_worker_dklabel w" using ready_store [OF assms(1)] by (simp_all add: key_store_def)
  have e: "env_works (env_req e)" "env_works (env_func e)" using assms(8) by (simp_all add: run_env_works_def)
  show "fst (DecKey m s (env_req e) w1 (if bfibe then None else Some (g_worker_key w1)) (Some c) (if bfibe then d else DOM_CKEY)) = Some (pad32 kr)"
    by (rule opens_request [OF r assms(2,4) e(1)])
  show "fst (DecKey m s (env_func e) w1 (if bfibe then None else Some (g_dklabel_func w1)) (Some c') (if bfibe then d' else DOM_CKFUNC)) = Some (pad32 kf)"
    if "bfibe \<or> g_dklabel_func w1 = g_worker_dklabel w"
    using opens_function [OF r assms(3,5) e(2)] that g by (cases bfibe) simp_all
qed

lemma ready_path:
  assumes "ready (worker_enclave a) f l" "delivered e 0"
  shows "key_path s e sim f l' a = Returned (a\<lparr>g_kms_timing := no_timing\<rparr>)"
proof (rule key_path_loaded [OF assms(2)])
  show "ecall_has_key (worker_enclave a) f = 1" using ready_loaded [OF assms(1)] by (cases bfibe) (simp_all add: ecall_has_key_def Let_def)
qed

text \<open>A client whose files are sealed for the function, posted to a worker that is ready, is served.\<close>

lemma call_served:
  assumes platform: "platform_works s rt (es n)" and idle: "adapter_idle paths (cs n) r w a n"
    and path: "key_path s (exchange (es n)) sim (ar_fid r) (ar_label r) a = Returned a1"
    and w: "calls_to m s rt worker_boot (worker_enclave a1)" "ready (worker_enclave a1) (ar_fid r) label" and f: "fid_to_bytes_or_str (ar_fid r) = h" "0 \<notin> set (ar_fid r)" "0 \<notin> set (ar_label r)"
    and files: "protects_call s h wasm input kf kr (ar_pku r) hpk (ar_nonce r) c_func (ar_input r)" "read_file (es n) (WASM_FILE paths) = Some c_func"
      "length wasm + 28 < 2 ^ 32" "length input + 28 < 2 ^ 32"
    and client: "ar_pku r = point_be p" "pub_from_priv s (rev sk) = Some p" "length sk = 32"
    and sealed: "seals_request (ar_fid r) kr (REQ @ h @ ar_nonce r @ hpk) (ar_c_key r)" "seals_function label kf (PKG @ h) (ar_c_k_func r)"
    and code: "sha256_msg s (drop 28 c_func) = Some l" "function_cache_lookup (worker_enclave a1) (ar_fid r) l \<in> {None, Some wasm}"
    and prog: "input \<noteq> []" "program_yields rt wasm (base64_encode True input) (of_int (ar_capacity r)) outp"
    and rid: "sha256_msg s (h @ ar_input r) = Some rid"
  shows "\<exists>out ct timing a'.
    adapter_run m s rt es cs sim spawn paths r (Some w) =
      Some (Answer out (Some ct) (Some (hex_string rid)) timing, Some (w\<lparr>wp_state := Serving a' (n + 1)\<rparr>)) \<and>
    open_result s ct out sk h (hex_string rid) (ar_pku r) = Some outp \<and>
    calls_to m s rt worker_boot (worker_enclave a') \<and> ready (worker_enclave a') (ar_fid r) label \<and>
    function_cache_lookup (worker_enclave a') (ar_fid r) l = Some wasm"
proof -
  have S: "sha_laws s" "run_env_works s (exec_env (es n))" using platform by (simp_all add: platform_works_def)
  have hp: "sha256_msg s (ar_pku r) = Some hpk" "length (ar_nonce r) = 16" using files(1) by (auto simp: protects_call_def)
  have d: "length (REQ @ h @ ar_nonce r @ hpk) \<le> 200" "length (PKG @ h) \<le> 200"
    using length_fid_raw [of "ar_fid r", unfolded f(1)] hp sha_length [OF S(1) hp(1)] by (simp_all add: REQ_def PKG_def)
  let ?c = "request_call r c_func"
  have c: "c_key ?c = Some (ar_c_key r)" "c_k_func ?c = Some (ar_c_k_func r)" by (simp_all add: request_call_def)
  have u: "bfibe \<or> g_dklabel_from_kms (worker_enclave a1)" using ready_loaded [OF w(2)] by (cases bfibe) simp_all
  have big: "\<forall>f \<in> {ar_c_k_func r, ar_c_key r}. 109 \<le> length f \<and> length f < 2 ^ 32"
    using sealed_kind [OF w(2) disjI1 [OF sealed(1)] d(1)] sealed_kind [OF w(2) disjI2 [OF sealed(2)] d(2)] by simp
  obtain out ct timing a' where x: "adapter_run m s rt es cs sim spawn paths r (Some w) =
      Some (Answer out (Some ct) (Some (hex_string rid)) timing, Some (w\<lparr>wp_state := Serving a' (n + 1)\<rparr>))"
    "open_result s ct out sk h (hex_string rid) (ar_pku r) = Some outp" "calls_to m s rt worker_boot (worker_enclave a')"
    "after_call (worker_enclave a1) (ar_fid r) l wasm (worker_enclave a')"
    using post_answered [where es = es and cs = cs and n = n and sim = sim and spawn = spawn, OF platform idle path w(1) u enters [OF w(2) sealed d c] f files big client opens [OF w(2) sealed d c S(2)] code prog rid]
    by (elim exE conjE)
  have "ready (worker_enclave a') (ar_fid r) label" by (rule ready_store [OF w(2)]) (use x(4) in \<open>simp add: after_call_def\<close>)
  with x show ?thesis unfolding after_call_def by (intro exI conjI) (rule x(1), simp_all)
qed

end

subsection \<open>Keys of the first kind: ECIES under derived key pairs\<close>

text \<open>The private key the KMS derives for an identifier or a label under the master secret \<open>msk\<close>.\<close>

definition derived_key :: "sgx \<Rightarrow> bytes \<Rightarrow> bytes \<Rightarrow> bytes option" where
  "derived_key s msk i = (if i = DEFAULT_FID then Some (replicate 32 0xBB) else sha256_msg s (msk @ i))"

lemma derive_pair_key: "derive_key_pair s e k i = Some (sk, p) \<Longrightarrow> derived_key s (g_msk k) i = Some sk \<and> pub_from_priv s sk = Some p"
  by (auto simp: derive_key_pair_def derived_key_def bind_eq_Some_conv split: if_splits)

definition ecc_ready :: "sgx \<Rightarrow> bytes \<Rightarrow> worker \<Rightarrow> bytes \<Rightarrow> bytes \<Rightarrow> bool" where
  "ecc_ready s msk w f l \<longleftrightarrow> gcm_laws s \<and> ecdh_laws s \<and> g_key_loaded w \<and> g_worker_fid w = f \<and> g_dklabel_from_kms w \<and>
     derived_key s msk f = Some (g_worker_key w) \<and> derived_key s msk l = Some (g_worker_dklabel w)"

definition ecc_sealed :: "sgx \<Rightarrow> bytes \<Rightarrow> bytes \<Rightarrow> bytes \<Rightarrow> bytes \<Rightarrow> bytes \<Rightarrow> bool" where
  "ecc_sealed s msk i k d c \<longleftrightarrow> (\<exists>sk p eph iv. derived_key s msk i = Some sk \<and> pub_from_priv s sk = Some p \<and> p256_pair s eph \<and>
     length iv = 12 \<and> length k \<in> {16, 32} \<and> ecies_encrypt s eph iv p k = Some c)"

lemma ecc_opens:
  assumes "ecc_sealed s msk i k d c" "derived_key s msk i = Some sk" "gcm_laws s" "ecdh_laws s" "env_works e"
  shows "fst (DecKey m s e w (Some sk) (Some c) dm) = Some (pad32 k)" "\<not> is_bfibe_envelope (Some c)" "109 \<le> length c" "length c < 2 ^ 32"
proof -
  obtain p eph iv where x: "ecies_encrypt s eph iv p k = Some c" "length k \<in> {16, 32}" "length iv = 12" "p256_pair s eph" "pub_from_priv s sk = Some p"
    using assms(1,2) by (auto simp: ecc_sealed_def)
  have e: "ecc_open e" "malloc_ok e 0" using assms(5) by (simp_all add: env_works_def)
  note o = ecies_opens [OF x assms(3,4) e]
  then show "fst (DecKey m s e w (Some sk) (Some c) dm) = Some (pad32 k)" by (simp add: DecKey_def)
  show "\<not> is_bfibe_envelope (Some c)" "109 \<le> length c" "length c < 2 ^ 32" using o x(2) by auto
qed

lemma env_works_ex: "\<exists>e. env_works e"
  by (rule exI [of _ "toy_env"]) (simp add: env_works_def)

interpretation eccibe: key_transport m s False "ecc_ready s msk" "ecc_sealed s msk" "ecc_sealed s msk"
  for m :: "('fr, 'g1, 'g2, 'gt) mcl" and s msk
proof unfold_locales
  fix w :: worker and f l
  assume r: "ecc_ready s msk w f l"
  then show "if False then g_bfibe_key_loaded w \<and> g_bfibe_fid w = f else g_key_loaded w \<and> g_worker_fid w = f \<and> g_dklabel_from_kms w"
    by (simp add: ecc_ready_def)
  show "ecc_ready s msk w' f l" if "key_store w' = key_store w" for w'
    using r that by (simp add: ecc_ready_def key_store_def)
  from r have R: "gcm_laws s" "ecdh_laws s" "derived_key s msk f = Some (g_worker_key w)" "derived_key s msk l = Some (g_worker_dklabel w)"
    by (simp_all add: ecc_ready_def)
  obtain e0 where e0: "env_works e0" using env_works_ex by blast
  show "is_bfibe_envelope (Some c) = False \<and> 109 \<le> length c \<and> length c < 2 ^ 32"
    if "ecc_sealed s msk f k d c \<or> ecc_sealed s msk l k d c" for k d c
    using that ecc_opens(2-4) [OF _ R(3,1,2) e0] ecc_opens(2-4) [OF _ R(4,1,2) e0] by blast
  show "fst (DecKey m s e w (if False then None else Some (g_worker_key w)) (Some c) (if False then d else DOM_CKEY)) = Some (pad32 k)"
    if "ecc_sealed s msk f k d c" "env_works e" for k d c e
    using ecc_opens(1) [OF that(1) R(3,1,2) that(2)] by simp
  show "fst (DecKey m s e w (if False then None else Some (g_worker_dklabel w)) (Some c) (if False then d else DOM_CKFUNC)) = Some (pad32 k)"
    if "ecc_sealed s msk l k d c" "env_works e" for k d c e
    using ecc_opens(1) [OF that(1) R(4,1,2) that(2)] by simp
qed

subsection \<open>Keys of the second kind: identity-based envelopes\<close>

text \<open>The master secret of the scheme that a KMS enclave derives from its own.\<close>

definition bf_master :: "('fr, 'g1, 'g2, 'gt) mcl \<Rightarrow> sgx \<Rightarrow> bytes \<Rightarrow> bytes \<Rightarrow> bool" where
  "bf_master m s msk b \<longleftrightarrow> (\<exists>k i j. g_msk k = msk \<and> derive_bfibe_msk m s k i = (Inr b, j))"

lemma bf_master_unique: "bf_master m s msk b \<Longrightarrow> bf_master m s msk b' \<Longrightarrow> b = b'"
  unfolding bf_master_def using derive_msk_same by blast

definition bf_ready :: "('fr, 'g1, 'g2, 'gt) mcl \<Rightarrow> sgx \<Rightarrow> bytes \<Rightarrow> worker \<Rightarrow> bytes \<Rightarrow> bytes \<Rightarrow> bool" where
  "bf_ready m s msk w f l \<longleftrightarrow> mcl_laws m \<and> bn_init m = 0 \<and> g_bfibe_key_loaded w \<and> g_bfibe_fid w = f \<and> length f \<le> 127 \<and> length l \<le> 127 \<and>
     (\<exists>b i j i' j'. bf_master m s msk b \<and> bfibe_mcl_extract m b (lit ''fid:'' @ f) 256 i = (Inr (g_bfibe_request_sk w), j) \<and>
        bfibe_mcl_extract m b (lit ''label:'' @ l) 256 i' = (Inr (g_bfibe_function_sk w), j'))"

definition bf_sealed :: "('fr, 'g1, 'g2, 'gt) mcl \<Rightarrow> sgx \<Rightarrow> bytes \<Rightarrow> bytes \<Rightarrow> bytes \<Rightarrow> bytes \<Rightarrow> bytes \<Rightarrow> bytes \<Rightarrow> bool" where
  "bf_sealed m s msk purpose i k d c \<longleftrightarrow> (\<exists>ssl b cap i1 i2 mpk r n. same_crypto s ssl \<and> bf_master m s msk b \<and>
     bfibe_mcl_public_from_msk m b cap i1 = (Inr mpk, i2) \<and> encrypt_key_envelope m ssl mpk purpose i d k r n = Inr c)"

lemma bf_opens:
  assumes "bf_sealed m s msk purpose i k d c" "bf_master m s msk b" "bfibe_mcl_extract m b i 256 j1 = (Inr sk, j2)"
    and "mcl_laws m" "bn_init m = 0" "key_for w purpose i = Some sk" "g_bfibe_key_loaded w" "length (g_bfibe_fid w) \<le> 127"
    and "length purpose + length i + length d \<le> 459"
  shows "fst (DecKey m s e w cap32 (Some c) d) = Some (pad32 k)" "is_bfibe_envelope (Some c)" "109 \<le> length c" "length c < 2 ^ 32"
proof -
  from assms(1) obtain ssl b' cap i1 i2 mpk r n where x: "same_crypto s ssl" "bf_master m s msk b'"
    "bfibe_mcl_public_from_msk m b' cap i1 = (Inr mpk, i2)" "encrypt_key_envelope m ssl mpk purpose i d k r n = Inr c"
    unfolding bf_sealed_def by blast
  have "b' = b" by (rule bf_master_unique [OF x(2) assms(2)])
  with client_envelope_opens [OF assms(4) x(1) x(3) _ x(4) assms(6,7) _ assms(8,9)] assms(3,5)
  show "fst (DecKey m s e w cap32 (Some c) d) = Some (pad32 k)" by blast
  obtain c1 ct tag where e: "purpose = REQUEST_KEY \<or> purpose = FUNCTION_KEY" "length k = 16 \<or> length k = 32" "length n = 12"
    "length c1 \<le> 96" "length ct = length k" "length tag = 16" "c = envelope_layout [BFIBE_PROFILE_ID, purpose, i, d, c1, n, ct @ tag]"
  proof (rule encrypt_Inr_parts [OF x(4)])
    fix P g q sh c1 ct tag
    assume a: "purpose = REQUEST_KEY \<or> purpose = FUNCTION_KEY" "length k = 16 \<or> length k = 32" "length n = 12"
      "g1_serialize m (g1_mul m g (fr_le_mod m r)) 96 = Some c1"
      "ssl_gcm_encrypt ssl (take 16 (ssl_sha256 ssl sh)) n k (envelope_aad_layout purpose i d) = Some (ct, tag)"
      "c = envelope_layout [BFIBE_PROFILE_ID, purpose, i, d, c1, n, ct @ tag]"
    have "length ct = length k" "length tag = 16" using a(5) x(1) unfolding same_crypto_def by blast+
    then show thesis using that a mcl_serial(4) [OF assms(4) a(4)] by blast
  qed
  show "is_bfibe_envelope (Some c)" by (simp add: e(7) is_bfibe_envelope_def envelope_layout_def memcmp_eq_def nth_append)
  have "length purpose = 11 \<or> length purpose = 12" using e(1) by (auto simp: REQUEST_KEY_def FUNCTION_KEY_def)
  then show "109 \<le> length c" "length c < 2 ^ 32"
    using e(2-6) assms(9) by (auto simp: e(7) envelope_layout_def length_frame BFIBE_PROFILE_ID_def)
qed

interpretation bfibe: key_transport m s True "bf_ready m s msk" "\<lambda>f. bf_sealed m s msk REQUEST_KEY (lit ''fid:'' @ f)"
    "\<lambda>l. bf_sealed m s msk FUNCTION_KEY (lit ''label:'' @ l)"
  for m :: "('fr, 'g1, 'g2, 'gt) mcl" and s msk
proof unfold_locales
  fix w :: worker and f l
  assume r: "bf_ready m s msk w f l"
  then show "if True then g_bfibe_key_loaded w \<and> g_bfibe_fid w = f else g_key_loaded w \<and> g_worker_fid w = f \<and> g_dklabel_from_kms w"
    by (simp add: bf_ready_def)
  show "bf_ready m s msk w' f l" if "key_store w' = key_store w" for w'
    using r that by (simp add: bf_ready_def key_store_def)
  from r obtain b i j i' j' where R: "mcl_laws m" "bn_init m = 0" "g_bfibe_key_loaded w" "g_bfibe_fid w = f" "length f \<le> 127" "length l \<le> 127"
    "bf_master m s msk b" "bfibe_mcl_extract m b (lit ''fid:'' @ f) 256 i = (Inr (g_bfibe_request_sk w), j)"
    "bfibe_mcl_extract m b (lit ''label:'' @ l) 256 i' = (Inr (g_bfibe_function_sk w), j')"
    unfolding bf_ready_def by blast
  have K: "key_for w REQUEST_KEY (lit ''fid:'' @ f) = Some (g_bfibe_request_sk w)"
    "key_for w FUNCTION_KEY (lit ''label:'' @ l) = Some (g_bfibe_function_sk w)" "length (g_bfibe_fid w) \<le> 127"
    using R(4,5) by (auto simp: key_for_def bytes_starts_with_literal_def memcmp_eq_def REQUEST_KEY_def FUNCTION_KEY_def)
  have L: "length REQUEST_KEY + length (lit ''fid:'' @ f) + length d \<le> 459" "length FUNCTION_KEY + length (lit ''label:'' @ l) + length d \<le> 459"
    if "length d \<le> 200" for d :: bytes using that R(5,6) by (simp_all add: REQUEST_KEY_def FUNCTION_KEY_def)
  note rq = bf_opens [OF _ R(7,8,1,2) K(1) R(3) K(3) L(1)] and fk = bf_opens [OF _ R(7,9,1,2) K(2) R(3) K(3) L(2)]
  show "is_bfibe_envelope (Some c) = True \<and> 109 \<le> length c \<and> length c < 2 ^ 32"
    if "bf_sealed m s msk REQUEST_KEY (lit ''fid:'' @ f) k d c \<or> bf_sealed m s msk FUNCTION_KEY (lit ''label:'' @ l) k d c" "length d \<le> 200" for k d c
    using that rq(2-4) [of k d c] fk(2-4) [of k d c] by blast
  show "fst (DecKey m s e w (if True then None else Some (g_worker_key w)) (Some c) (if True then d else DOM_CKEY)) = Some (pad32 k)"
    if "bf_sealed m s msk REQUEST_KEY (lit ''fid:'' @ f) k d c" "length d \<le> 200" for k d c e
    using rq(1) [OF that] by simp
  show "fst (DecKey m s e w (if True then None else Some (g_worker_dklabel w)) (Some c) (if True then d else DOM_CKFUNC)) = Some (pad32 k)"
    if "bf_sealed m s msk FUNCTION_KEY (lit ''label:'' @ l) k d c" "length d \<le> 200" for k d c e
    using fk(1) [OF that] by simp
qed

end
