(* ===== verification/ClientSession.thy ===== *)
theory ClientSession
  imports ClientCall
begin

text \<open>
  A function in service: keys that arrive from the KMS make a worker ready, and a worker that is ready answers every sequence of calls the
  SDK prepares, each with the output of the program on the input of that call.
\<close>

subsection \<open>A sequence of calls\<close>

fun adapter_session ::
  "('fr, 'g1, 'g2, 'gt) mcl \<Rightarrow> sgx \<Rightarrow> runtime \<Rightarrow> (nat \<Rightarrow> driver_env) \<Rightarrow> (nat \<Rightarrow> run_clock) \<Rightarrow> bool \<Rightarrow> (bytes \<Rightarrow> spawned)
   \<Rightarrow> adapter_paths \<Rightarrow> adapter_request list \<Rightarrow> worker_process option \<Rightarrow> (run_reply list \<times> worker_process option) option" where
  "adapter_session m s rt es cs sim spawn paths [] w = Some ([], w)"
| "adapter_session m s rt es cs sim spawn paths (r # rs) w =
     do { (reply, w1) \<leftarrow> adapter_run m s rt es cs sim spawn paths r w;
          (replies, w2) \<leftarrow> adapter_session m s rt es cs sim spawn paths rs w1;
          Some (reply # replies, w2) }"

text \<open>A call: the request, and what only the client knows of it: its input, its private key, the output it can expect.\<close>

type_synonym client_call = "adapter_request \<times> bytes \<times> bytes \<times> bytes"

text \<open>The request of a call is sealed for the function by a client that uses it within its bounds.\<close>

definition honest_call ::
  "(bytes \<Rightarrow> bytes \<Rightarrow> bytes \<Rightarrow> bytes \<Rightarrow> bool) \<Rightarrow> sgx \<Rightarrow> runtime \<Rightarrow> adapter_paths \<Rightarrow> worker_process \<Rightarrow> bytes \<Rightarrow> bytes \<Rightarrow> bytes \<Rightarrow> client_call \<Rightarrow> bool" where
  "honest_call seals s rt paths w h wasm ckf call \<longleftrightarrow> (case call of (r, input, sk, outp) \<Rightarrow>
     plain_request paths r \<and> valid_request r \<and> same_profile (ar_profile r) w \<and> ar_fid r = hex_string h \<and> 0 \<notin> set (ar_label r) \<and> ar_c_k_func r = ckf \<and>
     length (ar_nonce r) = 16 \<and> input \<noteq> [] \<and> length input + 28 < 2 ^ 32 \<and>
     program_yields rt wasm (base64_encode True input) (of_int (ar_capacity r)) outp \<and>
     length sk = 32 \<and> (\<exists>p. ar_pku r = point_be p \<and> pub_from_priv s (rev sk) = Some p) \<and>
     (\<exists>kr iv hpk. length kr = 16 \<and> length iv = 12 \<and> sha256_msg s (ar_pku r) = Some hpk \<and>
        aead_encrypt s iv kr input (REQ @ h @ ar_nonce r @ hpk) = Some (ar_input r) \<and>
        seals (ar_fid r) kr (REQ @ h @ ar_nonce r @ hpk) (ar_c_key r)))"

text \<open>The reply holds the request identifier the client computed, and the client decrypts it to the expected output.\<close>

definition answered :: "sgx \<Rightarrow> client_call \<Rightarrow> run_reply \<Rightarrow> bool" where
  "answered s call reply \<longleftrightarrow> (case call of (r, input, sk, outp) \<Rightarrow>
     \<exists>out ct rid timing. reply = Answer out (Some ct) (Some rid) timing \<and> sdk_compute_rid s (ar_fid r) (ar_input r) = Some rid \<and>
       decrypt_result s ct out sk (ar_fid r) rid (ar_pku r) = Some outp)"

text \<open>The surroundings of a session: at every call the platform answers and the deployed package is the client's.\<close>

definition service :: "sgx \<Rightarrow> runtime \<Rightarrow> (nat \<Rightarrow> driver_env) \<Rightarrow> (nat \<Rightarrow> run_clock) \<Rightarrow> adapter_paths \<Rightarrow> bytes \<Rightarrow> bool" where
  "service s rt es cs paths c_func \<longleftrightarrow> separate_files paths \<and>
     (\<forall>n. platform_works s rt (es n) \<and> logs_apart (cs n) \<and> g_c1_tsc_frequency_method (cs n) \<in> set tsc_methods \<and>
        read_file (es n) (WASM_FILE paths) = Some c_func)"

context key_transport
begin

text \<open>One call: \<open>a1\<close> is the process after the key path, and holds the keys.\<close>

lemma honest_call_served:
  assumes serv: "service s rt es cs paths c_func" and h: "length h = 32"
    and package: "length kf = 16" "length iv = 12" "aead_encrypt s iv kf wasm (PKG @ h) = Some c_func" "length wasm + 28 < 2 ^ 32"
      "seals_function label kf (PKG @ h) ckf" "sha256_msg s (drop 28 c_func) = Some l"
    and w: "wp_state w = Serving a n" "wp_unread w = []" "key_path s (exchange (es n)) sim (hex_string h) (ar_label (fst c)) a = Returned a1"
      "calls_to m s rt worker_boot (worker_enclave a1)" "ready (worker_enclave a1) (hex_string h) label"
      "function_cache_lookup (worker_enclave a1) (hex_string h) l \<in> {None, Some wasm}"
    and call: "honest_call seals_request s rt paths w h wasm ckf c"
  shows "\<exists>reply a'. adapter_run m s rt es cs sim spawn paths (fst c) (Some w) = Some (reply, Some (w\<lparr>wp_state := Serving a' (n + 1)\<rparr>)) \<and>
    answered s c reply \<and> calls_to m s rt worker_boot (worker_enclave a') \<and> ready (worker_enclave a') (hex_string h) label \<and>
    function_cache_lookup (worker_enclave a') (hex_string h) l = Some wasm"
proof -
  obtain r input sk outp where c: "c = (r, input, sk, outp)" by (cases c)
  have H: "honest_call seals_request s rt paths w h wasm ckf (r, input, sk, outp)" using call c by simp
  then obtain p kr ivr hpk where q: "plain_request paths r" "valid_request r" "same_profile (ar_profile r) w" "ar_fid r = hex_string h"
    "ar_c_k_func r = ckf" "length (ar_nonce r) = 16" "input \<noteq> []" "length input + 28 < 2 ^ 32"
    "program_yields rt wasm (base64_encode True input) (of_int (ar_capacity r)) outp" "length sk = 32"
    "ar_pku r = point_be p" "pub_from_priv s (rev sk) = Some p" "length kr = 16" "length ivr = 12" "sha256_msg s (ar_pku r) = Some hpk"
    "aead_encrypt s ivr kr input (REQ @ h @ ar_nonce r @ hpk) = Some (ar_input r)"
    "seals_request (ar_fid r) kr (REQ @ h @ ar_nonce r @ hpk) (ar_c_key r)" "0 \<notin> set (ar_label r)"
    unfolding honest_call_def prod.case by blast
  have P: "platform_works s rt (es n)" and rd: "read_file (es n) (WASM_FILE paths) = Some c_func"
    and I: "adapter_idle paths (cs n) r w a n"
    using serv q(1-3) w(1,2) by (simp_all add: service_def adapter_idle_def)
  have prot: "protects_call s h wasm input kf kr (ar_pku r) hpk (ar_nonce r) c_func (ar_input r)"
    unfolding protects_call_def using package(1-3) q(6,13-16) by blast
  have "sdk_works s" using P by (simp add: platform_works_def)
  then obtain rid where rid: "sha256_msg s (h @ ar_input r) = Some rid" using sdk_works_ex(1) by blast
  have rdy: "ready (worker_enclave a1) (ar_fid r) label" and lk: "function_cache_lookup (worker_enclave a1) (ar_fid r) l \<in> {None, Some wasm}"
    and sf: "seals_function label kf (PKG @ h) (ar_c_k_func r)" and path: "key_path s (exchange (es n)) sim (ar_fid r) (ar_label r) a = Returned a1"
    using w(3,5,6) package(5) unfolding q(4,5) c by simp_all
  have F: "fid_to_bytes_or_str (ar_fid r) = h" "0 \<notin> set (ar_fid r)" using hash_fid(2) [OF h] hex_no_nul by (simp_all add: q(4))
  obtain out ct timing a' where x: "adapter_run m s rt es cs sim spawn paths r (Some w) =
      Some (Answer out (Some ct) (Some (hex_string rid)) timing, Some (w\<lparr>wp_state := Serving a' (n + 1)\<rparr>))"
    "open_result s ct out sk h (hex_string rid) (ar_pku r) = Some outp" "calls_to m s rt worker_boot (worker_enclave a')"
    "ready (worker_enclave a') (ar_fid r) label" "function_cache_lookup (worker_enclave a') (ar_fid r) l = Some wasm"
    using call_served [where es = es and cs = cs and n = n and sim = sim and spawn = spawn,
        OF P I path w(4) rdy F q(18) prot rd package(4) q(8,11,12,10,17) sf package(6) lk q(7,9) rid]
    by (elim exE conjE)
  have "sdk_compute_rid s (ar_fid r) (ar_input r) = Some (hex_string rid)" using rid by (simp add: sdk_compute_rid_def q(4))
  with x(2) q(4) have "answered s c (Answer out (Some ct) (Some (hex_string rid)) timing)" unfolding answered_def c by (simp add: sdk_opens)
  with x show ?thesis unfolding c q(4) fst_conv by blast
qed

lemma session_served:
  assumes serv: "service s rt es cs paths c_func" and h: "length h = 32"
    and package: "length kf = 16" "length iv = 12" "aead_encrypt s iv kf wasm (PKG @ h) = Some c_func" "length wasm + 28 < 2 ^ 32"
      "seals_function label kf (PKG @ h) ckf" "sha256_msg s (drop 28 c_func) = Some l"
  shows "wp_state w = Serving a n \<Longrightarrow> wp_unread w = [] \<Longrightarrow> calls_to m s rt worker_boot (worker_enclave a) \<Longrightarrow>
    ready (worker_enclave a) (hex_string h) label \<Longrightarrow> function_cache_lookup (worker_enclave a) (hex_string h) l \<in> {None, Some wasm} \<Longrightarrow>
    \<forall>c \<in> set calls. honest_call seals_request s rt paths w h wasm ckf c \<Longrightarrow>
    \<exists>replies a'. adapter_session m s rt es cs sim spawn paths (map fst calls) (Some w) =
        Some (replies, Some (w\<lparr>wp_state := Serving a' (n + length calls)\<rparr>)) \<and> list_all2 (answered s) calls replies \<and>
      ready (worker_enclave a') (hex_string h) label"
proof (induction calls arbitrary: w a n)
  case Nil
  then show ?case by (intro exI [of _ "[]"] exI [of _ a]) simp
next
  case (Cons c calls)
  let ?a = "a\<lparr>g_kms_timing := no_timing\<rparr>"
  have "delivered (exchange (es n)) 0" using serv by (simp add: service_def platform_works_def)
  then have p: "key_path s (exchange (es n)) sim (hex_string h) (ar_label (fst c)) a = Returned ?a" by (rule ready_path [OF Cons.prems(4)])
  obtain reply a1 where x: "adapter_run m s rt es cs sim spawn paths (fst c) (Some w) = Some (reply, Some (w\<lparr>wp_state := Serving a1 (n + 1)\<rparr>))"
    "answered s c reply" "calls_to m s rt worker_boot (worker_enclave a1)" "ready (worker_enclave a1) (hex_string h) label"
    "function_cache_lookup (worker_enclave a1) (hex_string h) l = Some wasm"
    using honest_call_served [where a = a and es = es and cs = cs and n = n and sim = sim and spawn = spawn and ?a1.0 = ?a and w = w and c = c,
        OF serv h package Cons.prems(1,2) p] Cons.prems(3-6) by (auto elim!: exE conjE)
  let ?w = "w\<lparr>wp_state := Serving a1 (n + 1)\<rparr>"
  have hc: "\<forall>c \<in> set calls. honest_call seals_request s rt paths ?w h wasm ckf c"
    using Cons.prems(6) by (simp add: honest_call_def same_profile_def)
  obtain replies a' where y: "adapter_session m s rt es cs sim spawn paths (map fst calls) (Some ?w) =
        Some (replies, Some (?w\<lparr>wp_state := Serving a' (n + 1 + length calls)\<rparr>))" "list_all2 (answered s) calls replies"
      "ready (worker_enclave a') (hex_string h) label"
    using Cons.IH [of ?w a1 "n + 1", OF _ _ x(3) x(4) _ hc] Cons.prems(2) x(5) by auto
  from x(1,2) y show ?case by (intro exI [of _ "reply # replies"] exI [of _ a']) simp
qed

text \<open>A session whose first call takes the key path to the KMS.\<close>

lemma cold_session_served:
  assumes serv: "service s rt es cs paths c_func" and h: "length h = 32"
    and package: "length kf = 16" "length iv = 12" "aead_encrypt s iv kf wasm (PKG @ h) = Some c_func" "length wasm + 28 < 2 ^ 32"
      "seals_function label kf (PKG @ h) ckf" "sha256_msg s (drop 28 c_func) = Some l"
    and w: "wp_state w = Serving a n" "wp_unread w = []" "key_path s (exchange (es n)) sim (hex_string h) (ar_label (fst c)) a = Returned a1"
      "calls_to m s rt worker_boot (worker_enclave a1)" "ready (worker_enclave a1) (hex_string h) label"
      "function_cache_lookup (worker_enclave a1) (hex_string h) l \<in> {None, Some wasm}"
    and calls: "\<forall>c \<in> set (c # calls). honest_call seals_request s rt paths w h wasm ckf c"
  shows "\<exists>replies a'. adapter_session m s rt es cs sim spawn paths (map fst (c # calls)) (Some w) =
        Some (replies, Some (w\<lparr>wp_state := Serving a' (n + length (c # calls))\<rparr>)) \<and> list_all2 (answered s) (c # calls) replies"
proof -
  have hc: "honest_call seals_request s rt paths w h wasm ckf c" using calls by simp
  obtain reply a2 where x: "adapter_run m s rt es cs sim spawn paths (fst c) (Some w) = Some (reply, Some (w\<lparr>wp_state := Serving a2 (n + 1)\<rparr>))"
    "answered s c reply" "calls_to m s rt worker_boot (worker_enclave a2)" "ready (worker_enclave a2) (hex_string h) label"
    "function_cache_lookup (worker_enclave a2) (hex_string h) l = Some wasm"
    using honest_call_served [where a = a and es = es and cs = cs and n = n and sim = sim and spawn = spawn and ?a1.0 = a1 and w = w and c = c,
        OF serv h package w hc] by (elim exE conjE)
  let ?w = "w\<lparr>wp_state := Serving a2 (n + 1)\<rparr>"
  have hc: "\<forall>c \<in> set calls. honest_call seals_request s rt paths ?w h wasm ckf c"
    using calls by (simp add: honest_call_def same_profile_def)
  obtain replies a' where y: "adapter_session m s rt es cs sim spawn paths (map fst calls) (Some ?w) =
        Some (replies, Some (?w\<lparr>wp_state := Serving a' (n + 1 + length calls)\<rparr>))" "list_all2 (answered s) calls replies"
    using session_served [where w = ?w and a = a2 and n = "n + 1" and sim = sim and spawn = spawn, OF serv h package _ _ x(3,4) _ hc] w(2) x(5) by auto
  from x(1,2) y show ?thesis by (intro exI [of _ "reply # replies"] exI [of _ a']) simp
qed

end

subsection \<open>Keys that arrive\<close>

lemma wrap_unwrap:
  assumes "wrap_for_worker s e pk key = Some out" "pub_from_priv s priv = Some pk" "length key = 32"
    and "gcm_laws s" "ecdh_laws s" "env_laws s e" "ecc_open e'"
  shows "unwrap_key s e' priv out = Some key"
proof -
  have pk: "length pk = 64" by (rule ecdh_agree(2) [OF assms(5,2)])
  obtain a q sh ct tag where x: "fresh_pair e = Some (a, q)" "shared_dhkey s a pk = Some sh"
    "gcm_enc s (take 16 sh) key (rand_unchecked e 0) [] = Some (ct, tag)" "out = q @ rand_unchecked e 0 @ tag @ ct"
    using assms(1) pk by (auto simp: wrap_for_worker_def Let_def bind_eq_Some_conv split: if_splits)
  have q: "pub_from_priv s a = Some q" "length q = 64" using assms(6) x(1) by (auto simp: env_laws_def)
  have sh: "shared_dhkey s priv q = Some sh" using ecdh_agree(1) [OF assms(5) assms(2) q(1)] x(2) by simp
  have g: "gcm_dec s (take 16 sh) ct (rand_unchecked e 0) [] tag = Some key" "length ct = 32" "length tag = 16"
    using gcm_round [OF assms(4) x(3)] assms(3) by auto
  have iv: "length (rand_unchecked e 0) = 12" by (rule rand_length [OF assms(6)])
  have "slice 0 64 out = q" "slice 64 12 out = rand_unchecked e 0" "slice 76 16 out = tag" "slice 92 32 out = ct"
    using q(2) iv g(2,3) by (simp_all add: x(4) slice_def)
  with sh g assms(7) show ?thesis by (simp add: unwrap_key_def)
qed

lemma label_not_default: "length h = 32 \<Longrightarrow> hex_string h \<noteq> DEFAULT_FID"
proof -
  assume h: "length h = 32"
  have "length DEFAULT_FID = 11" by (simp add: DEFAULT_FID_def)
  with h show "hex_string h \<noteq> DEFAULT_FID" by (metis length_hex_bytes numeral_times_numeral numeral_eq_iff semiring_norm)
qed

text \<open>
  When the KMS enclave releases the keys of a function and of a label to the public key of a worker, and the worker enclave imports what it
  wrote, the worker holds the two private keys the KMS enclave derives for them.
\<close>

lemma legacy_keys_ready:
  assumes "ecall_derive_keys_batch s e1 e2 k f l pk = (0, Some dkf, Some dkl)" "pub_from_priv s (g_private_key w) = Some pk"
    and "gcm_laws s" "ecdh_laws s" "sha_laws s" "env_laws s e1" "env_laws s e2" "ecc_open e3" "ecc_open e4"
    and "length f \<le> 128" "l \<noteq> DEFAULT_FID"
  shows "ecc_ready s (g_msk k) (ecall_decrypt_keys_batch s e3 e4 w dkf dkl f) f l"
proof -
  from assms(1) have g: "ecall_get_key s e1 k f pk = Some dkf" "derive_label_key_internal s e2 k f l pk = Some dkl"
    by (auto simp: ecall_derive_keys_batch_def split: if_splits option.splits)
  from g(1) obtain sk p where f: "derive_key_pair s e1 k f = Some (sk, p)" "wrap_for_worker s e1 pk sk = Some dkf" by (rule get_key_Some)
  from g(2) obtain lk where l: "sha256_msg s (g_msk k @ l) = Some lk" "wrap_for_worker s e2 pk lk = Some dkl" by (rule label_key_Some)
  have len: "length sk = 32" "length lk = 32"
    using f(1) sha_length [OF assms(5)] l(1) by (auto simp: derive_key_pair_def bind_eq_Some_conv split: if_splits)
  have d: "derived_key s (g_msk k) f = Some sk" "derived_key s (g_msk k) l = Some lk"
    using derive_pair_key [OF f(1)] l(1) assms(11) by (simp_all add: derived_key_def)
  have "unwrap_key s e3 (g_private_key w) dkf = Some sk" "unwrap_key s e4 (g_private_key w) dkl = Some lk"
    by (rule wrap_unwrap [OF f(2) assms(2) len(1) assms(3,4,6,8)]) (rule wrap_unwrap [OF l(2) assms(2) len(2) assms(3,4,7,9)])
  then have "ecall_decrypt_keys_batch s e3 e4 w dkf dkl f =
      enter_fid (w\<lparr>g_worker_key := sk, g_worker_dklabel := lk, g_dklabel_from_kms := True\<rparr>) f"
    by (simp add: ecall_decrypt_keys_batch_def)
  then show ?thesis using d assms(3,4,10) by (simp add: ecc_ready_def)
qed

text \<open>The same for a release of the second kind.\<close>

lemma bfibe_release_readies:
  assumes rel: "ecall_get_bfibe_key_release m s e1 k (Some f) (Some l) (Some pk) (Some out) cap = (Some (buf, sz), k')"
    and laws: "mcl_laws m" "gcm_laws s" "ecdh_laws s" "env_laws s e1" "bn_init m = 0"
    and k: "length (g_verified_mrenclave k) = 32" "length out = unat cap"
    and w: "g_worker_keypair_ready w" "pub_from_priv s (g_private_key w) = Some pk" "ecc_open e2" "malloc_ok e2 0"
    and load: "ecall_load_bfibe_key_release s e2 w (Some (take (unat sz) buf)) (Some f) = (rc, w')"
  shows "rc = 0 \<and> bf_ready m s (g_msk k) w' f l"
proof -
  obtain rsk fsk wi ini where r: "release_private_keys m s k f l = (Some (lit ''fid:'' @ f, rsk, lit ''label:'' @ l, fsk, wi), ini)"
    "length f \<le> 54" "length l < 66"
    "ecall_load_bfibe_key_release s e2 w (Some (take (unat sz) buf)) (Some f) =
       (0, with_keys w f [(REQUEST_KEY, lit ''fid:'' @ f, rsk), (FUNCTION_KEY, lit ''label:'' @ l, fsk)])"
    by (rule release_loads [OF rel laws(1-4) k w])
  have w': "rc = 0" "w' = with_keys w f [(REQUEST_KEY, lit ''fid:'' @ f, rsk), (FUNCTION_KEY, lit ''label:'' @ l, fsk)]"
    using load r(4) by simp_all
  obtain msk i1 i2 where x: "derive_bfibe_msk m s k (g_mcl_initialized k) = (Inr msk, i1)"
    "bfibe_mcl_extract m msk (lit ''fid:'' @ f) 256 i1 = (Inr rsk, i2)" "bfibe_mcl_extract m msk (lit ''label:'' @ l) 256 i2 = (Inr fsk, ini)"
    by (rule release_extracts [OF r(1)])
  have W: "g_bfibe_fid w' = f" "g_bfibe_key_loaded w'" "g_bfibe_request_sk w' = rsk" "g_bfibe_function_sk w' = fsk"
    using r(2) by (simp_all add: w'(2) with_keys_def last_key_def function_cache_clear_def)
  have "bf_master m s (g_msk k) msk" using x(1) unfolding bf_master_def by blast
  then have "\<exists>b i j i' j'. bf_master m s (g_msk k) b \<and> bfibe_mcl_extract m b (lit ''fid:'' @ f) 256 i = (Inr rsk, j) \<and>
      bfibe_mcl_extract m b (lit ''label:'' @ l) 256 i' = (Inr fsk, j')"
    using x(2,3) by (intro exI conjI)
  then show ?thesis using laws(1,5) r(2,3) W w'(1) by (simp add: bf_ready_def)
qed

subsection \<open>The files of the SDK\<close>

definition client_draws :: "sgx \<Rightarrow> client_env \<Rightarrow> nat \<Rightarrow> bool" where
  "client_draws s ce keys \<longleftrightarrow> p256_pair s (ce_keypair ce) \<and> (\<forall>i. p256_pair s (ce_ephemeral ce i)) \<and>
     (\<forall>i. length (ce_urandom ce i) = (if i < keys then 16 else 12))"

lemma keygen_pair: "p256_pair s kp \<Longrightarrow> p256_keygen kp = (pk, sk) \<Longrightarrow>
    pk = point_be (snd kp) \<and> pub_from_priv s (rev sk) = Some (snd kp) \<and> length sk = 32"
  by (auto simp: p256_keygen_def p256_pair_def)

lemma sdk_package:
  assumes "encrypt_function_code s ce tenant action version wasm = Some pkg" "sha_laws s"
  obtains h lb where "length h = 32" "fp_fid pkg = hex_string h" "fp_k_func pkg = ce_urandom ce 0"
    "aead_encrypt s (ce_urandom ce 1) (fp_k_func pkg) wasm (PKG @ h) = Some (fp_c_func pkg)" "length lb = 32" "fp_l pkg = hex_string lb"
proof -
  from assms(1) obtain raw h c lb where x: "sha256_msg s raw = Some h" "aead_encrypt s (ce_urandom ce 1) (ce_urandom ce 0) wasm (PKG @ h) = Some c"
    "sha256_msg s c = Some lb" "pkg = \<lparr>fp_fid = hex_string h, fp_c_func = c, fp_l = hex_string lb, fp_k_func = ce_urandom ce 0\<rparr>"
    by (auto simp: encrypt_function_code_def compute_fid_def sdk_aad_pkg_def PKG_def bind_eq_Some_conv Let_def)
  with sha_length [OF assms(2)] show thesis by (intro that) simp_all
qed

text \<open>A key sealed by the SDK to a public key the KMS prints.\<close>

lemma sdk_seals:
  assumes "eccibe_encrypt s load_der eph iv der key = Some c" "load_der der = Some p" "ecall_get_public_key s ek k i = Some (4 # p)"
    and "p256_pair s eph" "length iv = 12" "length key = 16"
  shows "ecc_sealed s (g_msk k) i key d c"
proof -
  obtain sk where "derived_key s (g_msk k) i = Some sk" "pub_from_priv s sk = Some p"
    using assms(3) derive_pair_key by (auto simp: ecall_get_public_key_def bind_eq_Some_conv)
  moreover have "ecies_encrypt s eph iv p key = Some c" using assms(1,2) by (simp add: eccibe_encrypt_def)
  ultimately show ?thesis unfolding ecc_sealed_def using assms(4-6) by blast
qed

text \<open>The request the client posts for a prepared call.\<close>

definition sdk_request :: "bytes \<Rightarrow> int \<Rightarrow> function_package \<Rightarrow> bytes \<Rightarrow> prepared_call \<Rightarrow> adapter_request" where
  "sdk_request profile cap pkg ckf pc =
     \<lparr>ar_fid = fp_fid pkg, ar_label = fp_l pkg, ar_profile = profile, ar_capacity = cap, ar_input = pc_c_req pc, ar_c_k_func = ckf,
      ar_c_key = pc_c_key pc, ar_pku = pc_pkU pc, ar_nonce = the (py_fromhex (pc_nonce pc))\<rparr>"

text \<open>A job: a prepared call with its capacity, its input and the output the program yields on it.\<close>

type_synonym job = "prepared_call \<times> int \<times> bytes \<times> bytes"

definition sdk_job :: "sgx \<Rightarrow> runtime \<Rightarrow> (bytes \<Rightarrow> bytes option) \<Rightarrow> bytes \<Rightarrow> bytes \<Rightarrow> bytes \<Rightarrow> job \<Rightarrow> bool" where
  "sdk_job s rt load_der pk_FID f wasm job \<longleftrightarrow> (case job of (pc, cap, input, outp) \<Rightarrow>
     (\<exists>ce. client_draws s ce 2 \<and> prepare_invocation s load_der ce f input pk_FID = Some pc) \<and> 1 \<le> cap \<and> cap \<le> 1048576 \<and>
     input \<noteq> [] \<and> length input + 28 < 2 ^ 32 \<and> program_yields rt wasm (base64_encode True input) (of_int cap) outp)"

definition job_answered :: "sgx \<Rightarrow> bytes \<Rightarrow> job \<Rightarrow> run_reply \<Rightarrow> bool" where
  "job_answered s f job reply \<longleftrightarrow> (case job of (pc, cap, input, outp) \<Rightarrow>
     \<exists>out ct timing. reply = Answer out (Some ct) (Some (pc_rid pc)) timing \<and>
       decrypt_result s ct out (pc_skU pc) f (pc_rid pc) (pc_pkU pc) = Some outp)"

definition plain_paths :: "adapter_paths \<Rightarrow> bool" where
  "plain_paths p \<longleftrightarrow> (\<forall>f \<in> {WASM_FILE p, INPUT_FILE p, CKFUNC_FILE p, CKEY_FILE p, PKU_FILE p, NONCE_FILE p}. plain_word is_space f \<and> hd f = 47)"

lemma plain_hex: "length h = 32 \<Longrightarrow> plain_word is_space (hex_string h)"
proof -
  assume "length h = 32"
  then have "h \<noteq> []" by auto
  from hex_plain [OF this] show "plain_word is_space (hex_string h)" by (auto simp: plain_word_def py_space_def)
qed

definition job_call :: "bytes \<Rightarrow> function_package \<Rightarrow> bytes \<Rightarrow> job \<Rightarrow> client_call" where
  "job_call profile pkg ckf job = (case job of (pc, cap, input, outp) \<Rightarrow> (sdk_request profile cap pkg ckf pc, input, pc_skU pc, outp))"

lemma job_honest:
  assumes "sdk_job s rt load_der pk_FID (hex_string h) wasm job" "fp_fid pkg = hex_string h" "length h = 32" "fp_l pkg = hex_string lb" "length lb = 32"
    and "plain_paths paths" "same_profile profile w" "load_der pk_FID = Some p" "ecall_get_public_key s ek k (hex_string h) = Some (4 # p)"
  shows "honest_call (ecc_sealed s (g_msk k)) s rt paths w h wasm ckf (job_call profile pkg ckf job)"
    "answered s (job_call profile pkg ckf job) reply \<Longrightarrow> job_answered s (hex_string h) job reply"
proof -
  obtain pc cap input outp where j: "job = (pc, cap, input, outp)" by (cases job)
  from assms(1) obtain ce where J: "client_draws s ce 2" "prepare_invocation s load_der ce (hex_string h) input pk_FID = Some pc"
    "1 \<le> cap" "cap \<le> 1048576" "input \<noteq> []" "length input + 28 < 2 ^ 32" "program_yields rt wasm (base64_encode True input) (of_int cap) outp"
    unfolding sdk_job_def j prod.case by blast
  obtain pk sk where kg: "p256_keygen (ce_keypair ce) = (pk, sk)" by fastforce
  have D: "p256_pair s (ce_keypair ce)" "p256_pair s (ce_ephemeral ce 0)" "length (ce_urandom ce 0) = 16" "length (ce_urandom ce 1) = 16"
    "length (ce_urandom ce 2) = 12" "length (ce_urandom ce 3) = 12" using J(1) by (simp_all add: client_draws_def)
  from J(2) kg obtain hpk c_req ck rid where P: "sha256_msg s pk = Some hpk"
    "aead_encrypt s (ce_urandom ce 2) (ce_urandom ce 0) input (REQ @ h @ ce_urandom ce 1 @ hpk) = Some c_req"
    "eccibe_encrypt s load_der (ce_ephemeral ce 0) (ce_urandom ce 3) pk_FID (ce_urandom ce 0) = Some ck"
    "sdk_compute_rid s (hex_string h) c_req = Some rid"
    "pc = \<lparr>pc_c_req = c_req, pc_c_key = ck, pc_pkU = pk, pc_skU = sk, pc_nonce = hex_string (ce_urandom ce 1), pc_rid = rid\<rparr>"
    by (auto simp: prepare_invocation_def sdk_aad_req_def REQ_def bind_eq_Some_conv Let_def)
  note K = keygen_pair [OF D(1) kg]
  have S: "ecc_sealed s (g_msk k) (hex_string h) (ce_urandom ce 0) d ck" for d
    by (rule sdk_seals [OF P(3) assms(8,9) D(2,6,3)])
  let ?r = "sdk_request profile cap pkg ckf pc"
  have r: "ar_fid ?r = hex_string h" "ar_label ?r = hex_string lb" "ar_input ?r = c_req" "ar_c_key ?r = ck" "ar_c_k_func ?r = ckf" "ar_pku ?r = pk"
    "ar_nonce ?r = ce_urandom ce 1" "ar_capacity ?r = cap" "ar_profile ?r = profile"
    using assms(2,4) by (simp_all add: sdk_request_def P(5))
  have ne: "hex_string h \<noteq> []" "hex_string lb \<noteq> []" using plain_hex assms(3,5) by (auto simp: plain_word_def)
  have v: "plain_request paths ?r" "valid_request ?r"
    using assms(6) plain_hex [OF assms(3)] plain_hex [OF assms(5)] ne J(3,4)
    by (simp_all add: plain_request_def plain_paths_def valid_request_def r)
  have c: "job_call profile pkg ckf job = (?r, input, sk, outp)" by (simp add: job_call_def j P(5))
  show "honest_call (ecc_sealed s (g_msk k)) s rt paths w h wasm ckf (job_call profile pkg ckf job)"
    unfolding c honest_call_def prod.case r
  proof (intro conjI exI)
    show "pk = point_be (snd (ce_keypair ce))" "pub_from_priv s (rev sk) = Some (snd (ce_keypair ce))" "length sk = 32" using K by simp_all
  qed (rule v assms(7) refl hex_no_nul D J P(1,2) S)+
  show "job_answered s (hex_string h) job reply" if "answered s (job_call profile pkg ckf job) reply"
  proof -
    from that [unfolded c] obtain out ct rid' timing where y: "reply = Answer out (Some ct) (Some rid') timing"
      "sdk_compute_rid s (hex_string h) c_req = Some rid'" "decrypt_result s ct out sk (hex_string h) rid' pk = Some outp"
      unfolding answered_def prod.case r by blast
    with P(4) show ?thesis by (simp add: job_answered_def j P(5))
  qed
qed

subsection \<open>An empty cache\<close>

lemma fresh_import:
  assumes "\<not> cc_valid (g_cached_function_code w)"
  shows "\<not> cc_valid (g_cached_function_code (ecall_decrypt_keys_batch s e1 e2 w dkf dkl f))"
  using assms by (auto simp: ecall_decrypt_keys_batch_def enter_fid_def function_cache_clear_def empty_cache_def Let_def split: option.splits)

lemma fresh_load:
  assumes "\<not> cc_valid (g_cached_function_code w)"
  shows "\<not> cc_valid (g_cached_function_code (snd (ecall_load_bfibe_key_release s e w r f)))"
proof (cases rule: load_release_cases [of s e w r f])
  case (loaded w1 g)
  have "g_cached_function_code w1 = g_cached_function_code w" using loaded(1) by (auto simp: keys_only_def)
  then show ?thesis using assms unfolding loaded(2) by (simp add: function_cache_clear_def empty_cache_def)
qed (use assms in \<open>auto simp: keys_only_def\<close>)

lemma fresh_lookup: "\<not> cc_valid (g_cached_function_code w) \<Longrightarrow> function_cache_lookup w f l = None"
  by (simp add: function_cache_lookup_def Let_def)

end
