(* ===== verification/ColdStart.thy ===== *)
theory ColdStart
  imports ClientSession
begin

text \<open>
  The first call of a worker process that holds no keys: it reports a fresh key, makes a quote, asks the KMS server over the network and
  imports the two private keys of the answer. Here the server answers under the first profile, with the keys of the function and of the
  label in one response.
\<close>

subsection \<open>The quote\<close>

text \<open>A process that can make a quote sends it to the KMS.\<close>

lemma quote_connects:
  assumes "generate_quote_bytes s e sim a = (Some (quote, pk), a0)" "app_malloc e 0"
  shows "generate_quote s e sim f l a = connect_to_kms s e (kms_host e) (kms_port e) quote f l pk a0"
  using assms by (auto simp: generate_quote_bytes_def generate_quote_def Let_def split: if_splits prod.splits option.splits)

text \<open>The key of the quote is the public key of the pair the enclave now holds.\<close>

lemma report_keypair:
  assumes "create_report s e a = (report, pk, a0)" "delivered e 1" "env_works (report_env e)" "env_laws s (report_env e)" "sdk_works s"
  shows "pub_from_priv s (g_private_key (worker_enclave a0)) = Some pk \<and> g_worker_keypair_ready (worker_enclave a0) \<and>
    g_cached_function_code (worker_enclave a0) = g_cached_function_code (worker_enclave a)"
proof -
  obtain x q where f: "fresh_pair (report_env e) = Some (x, q)" using assms(3) by (auto simp: env_works_def)
  then have q: "pub_from_priv s x = Some q" using assms(4) by (auto simp: env_laws_def)
  obtain h where "sha256_msg s q = Some h" using sdk_works_ex(1) [OF assms(5)] by blast
  with assms(1-3) f q show ?thesis by (auto simp: create_report_def ecall_create_report_def env_works_def)
qed

lemma quote_keypair:
  assumes "generate_quote_bytes s e sim a = (Some (quote, pk), a0)" "delivered e 1" "env_works (report_env e)" "env_laws s (report_env e)" "sdk_works s"
  shows "pub_from_priv s (g_private_key (worker_enclave a0)) = Some pk \<and> g_worker_keypair_ready (worker_enclave a0) \<and>
    g_cached_function_code (worker_enclave a0) = g_cached_function_code (worker_enclave a) \<and> calls_to m s rt (worker_enclave a) (worker_enclave a0)"
proof -
  obtain report where r: "create_report s e a = (report, pk, a0)"
    using assms(1) by (auto simp: generate_quote_bytes_def dummy_quote_def Let_def split: if_splits prod.splits option.splits)
  show ?thesis using report_keypair [OF r assms(2-5)] report_calls [OF r] by blast
qed

subsection \<open>The answer of the server\<close>

lemma serve_eccibe:
  assumes "serve_request m s e1 e2 h sim a rq = (reply, k')" "rq_profile rq = lit ''eccibe''" "ecall_ok h 0" "reply \<notin> kms_refusals"
  obtains dkf dkl t where "reply = send_keys_with_timing (take 124 dkf @ take 124 dkl) t"
    "ecall_derive_keys_batch s e1 e2 (snd (ecall_verify_quote_for_fid (enclave a) (Some (rq_fid rq)) (Some (rq_quote rq))))
       (rq_fid rq) (rq_label rq) (rq_public_key rq) = (0, Some dkf, Some dkl)"
proof -
  let ?k = "snd (ecall_verify_quote_for_fid (enclave a) (Some (rq_fid rq)) (Some (rq_quote rq)))"
  have "(reply, k') = reply_for_profile m s e1 e2 h ?k rq (mono_ns h 2 - mono_ns h 1)"
    using assms by (cases "ecall_verify_quote_for_fid (enclave a) (Some (rq_fid rq)) (Some (rq_quote rq))")
      (auto simp: serve_request_def kms_refusals_def Let_def split: if_splits prod.splits)
  with assms(2,4) show thesis
    by (auto simp: reply_for_profile_def kms_refusals_def split: if_splits option.splits prod.splits intro!: that)
qed

lemma wrapped_length:
  assumes "wrap_for_worker s e pk key = Some out" "length key = 32" "gcm_laws s" "ecdh_laws s" "env_laws s e"
  shows "length out = 124"
proof -
  obtain a q sh ct tag where x: "fresh_pair e = Some (a, q)" "gcm_enc s (take 16 sh) key (rand_unchecked e 0) [] = Some (ct, tag)"
    "out = q @ rand_unchecked e 0 @ tag @ ct"
    using assms(1) by (auto simp: wrap_for_worker_def Let_def bind_eq_Some_conv split: if_splits)
  have "pub_from_priv s a = Some q" "length q = 64" using assms(5) x(1) by (auto simp: env_laws_def)
  then show ?thesis using gcm_round [OF assms(3) x(2)] rand_length [OF assms(5)] assms(2) x(3) by simp
qed

lemma batch_lengths:
  assumes "ecall_derive_keys_batch s e1 e2 k f l pk = (0, Some dkf, Some dkl)" "sha_laws s" "gcm_laws s" "ecdh_laws s" "env_laws s e1" "env_laws s e2"
  shows "length dkf = 124" "length dkl = 124"
proof -
  from assms(1) have g: "ecall_get_key s e1 k f pk = Some dkf" "derive_label_key_internal s e2 k f l pk = Some dkl"
    by (auto simp: ecall_derive_keys_batch_def split: if_splits option.splits)
  from g(1) obtain sk p where f: "derive_key_pair s e1 k f = Some (sk, p)" "wrap_for_worker s e1 pk sk = Some dkf" by (rule get_key_Some)
  from g(2) obtain lk where l: "sha256_msg s (g_msk k @ l) = Some lk" "wrap_for_worker s e2 pk lk = Some dkl" by (rule label_key_Some)
  have len: "length sk = 32" "length lk = 32"
    using f(1) sha_length [OF assms(2)] l(1) by (auto simp: derive_key_pair_def bind_eq_Some_conv split: if_splits)
  show "length dkf = 124" by (rule wrapped_length [OF f(2) len(1) assms(3-5)])
  show "length dkl = 124" by (rule wrapped_length [OF l(2) len(2) assms(3,4,6)])
qed

text \<open>A response of two keys and the timing, used by the worker process.\<close>

lemma use_keys:
  assumes "length dkf = 124" "length dkl = 124" "\<not> is_bfibe_key_release_response (dkf @ dkl @ trailer_bytes t)" "delivered e 2"
  shows "use_response s e f (dkf @ dkl @ trailer_bytes t) a =
    a\<lparr>worker_enclave := ecall_decrypt_keys_batch s (dkf_env e) (dklabel_env e) (worker_enclave a) dkf dkl f, g_kms_timing := t\<rparr>"
proof -
  have "dkf \<noteq> []" using assms(1) by auto
  then show ?thesis using assms
    by (simp add: use_response_def KMS_KEYS_LEN_def copy_timing_def KMS_TIMING_TRAILER_LEN_def timing_of_trailer slice_def Let_def)
qed

subsection \<open>The exchange\<close>

text \<open>
  What the first call meets: the process can make a quote and reach the server, the server gets the request as it was sent and does not refuse it,
  and its answer arrives and ends. The worker tells the two kinds of answers apart by the first nine bytes, so that the first bytes of the public
  key in the answer must not be those of a BF-IBE release.
\<close>

definition kms_exchange ::
  "('fr, 'g1, 'g2, 'gt) mcl \<Rightarrow> sgx \<Rightarrow> app_env \<Rightarrow> bool \<Rightarrow> bytes \<Rightarrow> bytes \<Rightarrow> worker_app \<Rightarrow> bool \<Rightarrow> kms_app \<Rightarrow> bool" where
  "kms_exchange m s e sim f l a sim' ka \<longleftrightarrow>
     app_malloc e 0 \<and> delivered e 1 \<and> delivered e 2 \<and> env_works (report_env e) \<and> env_laws s (report_env e) \<and>
     ecc_open (dkf_env e) \<and> ecc_open (dklabel_env e) \<and> kms_crypto_profile e = lit ''eccibe'' \<and>
     0 < resolve e (kms_host e) (kms_port e) \<and> reaches_server e (kms_host e) (kms_port e) \<and>
     (\<exists>quote pk a0 evs h k1 k2 reply ka'.
        generate_quote_bytes s e sim (a\<lparr>g_kms_timing := no_timing\<rparr>) = (Some (quote, pk), a0) \<and> within KMS_MAX_QUOTE_SIZE quote \<and>
        snd (write_parts (send_results e) (request_parts quote f l pk (kms_crypto_profile e))) \<and>
        stream evs = request_bytes quote f l pk (kms_crypto_profile e) \<and>
        (\<forall>i. host_malloc h i) \<and> ecall_ok h 0 \<and> env_laws s k1 \<and> env_laws s k2 \<and>
        handle_client m s k1 k2 h sim' ka evs = Some (reply, True, ka') \<and> reply \<notin> kms_refusals \<and>
        stream (arrives e) = reply \<and> ending (arrives e) = Closed \<and> \<not> is_bfibe_key_release_response reply)"

lemma cold_path:
  assumes ex: "kms_exchange m s e sim f l a sim' ka" and empty: "\<not> (delivered e 0 \<and> ecall_has_key (worker_enclave a) f = 1)"
    and laws: "sdk_works s" "sha_laws s" "gcm_laws s" "ecdh_laws s"
    and f: "0 \<notin> set f" "0 \<notin> set l" "f \<noteq> []" "length f \<le> 128" "length l = 64" "l \<noteq> DEFAULT_FID"
    and w: "calls_to m s rt worker_boot (worker_enclave a)" "\<not> cc_valid (g_cached_function_code (worker_enclave a))"
  shows "\<exists>a1. key_path s e sim f l a = Returned a1 \<and> calls_to m s rt worker_boot (worker_enclave a1) \<and>
    ecc_ready s (g_msk (enclave ka)) (worker_enclave a1) f l \<and> \<not> cc_valid (g_cached_function_code (worker_enclave a1))"
proof -
  let ?p = "kms_crypto_profile e"
  from ex obtain quote pk a0 evs h k1 k2 reply ka' where x: "app_malloc e 0" "delivered e 1" "delivered e 2" "env_works (report_env e)"
    "env_laws s (report_env e)" "ecc_open (dkf_env e)" "ecc_open (dklabel_env e)" "?p = lit ''eccibe''"
    "0 < resolve e (kms_host e) (kms_port e)" "reaches_server e (kms_host e) (kms_port e)"
    "generate_quote_bytes s e sim (a\<lparr>g_kms_timing := no_timing\<rparr>) = (Some (quote, pk), a0)" "within KMS_MAX_QUOTE_SIZE quote"
    "snd (write_parts (send_results e) (request_parts quote f l pk ?p))" "stream evs = request_bytes quote f l pk ?p"
    "\<And>i. host_malloc h i" "ecall_ok h 0" "env_laws s k1" "env_laws s k2" "handle_client m s k1 k2 h sim' ka evs = Some (reply, True, ka')"
    "reply \<notin> kms_refusals" "stream (arrives e) = reply" "ending (arrives e) = Closed" "\<not> is_bfibe_key_release_response reply"
    unfolding kms_exchange_def by blast
  note K = quote_keypair [OF x(11,2,4,5) laws(1), of m rt, simplified]
  have pk: "length pk = 64" by (rule ecdh_agree(2) [OF laws(4)]) (use K in blast)
  have c: "cstr ?p = ?p" unfolding x(8) by (simp add: cstr_def lit_def)
  have v: "valid_fields quote f l pk ?p"
    using x(12) f pk unfolding x(8) by (auto simp: valid_fields_def within_def kms_app_consts)
  let ?rq = "\<lparr>rq_quote = quote, rq_fid = f, rq_label = l, rq_public_key = pk, rq_profile = ?p\<rparr>"
  obtain r where "parse_request h evs = Inr (?rq, r)"
    using parse_request_accepts [of h evs quote f l pk ?p "[]"] x(14,15) v f(1,2) by (auto simp: cstr_id c)
  with x(19) obtain k' where sv: "serve_request m s k1 k2 h sim' ka ?rq = (reply, k')" by (auto simp: handle_client_def split: prod.splits)
  obtain dkf dkl t where rp: "reply = send_keys_with_timing (take 124 dkf @ take 124 dkl) t"
    and d: "ecall_derive_keys_batch s k1 k2 (snd (ecall_verify_quote_for_fid (enclave ka) (Some f) (Some quote))) f l pk = (0, Some dkf, Some dkl)"
    by (rule serve_eccibe [OF sv _ x(16,20)]) (use x(8) in simp_all)
  note len = batch_lengths [OF d laws(2-4) x(17,18)]
  have rp: "reply = dkf @ dkl @ trailer_bytes t" using len by (simp add: rp send_keys_with_timing_def)
  let ?a = "a0\<lparr>g_kms_timing := no_timing, kms_sent := kms_sent a0 @ [request_bytes quote f l pk ?p]\<rparr>"
  have "connect_to_kms s e (kms_host e) (kms_port e) quote f l pk a0 = Returned (use_response s e f reply ?a)"
    using exchange_sent [OF x(9,10,13), where a = a0] x(21,22) rp len
    by (simp add: read_response_eq KMS_RESPONSE_MAX_LEN_def KMS_TIMING_TRAILER_LEN_def BFIBE_MAX_RELEASE_LEN_def)
  also have "use_response s e f reply ?a =
      ?a\<lparr>worker_enclave := ecall_decrypt_keys_batch s (dkf_env e) (dklabel_env e) (worker_enclave a0) dkf dkl f, g_kms_timing := t\<rparr>"
    using use_keys [OF len, of t e s f ?a] x(3,23) by (simp add: rp)
  finally have path: "key_path s e sim f l a =
      Returned (?a\<lparr>worker_enclave := ecall_decrypt_keys_batch s (dkf_env e) (dklabel_env e) (worker_enclave a0) dkf dkl f, g_kms_timing := t\<rparr>)"
    using quote_connects [OF x(11,1)] empty by (auto simp: key_path_def)
  have msk: "g_msk (snd (ecall_verify_quote_for_fid (enclave ka) (Some f) (Some quote))) = g_msk (enclave ka)" by (rule verified_msk(1))
  have "ecc_ready s (g_msk (enclave ka)) (ecall_decrypt_keys_batch s (dkf_env e) (dklabel_env e) (worker_enclave a0) dkf dkl f) f l"
    using legacy_keys_ready [OF d _ laws(3,4,2) x(17,18,6,7) f(4,6), of "worker_enclave a0"] K unfolding msk by blast
  moreover have "calls_to m s rt worker_boot (ecall_decrypt_keys_batch s (dkf_env e) (dklabel_env e) (worker_enclave a0) dkf dkl f)"
    using calls_trans [OF calls_trans [OF w(1)] calls_exec(3)] K by blast
  moreover have "\<not> cc_valid (g_cached_function_code (ecall_decrypt_keys_batch s (dkf_env e) (dklabel_env e) (worker_enclave a0) dkf dkl f))"
    by (rule fresh_import) (use K w(2) in simp)
  ultimately show ?thesis using path by (intro exI conjI) (assumption, simp_all)
qed

end
