(* ===== verification/ClientDemo.thy ===== *)
theory ClientDemo
  imports ColdStart
begin

text \<open>
  A small platform on which every operation succeeds, to apply the theorems of \<open>ClientTheorems\<close> on.
\<close>

subsection \<open>A platform to test the properties on\<close>

definition demo_fid :: bytes where "demo_fid = hex_string (zero_bytes 32)"

text \<open>The KMS enclave holds a verified quote for the function \<open>f\<close>, and the label is bound to it.\<close>

definition demo_kms_for :: "bytes \<Rightarrow> kms" where
  "demo_kms_for f = kms_boot\<lparr>g_msk_initialized := True, g_ra_verified := True, g_verified_fid := f,
     g_policy_registry := [\<lparr>fid = f, policy_mrenclave = zeros 32, policy_set = True, bound_labels = [demo_fid]\<rparr>]\<rparr>"

lemma demo_kms_fields [simp]:
  "g_msk (demo_kms_for f) = zeros 32" "g_msk_initialized (demo_kms_for f)" "g_mcl_initialized (demo_kms_for f) = False"
  "g_verified_mrenclave (demo_kms_for f) = zeros 32" "g_ra_verified (demo_kms_for f)"
  by (simp_all add: demo_kms_for_def kms_boot_def)

abbreviation demo_kms_state :: kms where
  "demo_kms_state \<equiv> demo_kms_for demo_fid"

definition demo_client :: "nat \<Rightarrow> client_env" where
  "demo_client keys = \<lparr>ce_keypair = (zero_bytes 32, null_point), ce_urandom = (\<lambda>i. zero_bytes (if i < keys then 16 else 12)),
     ce_ephemeral = (\<lambda>i. (zero_bytes 32, null_point))\<rparr>"

definition null_ssl :: openssl where
  "null_ssl = \<lparr>ssl_sha256 = (\<lambda>d. zero_bytes 32), ssl_gcm_encrypt = (\<lambda>k iv pt aad. Some (pt, zero_bytes 16)),
     ssl_gcm_decrypt = (\<lambda>k iv ct aad tag. Some ct), ssl_random = (\<lambda>n. Some (zero_bytes n))\<rparr>"

lemma null_same_crypto: "same_crypto null_sgx null_ssl"
  by (simp add: same_crypto_def null_ssl_def)

lemma demo_draws: "client_draws null_sgx (demo_client n) n"
  by (simp add: client_draws_def p256_pair_def demo_client_def)

lemma demo_yields: "program_yields demo_runtime [1, 2, 3] arg 64 [1, 2]"
  by (simp add: program_yields_def demo_runtime_def reports_time_def)

lemma demo_service_over:
  assumes "\<And>i. delivered e i"
  shows "service null_sgx demo_runtime (\<lambda>n. deployed_driver\<lparr>exchange := e\<rparr>) (\<lambda>n. quiet_clock) demo_paths (zero_bytes 28 @ [1, 2, 3])"
proof -
  have "curve_laws null_sgx (deployed_driver\<lparr>exchange := e\<rparr>)"
    by (simp add: curve_laws_def deployed_driver_def demo_driver_def null_point_def list_all_iff)
  moreover have "sdk_works null_sgx" "run_env_works null_sgx (exec_env deployed_driver)"
    using null_laws(4) by (simp_all add: sdk_works_def run_env_works_def env_works_def deployed_driver_def demo_driver_def)
  ultimately show ?thesis
    using demo_adapter(3-5) null_laws demo_programs_fit assms
    by (simp add: service_def platform_works_def deployed_driver_def demo_driver_def demo_paths_def)
qed

lemma demo_service: "service null_sgx demo_runtime (\<lambda>n. deployed_driver) (\<lambda>n. quiet_clock) demo_paths (zero_bytes 28 @ [1, 2, 3])"
  using demo_service_over [of "exchange deployed_driver"] by (simp add: deployed_driver_def demo_driver_def demo_env_connection)

lemma demo_plain: "plain_paths demo_paths"
  by (simp add: plain_paths_def demo_paths_def plain_word_def lit_def is_space_def)

text \<open>The client's files, and the keys the KMS releases.\<close>

definition demo_wrapped :: bytes where "demo_wrapped = point_be null_point @ zero_bytes 44"

lemma demo_fid_known: "find_policy demo_kms_state demo_fid = Some 0" "demo_fid \<noteq> DEFAULT_FID" "length demo_fid = 64"
proof -
  show l: "length demo_fid = 64" by (simp add: demo_fid_def)
  show "demo_fid \<noteq> DEFAULT_FID" unfolding demo_fid_def by (rule label_not_default) simp
  show "find_policy demo_kms_state demo_fid = Some 0"
    using l by (simp add: find_policy_def demo_kms_for_def strncmp_eq_def MAX_FID_LEN_def)
qed

lemma demo_keypair: "derive_key_pair null_sgx null_env demo_kms_state demo_fid = Some (zero_bytes 32, null_point)"
  using demo_fid_known(2) by (simp add: derive_key_pair_def demo_kms_for_def)

lemma demo_public_key: "ecall_get_public_key null_sgx null_env demo_kms_state demo_fid = Some (4 # null_point)"
  by (simp add: ecall_get_public_key_def demo_keypair)

lemma demo_wraps: "wrap_for_worker null_sgx null_env pk (zero_bytes 32) = Some (null_point @ zero_bytes 60)"
  by (simp add: wrap_for_worker_def rand_unchecked_def)

lemma demo_gates:
  assumes "find_policy (demo_kms_for f) f = Some 0"
  shows "verify_ra_for_fid (demo_kms_for f) f" "verify_report_data_binding null_sgx (demo_kms_for f) null_point"
    "is_label_bound_to_fid (demo_kms_for f) f demo_fid"
  using assms by (simp_all add: verify_ra_for_fid_def verify_report_data_binding_def is_label_bound_to_fid_def demo_kms_for_def
      kms_boot_def strncmp_eq_def memcmp_eq_def zeros_def zero_bytes_def)

lemma demo_batch_release:
  "ecall_derive_keys_batch null_sgx null_env null_env demo_kms_state demo_fid demo_fid null_point =
     (0, Some (null_point @ zero_bytes 60), Some (null_point @ zero_bytes 60))"
  using demo_gates [OF demo_fid_known(1)]
  by (simp add: ecall_derive_keys_batch_def ecall_get_key_def derive_label_key_internal_def demo_keypair demo_wraps)

lemma demo_package:
  "encrypt_function_code null_sgx (demo_client 1) t a v [1, 2, 3] =
     Some \<lparr>fp_fid = demo_fid, fp_c_func = zero_bytes 28 @ [1, 2, 3], fp_l = demo_fid, fp_k_func = zero_bytes 16\<rparr>"
  by (simp add: encrypt_function_code_def compute_fid_def sdk_aad_pkg_def aead_encrypt_def demo_client_def demo_fid_def Let_def
      flip: append_assoc)

lemma demo_seal: "eccibe_encrypt null_sgx (\<lambda>d. Some null_point) (zero_bytes 32, null_point) (zero_bytes 12) d (zero_bytes 16) = Some demo_wrapped"
  by (simp add: eccibe_encrypt_def ecies_encrypt_def demo_wrapped_def)

lemma demo_prepare:
  "prepare_invocation null_sgx (\<lambda>d. Some null_point) (demo_client 2) demo_fid input d =
     Some \<lparr>pc_c_req = zero_bytes 28 @ input, pc_c_key = demo_wrapped, pc_pkU = point_be null_point, pc_skU = zero_bytes 32,
            pc_nonce = hex_string (zero_bytes 16), pc_rid = demo_fid\<rparr>"
  using demo_seal [of d]
  by (simp add: prepare_invocation_def p256_keygen_def sdk_aad_req_def aead_encrypt_def sdk_compute_rid_def demo_client_def demo_fid_def Let_def
      flip: append_assoc)

text \<open>The package, a worker with the keys, and two calls.\<close>

definition demo_pkg :: function_package where
  "demo_pkg = \<lparr>fp_fid = demo_fid, fp_c_func = zero_bytes 28 @ [1, 2, 3], fp_l = demo_fid, fp_k_func = zero_bytes 16\<rparr>"

definition demo_ready :: worker_app where
  "demo_ready = loaded_process\<lparr>worker_enclave :=
     ecall_decrypt_keys_batch null_sgx null_env null_env worker_boot (null_point @ zero_bytes 60) (null_point @ zero_bytes 60) demo_fid\<rparr>"

definition demo_jobs :: "job list" where
  "demo_jobs = map (\<lambda>input. (\<lparr>pc_c_req = zero_bytes 28 @ input, pc_c_key = demo_wrapped, pc_pkU = point_be null_point, pc_skU = zero_bytes 32,
     pc_nonce = hex_string (zero_bytes 16), pc_rid = demo_fid\<rparr>, 64, input, [1, 2])) [[9], [10, 11]]"

text \<open>The files of the builder, and the release of the keys.\<close>

definition demo_artifacts :: WorkerSmokeArtifacts where
  "demo_artifacts =
     \<lparr>sa_plan = \<lparr>ap_label = demo_fid, ap_rid = demo_fid, ap_aad_pkg = PKG @ zero_bytes 32, ap_aad_req = REQ @ zero_bytes 80,
        ap_c_func = zero_bytes 28 @ [1, 2, 3], ap_c_req = zero_bytes 28 @ [9]\<rparr>,
      sa_c_k_func = demo_wrapped, sa_c_key = demo_wrapped, sa_pkU = point_be null_point, sa_skU = zero_bytes 32, sa_nonce = zero_bytes 16\<rparr>"

lemma demo_plan:
  "build_artifact_plan null_sgx (zero_bytes 12) (zero_bytes 12) demo_fid [1, 2, 3] [9] (zero_bytes 16) (zero_bytes 16) (point_be null_point) (zero_bytes 16) =
     Some (sa_plan demo_artifacts)"
  by (simp add: build_artifact_plan_def aead_encrypt_def client_aad_pkg_def client_aad_req_def client_rid_def demo_artifacts_def demo_fid_def
      hash_fid PKG_def REQ_def demo_file_facts flip: append_assoc) (simp add: point_be_def)

lemma demo_key_file:
  "encrypt_key_ciphertext_v1 null_sgx (zero_bytes 32, null_point) (zero_bytes 12) (4 # null_point) (zero_bytes 16) = Some demo_wrapped"
  by (simp add: key_ciphertext_ecies ecies_encrypt_def demo_wrapped_def)

lemma demo_built:
  "build_worker_smoke_artifacts m null_sgx ssl (demo_client 3) (\<lambda>i. print_pubkey_cmd null_sgx null_env True demo_kms_state i) params dir (lit ''eccibe'')
     demo_fid [1, 2, 3] [9] = Some demo_artifacts"
proof -
  have "ap_label (sa_plan demo_artifacts) = demo_fid" by (simp add: demo_artifacts_def)
  then show ?thesis using demo_plan demo_key_file
    by (simp add: build_worker_smoke_artifacts_def demo_client_def p256_keygen_def run_kms_print_pubkey_def print_pubkey_cmd_def demo_public_key)
      (simp add: demo_artifacts_def)
qed

subsection \<open>The same under the identity-based profile\<close>

lemma zero_bytes_sum [simp]: "sum_list (zero_bytes n) = 0"
  by (simp add: zero_bytes_def sum_list_replicate)

lemma demo_f1_known: "find_policy (demo_kms_for (lit ''f1'')) (lit ''f1'') = Some 0"
  by (simp add: find_policy_def demo_kms_for_def strncmp_eq_def MAX_FID_LEN_def)

lemma demo_f1_release:
  "\<exists>buf sz k'. ecall_get_bfibe_key_release toy_mcl null_sgx null_env (demo_kms_for (lit ''f1'')) (Some (lit ''f1'')) (Some demo_fid)
     (Some null_point) (Some (zeros 4096)) 4096 = (Some (buf, sz), k')"
proof -
  let ?k = "demo_kms_for (lit ''f1'')"
  have g: "release_gates null_sgx ?k (lit ''f1'') demo_fid null_point"
    using demo_gates [OF demo_f1_known] by (simp add: release_gates_def)
  have i: "release_identities ?k (lit ''f1'') demo_fid = Some (lit ''fid:'' @ lit ''f1'', lit ''label:'' @ demo_fid, worker_name (zeros 32))"
    using demo_fid_known(3) by (subst release_identities_Some) simp_all
  obtain rsk fsk where p: "release_private_keys toy_mcl null_sgx ?k (lit ''f1'') demo_fid =
      (Some (lit ''fid:'' @ lit ''f1'', rsk, lit ''label:'' @ demo_fid, fsk, worker_name (zeros 32)), True)" "length rsk = 1" "length fsk = 1"
    by (simp add: release_private_keys_def i derive_bfibe_msk_def bfibe_mcl_derive_master_secret_def BFIBE_MSK_DOMAIN_def extract_pair_def
        bfibe_mcl_extract_def toy_mcl_def Let_def)
  have "fst (ecall_get_bfibe_key_release toy_mcl null_sgx null_env ?k (Some (lit ''f1'')) (Some demo_fid) (Some null_point) (Some (zeros 4096)) 4096) \<noteq> None"
    by (subst bfibe_release_iff_fits [OF g _ toy_mcl_laws null_laws(2,4) p(1)]) (simp_all add: p(2,3) demo_fid_known(3))
  then show ?thesis by (metis not_None_eq prod.collapse)
qed

definition demo_bf_artifacts :: "bytes \<Rightarrow> bytes \<Rightarrow> WorkerSmokeArtifacts" where
  "demo_bf_artifacts ckf ck = demo_artifacts
     \<lparr>sa_plan := (sa_plan demo_artifacts)\<lparr>ap_aad_pkg := PKG @ lit ''f1'', ap_aad_req := REQ @ lit ''f1'' @ zero_bytes 48\<rparr>,
      sa_c_k_func := ckf, sa_c_key := ck\<rparr>"

lemma demo_tool:
  assumes "purpose = REQUEST_KEY \<or> purpose = FUNCTION_KEY" "i \<noteq> []" "path \<noteq> []"
  shows "\<exists>c. run_bfibe_mcl_client_tool toy_mcl null_ssl [1] purpose i ctx (zero_bytes 16) path = Some c"
proof -
  have n: "tool_argv tmp p i ctx key out = [lit ''--self-test''] \<longleftrightarrow> False" for tmp p i ctx key out by (simp add: tool_argv_def)
  have p: "purpose \<in> {lit ''request-key'', lit ''function-key''}" using assms(1) by (auto simp: REQUEST_KEY_def FUNCTION_KEY_def)
  have x: "hex_string (zero_bytes 16) \<noteq> []" using length_hex_bytes [of "zero_bytes 16"] by (metis length_zero_bytes list.size(3) mult_eq_0_iff zero_neq_numeral)
  have ne: "purpose \<noteq> []" using p by (auto simp: lit_def)
  have z: "hex_to_bytes [] = Inr []" by (simp add: hex_to_bytes_def)
  show ?thesis using p assms(2,3) x ne
    by (auto simp: run_bfibe_mcl_client_tool_def tool_main_def tool_options n run_tool_def init_mcl_def z random_or_hex_def null_ssl_def
        encrypt_key_envelope_def get_generator_def serialize_g1_def aes_gcm_encrypt_def toy_mcl_def Let_def REQUEST_KEY_def FUNCTION_KEY_def)
qed

lemma demo_bf_built:
  "\<exists>ckf ck. build_worker_smoke_artifacts toy_mcl null_sgx (\<lambda>i. null_ssl) (demo_client 3) pubs
     (public_params_cmd toy_mcl null_sgx True (demo_kms_for (lit ''f1''))) [] BFIBE_PROFILE_ID (lit ''f1'') [1, 2, 3] [9] = Some (demo_bf_artifacts ckf ck)"
proof -
  let ?k = "demo_kms_for (lit ''f1'')"
  have plan: "build_artifact_plan null_sgx (zero_bytes 12) (zero_bytes 12) (lit ''f1'') [1, 2, 3] [9] (zero_bytes 16) (zero_bytes 16)
      (point_be null_point) (zero_bytes 16) = Some (sa_plan (demo_bf_artifacts ckf ck))" for ckf ck
  proof -
    have "py_strip (lit ''f1'') = lit ''f1''" by (rule strip_plain) (simp add: plain_word_def lit_def py_space_def is_space_def)
    then have "fid_bytes (lit ''f1'') = lit ''f1''" by (simp add: fid_bytes_def)
    then show ?thesis
      by (simp add: build_artifact_plan_def aead_encrypt_def client_aad_pkg_def client_aad_req_def client_rid_def demo_bf_artifacts_def
          demo_artifacts_def demo_fid_def PKG_def REQ_def demo_file_facts flip: append_assoc) (simp add: point_be_def)
  qed
  have params: "public_params_cmd toy_mcl null_sgx True ?k = Some [1]"
    by (simp add: public_params_cmd_def ecall_get_bfibe_public_params_def derive_bfibe_msk_def bfibe_mcl_derive_master_secret_def
        bfibe_mcl_public_from_msk_def get_bfibe_g1_generator_def BFIBE_MSK_DOMAIN_def toy_mcl_def Let_def)
  have n: "lit ''label:'' @ demo_fid \<noteq> []" "[] @ lit ''/c_k_func.enc'' \<noteq> []" "lit ''fid:'' @ lit ''f1'' \<noteq> []" "[] @ lit ''/c_key.enc'' \<noteq> []"
    by (simp_all add: lit_def)
  obtain ckf where f: "run_bfibe_mcl_client_tool toy_mcl null_ssl [1] FUNCTION_KEY (lit ''label:'' @ demo_fid) (PKG @ lit ''f1'') (zero_bytes 16)
      ([] @ lit ''/c_k_func.enc'') = Some ckf" using demo_tool [OF disjI2 [OF refl] n(1,2)] by blast
  obtain ck where k: "run_bfibe_mcl_client_tool toy_mcl null_ssl [1] REQUEST_KEY (lit ''fid:'' @ lit ''f1'') (REQ @ lit ''f1'' @ zero_bytes 48) (zero_bytes 16)
      ([] @ lit ''/c_key.enc'') = Some ck" using demo_tool [OF disjI1 [OF refl] n(3,4)] by blast
  show ?thesis
    using plan f k
    by (simp add: build_worker_smoke_artifacts_def demo_client_def p256_keygen_def params run_kms_bfibe_public_params_def demo_bf_artifacts_def
        demo_artifacts_def REQUEST_KEY_def FUNCTION_KEY_def BFIBE_PROFILE_ID_def)
qed

subsection \<open>A process without keys, and the KMS server\<close>

definition cold_process :: worker_app where
  "cold_process = \<lparr>worker_enclave = worker_boot, g_kms_timing = no_timing, kms_sent = []\<rparr>"

definition cold_env :: "bytes \<Rightarrow> app_env" where
  "cold_env reply = (demo_app_env [Chunk reply, Eof])
     \<lparr>getenv := (\<lambda>v. None), report_env := null_env, dkf_env := null_env, dklabel_env := null_env\<rparr>"

definition cold_reply :: bytes where
  "cold_reply = (null_point @ zero_bytes 60) @ (null_point @ zero_bytes 60) @ trailer_bytes (release_timing calm_host 1)"

definition demo_kms :: kms_app where
  "demo_kms = \<lparr>g_allowed_mrenclaves = [], g_policy_enabled = False, enclave = demo_kms_state\<rparr>"

definition cold_quote :: bytes where
  "cold_quote = embed_report_in_sim_quote (replicate 1024 0xEE) (zeros 320 @ zero_bytes 64)"

lemma cold_env_fields [simp]:
  "report_env (cold_env reply) = null_env" "dkf_env (cold_env reply) = null_env" "dklabel_env (cold_env reply) = null_env"
  "delivered (cold_env reply) i" "app_malloc (cold_env reply) i" "0 < resolve (cold_env reply) h p" "arrives (cold_env reply) = [Chunk reply, Eof]"
  "kms_crypto_profile (cold_env reply) = lit ''eccibe''" "hw_report (cold_env reply) d = zeros 320 @ d"
  "send_results (cold_env reply) = send_results (demo_app_env [])"
  by (simp_all add: cold_env_def demo_app_env_def kms_crypto_profile_def)

lemma cold_reaches: "reaches_server (cold_env reply) h p"
  by (auto simp: cold_env_def demo_app_env_def reaches_server_def kms_connect_attempts_def env_int_default_def upt_rec [of "Suc 0" 6])

lemma cold_quoted:
  "generate_quote_bytes null_sgx (cold_env reply) True cold_process =
     (Some (cold_quote, null_point), cold_process\<lparr>worker_enclave := snd (ecall_create_report null_sgx null_env worker_boot)\<rparr>)"
  by (simp add: generate_quote_bytes_def dummy_quote_def create_report_def ecall_create_report_def cold_process_def cold_quote_def)

lemma cold_quote_fields: "length cold_quote = 1024" "slice 112 32 cold_quote = zeros 32" "slice 368 64 cold_quote = zeros 64"
  by (simp_all add: cold_quote_def embed_report_in_sim_quote_def worker_app_consts blit_def slice_def zeros_def zero_bytes_def Let_def)

lemma cold_verified: "ecall_verify_quote_for_fid demo_kms_state (Some demo_fid) (Some cold_quote) = (0, demo_kms_state)"
  using demo_fid_known(3) cold_quote_fields
  by (simp add: ecall_verify_quote_for_fid_def demo_kms_for_def kms_boot_def reset_ra_def find_policy_def kms_consts Let_def strncmp_eq_def memcmp_eq_def)

lemma cold_served:
  "\<exists>ka'. handle_client toy_mcl null_sgx null_env null_env calm_host True demo_kms
     [Chunk (request_bytes cold_quote demo_fid demo_fid null_point (lit ''eccibe''))] = Some (cold_reply, True, ka')"
proof -
  let ?q = "request_bytes cold_quote demo_fid demo_fid null_point (lit ''eccibe'')"
  have z: "0 \<notin> set demo_fid" by (simp add: demo_fid_def hex_no_nul)
  have c: "cstr demo_fid = demo_fid" "cstr (lit ''eccibe'') = lit ''eccibe''" using cstr_id [OF z] by (simp_all add: cstr_def lit_def)
  have v: "valid_fields cold_quote demo_fid demo_fid null_point (lit ''eccibe'')"
    using cold_quote_fields(1) demo_fid_known(3) by (auto simp: valid_fields_def within_def kms_app_consts)
  have n: "?q \<noteq> []" by (simp add: request_bytes_def sized_def le32_def)
  obtain r where p: "parse_request calm_host [Chunk ?q] = Inr (\<lparr>rq_quote = cold_quote, rq_fid = demo_fid, rq_label = demo_fid,
      rq_public_key = null_point, rq_profile = lit ''eccibe''\<rparr>, r)"
    using parse_request_accepts [of calm_host "[Chunk ?q]" cold_quote demo_fid demo_fid null_point "lit ''eccibe''" "[]"] v n by (auto simp: c)
  have ns: "mono_ns calm_host 2 - mono_ns calm_host (Suc 0) = 1" by (simp add: calm_host_def)
  show ?thesis
    by (simp add: handle_client_def p serve_request_def demo_kms_def cold_verified reply_for_profile_def demo_batch_release send_keys_with_timing_def
        cold_reply_def ns)
qed

lemma cold_exchange:
  "kms_exchange toy_mcl null_sgx (cold_env cold_reply) True demo_fid demo_fid cold_process True demo_kms"
proof -
  obtain ka' where h: "handle_client toy_mcl null_sgx null_env null_env calm_host True demo_kms
     [Chunk (request_bytes cold_quote demo_fid demo_fid null_point (lit ''eccibe''))] = Some (cold_reply, True, ka')" using cold_served by blast
  have "null_point = 1 # replicate 63 1" by (simp add: null_point_def flip: replicate_Suc)
  then obtain rest where c: "cold_reply = 1 # rest" unfolding cold_reply_def by (metis append_Cons)
  have r: "cold_reply \<notin> kms_refusals" "\<not> is_bfibe_key_release_response cold_reply" "cold_reply \<noteq> []"
    unfolding c by (simp_all add: kms_refusals_def lit_def is_bfibe_key_release_response_def memcmp_eq_def BFIBE_KEY_RELEASE_MAGIC_def)
  have w: "snd (write_parts (send_results (cold_env cold_reply)) (request_parts cold_quote demo_fid demo_fid null_point (lit ''eccibe'')))"
    unfolding cold_env_fields by (rule demo_env_sends [OF request_parts_def]) simp
  have q: "request_bytes cold_quote demo_fid demo_fid null_point (lit ''eccibe'') \<noteq> []" by (simp add: request_bytes_def sized_def le32_def)
  have a: "cold_process\<lparr>g_kms_timing := no_timing\<rparr> = cold_process" by (simp add: cold_process_def)
  have e: "env_works null_env" "ecc_open null_env" by (simp_all add: env_works_def)
  show ?thesis
    unfolding kms_exchange_def cold_env_fields a
  proof (intro conjI)
    show "\<exists>quote pk a0 evs h k1 k2 reply ka'. generate_quote_bytes null_sgx (cold_env cold_reply) True cold_process = (Some (quote, pk), a0) \<and>
        within KMS_MAX_QUOTE_SIZE quote \<and>
        snd (write_parts (send_results (demo_app_env [])) (request_parts quote demo_fid demo_fid pk (lit ''eccibe''))) \<and>
        stream evs = request_bytes quote demo_fid demo_fid pk (lit ''eccibe'') \<and> (\<forall>i. host_malloc h i) \<and> ecall_ok h 0 \<and>
        env_laws null_sgx k1 \<and> env_laws null_sgx k2 \<and> handle_client toy_mcl null_sgx k1 k2 h True demo_kms evs = Some (reply, True, ka') \<and>
        reply \<notin> kms_refusals \<and> stream [Chunk cold_reply, Eof] = reply \<and> ending [Chunk cold_reply, Eof] = Closed \<and>
        \<not> is_bfibe_key_release_response reply"
    proof ((rule exI)+, intro conjI)
      show "handle_client toy_mcl null_sgx null_env null_env calm_host True demo_kms
        [Chunk (request_bytes cold_quote demo_fid demo_fid null_point (lit ''eccibe''))] = Some (cold_reply, True, ka')" by (rule h)
      show "within KMS_MAX_QUOTE_SIZE cold_quote" using cold_quote_fields by (auto simp: within_def KMS_MAX_QUOTE_SIZE_def)
    qed (use r w q null_laws(4) in \<open>simp_all add: cold_quoted\<close>)
  qed (use e cold_reaches null_laws(4) in simp_all)
qed

end
