(* ===== verification/ClientTheorems.thy ===== *)
theory ClientTheorems
  imports ClientDemo
begin

text \<open>
  The function call from client to client: a function deployed with the SDK, and the files of the artifact builder under either
  crypto profile.
\<close>

subsection \<open>A function deployed with the SDK\<close>

text \<open>
  C3: a function in service, from nothing. A client encrypts its code with the SDK, seals the function key to the key the KMS prints for the label
  of the package, and the package is deployed. A worker process that holds no keys of the function and has cached no code is posted a sequence of
  calls prepared with the SDK. On the first call it makes a quote and asks the KMS server over the network, whose enclave has
  the master secret of the printed keys; the server does not refuse. Then every call is answered: each answer holds the
  request identifier the client computed, and the client decrypts it to the output of its own code on the input of that call.
\<close>

theorem deployed_function_served:
  assumes platform: "service s rt es cs paths (fp_c_func pkg)" "plain_paths paths"
    and deployed: "encrypt_function_code s ce tenant action version wasm = Some pkg" "client_draws s ce 1" "length wasm + 28 < 2 ^ 32"
      "eccibe_encrypt s load_der eph iv pk_L (fp_k_func pkg) = Some ckf" "p256_pair s eph" "length iv = 12"
    and printed: "load_der pk_L = Some p_L" "ecall_get_public_key s ek1 k0 (fp_l pkg) = Some (4 # p_L)"
      "load_der pk_FID = Some p_F" "ecall_get_public_key s ek2 k0 (fp_fid pkg) = Some (4 # p_F)"
    and kms: "kms_exchange m s (exchange (es n)) sim (fp_fid pkg) (fp_l pkg) a sim' ka" "g_msk (enclave ka) = g_msk k0"
    and worker: "calls_to m s rt worker_boot (worker_enclave a)" "\<not> cc_valid (g_cached_function_code (worker_enclave a))"
      "ecall_has_key (worker_enclave a) (fp_fid pkg) \<noteq> 1"
    and process: "wp_state w = Serving a n" "wp_unread w = []" "same_profile profile w"
    and jobs: "\<forall>j \<in> set jobs. sdk_job s rt load_der pk_FID (fp_fid pkg) wasm j" "jobs \<noteq> []"
  shows "\<exists>replies a'. adapter_session m s rt es cs sim spawn paths (map (\<lambda>(pc, cap, _). sdk_request profile cap pkg ckf pc) jobs) (Some w) =
      Some (replies, Some (w\<lparr>wp_state := Serving a' (n + length jobs)\<rparr>)) \<and>
    list_all2 (job_answered s (fp_fid pkg)) jobs replies"
proof -
  have "platform_works s rt (es n)" using platform(1) by (simp add: service_def)
  then have S: "sdk_works s" "sha_laws s" "gcm_laws s" "ecdh_laws s" by (simp_all add: platform_works_def)
  obtain h lb where P: "length h = 32" "fp_fid pkg = hex_string h" "fp_k_func pkg = ce_urandom ce 0"
    "aead_encrypt s (ce_urandom ce 1) (fp_k_func pkg) wasm (PKG @ h) = Some (fp_c_func pkg)" "length lb = 32" "fp_l pkg = hex_string lb"
    by (rule sdk_package [OF deployed(1) S(2)])
  have len: "length (fp_k_func pkg) = 16" "length (ce_urandom ce 1) = 12" using deployed(2) P(3) by (simp_all add: client_draws_def)
  obtain l where l: "sha256_msg s (drop 28 (fp_c_func pkg)) = Some l" using sdk_works_ex(1) [OF S(1)] by blast
  have sealed: "ecc_sealed s (g_msk k0) (fp_l pkg) (fp_k_func pkg) (PKG @ h) ckf"
    by (rule sdk_seals [OF deployed(4) printed(1,2) deployed(5,6) len(1)])
  have f: "0 \<notin> set (fp_fid pkg)" "0 \<notin> set (fp_l pkg)" "fp_fid pkg \<noteq> []" "length (fp_fid pkg) \<le> 128" "length (fp_l pkg) = 64" "fp_l pkg \<noteq> DEFAULT_FID"
    using P(1,2,5,6) label_not_default [OF P(5)] plain_hex [OF P(1)] by (simp_all add: hex_no_nul plain_word_def)
  obtain a1 where a1: "key_path s (exchange (es n)) sim (hex_string h) (fp_l pkg) a = Returned a1" "calls_to m s rt worker_boot (worker_enclave a1)"
    "ecc_ready s (g_msk k0) (worker_enclave a1) (hex_string h) (fp_l pkg)" "\<not> cc_valid (g_cached_function_code (worker_enclave a1))"
    using cold_path [OF kms(1) _ S f worker(1,2)] worker(3) unfolding kms(2) P(2) by blast
  have cache: "function_cache_lookup (worker_enclave a1) (hex_string h) l \<in> {None, Some wasm}" using fresh_lookup [OF a1(4)] by simp
  obtain j js where js: "jobs = j # js" using jobs(2) by (cases jobs) auto
  let ?call = "job_call profile pkg ckf"
  have J: "honest_call (ecc_sealed s (g_msk k0)) s rt paths w h wasm ckf (?call j)" "answered s (?call j) reply \<Longrightarrow> job_answered s (fp_fid pkg) j reply"
    if "j \<in> set jobs" for j reply
    using job_honest [OF bspec [OF jobs(1) that, unfolded P(2)] P(2,1,6,5) platform(2) process(3) printed(3,4) [unfolded P(2)]]
    unfolding P(2) by blast+
  have lab: "ar_label (fst (?call j)) = fp_l pkg" by (simp add: job_call_def sdk_request_def split_beta)
  have calls: "\<forall>c \<in> set (?call j # map ?call js). honest_call (ecc_sealed s (g_msk k0)) s rt paths w h wasm ckf c" using J(1) js by simp
  have path: "key_path s (exchange (es n)) sim (hex_string h) (ar_label (fst (?call j))) a = Returned a1" using a1(1) by (simp only: lab)
  obtain replies a' where r: "adapter_session m s rt es cs sim spawn paths (map fst (?call j # map ?call js)) (Some w) =
      Some (replies, Some (w\<lparr>wp_state := Serving a' (n + length (?call j # map ?call js))\<rparr>))" "list_all2 (answered s) (?call j # map ?call js) replies"
    using eccibe.cold_session_served [where es = es and cs = cs and sim = sim and spawn = spawn and w = w and a = a and n = n and c = "?call j" and
        calls = "map ?call js", OF platform(1) P(1) len P(4) deployed(3) sealed l process(1,2) path a1(2,3) cache calls]
    by (elim exE conjE)
  have m: "map fst (map ?call jobs) = map (\<lambda>(pc, cap, _). sdk_request profile cap pkg ckf pc) jobs" by (simp add: job_call_def split_def)
  have e: "?call j # map ?call js = map ?call jobs" by (simp add: js)
  have "list_all2 (job_answered s (fp_fid pkg)) jobs replies"
    using r(2) J(2) unfolding e by (simp add: list_all2_conv_all_nth)
  with r(1) show ?thesis unfolding e m length_map by (intro exI conjI)
qed

theorem deployed_function_served_witness:
  "\<exists>replies a'. adapter_session toy_mcl null_sgx demo_runtime (\<lambda>n. deployed_driver\<lparr>exchange := cold_env cold_reply\<rparr>) (\<lambda>n. quiet_clock) True
      (\<lambda>p. NoProcess) demo_paths (map (\<lambda>(pc, cap, _). sdk_request [] cap demo_pkg demo_wrapped pc) demo_jobs) (Some (serving_process cold_process)) =
      Some (replies, Some ((serving_process cold_process)\<lparr>wp_state := Serving a' 2\<rparr>)) \<and>
    list_all2 (job_answered null_sgx demo_fid) demo_jobs replies"
proof -
  let ?es = "\<lambda>n :: nat. deployed_driver\<lparr>exchange := cold_env cold_reply\<rparr>"
  have j: "sdk_job null_sgx demo_runtime (\<lambda>d. Some null_point) [] (fp_fid demo_pkg) [1, 2, 3] j" if "j \<in> set demo_jobs" for j
    using that demo_prepare demo_draws [of 2] demo_yields by (auto simp: demo_jobs_def sdk_job_def demo_pkg_def)
  have s: "service null_sgx demo_runtime ?es (\<lambda>n. quiet_clock) demo_paths (fp_c_func demo_pkg)"
    using demo_service_over [of "cold_env cold_reply"] by (simp add: demo_pkg_def)
  have e: "encrypt_function_code null_sgx (demo_client 1) [] [] [] [1, 2, 3] = Some demo_pkg" by (simp only: demo_package demo_pkg_def)
  have p: "fp_fid demo_pkg = demo_fid" "fp_l demo_pkg = demo_fid" "fp_k_func demo_pkg = zero_bytes 16" by (simp_all add: demo_pkg_def)
  note T = deployed_function_served [where wasm = "[1, 2, 3]" and ce = "demo_client 1" and ?k0.0 = demo_kms_state and es = ?es and
        load_der = "\<lambda>d. Some null_point" and pk_L = "[]" and pk_FID = "[]" and p_L = null_point and p_F = null_point and
        eph = "(zero_bytes 32, null_point)" and iv = "zero_bytes 12" and n = 0 and a = cold_process and sim = True and m = toy_mcl and
        sim' = True and ka = demo_kms, OF s demo_plain e demo_draws]
  have x: "\<exists>replies a'. adapter_session toy_mcl null_sgx demo_runtime ?es (\<lambda>n. quiet_clock) True (\<lambda>p. NoProcess) demo_paths
      (map (\<lambda>(pc, cap, _). sdk_request [] cap demo_pkg demo_wrapped pc) demo_jobs) (Some (serving_process cold_process)) =
      Some (replies, Some ((serving_process cold_process)\<lparr>wp_state := Serving a' (0 + length demo_jobs)\<rparr>)) \<and>
    list_all2 (job_answered null_sgx (fp_fid demo_pkg)) demo_jobs replies"
  proof (rule T)
    show "kms_exchange toy_mcl null_sgx (exchange (?es 0)) True (fp_fid demo_pkg) (fp_l demo_pkg) cold_process True demo_kms"
      using cold_exchange by (simp add: p)
    show "calls_to toy_mcl null_sgx demo_runtime worker_boot (worker_enclave cold_process)" by (simp add: cold_process_def calls_refl)
    show "\<not> cc_valid (g_cached_function_code (worker_enclave cold_process))" by (simp add: cold_process_def worker_boot_def empty_cache_def)
    show "ecall_has_key (worker_enclave cold_process) (fp_fid demo_pkg) \<noteq> 1" by (simp add: cold_process_def worker_boot_def ecall_has_key_def)
    show "\<forall>j \<in> set demo_jobs. sdk_job null_sgx demo_runtime (\<lambda>d. Some null_point) [] (fp_fid demo_pkg) [1, 2, 3] j" using j by blast
    show "same_profile [] (serving_process cold_process)" by (simp add: same_profile_def serving_process_def)
  qed (use demo_public_key demo_seal in \<open>simp_all add: p p256_pair_def serving_process_def demo_kms_def demo_jobs_def\<close>)
  have "fp_fid demo_pkg = demo_fid" "0 + length demo_jobs = 2" by (simp_all add: demo_pkg_def demo_jobs_def)
  with x show ?thesis by (simp only:)
qed

text \<open>
  C10: the other profile does not serve such a function. The identifier of every function deployed with the SDK is too long for the
  release of identity-based keys: whatever the state of the KMS enclave and the arguments, the call that would release them fails.
\<close>

theorem deployed_function_without_bfibe_keys:
  assumes "encrypt_function_code s ce tenant action version wasm = Some pkg"
    and "sha_laws s" "mcl_laws m" "gcm_laws s" "env_laws s e" "length (g_verified_mrenclave k) = 32" "length out = unat cap"
  shows "fst (ecall_get_bfibe_key_release m s e k (Some (fp_fid pkg)) label pk (Some out) cap) = None"
proof (rule ccontr)
  let ?x = "ecall_get_bfibe_key_release m s e k (Some (fp_fid pkg)) label pk (Some out) cap"
  assume "fst ?x \<noteq> None"
  then obtain buf sz k' where r: "?x = (Some (buf, sz), k')" by (metis not_None_eq prod.collapse)
  then obtain l p where a: "label = Some l" "pk = Some p" by (auto elim: release_ecall_Some)
  have "length (fp_fid pkg) \<le> 54" by (rule release_Some [OF r [unfolded a] assms(3-7)])
  moreover obtain h where "length h = 32" "fp_fid pkg = hex_string h" by (rule sdk_package [OF assms(1,2)])
  ultimately show False by simp
qed

theorem deployed_function_without_bfibe_keys_witness:
  "fst (ecall_get_bfibe_key_release toy_mcl null_sgx null_env demo_kms_state (Some demo_fid) (Some demo_fid) (Some null_point) (Some (zeros 4096)) 4096) =
    None"
proof -
  have "fp_fid demo_pkg = demo_fid" by (simp add: demo_pkg_def)
  then show ?thesis
    using deployed_function_without_bfibe_keys [OF demo_package null_laws(1) toy_mcl_laws null_laws(2,4), of demo_kms_state "zeros 4096" 4096]
    by (simp add: demo_pkg_def)
qed

subsection \<open>The files of the artifact builder\<close>

lemma builder_plan:
  assumes "build_artifact_plan s ivf ivr f wasm input kf kr pk n = Some plan" "sha_laws s" "length ivf = 12" "length ivr = 12"
  obtains hpk lb rid where "protects_call s (fid_bytes f) wasm input kf kr pk hpk n (ap_c_func plan) (ap_c_req plan)"
    "ap_aad_req plan = REQ @ fid_bytes f @ n @ hpk" "ap_aad_pkg plan = PKG @ fid_bytes f" "length lb = 32" "ap_label plan = hex_string lb"
    "sha256_msg s (fid_bytes f @ ap_c_req plan) = Some rid" "ap_rid plan = hex_string rid"
proof -
  let ?h = "fid_bytes f"
  from assms(1) obtain c_func lb hpk c_req rid where x: "length kf = 16" "length kr = 16" "aead_encrypt s ivf kf wasm (PKG @ ?h) = Some c_func"
    "sha256_msg s c_func = Some lb" "length n = 16" "sha256_msg s pk = Some hpk" "aead_encrypt s ivr kr input (REQ @ ?h @ n @ hpk) = Some c_req"
    "sha256_msg s (?h @ c_req) = Some rid"
    "plan = \<lparr>ap_label = hex_string lb, ap_rid = hex_string rid, ap_aad_pkg = PKG @ ?h, ap_aad_req = REQ @ ?h @ n @ hpk, ap_c_func = c_func,
       ap_c_req = c_req\<rparr>"
    by (auto simp: build_artifact_plan_def client_aad_pkg_def client_aad_req_def client_rid_def PKG_def REQ_def
        bind_eq_Some_conv split: if_splits)
  have "protects_call s ?h wasm input kf kr pk hpk n c_func c_req" unfolding protects_call_def using x(1-3,5-7) assms(3,4) by blast
  with x sha_length [OF assms(2) x(4)] show thesis by (intro that) simp_all
qed

text \<open>A key sealed by the builder to a public key the KMS prints.\<close>

lemma builder_seals:
  assumes "run_kms_print_pubkey (\<lambda>i. print_pubkey_cmd s (ek i) True k0 i) i = Some pub" "encrypt_key_ciphertext_v1 s eph iv pub key = Some c"
    and "p256_pair s eph" "length iv = 12" "ecdh_laws s"
  shows "ecc_sealed s (g_msk k0) i key d c"
proof -
  obtain sk p where k: "derived_key s (g_msk k0) i = Some sk" "pub_from_priv s sk = Some p" "pub = 4 # p"
    using assms(1) derive_pair_key [of s "ek i" k0 i]
    by (auto simp: run_kms_print_pubkey_def print_pubkey_cmd_def ecall_get_public_key_def bind_eq_Some_conv split: if_splits)
  have "length key \<in> {16, 32} \<and> ecies_encrypt s eph iv p key = Some c"
    using assms(2) key_ciphertext_ecies [OF ecdh_agree(2) [OF assms(5) k(2)], of s eph iv key] by (simp add: k(3) split: if_splits)
  then show ?thesis unfolding ecc_sealed_def using k(1,2) assms(3,4) by blast
qed

lemma tool_seals:
  assumes "run_kms_bfibe_public_params (public_params_cmd m s True k0) = Some mpk" "run_bfibe_mcl_client_tool m ssl mpk purpose i d key out = Some c"
    and "same_crypto s ssl"
  shows "bf_sealed m s (g_msk k0) purpose i key d c"
proof -
  obtain r n where e: "encrypt_key_envelope m ssl mpk purpose i d key r n = Inr c" using client_tool_encrypts [OF assms(2)] by blast
  from assms(1) obtain k' where p: "ecall_get_bfibe_public_params m s k0 (Some (zeros 256)) 256 = (Some mpk, k')"
    by (auto simp: run_kms_bfibe_public_params_def public_params_cmd_def bind_eq_Some_conv split: if_splits option.splits)
      (metis prod.collapse)
  obtain b i1 i2 where "derive_bfibe_msk m s k0 (g_mcl_initialized k0) = (Inr b, i1)"
    "bfibe_mcl_public_from_msk m b (unat (256 :: u32)) i1 = (Inr mpk, i2)" by (rule params_public [OF p])
  then show ?thesis unfolding bf_sealed_def bf_master_def using assms(3) e by blast
qed

text \<open>Both kinds of key transport in one statement.\<close>

definition ready_for ::
  "('fr, 'g1, 'g2, 'gt) mcl \<Rightarrow> sgx \<Rightarrow> bytes \<Rightarrow> bytes \<Rightarrow> worker \<Rightarrow> bytes \<Rightarrow> bytes \<Rightarrow> bool" where
  "ready_for m s profile msk w f l \<longleftrightarrow> (if profile = lit ''eccibe'' then ecc_ready s msk w f l else bf_ready m s msk w f l)"

definition sealed_for ::
  "('fr, 'g1, 'g2, 'gt) mcl \<Rightarrow> sgx \<Rightarrow> bytes \<Rightarrow> bytes \<Rightarrow> bytes \<Rightarrow> bytes \<times> bytes \<times> bytes \<Rightarrow> bytes \<Rightarrow> bytes \<times> bytes \<times> bytes \<Rightarrow> bool" where
  "sealed_for m s profile msk f req l func \<longleftrightarrow> (case (req, func) of ((kr, dr, cr), (kf, df, cf)) \<Rightarrow>
     if profile = lit ''eccibe'' then ecc_sealed s msk f kr dr cr \<and> ecc_sealed s msk l kf df cf
     else bf_sealed m s msk REQUEST_KEY (lit ''fid:'' @ f) kr dr cr \<and> bf_sealed m s msk FUNCTION_KEY (lit ''label:'' @ l) kf df cf)"

text \<open>How the keys of a function and a label reach a worker, by profile: released by the KMS enclave and imported by the worker enclave.\<close>

definition keys_arrive ::
  "('fr, 'g1, 'g2, 'gt) mcl \<Rightarrow> sgx \<Rightarrow> bytes \<Rightarrow> kms \<Rightarrow> bytes \<Rightarrow> bytes \<Rightarrow> worker \<Rightarrow> worker \<Rightarrow> bool" where
  "keys_arrive m s profile k f l w w' \<longleftrightarrow> (\<exists>pk. pub_from_priv s (g_private_key w) = Some pk \<and>
     (if profile = lit ''eccibe'' then
        \<exists>e1 e2 e3 e4 dkf dkl. ecall_derive_keys_batch s e1 e2 k f l pk = (0, Some dkf, Some dkl) \<and> env_laws s e1 \<and> env_laws s e2 \<and>
          ecc_open e3 \<and> ecc_open e4 \<and> w' = ecall_decrypt_keys_batch s e3 e4 w dkf dkl f
      else
        \<exists>e1 e2 out cap buf sz k'. ecall_get_bfibe_key_release m s e1 k (Some f) (Some l) (Some pk) (Some out) cap = (Some (buf, sz), k') \<and>
          env_laws s e1 \<and> length (g_verified_mrenclave k) = 32 \<and> length out = unat cap \<and> g_worker_keypair_ready w \<and>
          ecc_open e2 \<and> malloc_ok e2 0 \<and> w' = snd (ecall_load_bfibe_key_release s e2 w (Some (take (unat sz) buf)) (Some f))))"

lemma keys_arrived:
  assumes "keys_arrive m s profile k f l w w'" "mcl_laws m" "bn_init m = 0" "sha_laws s" "gcm_laws s" "ecdh_laws s" "length f \<le> 128" "l \<noteq> DEFAULT_FID"
    and "calls_to m s rt worker_boot w" "\<not> cc_valid (g_cached_function_code w)"
  shows "ready_for m s profile (g_msk k) w' f l \<and> calls_to m s rt worker_boot w' \<and>
    (\<forall>g d. function_cache_lookup w' g d = None)"
proof -
  obtain pk where pk: "pub_from_priv s (g_private_key w) = Some pk" using assms(1) unfolding keys_arrive_def by blast
  show ?thesis
  proof (cases "profile = lit ''eccibe''")
    case True
    with assms(1) pk obtain e1 e2 e3 e4 dkf dkl where x: "ecall_derive_keys_batch s e1 e2 k f l pk = (0, Some dkf, Some dkl)" "env_laws s e1" "env_laws s e2"
      "ecc_open e3" "ecc_open e4" "w' = ecall_decrypt_keys_batch s e3 e4 w dkf dkl f" unfolding keys_arrive_def by auto
    have "ecc_ready s (g_msk k) w' f l" unfolding x(6) by (rule legacy_keys_ready [OF x(1) pk assms(5,6,4) x(2-5) assms(7,8)])
    moreover have "calls_to m s rt worker_boot w'" unfolding x(6) by (rule calls_trans [OF assms(9) calls_exec(3)])
    ultimately show ?thesis using True fresh_lookup [OF fresh_import [OF assms(10)]] x(6) by (simp add: ready_for_def)
  next
    case False
    with assms(1) pk obtain e1 e2 out cap buf sz k' where x: "ecall_get_bfibe_key_release m s e1 k (Some f) (Some l) (Some pk) (Some out) cap = (Some (buf, sz), k')"
      "env_laws s e1" "length (g_verified_mrenclave k) = 32" "length out = unat cap" "g_worker_keypair_ready w" "ecc_open e2" "malloc_ok e2 0"
      "w' = snd (ecall_load_bfibe_key_release s e2 w (Some (take (unat sz) buf)) (Some f))" unfolding keys_arrive_def by auto
    obtain rc where L: "ecall_load_bfibe_key_release s e2 w (Some (take (unat sz) buf)) (Some f) = (rc, w')" using x(8) by (metis prod.collapse)
    have "bf_ready m s (g_msk k) w' f l"
      by (rule conjunct2 [OF bfibe_release_readies [OF x(1) assms(2,5,6) x(2) assms(3) x(3-5) pk x(6,7) L]])
    moreover have "calls_to m s rt worker_boot w'" unfolding x(8) by (rule calls_trans [OF assms(9) calls_exec(2)])
    moreover have "\<not> cc_valid (g_cached_function_code w')" using fresh_load [OF assms(10)] x(8) by simp
    ultimately show ?thesis using False fresh_lookup by (simp add: ready_for_def)
  qed
qed

text \<open>The request made of the builder's files.\<close>

definition built_request :: "bytes \<Rightarrow> int \<Rightarrow> bytes \<Rightarrow> WorkerSmokeArtifacts \<Rightarrow> adapter_request" where
  "built_request profile cap f x =
     \<lparr>ar_fid = f, ar_label = ap_label (sa_plan x), ar_profile = profile, ar_capacity = cap, ar_input = ap_c_req (sa_plan x),
      ar_c_k_func = sa_c_k_func x, ar_c_key = sa_c_key x, ar_pku = sa_pkU x, ar_nonce = sa_nonce x\<rparr>"

lemma built_parts:
  assumes "build_worker_smoke_artifacts m s ssl ce (\<lambda>i. print_pubkey_cmd s (ek i) True k0 i) (public_params_cmd m s True k0) dir profile
      f wasm input = Some x" "client_draws s ce 3" "\<forall>i. same_crypto s (ssl i)" "sha_laws s" "ecdh_laws s"
  obtains hpk lb p rid where
    "protects_call s (fid_bytes f) wasm input (ce_urandom ce 0) (ce_urandom ce 1) (sa_pkU x) hpk (sa_nonce x) (ap_c_func (sa_plan x))
      (ap_c_req (sa_plan x))"
    "length lb = 32" "ap_label (sa_plan x) = hex_string lb" "sha256_msg s (fid_bytes f @ ap_c_req (sa_plan x)) = Some rid"
    "ap_rid (sa_plan x) = hex_string rid" "sa_pkU x = point_be p" "pub_from_priv s (rev (sa_skU x)) = Some p" "length (sa_skU x) = 32"
    "sealed_for m s profile (g_msk k0) f (ce_urandom ce 1, REQ @ fid_bytes f @ sa_nonce x @ hpk, sa_c_key x)
       (ap_label (sa_plan x)) (ce_urandom ce 0, PKG @ fid_bytes f, sa_c_k_func x)"
proof -
  let ?pubs = "run_kms_print_pubkey (\<lambda>i. print_pubkey_cmd s (ek i) True k0 i)" and ?mpk = "run_kms_bfibe_public_params (public_params_cmd m s True k0)"
  obtain pk sk where kg: "p256_keygen (ce_keypair ce) = (pk, sk)" by fastforce
  from assms(1) kg obtain plan ckf ck where x: "build_artifact_plan s (ce_urandom ce 3) (ce_urandom ce 4) f wasm input (ce_urandom ce 0)
      (ce_urandom ce 1) pk (ce_urandom ce 2) = Some plan"
    "x = \<lparr>sa_plan = plan, sa_c_k_func = ckf, sa_c_key = ck, sa_pkU = pk, sa_skU = sk, sa_nonce = ce_urandom ce 2\<rparr>" and
    keyed: "if profile = lit ''eccibe'' then
       \<exists>fid_pub label_pub. ?pubs f = Some fid_pub \<and> ?pubs (ap_label plan) = Some label_pub \<and>
         encrypt_key_ciphertext_v1 s (ce_ephemeral ce 0) (ce_urandom ce 5) label_pub (ce_urandom ce 0) = Some ckf \<and>
         encrypt_key_ciphertext_v1 s (ce_ephemeral ce 1) (ce_urandom ce 6) fid_pub (ce_urandom ce 1) = Some ck
     else
       \<exists>mpk. ?mpk = Some mpk \<and>
         run_bfibe_mcl_client_tool m (ssl 0) mpk FUNCTION_KEY (lit ''label:'' @ ap_label plan) (ap_aad_pkg plan) (ce_urandom ce 0)
           (dir @ lit ''/c_k_func.enc'') = Some ckf \<and>
         run_bfibe_mcl_client_tool m (ssl 1) mpk REQUEST_KEY (lit ''fid:'' @ f) (ap_aad_req plan) (ce_urandom ce 1)
           (dir @ lit ''/c_key.enc'') = Some ck"
    by (cases "profile = lit ''eccibe''"; cases "profile = BFIBE_PROFILE_ID")
      (auto simp: build_worker_smoke_artifacts_def Let_def bind_eq_Some_conv FUNCTION_KEY_def REQUEST_KEY_def simp del: One_nat_def split: prod.splits)
  have D: "p256_pair s (ce_keypair ce)" "p256_pair s (ce_ephemeral ce i)" "length (ce_urandom ce 3) = 12" "length (ce_urandom ce 4) = 12"
    "length (ce_urandom ce 5) = 12" "length (ce_urandom ce 6) = 12" for i
    using assms(2) by (simp_all add: client_draws_def)
  let ?h = "fid_bytes f"
  obtain hpk lb rid where P: "protects_call s ?h wasm input (ce_urandom ce 0) (ce_urandom ce 1) pk hpk (ce_urandom ce 2) (ap_c_func plan) (ap_c_req plan)"
    "ap_aad_req plan = REQ @ ?h @ ce_urandom ce 2 @ hpk" "ap_aad_pkg plan = PKG @ ?h" "length lb = 32" "ap_label plan = hex_string lb"
    "sha256_msg s (?h @ ap_c_req plan) = Some rid" "ap_rid plan = hex_string rid"
    by (rule builder_plan [OF x(1) assms(4) D(3,4)])
  note K = keygen_pair [OF D(1) kg]
  show thesis
  proof (rule that [of hpk lb rid "snd (ce_keypair ce)"])
    show "sealed_for m s profile (g_msk k0) f (ce_urandom ce 1, REQ @ ?h @ sa_nonce x @ hpk, sa_c_key x)
       (ap_label (sa_plan x)) (ce_urandom ce 0, PKG @ ?h, sa_c_k_func x)"
    proof (cases "profile = lit ''eccibe''")
      case True
      with keyed show ?thesis
        using builder_seals [of s ek k0 _ _ _ _ _ _, OF _ _ D(2,5) assms(5)] builder_seals [of s ek k0 _ _ _ _ _ _, OF _ _ D(2,6) assms(5)]
        by (simp add: x(2) sealed_for_def) blast
    next
      case False
      with keyed show ?thesis using tool_seals assms(3) by (simp add: x(2) sealed_for_def P(2,3) [symmetric]) blast
    qed
  qed (use x(2) P K in simp_all)
qed

text \<open>A call over either kind.\<close>

lemma profile_call_served:
  assumes platform: "platform_works s rt (es n)" and idle: "adapter_idle paths (cs n) r w a n"
    and w: "calls_to m s rt worker_boot (worker_enclave a)" "ready_for m s profile msk (worker_enclave a) (ar_fid r) label"
      "\<forall>g d. function_cache_lookup (worker_enclave a) g d = None"
    and f: "fid_to_bytes_or_str (ar_fid r) = h" "0 \<notin> set (ar_fid r)" "0 \<notin> set (ar_label r)"
    and files: "protects_call s h wasm input kf kr (ar_pku r) hpk (ar_nonce r) c_func (ar_input r)" "read_file (es n) (WASM_FILE paths) = Some c_func"
      "length wasm + 28 < 2 ^ 32" "length input + 28 < 2 ^ 32"
    and client: "ar_pku r = point_be p" "pub_from_priv s (rev sk) = Some p" "length sk = 32"
    and sealed: "sealed_for m s profile msk (ar_fid r) (kr, REQ @ h @ ar_nonce r @ hpk, ar_c_key r) label (kf, PKG @ h, ar_c_k_func r)"
    and prog: "input \<noteq> []" "program_yields rt wasm (base64_encode True input) (of_int (ar_capacity r)) outp"
    and rid: "sha256_msg s (h @ ar_input r) = Some rid"
  shows "\<exists>out ct timing a'. adapter_run m s rt es cs sim spawn paths r (Some w) =
      Some (Answer out (Some ct) (Some (hex_string rid)) timing, Some (w\<lparr>wp_state := Serving a' (n + 1)\<rparr>)) \<and>
    open_result s ct out sk h (hex_string rid) (ar_pku r) = Some outp"
proof -
  have S: "sdk_works s" using platform by (simp add: platform_works_def)
  obtain l where l: "sha256_msg s (drop 28 c_func) = Some l" using sdk_works_ex(1) [OF S] by blast
  let ?a = "a\<lparr>g_kms_timing := no_timing\<rparr>"
  have W: "calls_to m s rt worker_boot (worker_enclave ?a)" "function_cache_lookup (worker_enclave ?a) (ar_fid r) l \<in> {None, Some wasm}"
    "delivered (exchange (es n)) 0" using w(1,3) platform by (simp_all add: platform_works_def)
  show ?thesis
  proof (cases "profile = lit ''eccibe''")
    case True
    with w(2) sealed have R: "ecc_ready s msk (worker_enclave a) (ar_fid r) label" "ecc_sealed s msk (ar_fid r) kr (REQ @ h @ ar_nonce r @ hpk) (ar_c_key r)"
      "ecc_sealed s msk label kf (PKG @ h) (ar_c_k_func r)" by (simp_all add: ready_for_def sealed_for_def)
    have "ecc_ready s msk (worker_enclave ?a) (ar_fid r) label" using R(1) by simp
    from eccibe.call_served [where es = es and cs = cs and n = n and sim = sim and spawn = spawn,
        OF platform idle eccibe.ready_path [OF R(1) W(3)] W(1) this f files client R(2,3) l W(2) prog rid] show ?thesis by blast
  next
    case False
    with w(2) sealed have R: "bf_ready m s msk (worker_enclave a) (ar_fid r) label"
      "bf_sealed m s msk REQUEST_KEY (lit ''fid:'' @ ar_fid r) kr (REQ @ h @ ar_nonce r @ hpk) (ar_c_key r)"
      "bf_sealed m s msk FUNCTION_KEY (lit ''label:'' @ label) kf (PKG @ h) (ar_c_k_func r)" by (simp_all add: ready_for_def sealed_for_def)
    have "bf_ready m s msk (worker_enclave ?a) (ar_fid r) label" using R(1) by simp
    from bfibe.call_served [where es = es and cs = cs and n = n and sim = sim and spawn = spawn,
        OF platform idle bfibe.ready_path [OF R(1) W(3)] W(1) this f files client R(2,3) l W(2) prog rid] show ?thesis by blast
  qed
qed

text \<open>
  C4: a call made of the builder's files, under either profile. The client has the KMS print its public keys (or its public parameters),
  seals the session keys to them (itself, or with the key tool) and posts the request; the worker enclave has imported the
  keys that the KMS enclave, with the same master secret, released to it for the function and the label. Then the call is answered with the
  request identifier of the client's plan, and the client opens the answer to the output of its code on its input; for an identifier made by
  \<open>compute_fid\<close> the SDK's decryption does so.
\<close>

theorem built_call_served:
  assumes platform: "service s rt es cs paths (ap_c_func (sa_plan x))" "plain_paths paths" "mcl_laws m" "bn_init m = 0" "\<forall>i. same_crypto s (ssl i)"
    and built: "build_worker_smoke_artifacts m s ssl ce (\<lambda>i. print_pubkey_cmd s (ek i) True k0 i) (public_params_cmd m s True k0) dir profile
      f wasm input = Some x" "client_draws s ce 3" "length wasm + 28 < 2 ^ 32" "length input + 28 < 2 ^ 32" "input \<noteq> []"
    and fid_ok: "plain_word py_space f" "0 \<notin> set f" "length f \<le> 128"
    and keys: "keys_arrive m s profile k f (ap_label (sa_plan x)) w0 (worker_enclave a)" "g_msk k = g_msk k0"
      "calls_to m s rt worker_boot w0" "\<not> cc_valid (g_cached_function_code w0)"
    and process: "wp_state w = Serving a n" "wp_unread w = []" "same_profile profile w"
    and program: "1 \<le> cap" "cap \<le> 1048576" "program_yields rt wasm (base64_encode True input) (of_int cap) outp"
  shows "\<exists>out ct timing a'. adapter_run m s rt es cs sim spawn paths (built_request profile cap f x) (Some w) =
      Some (Answer out (Some ct) (Some (ap_rid (sa_plan x))) timing, Some (w\<lparr>wp_state := Serving a' (n + 1)\<rparr>)) \<and>
    open_result s ct out (sa_skU x) (fid_bytes f) (ap_rid (sa_plan x)) (sa_pkU x) = Some outp \<and>
    (\<forall>h. length h = 32 \<and> f = hex_string h \<longrightarrow> decrypt_result s ct out (sa_skU x) f (ap_rid (sa_plan x)) (sa_pkU x) = Some outp)"
proof -
  have P: "platform_works s rt (es n)" using platform(1) by (simp add: service_def)
  then have S: "sha_laws s" "gcm_laws s" "ecdh_laws s" by (simp_all add: platform_works_def)
  let ?r = "built_request profile cap f x" and ?l = "ap_label (sa_plan x)" and ?h = "fid_bytes f"
  obtain hpk lb p rid where F: "protects_call s ?h wasm input (ce_urandom ce 0) (ce_urandom ce 1) (sa_pkU x) hpk (sa_nonce x) (ap_c_func (sa_plan x))
      (ap_c_req (sa_plan x))" "length lb = 32" "?l = hex_string lb"
    "sha256_msg s (?h @ ap_c_req (sa_plan x)) = Some rid" "ap_rid (sa_plan x) = hex_string rid"
    "sa_pkU x = point_be p" "pub_from_priv s (rev (sa_skU x)) = Some p" "length (sa_skU x) = 32"
    "sealed_for m s profile (g_msk k0) f (ce_urandom ce 1, REQ @ ?h @ sa_nonce x @ hpk, sa_c_key x) ?l (ce_urandom ce 0, PKG @ ?h, sa_c_k_func x)"
    by (rule built_parts [OF built(1,2) platform(5) S(1,3)])
  have r: "ar_fid ?r = f" "ar_label ?r = hex_string lb" "ar_input ?r = ap_c_req (sa_plan x)" "ar_c_key ?r = sa_c_key x" "ar_c_k_func ?r = sa_c_k_func x"
    "ar_pku ?r = sa_pkU x" "ar_nonce ?r = sa_nonce x" "ar_capacity ?r = cap" "ar_profile ?r = profile"
    using F(3) by (simp_all add: built_request_def)
  have ne: "plain_word is_space f" "f \<noteq> []" "hex_string lb \<noteq> []"
    using fid_ok(1) plain_hex [OF F(2)] by (auto simp: plain_word_def py_space_def)
  have I: "adapter_idle paths (cs n) ?r w a n" and rd: "read_file (es n) (WASM_FILE paths) = Some (ap_c_func (sa_plan x))"
    using platform(1,2) plain_hex [OF F(2)] ne program(1,2) process
    by (simp_all add: adapter_idle_def service_def plain_request_def plain_paths_def valid_request_def r)
  have l: "?l \<noteq> DEFAULT_FID" using label_not_default [OF F(2)] F(3) by simp
  have raw: "fid_to_bytes_or_str f = ?h" using fid_bytes_agree [OF fid_ok(1,3)] by simp
  note K = keys_arrived [OF keys(1) platform(3,4) S fid_ok(3) l keys(3,4), unfolded keys(2)]
  have "\<exists>out ct timing a'. adapter_run m s rt es cs sim spawn paths ?r (Some w) =
      Some (Answer out (Some ct) (Some (ap_rid (sa_plan x))) timing, Some (w\<lparr>wp_state := Serving a' (n + 1)\<rparr>)) \<and>
    open_result s ct out (sa_skU x) ?h (ap_rid (sa_plan x)) (sa_pkU x) = Some outp"
    using profile_call_served [where es = es and cs = cs and n = n and sim = sim and spawn = spawn and m = m and r = ?r and label = ?l and wasm = wasm,
        unfolded r, OF P I _ _ _ raw fid_ok(2) hex_no_nul F(1) rd built(3,4) F(6-9) built(5) program(3) F(4)] K unfolding F(5) by blast
  moreover have "decrypt_result s ct out sk f rd pk = open_result s ct out sk ?h rd pk" if "length h = 32" "f = hex_string h" for h ct out sk rd pk
    using sdk_opens hash_fid(1) that by simp
  ultimately show ?thesis by metis
qed

lemma demo_arrives: "keys_arrive toy_mcl null_sgx (lit ''eccibe'') demo_kms_state demo_fid demo_fid worker_boot (worker_enclave demo_ready)"
  unfolding keys_arrive_def if_P [OF refl]
  by (intro exI [of _ null_point] exI [of _ null_env] exI [of _ "null_point @ zero_bytes 60"] conjI)
    (simp_all add: demo_batch_release null_laws demo_ready_def)

lemma demo_f1_arrives:
  "\<exists>w. keys_arrive toy_mcl null_sgx BFIBE_PROFILE_ID (demo_kms_for (lit ''f1'')) (lit ''f1'') demo_fid
    (snd (ecall_create_report null_sgx null_env worker_boot)) w"
proof -
  let ?w0 = "snd (ecall_create_report null_sgx null_env worker_boot)"
  have nb: "BFIBE_PROFILE_ID \<noteq> lit ''eccibe''" by (simp add: BFIBE_PROFILE_ID_def)
  obtain buf sz k' where r: "ecall_get_bfibe_key_release toy_mcl null_sgx null_env (demo_kms_for (lit ''f1'')) (Some (lit ''f1'')) (Some demo_fid)
      (Some null_point) (Some (zeros 4096)) 4096 = (Some (buf, sz), k')" using demo_f1_release by blast
  show ?thesis
    unfolding keys_arrive_def if_not_P [OF nb]
  proof (intro exI conjI)
    show "snd (ecall_load_bfibe_key_release null_sgx null_env ?w0 (Some (take (unat sz) buf)) (Some (lit ''f1''))) =
      snd (ecall_load_bfibe_key_release null_sgx null_env ?w0 (Some (take (unat sz) buf)) (Some (lit ''f1'')))" by (rule refl)
    show "g_worker_keypair_ready ?w0" by (simp add: ecall_create_report_def)
  qed (rule r | simp add: null_laws)+
qed

theorem built_call_served_witness:
  "(\<exists>out ct timing a'. adapter_run toy_mcl null_sgx demo_runtime (\<lambda>n. deployed_driver) (\<lambda>n. quiet_clock) True (\<lambda>p. NoProcess) demo_paths
      (built_request (lit ''eccibe'') 64 demo_fid demo_artifacts) (Some (serving_process demo_ready)) =
      Some (Answer out (Some ct) (Some demo_fid) timing, Some ((serving_process demo_ready)\<lparr>wp_state := Serving a' 1\<rparr>)) \<and>
    decrypt_result null_sgx ct out (sa_skU demo_artifacts) demo_fid demo_fid (sa_pkU demo_artifacts) = Some [1, 2]) \<and>
   (\<exists>x w out ct timing w'. adapter_run toy_mcl null_sgx demo_runtime (\<lambda>n. deployed_driver) (\<lambda>n. quiet_clock) True (\<lambda>p. NoProcess) demo_paths
      (built_request BFIBE_PROFILE_ID 64 (lit ''f1'') x) (Some w) = Some (Answer out (Some ct) (Some demo_fid) timing, Some w') \<and>
    open_result null_sgx ct out (sa_skU x) (fid_bytes (lit ''f1'')) demo_fid (sa_pkU x) = Some [1, 2])"
proof -
  have n: "bn_init toy_mcl = 0" "\<forall>i. same_crypto null_sgx null_ssl" using null_same_crypto by (simp_all add: toy_mcl_def)
  have c: "\<not> cc_valid (g_cached_function_code worker_boot)"
    "\<not> cc_valid (g_cached_function_code (snd (ecall_create_report null_sgx null_env worker_boot)))"
    by (simp_all add: ecall_create_report_def worker_boot_def empty_cache_def)
  note T = built_call_served [where cap = 64 and outp = "[1, 2]" and sim = True and spawn = "\<lambda>p. NoProcess" and n = 0 and ?k0.0 = "demo_kms_for _" and
      k = "demo_kms_for _" and es = "\<lambda>n. deployed_driver" and cs = "\<lambda>n. quiet_clock" and ssl = "\<lambda>i. null_ssl" and ek = "\<lambda>i. null_env",
      OF _ demo_plain toy_mcl_laws n _ demo_draws _ _ _ _ _ _ _ refl]
  have p: "ap_label (sa_plan demo_artifacts) = demo_fid" "ap_rid (sa_plan demo_artifacts) = demo_fid"
    "ap_c_func (sa_plan demo_artifacts) = zero_bytes 28 @ [1, 2, 3]" by (simp_all add: demo_artifacts_def)
  have h: "plain_word py_space demo_fid" "0 \<notin> set demo_fid" unfolding demo_fid_def by (rule hex_plain) (simp_all add: hex_no_nul zero_bytes_def)
  have w: "wp_state (serving_process demo_ready) = Serving demo_ready 0" "wp_unread (serving_process demo_ready) = []"
    "same_profile (lit ''eccibe'') (serving_process demo_ready)" by (simp_all add: serving_process_def same_profile_def)
  note A = T [OF _ demo_built _ _ _ h _ _ calls_refl c(1) w, unfolded p, OF demo_service _ _ _ _ demo_arrives]
  obtain ckf ck where b: "build_worker_smoke_artifacts toy_mcl null_sgx (\<lambda>i. null_ssl) (demo_client 3)
      (\<lambda>i. print_pubkey_cmd null_sgx null_env True (demo_kms_for (lit ''f1'')) i) (public_params_cmd toy_mcl null_sgx True (demo_kms_for (lit ''f1''))) []
      BFIBE_PROFILE_ID (lit ''f1'') [1, 2, 3] [9] = Some (demo_bf_artifacts ckf ck)" using demo_bf_built by blast
  let ?x = "demo_bf_artifacts ckf ck"
  have q: "ap_label (sa_plan ?x) = demo_fid" "ap_rid (sa_plan ?x) = demo_fid" "ap_c_func (sa_plan ?x) = zero_bytes 28 @ [1, 2, 3]"
    by (simp_all add: demo_bf_artifacts_def p)
  obtain w1 where k: "keys_arrive toy_mcl null_sgx BFIBE_PROFILE_ID (demo_kms_for (lit ''f1'')) (lit ''f1'') demo_fid
    (snd (ecall_create_report null_sgx null_env worker_boot)) w1" using demo_f1_arrives by blast
  define a where "a = loaded_process\<lparr>worker_enclave := w1\<rparr>"
  have k: "keys_arrive toy_mcl null_sgx BFIBE_PROFILE_ID (demo_kms_for (lit ''f1'')) (lit ''f1'') demo_fid
    (snd (ecall_create_report null_sgx null_env worker_boot)) (worker_enclave a)" using k by (simp add: a_def)
  let ?w = "(serving_process a)\<lparr>wp_profile := BFIBE_PROFILE_ID\<rparr>"
  have w': "wp_state ?w = Serving a 0" "wp_unread ?w = []" "same_profile BFIBE_PROFILE_ID ?w"
    by (simp_all add: serving_process_def same_profile_def BFIBE_PROFILE_ID_def)
  have f: "plain_word py_space (lit ''f1'')" "0 \<notin> set (lit ''f1'')" by (simp_all add: plain_word_def py_space_def is_space_def lit_def)
  note B = T [OF _ b _ _ _ f _ _ calls_exec(1) c(2) w', unfolded q, OF demo_service _ _ _ _ k]
  show ?thesis
  proof
    show "\<exists>out ct timing a'. adapter_run toy_mcl null_sgx demo_runtime (\<lambda>n. deployed_driver) (\<lambda>n. quiet_clock) True (\<lambda>p. NoProcess) demo_paths
        (built_request (lit ''eccibe'') 64 demo_fid demo_artifacts) (Some (serving_process demo_ready)) =
        Some (Answer out (Some ct) (Some demo_fid) timing, Some ((serving_process demo_ready)\<lparr>wp_state := Serving a' 1\<rparr>)) \<and>
      decrypt_result null_sgx ct out (sa_skU demo_artifacts) demo_fid demo_fid (sa_pkU demo_artifacts) = Some [1, 2]"
      using A demo_yields demo_fid_known(3) by simp (metis demo_fid_def length_zero_bytes)
    show "\<exists>x w out ct timing w'. adapter_run toy_mcl null_sgx demo_runtime (\<lambda>n. deployed_driver) (\<lambda>n. quiet_clock) True (\<lambda>p. NoProcess) demo_paths
        (built_request BFIBE_PROFILE_ID 64 (lit ''f1'') x) (Some w) = Some (Answer out (Some ct) (Some demo_fid) timing, Some w') \<and>
      open_result null_sgx ct out (sa_skU x) (fid_bytes (lit ''f1'')) demo_fid (sa_pkU x) = Some [1, 2]"
      using B demo_yields by simp blast
  qed
qed

end
