(* ===== verification/Spec2Isabelle.thy ===== *)
theory Spec2Isabelle
  imports KmsServer AppIbe ClientTheorems
begin

text \<open>
  AsynCS: confidential deployment and invocation of functions on Intel SGX. A key management service (KMS) releases the
  keys of a function to attested worker enclaves only; a worker enclave decrypts function and request, runs the
  function's WebAssembly code and encrypts the output to the client.

  \<^bold>\<open>The parts and how they work together.\<close> The client encrypts session keys with its key tool
  (\<open>crypto_lib/bfibe_mcl_client_tool.cpp\<close>, identity-based encryption to a function and a label) and posts the request to the
  runtime adapter (\<open>openwhisk_runtime/proxy.py\<close>), which keeps a worker process in server mode
  (\<open>sgx_worker/App/App.cpp\<close>) and exchanges one command line for one framed response. For a function whose keys are not loaded the worker process has its
  enclave (\<open>sgx_worker/Enclave/Enclave.cpp\<close>) report a fresh public key, makes a quote and asks the KMS server
  (\<open>sgx_kms/App/App.cpp\<close>); the server verifies the quote and its enclave (\<open>sgx_kms/Enclave/Enclave.cpp\<close>) derives the keys,
  encrypted to the attested key. The worker enclave imports them, opens request and function with them, runs the code and
  encapsulates the output key to the client. Both enclaves and the tool link the pairing-based scheme of \<open>trusted/bfibe_mcl.cpp\<close>.

  \<^bold>\<open>Theories and sources.\<close>
  \<^item> \<open>Prelude\<close>, \<open>Sgx\<close>, \<open>Wire\<close>, \<open>BfibeFormat\<close>, \<open>Host\<close>: bytes, C strings and runs of a step relation; the SGX SDK and the pairing library
    as records of functions with named laws; the readers and writers of length-prefixed fields as locales, and the
    formats \<open>ASBFREL1\<close>, \<open>ASBFSKS1\<close>, \<open>ASBFIBE1\<close>; sockets and the number parsing of the C library.
  \<^item> \<open>BfibeMcl\<close>: all of \<open>bfibe_mcl.cpp\<close>.
  \<^item> \<open>KmsPolicy\<close>, \<open>KmsKeys\<close>, \<open>KmsBfibe\<close>, \<open>KmsSystem\<close>: the KMS enclave. Its globals are the record \<open>kms\<close>; the policy registry and
    attestation, the master secret and the key release, the BF-IBE release, and the enclave as a step relation over its ECALLs.
  \<^item> \<open>KmsApp\<close>, \<open>KmsServer\<close>: the KMS process: request parser, \<open>handle_client\<close>, allow-list, command line; \<open>main\<close> with its accept loop.
  \<^item> \<open>Worker\<close>, \<open>WorkerBfibe\<close>, \<open>WorkerAad\<close>, \<open>WorkerRun\<close>, \<open>WorkerInvoke\<close>: the operations of the worker enclave on the record \<open>worker\<close>: key
    store and function cache, import of releases and \<open>DecKey\<close>, derived values, the runner, and the two encrypted invocations,
    whose local arrays are fields of \<open>run_state\<close> and \<open>kem_state\<close>, so that what they hold at the end can be stated.
  \<^item> \<open>WorkerKeys\<close>, \<open>WorkerOutput\<close>, \<open>WorkerPhases\<close>, \<open>WorkerResult\<close>, \<open>WorkerSystem\<close>, \<open>WorkerTheorems\<close>: what these operations do, up to
    the invariants and theorems over all sequences of ECALLs.
  \<^item> \<open>ClientTool\<close>, \<open>KeyPath\<close>: the key tool, and the key path through tool, KMS enclave and worker enclave.
  \<^item> \<open>WorkerApp\<close>, \<open>Provisioning\<close>: the worker process's exchange with the KMS server, and both ends of it over any network.
  \<^item> \<open>WorkerDriver\<close>, \<open>WorkerServer\<close>, \<open>WorkerReport\<close>: the commands of the worker process (\<open>do_invoke\<close>, \<open>do_run_wasm\<close>,
    \<open>run_server_loop\<close>, \<open>main\<close>), what they do to the enclave, and the lines they print.
  \<^item> \<open>AdapterText\<close>, \<open>Adapter\<close>, \<open>AdapterRun\<close>: the parsing of these lines in \<open>proxy.py\<close>, the worker process behind its pipes, the
    \<open>/run\<close> route, and the function call end to end.
  \<^item> \<open>ClientSdk\<close>: the client in Python: the SDK (\<open>client_sdk/sdk.py\<close>), the builder of a call's files
    (\<open>client_sdk/worker_smoke_artifacts.py\<close>) and what they use of \<open>crypto_lib\<close>.
  \<^item> \<open>WorkerServes\<close>, \<open>ClientCall\<close>, \<open>ClientSession\<close>, \<open>ColdStart\<close>, \<open>ClientDemo\<close>, \<open>ClientTheorems\<close>: the other direction of the worker's theorems:
    an invocation on the files of a client succeeds; the locale \<open>key_transport\<close>, one interface for the two kinds of session keys; calls and
    sequences of calls over it; the first call of a process without keys; and a function in service, from the deployment to the decrypted output.
  \<^item> \<open>AppIbe\<close>: the demonstration scheme of \<open>sgx_worker/App/app_ibe.cpp\<close>.

  \<^bold>\<open>What is shown.\<close> Safety of the release: in every run of the KMS enclave and of the KMS process keys leave only for an
  attested, allow-listed worker, a bound label and the attested public key; policies are written once. Functional correctness
  across programs: an envelope of the tool is opened by every worker that imported a release under the same master
  secret; a worker process that asks for keys over any network gets exactly those extracted for its function; a request of
  plain words posted to the adapter is answered with exactly what the worker enclave computed on it, and the client decrypts
  it to what the program wrote. Service: a function deployed with the SDK is served from nothing: the worker process gets its keys from the KMS server on
  the first call and answers every call of every sequence with the output of the client's own code on its input, and so is a call of the builder's files under both crypto profiles (under the identity-based one for
  short identifiers only, which the SDK does not make). Safety of the worker: what it caches is authentic, a result means authentic code on an
  authenticated input, no key survives an invocation. The reports: the cycle counts printed are those of the phases, and the adapter
  reads the numbers the worker prints. Refinement: the registry is a write-once map and a bounded set of labels, the
  captured output an append-only buffer with a bound. Codecs are inverse to each other, the decoders of worker and tool agree,
  parsers accept exactly the formats however the network cuts the stream. Progress: when the loops answer and end, and
  the inputs that stop them. Error behaviour: refused calls and what they leave, and flaws of the code, stated as theorems.

  \<^bold>\<open>Representation.\<close> A C string is the list of its bytes before the terminating zero, a pointer that the code compares with
  NULL an option; \<open>-1\<close> and \<open>goto cleanup\<close> are None or \<open>Inl\<close>; \<open>uint32_t\<close> and \<open>uint64_t\<close> are words that wrap; \<open>strncpy\<close> into a fixed array cuts. ECALLs
  and process functions are state transformers; a function of a process returns, ends the process, or never returns. A
  socket is a list of events (a chunk, an interrupt, a fault, the end), and a read with nothing left on an open
  connection blocks for ever. Loops are structural recursions, or recursions with a measure: none needs fuel. The results of external calls
  come from environment records, one entry for each call in the order of the code, so that every failure can occur.

  \<^bold>\<open>Parameters.\<close> The SGX SDK (SHA-256, AES-GCM, ECDH, sealing, reports), the pairing library, OpenSSL, the quote verification and quoting
  libraries, the WebAssembly runtime, \<open>malloc\<close>, random source, clocks, files, sockets. Named hypotheses state what is relied on
  (\<open>sha_laws\<close>: the length of a hash; \<open>gcm_laws\<close>: decryption inverts encryption; \<open>ecdh_laws\<close>; \<open>mcl_laws\<close>: bilinearity and
  the lengths of encodings; \<open>programs_fit\<close>: a program passes lengths of 32 bits; \<open>logs_apart\<close>: nothing else on the worker's two output streams
  looks like a line of a response). What serves a call also relies on calls of the platform that succeed (\<open>sdk_works\<close>, \<open>env_works\<close>,
  \<open>program_yields\<close>: the program runs and reports its time, \<open>curve_laws\<close>: a public key is a point; all gathered in \<open>service\<close>; \<open>kms_exchange\<close>: the server is reached and does not refuse). The witnesses instantiate them with concrete functions.

  \<^bold>\<open>Not modelled.\<close> Texts of diagnostics; the calls that set a listening socket up, beyond their one answer; the SGX enclave
  creation and token files; side channels and concurrency (server, worker and adapter each handle one request at a time);
  in the adapter HTTP, JSON, Base64, \<open>/init\<close>, \<open>/reset\<close>, the prestart and the other parts of the trace; of the Python client HTTP, the look-up
  of profiles, the writing of the metadata, the deprecated decryption and the Python version of the pairing scheme; the vendored headers under \<open>sgx_worker/lib/mcl\<close>, the platform patches and extensions, test programs and workloads.
\<close>

end
